(* ===== verification/Prelude.thy ===== *)
theory Prelude
  imports
    Main
    "HOL-Library.State_Monad"
    "HOL-Library.Monad_Syntax"
    "HOL-Library.Sublist"
    "HOL-Library.AList"
    "HOL-Library.List_Lexorder"
    "HOL-Library.Char_ord"
begin

text \<open>
  Shared vocabulary of the development: Go's \<open>error\<close> values, the state monad in which the
  effectful functions of the agent are written, the proof collections, and the generic lemmas on
  lists and runs that several components use.
\<close>

section \<open>Collections\<close>

named_theorems quiet_rules \<open>programs that print no result event and do not turn the clock back\<close>
named_theorems publish_rules \<open>programs that print one result event exactly when they succeed\<close>
named_theorems spec_rules \<open>what the error and the value of a program satisfy\<close>

section \<open>Decimal numerals: strconv.Itoa and strconv.Atoi\<close>

definition digit_char :: "nat \<Rightarrow> char" where
  "digit_char d = char_of (48 + d)"

definition is_digit :: "char \<Rightarrow> bool" where
  "is_digit c \<longleftrightarrow> 48 \<le> (of_char c :: nat) \<and> (of_char c :: nat) \<le> 57"

definition digit_val :: "char \<Rightarrow> nat" where
  "digit_val c = of_char c - 48"

fun show_nat :: "nat \<Rightarrow> string" where
  "show_nat n = (if n < 10 then [digit_char n] else show_nat (n div 10) @ [digit_char (n mod 10)])"

declare show_nat.simps [simp del]

definition itoa :: "int \<Rightarrow> string" where
  "itoa i = (if i < 0 then CHR ''-'' # show_nat (nat (- i)) else show_nat (nat i))"

definition digits_val :: "string \<Rightarrow> nat" where
  "digits_val s = foldl (\<lambda>n c. 10 * n + digit_val c) 0 s"

text \<open>
  \<open>strconv.Atoi\<close>: an optional sign, at least one digit, nothing else, and a value that fits a
  64-bit \<open>int\<close>; \<open>None\<close> is the error.
\<close>

definition atoi :: "string \<Rightarrow> int option" where
  "atoi s =
     (let neg = (s \<noteq> [] \<and> hd s = CHR ''-'');
          ds = (if s \<noteq> [] \<and> (hd s = CHR ''-'' \<or> hd s = CHR ''+'') then tl s else s);
          v = int (digits_val ds);
          i = (if neg then - v else v)
      in if ds = [] \<or> \<not> list_all is_digit ds then None
         else if i < - (2 ^ 63) \<or> 2 ^ 63 \<le> i then None
         else Some i)"

lemma of_char_digit_char [simp]: "d < 10 \<Longrightarrow> of_char (digit_char d) = (48 + d :: nat)"
  by (simp add: digit_char_def)

lemma is_digit_digit_char [simp]: "d < 10 \<Longrightarrow> is_digit (digit_char d)"
  by (simp add: is_digit_def)

lemma digit_val_digit_char [simp]: "d < 10 \<Longrightarrow> digit_val (digit_char d) = d"
  by (simp add: digit_val_def)

lemma show_nat_not_Nil [simp]: "show_nat n \<noteq> []"
  by (subst show_nat.simps) simp

lemma show_nat_digits: "list_all is_digit (show_nat n)"
proof (induction n rule: show_nat.induct)
  case (1 n)
  then show ?case by (subst show_nat.simps) auto
qed

lemma show_nat_all_digits: "c \<in> set (show_nat n) \<Longrightarrow> is_digit c"
  using show_nat_digits by (simp add: list_all_iff)

lemma digits_val_snoc: "digits_val (s @ [c]) = 10 * digits_val s + digit_val c"
  by (simp add: digits_val_def)

lemma digits_val_show_nat [simp]: "digits_val (show_nat n) = n"
proof (induction n rule: show_nat.induct)
  case (1 n)
  show ?case
  proof (cases "n < 10")
    case True
    then show ?thesis by (subst show_nat.simps) (simp add: digits_val_def)
  next
    case False
    with 1 show ?thesis by (subst show_nat.simps) (simp add: digits_val_snoc)
  qed
qed

lemma show_nat_inject [simp]: "show_nat m = show_nat n \<longleftrightarrow> m = n"
  by (metis digits_val_show_nat)

lemma is_digit_not_sign: "is_digit c \<Longrightarrow> c \<noteq> CHR ''-'' \<and> c \<noteq> CHR ''+''"
  by (auto simp: is_digit_def)

lemma hd_show_nat_digit: "is_digit (hd (show_nat n))"
  by (rule show_nat_all_digits [where n = n]) (simp add: list.set_sel)

lemma itoa_nonneg: "0 \<le> i \<Longrightarrow> itoa i = show_nat (nat i)"
  by (simp add: itoa_def)

lemma itoa_not_Nil [simp]: "itoa i \<noteq> []"
  by (simp add: itoa_def)

lemma atoi_itoa: "- (2 ^ 63) \<le> i \<Longrightarrow> i < 2 ^ 63 \<Longrightarrow> atoi (itoa i) = Some i"
  using show_nat_digits [of "nat i"] show_nat_digits [of "nat (- i)"] hd_show_nat_digit [of "nat i"]
  by (auto simp: atoi_def itoa_def Let_def dest: is_digit_not_sign)

lemma itoa_inject [simp]: "itoa i = itoa j \<longleftrightarrow> i = j"
proof
  have sgn: "hd (show_nat n) \<noteq> CHR ''-''" for n
    using hd_show_nat_digit is_digit_not_sign by blast
  assume eq: "itoa i = itoa j"
  then have "(i < 0) = (j < 0)"
    using sgn [of "nat i"] sgn [of "nat j"]
    by (auto simp: itoa_def split: if_splits dest!: arg_cong [where f = hd])
  with eq show "i = j" by (auto simp: itoa_def split: if_splits)
qed simp

section \<open>Go error values\<close>

text \<open>
  \<open>Errorf\<close> is an error made of a text (\<open>errors.New\<close>, \<open>errors.Errorf\<close>, \<open>fmt.Errorf\<close>);
  \<open>PathError\<close> what a system call on a path returns; \<open>ExitError\<close> and \<open>Signaled\<close> what
  \<open>cmd.Run\<close> returns when the process exits with a non-zero status or on a signal, \<open>StartError\<close>
  when it could not be started; \<open>Wrap\<close> is \<open>errors.Wrap\<close>; \<open>PidErrors\<close> is the list type of
  internal/agent/profiler/common/pids.go. \<open>Panic\<close> is not an error value of Go: it is a run-time
  panic, which no code of the agent recovers from, and every function passes it on unchanged.
  Neither is \<open>Blocked\<close>: it stands for a call that never returns.
\<close>

datatype error =
    Errorf string
  | PathError string string string
  | ExitError int
  | Signaled string
  | StartError string
  | Wrap string error
  | PidErrors "(string \<times> error) list"
  | Panic string
  | Blocked

definition nil_dereference :: error where
  "nil_dereference = Panic ''runtime error: invalid memory address or nil pointer dereference''"

fun join_with :: "string \<Rightarrow> string list \<Rightarrow> string" where
  "join_with sep [] = []"
| "join_with sep [s] = s"
| "join_with sep (s # t # ss) = s @ sep @ join_with sep (t # ss)"

text \<open>The text \<open>err.Error()\<close> returns.\<close>

fun error_text :: "error \<Rightarrow> string" where
  "error_text (Errorf s) = s"
| "error_text (PathError op p s) = op @ '' '' @ p @ '': '' @ s"
| "error_text (ExitError n) = ''exit status '' @ itoa n"
| "error_text (Signaled s) = ''signal: '' @ s"
| "error_text (StartError s) = s"
| "error_text (Wrap s e) = s @ '': '' @ error_text e"
| "error_text (PidErrors es) =
     join_with ''; '' (map (\<lambda>(p, e). ''PID '' @ p @ '': '' @ error_text e) es)"
| "error_text (Panic s) = ''panic: '' @ s"
| "error_text Blocked = ''blocked''"

section \<open>Programs over a state\<close>

text \<open>
  An effectful function is a term of the state monad. Go's pattern
  \<open>x, err := f(); if err != nil { return err }\<close> is \<open>attempt\<close>, and \<open>if err != nil { return Wrap }\<close>
  after a call that returns only an error is \<open>guarded\<close>.
\<close>

definition attempt ::
  "('w, error + 'a) state \<Rightarrow> ('a \<Rightarrow> ('w, error + 'b) state) \<Rightarrow> ('w, error + 'b) state" where
  "attempt m f = State_Monad.bind m (\<lambda>r. case r of Inl e \<Rightarrow> State_Monad.return (Inl e) | Inr x \<Rightarrow> f x)"

definition guarded ::
  "('w, error option) state \<Rightarrow> (error \<Rightarrow> error) \<Rightarrow> ('w, error option) state \<Rightarrow> ('w, error option) state" where
  "guarded m wrap k =
     State_Monad.bind m (\<lambda>r. case r of Some e \<Rightarrow> State_Monad.return (Some (wrap e)) | None \<Rightarrow> k)"

lemma run_attempt [simp]:
  "run_state (attempt m f) w =
     (case run_state m w of (Inl e, w') \<Rightarrow> (Inl e, w') | (Inr x, w') \<Rightarrow> run_state (f x) w')"
  by (simp add: attempt_def split: prod.splits sum.splits)

lemma run_guarded [simp]:
  "run_state (guarded m wrap k) w =
     (case run_state m w of (Some e, w') \<Rightarrow> (Some (wrap e), w') | (None, w') \<Rightarrow> run_state k w')"
  by (simp add: guarded_def split: prod.splits option.splits)

definition value_of :: "('w, 'a) state \<Rightarrow> 'w \<Rightarrow> 'a" where
  "value_of m w = fst (run_state m w)"

definition after :: "('w, 'a) state \<Rightarrow> 'w \<Rightarrow> 'w" where
  "after m w = snd (run_state m w)"

lemma run_state_value_after: "run_state m w = (value_of m w, after m w)"
  by (simp add: value_of_def after_def)

text \<open>
  \<open>spec m R Q\<close>: wherever \<open>m\<close> is run, its error satisfies \<open>R\<close> and its value satisfies \<open>Q\<close>.
\<close>

definition spec :: "('w, error + 'a) state \<Rightarrow> (error \<Rightarrow> bool) \<Rightarrow> ('a \<Rightarrow> bool) \<Rightarrow> bool" where
  "spec m R Q \<longleftrightarrow> (\<forall>w. case value_of m w of Inl e \<Rightarrow> R e | Inr x \<Rightarrow> Q x)"

lemma spec_attempt:
  assumes "spec m R P" "\<And>x. P x \<Longrightarrow> spec (f x) R Q"
  shows "spec (attempt m f) R Q"
  unfolding spec_def
proof
  fix w
  have m: "case value_of m w of Inl e \<Rightarrow> R e | Inr x \<Rightarrow> P x" using assms(1) by (simp add: spec_def)
  show "case value_of (attempt m f) w of Inl e \<Rightarrow> R e | Inr x \<Rightarrow> Q x"
  proof (cases "run_state m w")
    case (Pair r w')
    then show ?thesis
      using m assms(2) by (cases r) (auto simp: value_of_def spec_def)
  qed
qed

lemma spec_return: "(case r of Inl e \<Rightarrow> R e | Inr x \<Rightarrow> Q x) \<Longrightarrow> spec (State_Monad.return r) R Q"
  by (simp add: spec_def value_of_def)

lemma spec_bind: "(\<And>x. spec (f x) R Q) \<Longrightarrow> spec (State_Monad.bind m f) R Q"
  by (simp add: spec_def value_of_def split: prod.split)

lemma spec_if: "(c \<Longrightarrow> spec a R Q) \<Longrightarrow> (\<not> c \<Longrightarrow> spec b R Q) \<Longrightarrow> spec (if c then a else b) R Q"
  by simp

section \<open>Lists\<close>

lemma length_filter_update:
  "i < length xs \<Longrightarrow> \<not> P (xs ! i) \<Longrightarrow>
     length (filter P (xs[i := y])) = length (filter P xs) + (if P y then 1 else 0)"
proof (induction xs arbitrary: i)
  case (Cons x xs)
  then show ?case by (cases i) auto
qed simp

lemma butlast_takeWhile_split:
  "c \<notin> set xs \<Longrightarrow> c \<notin> set ys \<Longrightarrow> xs @ c # us = ys @ c # vs \<Longrightarrow> xs = ys \<and> us = vs"
  by (induction xs arbitrary: ys) (case_tac ys; auto)+

end
