(* ===== verification/GoStrings.thy ===== *)
theory GoStrings
  imports Prelude
begin

text \<open>
  The part of Go's standard library that works on text and that the agent calls: the UTF-8 decoding
  behind \<open>range\<close> over a string, \<open>strings.TrimSpace\<close>, \<open>strings.Fields\<close>, \<open>strings.Split\<close> and
  \<open>strings.Index\<close>, the line scanner of \<open>bufio\<close>, the path functions of \<open>path/filepath\<close> and its
  glob matching. A string is its list of bytes, as in Go.
\<close>

section \<open>Runes\<close>

abbreviation byte :: "char \<Rightarrow> nat" where
  "byte c \<equiv> of_char c"

definition is_cont :: "char \<Rightarrow> bool" where
  "is_cont c \<longleftrightarrow> 128 \<le> byte c \<and> byte c \<le> 191"

text \<open>The length in bytes of the rune a string starts with; 1 for an invalid encoding.\<close>

definition rune_len :: "char \<Rightarrow> string \<Rightarrow> nat" where
  "rune_len a s =
     (let x = byte a in
      if x < 194 then 1
      else if x \<le> 223 then (case s of b # _ \<Rightarrow> if is_cont b then 2 else 1 | _ \<Rightarrow> 1)
      else if x \<le> 239 then
        (case s of b # c # _ \<Rightarrow>
           if (if x = 224 then 160 else 128) \<le> byte b \<and> byte b \<le> (if x = 237 then 159 else 191)
              \<and> is_cont c then 3 else 1
         | _ \<Rightarrow> 1)
      else if x \<le> 244 then
        (case s of b # c # d # _ \<Rightarrow>
           if (if x = 240 then 144 else 128) \<le> byte b \<and> byte b \<le> (if x = 244 then 143 else 191)
              \<and> is_cont c \<and> is_cont d then 4 else 1
         | _ \<Rightarrow> 1)
      else 1)"

fun rune_code :: "string \<Rightarrow> nat" where
  "rune_code [a] = (if byte a < 128 then byte a else 65533)"
| "rune_code [a, b] = (byte a mod 32) * 64 + byte b mod 64"
| "rune_code [a, b, c] = (byte a mod 16) * 4096 + (byte b mod 64) * 64 + byte c mod 64"
| "rune_code [a, b, c, d] =
     (byte a mod 8) * 262144 + (byte b mod 64) * 4096 + (byte c mod 64) * 64 + byte d mod 64"
| "rune_code _ = 65533"

function runes :: "string \<Rightarrow> (nat \<times> string) list" where
  "runes [] = []"
| "runes (a # s) =
     (let n = rune_len a s - 1; bs = a # take n s in (rune_code bs, bs) # runes (drop n s))"
  by pat_completeness auto
termination
  by (relation "measure length") auto

lemma runes_bytes: "concat (map snd (runes s)) = s"
  by (induction s rule: runes.induct) (auto simp: Let_def)

lemma runes_ascii: "byte a < 128 \<Longrightarrow> runes (a # s) = (byte a, [a]) # runes s"
  by (simp add: rune_len_def)

definition is_space_rune :: "nat \<Rightarrow> bool" where
  "is_space_rune n \<longleftrightarrow>
     n \<in> {9, 10, 11, 12, 13, 32, 133, 160, 5760, 8232, 8233, 8239, 8287, 12288}
     \<or> (8192 \<le> n \<and> n \<le> 8202)"

definition unrunes :: "(nat \<times> string) list \<Rightarrow> string" where
  "unrunes rs = concat (map snd rs)"

lemma unrunes_runes [simp]: "unrunes (runes s) = s"
  by (simp add: unrunes_def runes_bytes)

text \<open>\<open>strings.TrimSpace\<close>\<close>

definition trim_space :: "string \<Rightarrow> string" where
  "trim_space s =
     unrunes (rev (dropWhile (is_space_rune \<circ> fst)
       (rev (dropWhile (is_space_rune \<circ> fst) (runes s)))))"

text \<open>\<open>strings.Fields\<close>\<close>

fun fields_from :: "(nat \<times> string) list \<Rightarrow> string \<Rightarrow> string list" where
  "fields_from [] cur = (if cur = [] then [] else [cur])"
| "fields_from ((n, bs) # rs) cur =
     (if is_space_rune n then (if cur = [] then [] else [cur]) @ fields_from rs []
      else fields_from rs (cur @ bs))"

definition fields :: "string \<Rightarrow> string list" where
  "fields s = fields_from (runes s) []"

lemma fields_from_nonempty: "f \<in> set (fields_from rs cur) \<Longrightarrow> f \<noteq> []"
  by (induction rs cur rule: fields_from.induct) (auto split: if_splits)

lemma fields_nonempty: "f \<in> set (fields s) \<Longrightarrow> f \<noteq> []"
  by (auto simp: fields_def dest: fields_from_nonempty)

lemma fields_Nil [simp]: "fields [] = []"
  by (simp add: fields_def)

lemma trim_space_Nil [simp]: "trim_space [] = []"
  by (simp add: trim_space_def unrunes_def)

lemma dropWhile_rev_id: "xs = [] \<or> \<not> P (last xs) \<Longrightarrow> dropWhile P (rev xs) = rev xs"
  by (cases xs rule: rev_cases) auto

lemma trim_space_id:
  assumes "runes s = [] \<or> (\<not> is_space_rune (fst (hd (runes s))) \<and> \<not> is_space_rune (fst (last (runes s))))"
  shows "trim_space s = s"
proof -
  have "dropWhile (is_space_rune \<circ> fst) (runes s) = runes s"
    using assms by (cases "runes s") auto
  moreover have "dropWhile (is_space_rune \<circ> fst) (rev (runes s)) = rev (runes s)"
    using assms by (intro dropWhile_rev_id) auto
  ultimately show ?thesis by (simp add: trim_space_def)
qed

text \<open>On ASCII text.\<close>

lemma runes_ascii_all:
  "list_all (\<lambda>c. byte c < 128) s \<Longrightarrow> runes s = map (\<lambda>c. (byte c, [c])) s"
  by (induction s) (simp_all add: runes_ascii del: runes.simps(2))

abbreviation space_char :: "char \<Rightarrow> bool" where
  "space_char c \<equiv> is_space_rune (byte c)"

lemma dropWhile_map_comp: "dropWhile P (map f xs) = map f (dropWhile (P \<circ> f) xs)"
  by (induction xs) auto

lemma unrunes_map: "unrunes (map (\<lambda>c. (byte c, [c])) s) = s"
  by (induction s) (auto simp: unrunes_def)

lemma trim_space_ascii:
  assumes "list_all (\<lambda>c. byte c < 128) s"
  shows "trim_space s = rev (dropWhile space_char (rev (dropWhile space_char s)))"
  by (simp add: trim_space_def runes_ascii_all [OF assms] dropWhile_map_comp [where f = "\<lambda>c. (byte c, [c])"]
      rev_map unrunes_map comp_def)

lemma trim_space_clean:
  assumes "list_all (\<lambda>c. byte c < 128) s" "s \<noteq> []" "\<not> space_char (hd s)" "\<not> space_char (last s)"
  shows "trim_space s = s"
proof -
  have "dropWhile space_char s = s"
    using assms by (cases s) auto
  moreover have "dropWhile space_char (rev s) = rev s"
    using assms by (intro dropWhile_rev_id) auto
  ultimately show ?thesis
    using assms by (simp add: trim_space_ascii)
qed

text \<open>\<open>strings.ToTitle\<close>, on ASCII text.\<close>

definition title_char :: "char \<Rightarrow> char" where
  "title_char c = (if 97 \<le> byte c \<and> byte c \<le> 122 then char_of (byte c - 32) else c)"

definition to_title :: "string \<Rightarrow> string" where
  "to_title s = map title_char s"

section \<open>Splitting and searching\<close>

text \<open>\<open>strings.Split\<close> with a separator of one byte\<close>

fun split_on :: "char \<Rightarrow> string \<Rightarrow> string list" where
  "split_on c [] = [[]]"
| "split_on c (x # xs) =
     (if x = c then [] # split_on c xs
      else (case split_on c xs of [] \<Rightarrow> [[x]] | y # ys \<Rightarrow> (x # y) # ys))"

lemma split_on_not_Nil [simp]: "split_on c s \<noteq> []"
  by (induction s) (auto split: list.split)

lemma join_with_Cons: "ys \<noteq> [] \<Longrightarrow> join_with sep (x # ys) = x @ sep @ join_with sep ys"
  by (cases ys) auto

lemma join_split_on: "join_with [c] (split_on c s) = s"
proof (induction s)
  case (Cons x xs)
  show ?case
  proof (cases "split_on c xs")
    case (Cons y ys)
    with Cons.IH show ?thesis by (cases ys) (auto simp: join_with_Cons)
  qed simp
qed simp

lemma split_on_no_sep: "l \<in> set (split_on c s) \<Longrightarrow> c \<notin> set l"
proof (induction s arbitrary: l)
  case (Cons x xs)
  then show ?case by (cases "split_on c xs") (auto split: if_splits)
qed auto

lemma split_on_absent: "c \<notin> set s \<Longrightarrow> split_on c s = [s]"
  by (induction s) auto

lemma split_on_append: "c \<notin> set s \<Longrightarrow> split_on c (s @ c # t) = s # split_on c t"
  by (induction s) auto

lemma split_on_join:
  "ls \<noteq> [] \<Longrightarrow> \<forall>l \<in> set ls. c \<notin> set l \<Longrightarrow> split_on c (join_with [c] ls) = ls"
proof (induction ls rule: induct_list012)
  case (2 x)
  then show ?case by (simp add: split_on_absent)
next
  case (3 x y zs)
  then show ?case by (simp add: split_on_append)
qed simp

text \<open>\<open>strings.Index\<close> and \<open>strings.Contains\<close>; the argument order is Go's.\<close>

fun index_of :: "string \<Rightarrow> string \<Rightarrow> nat option" where
  "index_of [] t = (if t = [] then Some 0 else None)"
| "index_of (x # xs) t =
     (if prefix t (x # xs) then Some 0 else map_option Suc (index_of xs t))"

definition contains :: "string \<Rightarrow> string \<Rightarrow> bool" where
  "contains s t \<longleftrightarrow> index_of s t \<noteq> None"

lemma contains_sublist: "contains s t \<longleftrightarrow> sublist t s"
  by (induction s) (auto simp: contains_def sublist_Cons_right)

lemma index_of_Some: "index_of s t = Some i \<Longrightarrow> prefix t (drop i s) \<and> i \<le> length s"
  by (induction s arbitrary: i) (auto split: if_splits)

text \<open>\<open>strings.LastIndex\<close> of one byte\<close>

fun last_index :: "string \<Rightarrow> char \<Rightarrow> nat option" where
  "last_index [] c = None"
| "last_index (x # xs) c =
     (case last_index xs c of Some i \<Rightarrow> Some (Suc i) | None \<Rightarrow> if x = c then Some 0 else None)"

lemma last_index_Some:
  "last_index s c = Some i \<Longrightarrow> i < length s \<and> s ! i = c \<and> c \<notin> set (drop (Suc i) s)"
proof (induction s arbitrary: i)
  case (Cons x xs)
  have none: "last_index ys c = None \<Longrightarrow> c \<notin> set ys" for ys
    by (induction ys) (auto split: option.splits if_splits)
  with Cons show ?case by (auto split: option.splits if_splits)
qed simp

definition trim_suffix :: "string \<Rightarrow> string \<Rightarrow> string" where
  "trim_suffix s t = (if suffix t s then take (length s - length t) s else s)"

section \<open>bufio.Scanner on lines\<close>

text \<open>
  \<open>ScanLines\<close> cuts at line feeds, drops one carriage return at the end of a line, and yields no
  token for an empty rest at the end of the input. A line of \<open>limit\<close> bytes or more does not fit the
  scanner's buffer: scanning stops there with \<open>ErrTooLong\<close>, which is the second component.
\<close>

definition raw_lines :: "string \<Rightarrow> string list" where
  "raw_lines s =
     (let ls = split_on (CHR 10) s in if last ls = [] then butlast ls else ls)"

definition drop_cr :: "string \<Rightarrow> string" where
  "drop_cr l = (if l \<noteq> [] \<and> last l = CHR 13 then butlast l else l)"

definition scan_lines :: "nat \<Rightarrow> string \<Rightarrow> string list \<times> bool" where
  "scan_lines limit s =
     (map drop_cr (takeWhile (\<lambda>l. length l < limit) (raw_lines s)),
      \<not> list_all (\<lambda>l. length l < limit) (raw_lines s))"

definition max_scan_token_size :: nat where
  "max_scan_token_size = 65536"

lemma scan_lines_ok:
  "\<not> snd (scan_lines limit s) \<Longrightarrow> fst (scan_lines limit s) = map drop_cr (raw_lines s)"
  by (auto simp: scan_lines_def list_all_iff intro!: arg_cong [where f = "map drop_cr"] takeWhile_eq_all_conv [THEN iffD2])

lemma raw_lines_Nil [simp]: "raw_lines [] = []"
  by (simp add: raw_lines_def)

lemma raw_lines_no_lf: "l \<in> set (raw_lines s) \<Longrightarrow> CHR 10 \<notin> set l"
  by (auto simp: raw_lines_def Let_def split: if_splits dest: in_set_butlastD split_on_no_sep)

lemma raw_lines_terminated:
  "\<forall>l \<in> set ls. CHR 10 \<notin> set l \<Longrightarrow> raw_lines (concat (map (\<lambda>l. l @ [CHR 10]) ls)) = ls"
proof -
  assume nolf: "\<forall>l \<in> set ls. CHR 10 \<notin> set l"
  have "split_on (CHR 10) (concat (map (\<lambda>l. l @ [CHR 10]) ls)) = ls @ [[]]"
    using nolf by (induction ls) (auto simp: split_on_append)
  then show ?thesis by (simp add: raw_lines_def)
qed

section \<open>path/filepath\<close>

definition clean_step :: "bool \<Rightarrow> string list \<Rightarrow> string \<Rightarrow> string list" where
  "clean_step rooted st c =
     (if c = [] \<or> c = ''.'' then st
      else if c = ''..'' then
        (case st of
           [] \<Rightarrow> if rooted then [] else [''..'']
         | t # rest \<Rightarrow> if t = ''..'' then ''..'' # st else rest)
      else c # st)"

definition path_clean :: "string \<Rightarrow> string" where
  "path_clean p =
     (let rooted = (p \<noteq> [] \<and> hd p = CHR ''/'');
          st = foldl (clean_step rooted) [] (split_on (CHR ''/'') p);
          body = join_with ''/'' (rev st)
      in if rooted then CHR ''/'' # body else if body = [] then ''.'' else body)"

definition path_join :: "string list \<Rightarrow> string" where
  "path_join es =
     (let ne = dropWhile (\<lambda>e. e = []) es
      in if ne = [] then [] else path_clean (join_with ''/'' ne))"

definition is_abs :: "string \<Rightarrow> bool" where
  "is_abs p \<longleftrightarrow> p \<noteq> [] \<and> hd p = CHR ''/''"

text \<open>\<open>filepath.Split\<close> and \<open>filepath.Base\<close>\<close>

definition path_split :: "string \<Rightarrow> string \<times> string" where
  "path_split p = (case last_index p (CHR ''/'') of None \<Rightarrow> ([], p) | Some i \<Rightarrow> (take (Suc i) p, drop (Suc i) p))"

definition path_base :: "string \<Rightarrow> string" where
  "path_base p =
     (if p = [] then ''.''
      else (let q = rev (dropWhile (\<lambda>c. c = CHR ''/'') (rev p))
            in if q = [] then ''/'' else snd (path_split q)))"

definition clean_glob_path :: "string \<Rightarrow> string" where
  "clean_glob_path d = (if d = [] then ''.'' else if d = ''/'' then d else butlast d)"

text \<open>
  \<open>filepath.Match\<close> for the wildcards \<open>*\<close> and \<open>?\<close>. The patterns of the agent are built from its own
  literals with \<open>*\<close>, from directories and from file names; bracket classes and escapes are not
  interpreted.
\<close>

fun glob_match :: "string \<Rightarrow> string \<Rightarrow> bool" where
  "glob_match [] s = (s = [])"
| "glob_match (p # ps) [] = (p = CHR ''*'' \<and> glob_match ps [])"
| "glob_match (p # ps) (x # xs) =
     (if p = CHR ''*'' then glob_match ps (x # xs) \<or> (x \<noteq> CHR ''/'' \<and> glob_match (p # ps) xs)
      else if p = CHR ''?'' then x \<noteq> CHR ''/'' \<and> glob_match ps xs
      else p = x \<and> glob_match ps xs)"

lemma glob_match_star_append:
  "CHR ''/'' \<notin> set u \<Longrightarrow> glob_match ps s \<Longrightarrow> glob_match (CHR ''*'' # ps) (u @ s)"
proof (induction u)
  case Nil
  then show ?case by (cases s) auto
qed auto

lemma glob_match_literal:
  "CHR ''*'' \<notin> set p \<Longrightarrow> CHR ''?'' \<notin> set p \<Longrightarrow> glob_match ps s \<Longrightarrow> glob_match (p @ ps) (p @ s)"
  by (induction p) auto

text \<open>A name that contains a literal is matched by the literal between two stars.\<close>

lemma glob_match_infix:
  assumes "CHR ''*'' \<notin> set p" "CHR ''?'' \<notin> set p" "CHR ''/'' \<notin> set u" "CHR ''/'' \<notin> set v"
  shows "glob_match (''*'' @ p @ ''*'') (u @ p @ v)"
proof -
  have "glob_match (CHR ''*'' # []) (v @ [])"
    using assms(4) by (rule glob_match_star_append) simp
  then have "glob_match (p @ ''*'') (p @ v)"
    using assms(1,2) by (intro glob_match_literal) simp_all
  then show ?thesis
    using assms(3) by (simp add: glob_match_star_append)
qed

section \<open>No line feed inside a field\<close>

lemma rune_len_tail1: "rune_len a (b # s) = 1 \<or> 128 \<le> byte b"
proof (rule disjCI)
  assume "\<not> 128 \<le> byte b"
  then have "\<not> is_cont b" "\<not> (if P then k else 128) \<le> byte b" if "128 \<le> k" for P and k :: nat
    using that by (auto simp: is_cont_def)
  from this(1) [of 128] this(2) [of 160] this(2) [of 144] show "rune_len a (b # s) = 1"
    by (simp add: rune_len_def Let_def split: list.split)
qed

lemma rune_len_tail2: "rune_len a (b # c # s) \<le> 2 \<or> is_cont c"
  by (cases s) (simp_all add: rune_len_def Let_def)

lemma rune_len_tail3: "rune_len a (b # c # d # s) \<le> 3 \<or> is_cont d"
  by (simp add: rune_len_def Let_def)

lemma rune_len_bounds: "1 \<le> rune_len a s" "rune_len a s \<le> 4" "rune_len a [] = 1"
  "rune_len a [b] \<le> 2" "rune_len a [b, c] \<le> 3"
  by (simp_all add: rune_len_def Let_def split: list.split)

lemma rune_len_tail: "x \<in> set (take (rune_len a s - 1) s) \<Longrightarrow> 128 \<le> byte x"
proof -
  assume x: "x \<in> set (take (rune_len a s - 1) s)"
  then obtain i where i: "i < rune_len a s - 1" "i < length s" "x = s ! i"
    by (auto simp: in_set_conv_nth)
  with rune_len_bounds(2) [of a s] consider "i = 0" | "i = 1" | "i = 2" by linarith
  then show "128 \<le> byte x"
  proof cases
    case 1
    then obtain t where "s = x # t" using i by (cases s) auto
    then show ?thesis using rune_len_tail1 [of a x t] i 1 by auto
  next
    case 2
    then obtain b t where "s = b # x # t" using i by (cases s; cases "tl s") auto
    then have "is_cont x" using rune_len_tail2 [of a b x t] i 2 by auto
    then show ?thesis by (simp add: is_cont_def)
  next
    case 3
    then obtain b c t where "s = b # c # x # t" using i by (cases s; cases "tl s"; cases "tl (tl s)") auto
    then have "is_cont x" using rune_len_tail3 [of a b c x t] i 3 by auto
    then show ?thesis by (simp add: is_cont_def)
  qed
qed

lemma runes_line_feed: "(n, bs) \<in> set (runes s) \<Longrightarrow> CHR 10 \<in> set bs \<Longrightarrow> n = 10"
proof (induction s rule: runes.induct)
  case (2 a s)
  have "byte (CHR 10) = 10" by simp
  then have no: "CHR 10 \<notin> set (take (rune_len a s - 1) s)"
    using rune_len_tail by fastforce
  show ?case
  proof (cases "(n, bs) \<in> set (runes (drop (rune_len a s - 1) s))")
    case True
    then show ?thesis using "2.IH" "2.prems"(2) by simp
  next
    case False
    then have bs: "bs = a # take (rune_len a s - 1) s" "n = rune_code bs"
      using "2.prems"(1) by (auto simp: Let_def)
    then have "a = CHR 10" using no "2.prems"(2) by auto
    then have "rune_len a s = 1" by (simp add: rune_len_def)
    then show ?thesis using bs \<open>a = CHR 10\<close> by simp
  qed
qed simp

lemma fields_from_line_feed:
  "(\<And>n bs. (n, bs) \<in> set rs \<Longrightarrow> CHR 10 \<in> set bs \<Longrightarrow> n = 10) \<Longrightarrow> CHR 10 \<notin> set cur \<Longrightarrow>
     f \<in> set (fields_from rs cur) \<Longrightarrow> CHR 10 \<notin> set f"
proof (induction rs cur rule: fields_from.induct)
  case (2 n bs rs cur)
  have rs: "(m, cs) \<in> set rs \<Longrightarrow> CHR 10 \<in> set cs \<Longrightarrow> m = 10" for m cs
    by (rule "2.prems"(1)) simp_all
  show ?case
  proof (cases "is_space_rune n")
    case True
    then consider "f = cur" | "f \<in> set (fields_from rs [])"
      using "2.prems"(3) by (auto split: if_splits)
    then show ?thesis using "2.IH"(1) [OF True rs] "2.prems"(2) by cases simp_all
  next
    case False
    then have "CHR 10 \<notin> set bs" using "2.prems"(1) [of n bs] by (auto simp: is_space_rune_def)
    then show ?thesis using "2.IH"(2) [OF False rs] "2.prems"(2,3) False by simp
  qed
qed (auto split: if_splits)

lemma fields_line_feed: "f \<in> set (fields s) \<Longrightarrow> CHR 10 \<notin> set f"
  unfolding fields_def by (rule fields_from_line_feed [of "runes s" "[]"]) (simp_all add: runes_line_feed)

lemma join_with_set: "set (join_with sep ls) \<subseteq> set sep \<union> (\<Union>l \<in> set ls. set l)"
  by (induction ls rule: induct_list012) auto

lemma unrunes_dropWhile: "set (unrunes (dropWhile P (runes s))) \<subseteq> set s"
proof -
  have "set (unrunes (dropWhile P rs)) \<subseteq> set (unrunes rs)" for rs
    by (induction rs) (auto simp: unrunes_def)
  then show ?thesis by (metis unrunes_runes)
qed

end
