(* ===== verification/Libs.thy ===== *)
theory Libs
  imports GoStrings
begin

text \<open>
  The third-party packages the agent calls for small predicates are parameters of the model:
  \<open>lo.Contains\<close> of samber/lo and the \<open>stringUtils\<close> of agrison/go-commons-lang. Every definition that
  calls one takes the record \<open>lib\<close>; what the code relies on is stated as the named hypotheses below,
  each the documented behaviour of the function. \<open>sample_lib\<close> is a concrete instance for which they
  all hold.
\<close>

record lib =
  lo_contains :: "string list \<Rightarrow> string \<Rightarrow> bool"
  is_blank :: "string \<Rightarrow> bool"
  is_numeric :: "string \<Rightarrow> bool"
  str_contains :: "string \<Rightarrow> string \<Rightarrow> bool"
  contains_ignore_case :: "string \<Rightarrow> string \<Rightarrow> bool"

text \<open>\<open>lo.Contains\<close>: "returns true if an element is present in a collection".\<close>

definition lo_contains_ok :: "'a lib_scheme \<Rightarrow> bool" where
  "lo_contains_ok L \<longleftrightarrow> (\<forall>xs x. lo_contains L xs x = (x \<in> set xs))"

text \<open>\<open>stringUtils.IsBlank\<close>: "checks if a string is whitespace or empty".\<close>

definition is_blank_ok :: "'a lib_scheme \<Rightarrow> bool" where
  "is_blank_ok L \<longleftrightarrow> (\<forall>s. is_blank L s = (trim_space s = []))"

definition is_not_blank :: "'a lib_scheme \<Rightarrow> string \<Rightarrow> bool" where
  "is_not_blank L s \<longleftrightarrow> \<not> is_blank L s"

text \<open>\<open>stringUtils.Contains\<close>: "checks if str contains searchStr".\<close>

definition str_contains_ok :: "'a lib_scheme \<Rightarrow> bool" where
  "str_contains_ok L \<longleftrightarrow> (\<forall>s t. str_contains L s t = contains s t)"

definition lib_ok :: "'a lib_scheme \<Rightarrow> bool" where
  "lib_ok L \<longleftrightarrow> lo_contains_ok L \<and> is_blank_ok L \<and> str_contains_ok L"

lemma lo_containsD: "lo_contains_ok L \<Longrightarrow> lo_contains L xs x \<longleftrightarrow> x \<in> set xs"
  by (simp add: lo_contains_ok_def)

lemma is_blankD: "is_blank_ok L \<Longrightarrow> is_blank L s \<longleftrightarrow> trim_space s = []"
  by (simp add: is_blank_ok_def)

lemma is_blank_Nil: "is_blank_ok L \<Longrightarrow> is_blank L []"
  by (simp add: is_blankD)

definition sample_lib :: lib where
  "sample_lib =
     \<lparr>lo_contains = (\<lambda>xs x. x \<in> set xs),
      is_blank = (\<lambda>s. trim_space s = []),
      is_numeric = list_all is_digit,
      str_contains = contains,
      contains_ignore_case = (\<lambda>s t. contains (to_title s) (to_title t))\<rparr>"

lemma sample_lib_ok: "lib_ok sample_lib"
  by (simp add: lib_ok_def lo_contains_ok_def is_blank_ok_def str_contains_ok_def sample_lib_def)

end
