(* ===== verification/Api.thy ===== *)
theory Api
  imports Libs
begin

text \<open>
  Package \<open>api\<close>: the enumerations the agent is driven by (languages, tools, output types, events,
  log levels, container runtimes), the tables that relate them, and the events the agent prints.
  A Go string type with constants is a datatype with one constructor per constant and one for every
  other string; the conversions \<open>ProgrammingLanguage(lang)\<close>, \<open>string(lang)\<close> are the functions
  \<open>lang_of\<close>, \<open>lang_string\<close> and their kin.
\<close>

section \<open>Programming languages (api/langs.go)\<close>

datatype ProgrammingLanguage =
    Java | Go | Python | Ruby | Node | Clang | ClangPlusPlus | Rust | FakeLang
  | OtherLang string

fun lang_string :: "ProgrammingLanguage \<Rightarrow> string" where
  "lang_string Java = ''java''"
| "lang_string Go = ''go''"
| "lang_string Python = ''python''"
| "lang_string Ruby = ''ruby''"
| "lang_string Node = ''node''"
| "lang_string Clang = ''clang''"
| "lang_string ClangPlusPlus = ''clang++''"
| "lang_string Rust = ''rust''"
| "lang_string FakeLang = ''fake''"
| "lang_string (OtherLang s) = s"

definition lang_of :: "string \<Rightarrow> ProgrammingLanguage" where
  "lang_of s =
     (case map_of (map (\<lambda>l. (lang_string l, l))
        [Java, Go, Python, Ruby, Node, Clang, ClangPlusPlus, Rust, FakeLang]) s of
        Some l \<Rightarrow> l | None \<Rightarrow> OtherLang s)"

definition availableLanguages :: "ProgrammingLanguage list" where
  "availableLanguages = [Java, Go, Python, Ruby, Node, Clang, ClangPlusPlus, Rust]"

definition isSupportedLanguage :: "'a lib_scheme \<Rightarrow> string \<Rightarrow> bool" where
  "isSupportedLanguage L lang =
     (if lang = lang_string FakeLang then True
      else lo_contains L (map lang_string availableLanguages) lang)"

section \<open>Output types (api/output\_types.go)\<close>

datatype OutputType =
    FlameGraph | SpeedScope | Jfr | ThreadDump | HeapDump | HeapHistogram | Flat | Traces
  | Collapsed | Tree | Callgrind | Raw | Pprof | Summary | SummaryByLine | HeapSnapshot
  | OtherOutput string

fun output_string :: "OutputType \<Rightarrow> string" where
  "output_string FlameGraph = ''flamegraph''"
| "output_string SpeedScope = ''speedscope''"
| "output_string Jfr = ''jfr''"
| "output_string ThreadDump = ''threaddump''"
| "output_string HeapDump = ''heapdump''"
| "output_string HeapHistogram = ''heaphistogram''"
| "output_string Flat = ''flat''"
| "output_string Traces = ''traces''"
| "output_string Collapsed = ''collapsed''"
| "output_string Tree = ''tree''"
| "output_string Callgrind = ''callgrind''"
| "output_string Raw = ''raw''"
| "output_string Pprof = ''pprof''"
| "output_string Summary = ''summary''"
| "output_string SummaryByLine = ''summary-by-line''"
| "output_string HeapSnapshot = ''heapsnapshot''"
| "output_string (OtherOutput s) = s"

definition output_of :: "string \<Rightarrow> OutputType" where
  "output_of s =
     (case map_of (map (\<lambda>t. (output_string t, t))
        [FlameGraph, SpeedScope, Jfr, ThreadDump, HeapDump, HeapHistogram, Flat, Traces,
         Collapsed, Tree, Callgrind, Raw, Pprof, Summary, SummaryByLine, HeapSnapshot]) s of
        Some t \<Rightarrow> t | None \<Rightarrow> OtherOutput s)"

definition availableOutputTypes :: "OutputType list" where
  "availableOutputTypes =
     [FlameGraph, SpeedScope, Jfr, ThreadDump, HeapDump, HeapHistogram, Flat, Traces, Collapsed,
      Tree, Callgrind, Raw, Summary, SummaryByLine, HeapSnapshot]"

definition isSupportedOutputType :: "'a lib_scheme \<Rightarrow> string \<Rightarrow> bool" where
  "isSupportedOutputType L outputType =
     lo_contains L (map output_string availableOutputTypes) outputType"

section \<open>Profiling tools (api/profiling\_tools.go)\<close>

datatype ProfilingTool =
    AsyncProfiler | Jcmd | Pyspy | Bpf | Perf | Rbspy | NodeDummy | FakeTool | Austin | PProf
  | OtherTool string

fun tool_string :: "ProfilingTool \<Rightarrow> string" where
  "tool_string AsyncProfiler = ''async-profiler''"
| "tool_string Jcmd = ''jcmd''"
| "tool_string Pyspy = ''pyspy''"
| "tool_string Bpf = ''bpf''"
| "tool_string Perf = ''perf''"
| "tool_string Rbspy = ''rbspy''"
| "tool_string NodeDummy = ''node-dummy''"
| "tool_string FakeTool = ''fake''"
| "tool_string Austin = ''austin''"
| "tool_string PProf = ''pprof''"
| "tool_string (OtherTool s) = s"

definition tool_of :: "string \<Rightarrow> ProfilingTool" where
  "tool_of s =
     (case map_of (map (\<lambda>t. (tool_string t, t))
        [AsyncProfiler, Jcmd, Pyspy, Bpf, Perf, Rbspy, NodeDummy, FakeTool, Austin, PProf]) s of
        Some t \<Rightarrow> t | None \<Rightarrow> OtherTool s)"

definition availableProfilingTools :: "ProfilingTool list" where
  "availableProfilingTools =
     [AsyncProfiler, Jcmd, Pyspy, Bpf, Perf, Rbspy, Austin, PProf, NodeDummy]"

definition isSupportedProfilingTool :: "'a lib_scheme \<Rightarrow> string \<Rightarrow> bool" where
  "isSupportedProfilingTool L tool = lo_contains L (map tool_string availableProfilingTools) tool"

text \<open>A Go map without the key yields the nil slice.\<close>

fun getProfilingToolsByProgrammingLanguage :: "ProgrammingLanguage \<Rightarrow> ProfilingTool list" where
  "getProfilingToolsByProgrammingLanguage Java = [Jcmd, AsyncProfiler]"
| "getProfilingToolsByProgrammingLanguage Python = [Pyspy, Austin]"
| "getProfilingToolsByProgrammingLanguage Go = [Bpf, PProf]"
| "getProfilingToolsByProgrammingLanguage Node = [Bpf, Perf, NodeDummy]"
| "getProfilingToolsByProgrammingLanguage Clang = [Bpf, Perf]"
| "getProfilingToolsByProgrammingLanguage ClangPlusPlus = [Bpf, Perf]"
| "getProfilingToolsByProgrammingLanguage Ruby = [Rbspy]"
| "getProfilingToolsByProgrammingLanguage Rust = [Bpf, Perf]"
| "getProfilingToolsByProgrammingLanguage FakeLang = [FakeTool]"
| "getProfilingToolsByProgrammingLanguage (OtherLang _) = []"

fun getOutputTypesByProfilingTool :: "ProfilingTool \<Rightarrow> OutputType list" where
  "getOutputTypesByProfilingTool AsyncProfiler = [FlameGraph, Jfr, Flat, Traces, Collapsed, Tree, Raw]"
| "getOutputTypesByProfilingTool Jcmd = [Jfr, ThreadDump, HeapDump, HeapHistogram, Raw]"
| "getOutputTypesByProfilingTool Pyspy = [FlameGraph, SpeedScope, ThreadDump, Raw]"
| "getOutputTypesByProfilingTool Bpf = [FlameGraph, Raw]"
| "getOutputTypesByProfilingTool Perf = [FlameGraph, Raw]"
| "getOutputTypesByProfilingTool Rbspy = [FlameGraph, SpeedScope, Callgrind, Summary, SummaryByLine]"
| "getOutputTypesByProfilingTool NodeDummy = [HeapSnapshot, HeapDump]"
| "getOutputTypesByProfilingTool FakeTool = [FlameGraph]"
| "getOutputTypesByProfilingTool Austin = [FlameGraph, Raw]"
| "getOutputTypesByProfilingTool PProf = [Pprof, HeapDump, Raw]"
| "getOutputTypesByProfilingTool (OtherTool _) = []"

text \<open>\<open>xs[0]\<close>: a run-time panic on the empty slice.\<close>

fun index0 :: "'a list \<Rightarrow> error + 'a" where
  "index0 [] = Inl (Panic ''runtime error: index out of range [0] with length 0'')"
| "index0 (x # _) = Inr x"

definition getProfilingTool :: "ProgrammingLanguage \<Rightarrow> OutputType \<Rightarrow> error + ProfilingTool" where
  "getProfilingTool l out =
     (let dflt = index0 (getProfilingToolsByProgrammingLanguage l) in
      case l of
        Java \<Rightarrow>
          if out \<in> {Jfr, ThreadDump, HeapDump, HeapHistogram} then Inr Jcmd
          else if out \<in> {FlameGraph, Flat, Traces, Collapsed, Tree, Raw} then Inr AsyncProfiler
          else dflt
      | Python \<Rightarrow> Inr Pyspy
      | Go \<Rightarrow> if out = Pprof then Inr PProf else Inr Bpf
      | Rust \<Rightarrow> Inr Bpf
      | Clang \<Rightarrow> Inr Bpf
      | ClangPlusPlus \<Rightarrow> Inr Bpf
      | Ruby \<Rightarrow> Inr Rbspy
      | Node \<Rightarrow>
          if out \<in> {FlameGraph, Raw} then Inr Bpf
          else if out \<in> {HeapSnapshot, HeapDump} then Inr NodeDummy
          else dflt
      | _ \<Rightarrow> dflt)"

text \<open>The two loops that look an element up in a table.\<close>

fun any_equal :: "'b \<Rightarrow> 'b list \<Rightarrow> bool" where
  "any_equal x [] = False"
| "any_equal x (current # rest) = (if x = current then True else any_equal x rest)"

definition isValidProfilingTool :: "ProfilingTool \<Rightarrow> ProgrammingLanguage \<Rightarrow> bool" where
  "isValidProfilingTool tool language = any_equal tool (getProfilingToolsByProgrammingLanguage language)"

text \<open>
  The tables as text, for the messages of a client; the JSON library, which writes a map as an object, is
  the argument \<open>json\<close>, and its error is dropped.
\<close>

definition availableProfilingToolsString ::
  "((ProgrammingLanguage \<Rightarrow> ProfilingTool list) \<Rightarrow> error + string) \<Rightarrow> string" where
  "availableProfilingToolsString json =
     (case json getProfilingToolsByProgrammingLanguage of Inr out \<Rightarrow> out | Inl _ \<Rightarrow> [])"

definition availableOutputTypesString :: "((ProfilingTool \<Rightarrow> OutputType list) \<Rightarrow> error + string) \<Rightarrow> string" where
  "availableOutputTypesString json =
     (case json getOutputTypesByProfilingTool of Inr out \<Rightarrow> out | Inl _ \<Rightarrow> [])"

definition isValidOutputType :: "OutputType \<Rightarrow> ProfilingTool \<Rightarrow> bool" where
  "isValidOutputType outputType profilingTool =
     any_equal outputType (getOutputTypesByProfilingTool profilingTool)"

section \<open>Profiling events (api/profiling\_events.go)\<close>

datatype ProfilingEvent =
    Cpu | Alloc | Lock | CacheMisses | Wall | Itimer
  | OtherEvent string

fun event_string :: "ProfilingEvent \<Rightarrow> string" where
  "event_string Cpu = ''cpu''"
| "event_string Alloc = ''alloc''"
| "event_string Lock = ''lock''"
| "event_string CacheMisses = ''cache-misses''"
| "event_string Wall = ''wall''"
| "event_string Itimer = ''itimer''"
| "event_string (OtherEvent s) = s"

definition event_of :: "string \<Rightarrow> ProfilingEvent" where
  "event_of s =
     (case map_of (map (\<lambda>e. (event_string e, e)) [Cpu, Alloc, Lock, CacheMisses, Wall, Itimer]) s of
        Some e \<Rightarrow> e | None \<Rightarrow> OtherEvent s)"

definition availableEvents :: "ProfilingEvent list" where
  "availableEvents = [Cpu, Alloc, Lock, CacheMisses, Wall, Itimer]"

definition isSupportedEvent :: "'a lib_scheme \<Rightarrow> string \<Rightarrow> bool" where
  "isSupportedEvent L event = lo_contains L (map event_string availableEvents) event"

section \<open>Log levels (api/log\_levels.go)\<close>

datatype LogLevel = InfoLevel | WarnLevel | DebugLevel | TraceLevel | ErrorLevel | PanicLevel

fun level_string :: "LogLevel \<Rightarrow> string" where
  "level_string InfoLevel = ''info''"
| "level_string WarnLevel = ''warn''"
| "level_string DebugLevel = ''debug''"
| "level_string TraceLevel = ''trace''"
| "level_string ErrorLevel = ''error''"
| "level_string PanicLevel = ''panic''"

definition availableLogLevels :: "LogLevel list" where
  "availableLogLevels = [InfoLevel, WarnLevel, DebugLevel, TraceLevel, ErrorLevel, PanicLevel]"

definition isSupportedLogLevel :: "'a lib_scheme \<Rightarrow> string \<Rightarrow> bool" where
  "isSupportedLogLevel L logLevel = lo_contains L (map level_string availableLogLevels) logLevel"

section \<open>Container runtimes (api/runtimes.go)\<close>

datatype ContainerRuntime =
    Crio | Containerd
  | FakeContainer | FakeContainerWithRootFileSystemLocationResultError
  | FakeContainerWithPIDResultError | FakeContainerWithCWDResultError
  | OtherRuntime string

fun runtime_string :: "ContainerRuntime \<Rightarrow> string" where
  "runtime_string Crio = ''crio''"
| "runtime_string Containerd = ''containerd''"
| "runtime_string FakeContainer = ''fake''"
| "runtime_string FakeContainerWithRootFileSystemLocationResultError =
     ''fakeWithRootFileSystemLocationResultError''"
| "runtime_string FakeContainerWithPIDResultError = ''fakeWithPIDResultError''"
| "runtime_string FakeContainerWithCWDResultError = ''fakeWithCWDResultError''"
| "runtime_string (OtherRuntime s) = s"

definition runtime_of :: "string \<Rightarrow> ContainerRuntime" where
  "runtime_of s =
     (case map_of (map (\<lambda>r. (runtime_string r, r))
        [Crio, Containerd, FakeContainer, FakeContainerWithRootFileSystemLocationResultError,
         FakeContainerWithPIDResultError, FakeContainerWithCWDResultError]) s of
        Some r \<Rightarrow> r | None \<Rightarrow> OtherRuntime s)"

definition availableContainerRuntimes :: "ContainerRuntime list" where
  "availableContainerRuntimes = [Crio, Containerd]"

fun getContainerRuntimeRootPath :: "ContainerRuntime \<Rightarrow> string" where
  "getContainerRuntimeRootPath Crio = ''/var/lib/containers/storage''"
| "getContainerRuntimeRootPath Containerd = ''/run/containerd''"
| "getContainerRuntimeRootPath _ = ''''"

definition isSupportedContainerRuntime :: "'a lib_scheme \<Rightarrow> string \<Rightarrow> bool" where
  "isSupportedContainerRuntime L runtime =
     (if runtime = runtime_string FakeContainer
         \<or> runtime = runtime_string FakeContainerWithRootFileSystemLocationResultError
         \<or> runtime = runtime_string FakeContainerWithPIDResultError
         \<or> runtime = runtime_string FakeContainerWithCWDResultError then True
      else lo_contains L (map runtime_string availableContainerRuntimes) runtime)"

section \<open>Events (api/event\_types.go)\<close>

datatype EventType = Progress | Result | Notice | Log | Error | OtherEventType string

datatype ProgressStage = Started | Ended | OtherStage string

record ChunkData =
  chunkFile :: string
  chunkSize :: int
  chunkChecksum :: string

record ResultData =
  resTime :: int
  resultType :: OutputType
  resFile :: string
  fileSizeInBytes :: int
  checksum :: string
  compressorType :: string
  chunks :: "ChunkData list"

text \<open>
  The \<open>data\<close> of an event, one constructor per struct. Times are nanoseconds of the agent's clock.
\<close>

datatype EventData =
    ErrorData string
  | is_ResultData: ResultData (result_data: ResultData)
  | ProgressData int ProgressStage
  | NoticeData int string
  | LogData int string string

text \<open>The type under which an event of this data is printed.\<close>

fun dataType :: "EventData \<Rightarrow> EventType" where
  "dataType (ErrorData _) = Error"
| "dataType (ResultData _) = Result"
| "dataType (ProgressData _ _) = Progress"
| "dataType (NoticeData _ _) = Notice"
| "dataType (LogData _ _ _) = Log"

section \<open>Facts about the tables\<close>

lemma any_equal_iff [simp]: "any_equal x xs \<longleftrightarrow> x \<in> set xs"
  by (induction xs) auto

lemma index0_Inr: "index0 xs = Inr x \<longleftrightarrow> (\<exists>ys. xs = x # ys)"
  by (cases xs) auto

lemma map_of_conv_string:
  "map_of (map (\<lambda>x. (f x, x)) xs) s = Some y \<Longrightarrow> f y = s \<and> y \<in> set xs"
  by (induction xs) (auto split: if_splits)

lemma lang_string_of [simp]: "lang_string (lang_of s) = s"
  by (auto simp: lang_of_def split: option.split dest: map_of_conv_string)

lemma output_string_of [simp]: "output_string (output_of s) = s"
  by (auto simp: output_of_def split: option.split dest: map_of_conv_string)

lemma tool_string_of [simp]: "tool_string (tool_of s) = s"
  by (auto simp: tool_of_def split: option.split dest: map_of_conv_string)

lemma event_string_of [simp]: "event_string (event_of s) = s"
  by (auto simp: event_of_def split: option.split dest: map_of_conv_string)

lemma runtime_string_of [simp]: "runtime_string (runtime_of s) = s"
  by (auto simp: runtime_of_def split: option.split dest: map_of_conv_string)

text \<open>C30. The default tool of a supported language can produce whatever output some tool of the language can,
  with one exception: a Go heap dump is given to bpf, which cannot make one, so that the output type is
  then silently replaced.\<close>

theorem default_tool_supports:
  assumes "l \<in> set availableLanguages" "t \<in> set (getProfilingToolsByProgrammingLanguage l)"
    "out \<in> set (getOutputTypesByProfilingTool t)"
  shows "\<exists>d. getProfilingTool l out = Inr d \<and> isValidProfilingTool d l \<and>
    (isValidOutputType out d \<longleftrightarrow> \<not> (l = Go \<and> out = HeapDump))"
  using assms by (auto simp: availableLanguages_def getProfilingTool_def isValidProfilingTool_def isValidOutputType_def)

theorem default_tool_supports_witness:
  "\<exists>d. getProfilingTool Node HeapSnapshot = Inr d \<and> isValidProfilingTool d Node \<and>
    (isValidOutputType HeapSnapshot d \<longleftrightarrow> \<not> (Node = Go \<and> HeapSnapshot = HeapDump))"
  by (rule default_tool_supports [where t = NodeDummy]) (simp_all add: availableLanguages_def)

end
