(* ===== verification/World.thy ===== *)
theory World
  imports Api
begin

text \<open>
  The state the agent runs in and the parameters it is run with.

  \<open>world\<close> holds what the agent's process shares with its environment or keeps in package variables:
  the files it can see, the clock (nanoseconds), what it has printed on standard output, the
  \<open>printLogs\<close> flag of pkg/util/log, the heap object behind the job's \<open>AdditionalArguments\<close> map and the
  package variable \<open>recordingPIDs\<close> of jcmd.go.
  \<open>env\<close> extends the record of third-party functions by what the operating system, the external
  programs and the Go runtime decide: which system call fails (\<open>sysFault\<close>), what a process prints and
  does to the files (\<open>runProc\<close>), what other processes do to the files while the agent sleeps
  (\<open>meanwhile\<close>), whether a value can be marshalled to JSON, and so on. None of them is restricted.

  The second half defines the calls of package \<open>os\<close> on this state. Directories are the proper prefixes
  of the files' paths; symbolic links are followed, at most 40 in a row.
\<close>

section \<open>State and parameters\<close>

datatype node = File string | Link string

type_synonym filesys = "(string \<times> node) list"

text \<open>A line on standard output: an event of the protocol, or text printed by \<open>fmt\<close>.\<close>

datatype printed = Event EventType EventData | Text string

text \<open>A channel of strings: nil, open with its capacity and the values buffered in it, or closed.\<close>

datatype channel = NilChan | OpenChan nat "string list" | ClosedChan "string list"

record world =
  files :: filesys
  clock :: int
  stdout :: "printed list"
  printLogs :: bool
  additionalArguments :: "string \<rightharpoonup> string"
  recordingPIDs :: channel

type_synonym 'a io = "(world, 'a) state"

record procResult =
  procErr :: "error option"
  procOut :: string
  procErrOut :: string
  procFiles :: filesys
  procClock :: int

text \<open>One step of the Go scheduler while \<open>ProfilePIDs\<close> runs: the main goroutine moves, or one body ends.\<close>

datatype sched = Spawn | Finish nat

record env = lib +
  tmpDir :: string
  dirSize :: int
  sysFault :: "string \<Rightarrow> string \<Rightarrow> world \<Rightarrow> string option"
  runProc :: "string list \<Rightarrow> string \<Rightarrow> world \<Rightarrow> procResult"
  meanwhile :: "int \<Rightarrow> world \<Rightarrow> filesys"
  killProc :: "int \<Rightarrow> int \<Rightarrow> world \<Rightarrow> error option \<times> filesys"
  marshal :: "EventData \<Rightarrow> error option"
  md5Sum :: "string \<Rightarrow> string"
  encodeWith :: "string \<Rightarrow> string \<Rightarrow> string"
  closeWith :: "string \<Rightarrow> string \<Rightarrow> string"
  newCoder :: "string \<Rightarrow> error option"
  decodeWith :: "string \<Rightarrow> string \<Rightarrow> string \<times> error option"
  specCwd :: "string \<Rightarrow> error + string option"
  specRoot :: "string \<Rightarrow> error + string option"
  statePid :: "string \<Rightarrow> error + int"
  stackDepth :: nat
  schedule :: "string list \<Rightarrow> sched list"
  stopTokens :: "world \<Rightarrow> string list"
  convOverflow :: int
  highLetter :: "nat \<Rightarrow> bool"
  highDigit :: "nat \<Rightarrow> bool"

section \<open>Clock and processes\<close>

definition now :: "int io" where
  "now = State (\<lambda>w. (clock w, w))"

definition sleep :: "env \<Rightarrow> int \<Rightarrow> unit io" where
  "sleep E d =
     State (\<lambda>w. ((), w\<lparr>files := meanwhile E d w, clock := clock w + max 0 d\<rparr>))"

text \<open>
  \<open>cmd.Run()\<close>: the argument vector and standard input go in, the error and the two output streams
  come out. A process changes files and takes time; it cannot touch the agent's own state.
\<close>

definition runCmd :: "env \<Rightarrow> string list \<Rightarrow> string \<Rightarrow> (error option \<times> string \<times> string) io" where
  "runCmd E argv input =
     State (\<lambda>w. let r = runProc E argv input w in
       ((procErr r, procOut r, procErrOut r),
        w\<lparr>files := procFiles r, clock := max (clock w) (procClock r)\<rparr>))"

definition kill :: "env \<Rightarrow> int \<Rightarrow> int \<Rightarrow> error option io" where
  "kill E pid sig = State (\<lambda>w. let (e, fs) = killProc E pid sig w in (e, w\<lparr>files := fs\<rparr>))"

definition printLine :: "string \<Rightarrow> unit io" where
  "printLine s = State (\<lambda>w. ((), w\<lparr>stdout := stdout w @ [Text s]\<rparr>))"

section \<open>Path resolution\<close>

abbreviation enoent :: string where
  "enoent \<equiv> ''no such file or directory''"

abbreviation eloop :: string where
  "eloop \<equiv> ''too many levels of symbolic links''"

definition beneath :: "string \<Rightarrow> string \<Rightarrow> bool" where
  "beneath d p \<longleftrightarrow> prefix (d @ ''/'') p"

fun link_step :: "filesys \<Rightarrow> string \<Rightarrow> string option" where
  "link_step [] p = None"
| "link_step ((l, Link t) # fs) p =
     (if p = l \<or> beneath l p then Some (t @ drop (length l) p) else link_step fs p)"
| "link_step ((l, File _) # fs) p = link_step fs p"

fun follow :: "nat \<Rightarrow> filesys \<Rightarrow> string \<Rightarrow> string option" where
  "follow 0 fs p = (case link_step fs p of None \<Rightarrow> Some p | Some _ \<Rightarrow> None)"
| "follow (Suc n) fs p = (case link_step fs p of None \<Rightarrow> Some p | Some q \<Rightarrow> follow n fs q)"

definition resolve :: "filesys \<Rightarrow> string \<Rightarrow> string option" where
  "resolve fs p = follow 40 fs p"

definition content :: "filesys \<Rightarrow> string \<Rightarrow> string option" where
  "content fs p =
     (case resolve fs p of
        None \<Rightarrow> None
      | Some q \<Rightarrow> (case map_of fs q of Some (File c) \<Rightarrow> Some c | _ \<Rightarrow> None))"

definition is_dir :: "filesys \<Rightarrow> string \<Rightarrow> bool" where
  "is_dir fs p =
     (case resolve fs p of None \<Rightarrow> False | Some q \<Rightarrow> list_ex (\<lambda>(r, _). beneath q r) fs)"

definition store :: "string \<Rightarrow> string \<Rightarrow> filesys \<Rightarrow> filesys" where
  "store p c fs = (case resolve fs p of None \<Rightarrow> fs | Some q \<Rightarrow> AList.update q (File c) fs)"

text \<open>The entry \<open>unlink\<close> acts on: a link itself, not its target.\<close>

definition entry_of :: "filesys \<Rightarrow> string \<Rightarrow> string" where
  "entry_of fs p =
     (let (d, f) = path_split p
      in if d = [] then p
         else (case resolve fs (butlast d) of None \<Rightarrow> p | Some q \<Rightarrow> q @ ''/'' @ f))"

text \<open>Why a path leads to nothing.\<close>

definition not_found :: "filesys \<Rightarrow> string \<Rightarrow> string" where
  "not_found fs p = (if resolve fs p = None then eloop else enoent)"

section \<open>Package os\<close>

datatype fileInfo = Regular nat | Directory

definition faulty :: "env \<Rightarrow> string \<Rightarrow> string \<Rightarrow> (world \<Rightarrow> (error + 'a) \<times> world) \<Rightarrow> (error + 'a) io" where
  "faulty E op p k =
     State (\<lambda>w. case sysFault E op p w of Some m \<Rightarrow> (Inl (PathError op p m), w) | None \<Rightarrow> k w)"

definition osStat :: "env \<Rightarrow> string \<Rightarrow> (error + fileInfo) io" where
  "osStat E p = faulty E ''stat'' p (\<lambda>w.
     (case content (files w) p of
        Some c \<Rightarrow> Inr (Regular (length c))
      | None \<Rightarrow> if is_dir (files w) p then Inr Directory else Inl (PathError ''stat'' p (not_found (files w) p)), w))"

definition osOpen :: "env \<Rightarrow> string \<Rightarrow> (error + unit) io" where
  "osOpen E p = faulty E ''open'' p (\<lambda>w.
     (if content (files w) p \<noteq> None \<or> is_dir (files w) p then Inr ()
      else Inl (PathError ''open'' p (not_found (files w) p)), w))"

text \<open>Reading an open file, or \<open>os.ReadFile\<close>, up to the end.\<close>

definition osRead :: "env \<Rightarrow> string \<Rightarrow> (error + string) io" where
  "osRead E p = faulty E ''read'' p (\<lambda>w.
     (case content (files w) p of
        Some c \<Rightarrow> Inr c | None \<Rightarrow> Inl (PathError ''read'' p ''is a directory''), w))"

definition osReadFile :: "env \<Rightarrow> string \<Rightarrow> (error + string) io" where
  "osReadFile E p = attempt (osOpen E p) (\<lambda>_. osRead E p)"

text \<open>\<open>os.Create\<close>: an empty file, the old content gone.\<close>

definition osCreate :: "env \<Rightarrow> string \<Rightarrow> (error + unit) io" where
  "osCreate E p = faulty E ''open'' p (\<lambda>w.
     if is_dir (files w) p then (Inl (PathError ''open'' p ''is a directory''), w)
     else if resolve (files w) p = None
     then (Inl (PathError ''open'' p eloop), w)
     else (Inr (), w\<lparr>files := store p [] (files w)\<rparr>))"

definition osAppend :: "env \<Rightarrow> string \<Rightarrow> string \<Rightarrow> (error + unit) io" where
  "osAppend E p c = faulty E ''write'' p (\<lambda>w.
     (Inr (), w\<lparr>files := store p (case content (files w) p of Some d \<Rightarrow> d @ c | None \<Rightarrow> c) (files w)\<rparr>))"

definition osWriteFile :: "env \<Rightarrow> string \<Rightarrow> string \<Rightarrow> (error + unit) io" where
  "osWriteFile E p c = attempt (osCreate E p) (\<lambda>_. osAppend E p c)"

definition osRemove :: "env \<Rightarrow> string \<Rightarrow> (error + unit) io" where
  "osRemove E p = faulty E ''remove'' p (\<lambda>w.
     let q = entry_of (files w) p in
     if map_of (files w) q \<noteq> None then (Inr (), w\<lparr>files := AList.delete q (files w)\<rparr>)
     else if is_dir (files w) q then (Inl (PathError ''remove'' p ''directory not empty''), w)
     else (Inl (PathError ''remove'' p enoent), w))"

definition osRemoveAll :: "env \<Rightarrow> string \<Rightarrow> (error + unit) io" where
  "osRemoveAll E p = faulty E ''unlinkat'' p (\<lambda>w.
     let q = entry_of (files w) p in
     (Inr (), w\<lparr>files := filter (\<lambda>(r, _). r \<noteq> q \<and> \<not> beneath q r) (files w)\<rparr>))"

definition osSymlink :: "env \<Rightarrow> string \<Rightarrow> string \<Rightarrow> (error + unit) io" where
  "osSymlink E old new = faulty E ''symlink'' (old @ '' '' @ new) (\<lambda>w.
     if map_of (files w) (entry_of (files w) new) \<noteq> None \<or> is_dir (files w) new
     then (Inl (PathError ''symlink'' (old @ '' '' @ new) ''file exists''), w)
     else (Inr (), w\<lparr>files := AList.update (entry_of (files w) new) (Link old) (files w)\<rparr>))"

definition osRename :: "env \<Rightarrow> string \<Rightarrow> string \<Rightarrow> (error + unit) io" where
  "osRename E old new = faulty E ''rename'' (old @ '' '' @ new) (\<lambda>w.
     let q = entry_of (files w) old; r = entry_of (files w) new in
     if is_dir (files w) r then (Inl (PathError ''rename'' (old @ '' '' @ new) ''file exists''), w)
     else case map_of (files w) q of
       Some n \<Rightarrow> (Inr (), w\<lparr>files := AList.update r n (AList.delete q (files w))\<rparr>)
     | None \<Rightarrow>
         if \<not> list_ex (\<lambda>(s, _). beneath q s) (files w)
         then (Inl (PathError ''rename'' (old @ '' '' @ new) enoent), w)
         else if map_of (files w) r \<noteq> None
         then (Inl (PathError ''rename'' (old @ '' '' @ new) ''not a directory''), w)
         else (Inr (), w\<lparr>files := map (\<lambda>(s, n). (if beneath q s then r @ drop (length q) s else s, n)) (files w)\<rparr>))"

definition osReadlink :: "env \<Rightarrow> string \<Rightarrow> (error + string) io" where
  "osReadlink E p = faulty E ''readlink'' p (\<lambda>w.
     (case map_of (files w) (entry_of (files w) p) of
        Some (Link t) \<Rightarrow> Inr t
      | Some (File _) \<Rightarrow> Inl (PathError ''readlink'' p ''invalid argument'')
      | None \<Rightarrow> Inl (PathError ''readlink'' p enoent), w))"

text \<open>\<open>os.IsNotExist\<close>\<close>

fun is_not_exist :: "error \<Rightarrow> bool" where
  "is_not_exist (PathError _ _ m) = (m = enoent)"
| "is_not_exist _ = False"

text \<open>
  \<open>filepath.Glob\<close> for a pattern whose directory has no wildcard: the names in the directory, sorted,
  that match the last element of the pattern, each joined to the directory as the pattern wrote it.
\<close>

definition first_component :: "string \<Rightarrow> string" where
  "first_component p = takeWhile (\<lambda>c. c \<noteq> CHR ''/'') p"

definition names_in :: "filesys \<Rightarrow> string \<Rightarrow> string list" where
  "names_in fs d =
     (case resolve fs d of
        None \<Rightarrow> []
      | Some q \<Rightarrow>
          (let base = (if q = ''/'' then q else q @ ''/'')
           in sort (remdups (map (\<lambda>(r, _). first_component (drop (length base) r))
                (filter (\<lambda>(r, _). strict_prefix base r) fs)))))"

definition glob :: "filesys \<Rightarrow> string \<Rightarrow> string list" where
  "glob fs pat =
     (let (d, f) = path_split pat; d' = clean_glob_path d
      in if CHR ''*'' \<notin> set pat \<and> CHR ''?'' \<notin> set pat
         then (if content fs pat \<noteq> None \<or> is_dir fs pat then [pat] else [])
         else map (\<lambda>n. path_join [d', n]) (filter (glob_match f) (names_in fs d')))"

definition osGlob :: "string \<Rightarrow> string list io" where
  "osGlob pat = State (\<lambda>w. (glob (files w) pat, w))"

text \<open>No system call fails for a reason outside the model.\<close>

definition no_faults :: "env \<Rightarrow> bool" where
  "no_faults E \<longleftrightarrow> (\<forall>op p w. sysFault E op p w = None)"

section \<open>What a program prints\<close>

text \<open>
  The part of standard output a client acts on: the results and the progress of the run. What a client could
  not read counts too: a line that is no event, and an event whose data is not of its type.
\<close>

abbreviation resultEvent :: "ResultData \<Rightarrow> printed" where
  "resultEvent r \<equiv> Event Result (ResultData r)"

fun is_protocol :: "printed \<Rightarrow> bool" where
  "is_protocol (Event t d) = (t \<in> {Result, Progress} \<or> dataType d \<noteq> t)"
| "is_protocol (Text _) = True"

definition protocol :: "world \<Rightarrow> printed list" where
  "protocol w = filter is_protocol (stdout w)"

text \<open>A \<open>quiet\<close> program prints no such event, and the clock does not go back while it runs; one that
  \<open>publishes\<close> prints exactly one, a result, when it succeeds and none when it fails.\<close>

definition quiet :: "'a io \<Rightarrow> bool" where
  "quiet m \<longleftrightarrow> (\<forall>w. protocol (after m w) = protocol w \<and> clock w \<le> clock (after m w))"

definition publishes :: "error option io \<Rightarrow> bool" where
  "publishes m \<longleftrightarrow>
     (\<forall>w. if value_of m w = None then (\<exists>d. protocol (after m w) = protocol w @ [resultEvent d])
          else protocol (after m w) = protocol w)"

lemma value_of_simps [simp]:
  "value_of (State_Monad.return x) w = x"
  "after (State_Monad.return x) w = w"
  "value_of (State_Monad.bind m f) w = value_of (f (value_of m w)) (after m w)"
  "after (State_Monad.bind m f) w = after (f (value_of m w)) (after m w)"
  by (simp_all add: value_of_def after_def split: prod.splits)

lemma value_of_attempt [simp]:
  "value_of (attempt m f) w =
     (case value_of m w of Inl e \<Rightarrow> Inl e | Inr x \<Rightarrow> value_of (f x) (after m w))"
  "after (attempt m f) w =
     (case value_of m w of Inl e \<Rightarrow> after m w | Inr x \<Rightarrow> after (f x) (after m w))"
  by (simp_all add: attempt_def split: sum.splits)

lemma value_of_guarded [simp]:
  "value_of (guarded m wrap k) w =
     (case value_of m w of Some e \<Rightarrow> Some (wrap e) | None \<Rightarrow> value_of k (after m w))"
  "after (guarded m wrap k) w =
     (case value_of m w of Some e \<Rightarrow> after m w | None \<Rightarrow> after k (after m w))"
  by (simp_all add: guarded_def split: option.splits)

lemma value_of_State [simp]:
  "value_of (State f) w = fst (f w)" "after (State f) w = snd (f w)"
  by (simp_all add: value_of_def after_def)

lemma protocol_update [simp]:
  "protocol (w\<lparr>files := fs\<rparr>) = protocol w"
  "protocol (w\<lparr>clock := t\<rparr>) = protocol w"
  "protocol (w\<lparr>printLogs := b\<rparr>) = protocol w"
  "protocol (w\<lparr>additionalArguments := a\<rparr>) = protocol w"
  "protocol (w\<lparr>recordingPIDs := c\<rparr>) = protocol w"
  by (simp_all add: protocol_def)

lemma protocol_stdout [simp]:
  "protocol (w\<lparr>stdout := stdout w @ [x]\<rparr>) =
     protocol w @ (if is_protocol x then [x] else [])"
  by (simp add: protocol_def)

lemma quiet_return [quiet_rules]: "quiet (State_Monad.return x)"
  by (simp add: quiet_def)

lemma quiet_bind [quiet_rules]: "quiet m \<Longrightarrow> (\<And>x. quiet (f x)) \<Longrightarrow> quiet (State_Monad.bind m f)"
  unfolding quiet_def value_of_simps by (metis order_trans)

lemma quiet_attempt [quiet_rules]: "quiet m \<Longrightarrow> (\<And>x. quiet (f x)) \<Longrightarrow> quiet (attempt m f)"
  unfolding quiet_def value_of_attempt by (auto intro: order_trans split: sum.split)

lemma quiet_guarded [quiet_rules]: "quiet m \<Longrightarrow> quiet k \<Longrightarrow> quiet (guarded m wrap k)"
  unfolding quiet_def value_of_guarded by (auto intro: order_trans split: option.split)

lemma quiet_if [quiet_rules]: "quiet a \<Longrightarrow> quiet b \<Longrightarrow> quiet (if c then a else b)"
  by simp

lemma quiet_case_option [quiet_rules]:
  "quiet a \<Longrightarrow> (\<And>x. quiet (b x)) \<Longrightarrow> quiet (case c of None \<Rightarrow> a | Some x \<Rightarrow> b x)"
  by (simp split: option.split)

lemma quiet_case_sum [quiet_rules]:
  "(\<And>x. quiet (a x)) \<Longrightarrow> (\<And>x. quiet (b x)) \<Longrightarrow> quiet (case c of Inl x \<Rightarrow> a x | Inr x \<Rightarrow> b x)"
  by (simp split: sum.split)

lemma quiet_case_prod [quiet_rules]: "(\<And>x y. quiet (a x y)) \<Longrightarrow> quiet (case c of (x, y) \<Rightarrow> a x y)"
  by (simp split: prod.split)

lemma quiet_let [quiet_rules]: "(\<And>x. quiet (f x)) \<Longrightarrow> quiet (let x = c in f x)"
  by simp

lemma quiet_faulty [quiet_rules]:
  "(\<And>w. protocol (snd (k w)) = protocol w \<and> clock w \<le> clock (snd (k w))) \<Longrightarrow> quiet (faulty E op p k)"
  by (simp add: quiet_def faulty_def split: option.split)

lemma publishes_fail [publish_rules]: "publishes (State_Monad.return (Some e))"
  by (simp add: publishes_def)

lemma publishesD:
  "publishes m \<Longrightarrow> value_of m w = None \<Longrightarrow> \<exists>d. protocol (after m w) = protocol w @ [resultEvent d]"
  "publishes m \<Longrightarrow> value_of m w = Some e \<Longrightarrow> protocol (after m w) = protocol w"
  unfolding publishes_def by (metis option.simps(3))+

lemma quietD: "quiet m \<Longrightarrow> protocol (after m w) = protocol w"
  by (simp add: quiet_def)

lemma quiet_clock: "quiet m \<Longrightarrow> clock w \<le> clock (after m w)"
  by (simp add: quiet_def)

lemma publishesI:
  assumes "\<And>w. value_of m w = None \<Longrightarrow> \<exists>d. protocol (after m w) = protocol w @ [resultEvent d]"
    and "\<And>w e. value_of m w = Some e \<Longrightarrow> protocol (after m w) = protocol w"
  shows "publishes m"
  using assms by (auto simp: publishes_def)

lemma publishes_bind [publish_rules]:
  assumes "quiet m" "\<And>x. publishes (f x)"
  shows "publishes (State_Monad.bind m f)"
proof (rule publishesI)
  fix w
  assume "value_of (State_Monad.bind m f) w = None"
  then show "\<exists>d. protocol (after (State_Monad.bind m f) w) = protocol w @ [resultEvent d]"
    using publishesD(1) [OF assms(2), of "value_of m w" "after m w"] quietD [OF assms(1), of w] by simp
next
  fix w e
  assume "value_of (State_Monad.bind m f) w = Some e"
  then show "protocol (after (State_Monad.bind m f) w) = protocol w"
    using publishesD(2) [OF assms(2), of "value_of m w" "after m w"] quietD [OF assms(1), of w] by simp
qed

lemma publishes_guarded [publish_rules]:
  "quiet m \<Longrightarrow> publishes k \<Longrightarrow> publishes (guarded m wrap k)"
  unfolding guarded_def
  by (intro publishes_bind) (auto simp: publishes_fail split: option.split)

lemma publishes_if [publish_rules]: "publishes a \<Longrightarrow> publishes b \<Longrightarrow> publishes (if c then a else b)"
  by simp

lemma publishes_case_option [publish_rules]:
  "publishes a \<Longrightarrow> (\<And>x. publishes (b x)) \<Longrightarrow> publishes (case c of None \<Rightarrow> a | Some x \<Rightarrow> b x)"
  by (simp split: option.split)

lemma publishes_case_sum [publish_rules]:
  "(\<And>x. publishes (a x)) \<Longrightarrow> (\<And>x. publishes (b x)) \<Longrightarrow>
     publishes (case c of Inl x \<Rightarrow> a x | Inr x \<Rightarrow> b x)"
  by (simp split: sum.split)

lemma publishes_case_prod [publish_rules]:
  "(\<And>x y. publishes (a x y)) \<Longrightarrow> publishes (case c of (x, y) \<Rightarrow> a x y)"
  by (simp split: prod.split)

lemma publishes_let [publish_rules]: "(\<And>x. publishes (f x)) \<Longrightarrow> publishes (let x = c in f x)"
  by simp

text \<open>A deferred call that prints no result.\<close>

definition deferring :: "'a io \<Rightarrow> unit io \<Rightarrow> 'a io" where
  "deferring m k = do { r \<leftarrow> m; k; State_Monad.return r }"

lemma deferring_value [simp]:
  "value_of (deferring m k) w = value_of m w" "after (deferring m k) w = after k (after m w)"
  by (simp_all add: deferring_def)

lemma publishes_deferring [publish_rules]: "publishes m \<Longrightarrow> quiet k \<Longrightarrow> publishes (deferring m k)"
  by (simp add: publishes_def quiet_def)

lemma quiet_now [quiet_rules]: "quiet now"
  by (simp add: quiet_def now_def)

lemma quiet_get [quiet_rules]: "quiet State_Monad.get"
  by (simp add: quiet_def State_Monad.get_def)

lemma quiet_sleep [quiet_rules]: "quiet (sleep E d)"
  by (simp add: quiet_def sleep_def)

lemma quiet_runCmd [quiet_rules]: "quiet (runCmd E argv input)"
  by (simp add: quiet_def runCmd_def Let_def)

lemma quiet_kill [quiet_rules]: "quiet (kill E pid sig)"
  by (simp add: quiet_def kill_def Let_def split: prod.split)

lemma quiet_os [quiet_rules]:
  "quiet (osStat E p)" "quiet (osOpen E p)" "quiet (osRead E p)" "quiet (osCreate E p)"
  "quiet (osAppend E p c)" "quiet (osRemove E p)" "quiet (osRemoveAll E p)"
  "quiet (osSymlink E p q)" "quiet (osRename E p q)" "quiet (osReadlink E p)" "quiet (osGlob p)"
  by (auto simp: osStat_def osOpen_def osRead_def osCreate_def osAppend_def osRemove_def
      osRemoveAll_def osSymlink_def osRename_def osReadlink_def Let_def quiet_def osGlob_def faulty_def
      split: option.splits node.splits)

lemma quiet_osReadFile [quiet_rules]: "quiet (osReadFile E p)"
  unfolding osReadFile_def by (intro quiet_rules)

lemma quiet_osWriteFile [quiet_rules]: "quiet (osWriteFile E p c)"
  unfolding osWriteFile_def by (intro quiet_rules)

section \<open>Facts about files\<close>

text \<open>Where no symbolic link is involved, a path resolves to itself and a file reads back as written.\<close>

definition no_links :: "filesys \<Rightarrow> bool" where
  "no_links fs \<longleftrightarrow> list_all (\<lambda>(_, n). case n of File _ \<Rightarrow> True | Link _ \<Rightarrow> False) fs"

lemma link_step_no_links: "no_links fs \<Longrightarrow> link_step fs p = None"
  by (induction fs p rule: link_step.induct) (auto simp: no_links_def)

lemma resolve_no_links: "no_links fs \<Longrightarrow> resolve fs p = Some p"
  by (simp add: resolve_def link_step_no_links follow.simps eval_nat_numeral)

lemma no_links_update: "no_links fs \<Longrightarrow> no_links (AList.update q (File c) fs)"
  by (induction fs) (auto simp: no_links_def split: node.splits)

lemma no_links_store [simp]: "no_links fs \<Longrightarrow> no_links (store p c fs)"
  by (simp add: store_def resolve_no_links no_links_update)

lemma content_store_same: "no_links fs \<Longrightarrow> content (store p c fs) p = Some c"
  by (simp add: content_def store_def resolve_no_links no_links_update AList.update_conv')

lemma content_store_other: "no_links fs \<Longrightarrow> p \<noteq> q \<Longrightarrow> content (store q c fs) p = content fs p"
  by (simp add: content_def store_def resolve_no_links no_links_update AList.update_conv')

lemma content_store: "no_links fs \<Longrightarrow> content (store p c fs) = (content fs)(p \<mapsto> c)"
  by (rule ext) (simp add: content_store_same content_store_other)

text \<open>Calls that cannot fail for an outside reason.\<close>

lemma osRead_ok:
  "after (osRead E p) w = w"
  "no_faults E \<Longrightarrow> content (files w) p = Some c \<Longrightarrow> value_of (osRead E p) w = Inr c"
  by (simp_all add: osRead_def faulty_def no_faults_def split: option.split)

lemma osOpen_ok:
  "after (osOpen E p) w = w"
  "no_faults E \<Longrightarrow> content (files w) p = Some c \<Longrightarrow> value_of (osOpen E p) w = Inr ()"
  by (simp_all add: osOpen_def faulty_def no_faults_def split: option.split)

lemma osAppend_ok:
  assumes "no_faults E" "content (files w) p = Some d"
  shows "value_of (osAppend E p c) w = Inr ()"
    and "after (osAppend E p c) w = w\<lparr>files := store p (d @ c) (files w)\<rparr>"
  using assms by (simp_all add: osAppend_def faulty_def no_faults_def)

lemma osCreate_ok:
  assumes "no_faults E" "no_links (files w)" "\<not> is_dir (files w) p"
  shows "value_of (osCreate E p) w = Inr ()"
    and "after (osCreate E p) w = w\<lparr>files := store p [] (files w)\<rparr>"
  using assms by (simp_all add: osCreate_def faulty_def no_faults_def resolve_no_links)

lemma osStat_ok:
  "after (osStat E p) w = w"
  "no_faults E \<Longrightarrow> content (files w) p = Some c \<Longrightarrow> value_of (osStat E p) w = Inr (Regular (length c))"
  by (simp_all add: osStat_def faulty_def no_faults_def split: option.split)

section \<open>A concrete environment\<close>

text \<open>
  An environment in which every hypothesis made of the parameters holds: no system call fails, a
  process prints nothing and exits with status 0 a nanosecond later, sleeping lets nobody write, and
  an encoding is the input itself. The witnesses change what they need.
\<close>

definition sample_env :: env where
  "sample_env =
     \<lparr>lo_contains = (\<lambda>xs x. x \<in> set xs),
      is_blank = (\<lambda>s. trim_space s = []),
      is_numeric = list_all is_digit,
      str_contains = contains,
      contains_ignore_case = (\<lambda>s t. contains (to_title s) (to_title t)),
      tmpDir = ''/tmp'', dirSize = 4096,
      sysFault = (\<lambda>_ _ _. None),
      runProc = (\<lambda>argv input w.
        \<lparr>procErr = None, procOut = [], procErrOut = [], procFiles = files w, procClock = clock w + 1\<rparr>),
      meanwhile = (\<lambda>d w. files w),
      killProc = (\<lambda>pid sig w. (None, files w)),
      marshal = (\<lambda>_. None),
      md5Sum = (\<lambda>s. replicate 16 (CHR 0x00)),
      encodeWith = (\<lambda>alg b. b), closeWith = (\<lambda>alg b. []), newCoder = (\<lambda>alg. None),
      decodeWith = (\<lambda>alg b. (b, None)),
      specCwd = (\<lambda>_. Inr (Some ''/app'')), specRoot = (\<lambda>_. Inr (Some ''/root'')), statePid = (\<lambda>_. Inr 1), stackDepth = 64,
      schedule = (\<lambda>_. []), stopTokens = (\<lambda>_. []), convOverflow = - (2 ^ 63),
      highLetter = (\<lambda>_. False), highDigit = (\<lambda>_. False)\<rparr>"

definition empty_world :: world where
  "empty_world = \<lparr>files = [], clock = 0, stdout = [], printLogs = False, additionalArguments = (\<lambda>_. None),
     recordingPIDs = NilChan\<rparr>"

lemma sample_env_lib:
  "lo_contains sample_env xs x = (x \<in> set xs)" "is_blank sample_env s = (trim_space s = [])"
  "is_numeric sample_env s = list_all is_digit s" "str_contains sample_env s t = contains s t"
  "lib_ok sample_env" "no_faults sample_env"
  by (simp_all add: sample_env_def lib_ok_def lo_contains_ok_def is_blank_ok_def str_contains_ok_def no_faults_def)

lemma sample_env_sel:
  "tmpDir sample_env = ''/tmp''" "sysFault sample_env op p w = None"
  "runProc sample_env argv input w =
     \<lparr>procErr = None, procOut = [], procErrOut = [], procFiles = files w, procClock = clock w + 1\<rparr>"
  "meanwhile sample_env d w = files w" "marshal sample_env e = None"
  "encodeWith sample_env alg b = b" "closeWith sample_env alg b = []" "newCoder sample_env alg = None"
  "decodeWith sample_env alg b = (b, None)" "schedule sample_env ps = []" "stopTokens sample_env w = []"
  "stackDepth sample_env = 64" "convOverflow sample_env = - (2 ^ 63)"
  by (simp_all add: sample_env_def)

end
