(* ===== verification/Logger.thy ===== *)
theory Logger
  imports World
begin

text \<open>
  pkg/util/log (log.go), the process wrapper internal/agent/util/exec (exec.go) and the file helpers
  pkg/util/file (file.go). The default logger's \<open>printLogs\<close> flag is the field of the world; the
  mutex of \<open>Logger\<close> only makes \<open>SetPrintLogs\<close> atomic.
\<close>

section \<open>pkg/util/log\<close>

definition setPrintLogs :: "bool \<Rightarrow> unit io" where
  "setPrintLogs b = State (\<lambda>w. ((), w\<lparr>printLogs := b\<rparr>))"

text \<open>\<open>PrintLogs\<close>; the logger starts with the flag unset, as \<open>empty_world\<close> does.\<close>

definition newLogger :: bool where
  "newLogger = False"

definition getPrintLogs :: "bool io" where
  "getPrintLogs = State (\<lambda>w. (printLogs w, w))"

definition isPrintLogsAllowed :: "world \<Rightarrow> EventType \<Rightarrow> bool" where
  "isPrintLogsAllowed w eventType = (if eventType \<noteq> Log then True else printLogs w)"

definition eventLn :: "env \<Rightarrow> EventType \<Rightarrow> EventData \<Rightarrow> error option io" where
  "eventLn E eventType data =
     (case marshal E data of
        Some e \<Rightarrow> State_Monad.return (Some e)
      | None \<Rightarrow> State (\<lambda>w.
          (None, if isPrintLogsAllowed w eventType
                 then w\<lparr>stdout := stdout w @ [Event eventType data]\<rparr> else w)))"

definition errorLn :: "env \<Rightarrow> error \<Rightarrow> unit io" where
  "errorLn E err = do { _ \<leftarrow> eventLn E Error (ErrorData (error_text err)); State_Monad.return () }"

definition printLogLn :: "env \<Rightarrow> LogLevel \<Rightarrow> string \<Rightarrow> unit io" where
  "printLogLn E level msg =
     (if is_not_blank E msg
      then do { t \<leftarrow> now; _ \<leftarrow> eventLn E Log (LogData t (level_string level) msg); State_Monad.return () }
      else State_Monad.return ())"

definition infoLogLn :: "env \<Rightarrow> string \<Rightarrow> unit io" where
  "infoLogLn E msg = printLogLn E InfoLevel msg"

definition debugLogLn :: "env \<Rightarrow> string \<Rightarrow> unit io" where
  "debugLogLn E msg = printLogLn E DebugLevel msg"

definition warningLogLn :: "env \<Rightarrow> string \<Rightarrow> unit io" where
  "warningLogLn E msg = printLogLn E WarnLevel msg"

definition errorLogLn :: "env \<Rightarrow> string \<Rightarrow> unit io" where
  "errorLogLn E msg = printLogLn E ErrorLevel msg"

lemma after_eventLn:
  "after (eventLn E t d) w =
     (if marshal E d = None \<and> isPrintLogsAllowed w t then w\<lparr>stdout := stdout w @ [Event t d]\<rparr> else w)"
  "value_of (eventLn E t d) w = marshal E d"
  by (auto simp: eventLn_def split: option.split)

lemma quiet_eventLn [quiet_rules]:
  "t \<notin> {Result, Progress} \<Longrightarrow> dataType d = t \<Longrightarrow> quiet (eventLn E t d)"
  by (auto simp: quiet_def after_eventLn)

lemma publishes_eventLn [publish_rules]: "publishes (eventLn E Result (ResultData r))"
  by (rule publishesI) (auto simp: after_eventLn isPrintLogsAllowed_def)

lemma quiet_setPrintLogs [quiet_rules]: "quiet (setPrintLogs b)"
  by (simp add: quiet_def setPrintLogs_def)

lemma quiet_printLogLn [quiet_rules]: "quiet (printLogLn E level msg)"
  unfolding printLogLn_def by (intro quiet_rules) simp_all

lemma quiet_logs [quiet_rules]:
  "quiet (infoLogLn E msg)" "quiet (debugLogLn E msg)" "quiet (warningLogLn E msg)"
  "quiet (errorLogLn E msg)" "quiet (errorLn E err)"
  unfolding infoLogLn_def debugLogLn_def warningLogLn_def errorLogLn_def errorLn_def
  by (intro quiet_rules; simp)+

text \<open>What logging leaves alone: everything but standard output.\<close>

lemma files_printLogLn [simp]:
  "files (after (printLogLn E level msg) w) = files w"
  "clock (after (printLogLn E level msg) w) = clock w"
  by (simp_all add: printLogLn_def after_eventLn now_def)

lemma files_logs [simp]:
  "files (after (debugLogLn E msg) w) = files w" "clock (after (debugLogLn E msg) w) = clock w"
  "files (after (infoLogLn E msg) w) = files w" "clock (after (infoLogLn E msg) w) = clock w"
  "files (after (warningLogLn E msg) w) = files w" "clock (after (warningLogLn E msg) w) = clock w"
  "files (after (errorLogLn E msg) w) = files w" "clock (after (errorLogLn E msg) w) = clock w"
  by (simp_all add: debugLogLn_def infoLogLn_def warningLogLn_def errorLogLn_def)

section \<open>internal/agent/util/exec\<close>

text \<open>
  \<open>Command\<close> builds the process to run; the logging commander (\<open>NewCommander\<close>) writes the command line
  as a debug line first, the silent one does not. The value is the argument vector.
\<close>

definition command :: "env \<Rightarrow> bool \<Rightarrow> string \<Rightarrow> string list \<Rightarrow> string list io" where
  "command E logCommand name args =
     do { (if logCommand
           then debugLogLn E (trim_space (concat (map (\<lambda>s. s @ '' '') (name # args))))
           else State_Monad.return ());
          State_Monad.return (name # args) }"

text \<open>\<open>Execute\<close>: exit code, combined output, error.\<close>

definition execute :: "env \<Rightarrow> string list \<Rightarrow> (int \<times> string \<times> error option) io" where
  "execute E argv =
     do { (err, out, errOut) \<leftarrow> runCmd E argv [];
          State_Monad.return
            (case err of Some (ExitError n) \<Rightarrow> n | Some (Signaled _) \<Rightarrow> -1 | _ \<Rightarrow> 0, out @ errOut, err) }"

text \<open>
  The two commanders of the package, which differ in the flag that \<open>command\<close> gets, and the functions of the
  package that use them.
\<close>

definition newCommander :: bool where
  "newCommander = True"

definition newSilentCommander :: bool where
  "newSilentCommander = False"

definition stdCommand :: "env \<Rightarrow> string \<Rightarrow> string list \<Rightarrow> string list io" where
  "stdCommand E name args = command E newCommander name args"

definition silentCommand :: "env \<Rightarrow> string \<Rightarrow> string list \<Rightarrow> string list io" where
  "silentCommand E name args = command E newSilentCommander name args"

definition stdExecute :: "env \<Rightarrow> string list \<Rightarrow> (int \<times> string \<times> error option) io" where
  "stdExecute E argv = execute E argv"

text \<open>A silent command prints nothing at all.\<close>

lemma silentCommand_pure: "silentCommand E name args = State_Monad.return (name # args)"
  by (simp add: silentCommand_def command_def newSilentCommander_def)

lemma quiet_command [quiet_rules]: "quiet (command E b name args)"
  unfolding command_def by (intro quiet_rules)

lemma value_command [simp]: "value_of (command E b name args) w = name # args"
  by (simp add: command_def)

lemma files_command [simp]:
  "files (after (command E b name args) w) = files w" "clock (after (command E b name args) w) = clock w"
  by (simp_all add: command_def)

section \<open>pkg/util/file\<close>

definition exists_file :: "env \<Rightarrow> string \<Rightarrow> bool io" where
  "exists_file E file =
     do { r \<leftarrow> osStat E file; State_Monad.return (case r of Inr _ \<Rightarrow> True | Inl _ \<Rightarrow> False) }"

definition list_files :: "string \<Rightarrow> string list io" where
  "list_files pattern = osGlob pattern"

definition first_file :: "string \<Rightarrow> string io" where
  "first_file pattern =
     do { matches \<leftarrow> list_files pattern;
          State_Monad.return (case matches of m # _ \<Rightarrow> m | [] \<Rightarrow> '''') }"

definition remove_file :: "env \<Rightarrow> string \<Rightarrow> error option io" where
  "remove_file E file =
     do { ex \<leftarrow> exists_file E file;
          if ex
          then do { debugLogLn E (''Trying to remove file: '' @ file);
                    r \<leftarrow> osRemove E file;
                    State_Monad.return (case r of Inl e \<Rightarrow> Some e | Inr _ \<Rightarrow> None) }
          else State_Monad.return None }"

fun remove_each :: "env \<Rightarrow> string list \<Rightarrow> unit io" where
  "remove_each E [] = State_Monad.return ()"
| "remove_each E (f # fs) =
     do { err \<leftarrow> remove_file E f;
          (case err of
             Some e \<Rightarrow> warningLogLn E (''file could no be removed: '' @ error_text e)
           | None \<Rightarrow> State_Monad.return ());
          remove_each E fs }"

definition remove_all_files :: "env \<Rightarrow> string \<Rightarrow> string \<Rightarrow> unit io" where
  "remove_all_files E dir pattern =
     do { fs \<leftarrow> list_files (path_join [dir, ''*'' @ pattern @ ''*'']);
          remove_each E fs }"

definition file_size :: "env \<Rightarrow> string \<Rightarrow> int io" where
  "file_size E file =
     do { r \<leftarrow> osStat E file;
          case r of
            Inl e \<Rightarrow> do { warningLogLn E (''file could no be obtained: '' @ error_text e);
                          State_Monad.return 0 }
          | Inr (Regular n) \<Rightarrow> State_Monad.return (int n)
          | Inr Directory \<Rightarrow> State_Monad.return (dirSize E) }"

definition is_empty_file :: "env \<Rightarrow> string \<Rightarrow> bool io" where
  "is_empty_file E file = do { n \<leftarrow> file_size E file; State_Monad.return (n = 0) }"

definition write_file :: "env \<Rightarrow> string \<Rightarrow> string \<Rightarrow> unit io" where
  "write_file E file txt =
     do { r \<leftarrow> osWriteFile E file txt;
          case r of
            Inl e \<Rightarrow> warningLogLn E (''file ['' @ file @ ''] could no be written: '' @ error_text e)
          | Inr _ \<Rightarrow> State_Monad.return () }"

definition read_file :: "env \<Rightarrow> string \<Rightarrow> string io" where
  "read_file E file =
     do { r \<leftarrow> osReadFile E file;
          case r of
            Inl e \<Rightarrow> do { warningLogLn E (''file ['' @ file @ ''] could no be read: '' @ error_text e);
                          State_Monad.return [] }
          | Inr c \<Rightarrow> State_Monad.return c }"

text \<open>
  \<open>Append\<close> opens the file, creating it when missing. When that fails the code goes on with the nil
  handle, whose \<open>WriteString\<close> and \<open>Close\<close> fail with \<open>invalid argument\<close>.
\<close>

definition append_file :: "env \<Rightarrow> string \<Rightarrow> string \<Rightarrow> unit io" where
  "append_file E file txt =
     do { w \<leftarrow> State_Monad.get;
          r \<leftarrow> (if content (files w) file = None then osCreate E file else osOpen E file);
          case r of
            Inl e \<Rightarrow>
              do { warningLogLn E (''file ['' @ file @ ''] could no be open to append content: '' @ error_text e);
                   warningLogLn E (''file ['' @ file @ ''] could no be written to append content: invalid argument'');
                   warningLogLn E (''file ['' @ file @ ''] could no be closed after append content: invalid argument'') }
          | Inr _ \<Rightarrow>
              do { r' \<leftarrow> osAppend E file txt;
                   case r' of
                     Inl e \<Rightarrow> warningLogLn E (''file ['' @ file @ ''] could no be written to append content: '' @ error_text e)
                   | Inr _ \<Rightarrow> State_Monad.return () } }"

definition hex_digit :: "nat \<Rightarrow> char" where
  "hex_digit n = (if n < 10 then char_of (48 + n) else char_of (87 + n))"

text \<open>\<open>hex.EncodeToString\<close>\<close>

definition hex_encode :: "string \<Rightarrow> string" where
  "hex_encode s = concat (map (\<lambda>c. [hex_digit (byte c div 16), hex_digit (byte c mod 16)]) s)"

definition checksum_file :: "env \<Rightarrow> string \<Rightarrow> string io" where
  "checksum_file E file =
     do { r \<leftarrow> osReadFile E file;
          case r of
            Inl e \<Rightarrow> do { warningLogLn E (''file ['' @ file @ ''] could no be read: '' @ error_text e);
                          State_Monad.return [] }
          | Inr c \<Rightarrow> State_Monad.return (hex_encode (md5Sum E c)) }"

fun merge_files :: "env \<Rightarrow> string \<Rightarrow> string list \<Rightarrow> unit io" where
  "merge_files E outputPath [] = State_Monad.return ()"
| "merge_files E outputPath (f # fs) =
     do { c \<leftarrow> read_file E f; append_file E outputPath c; merge_files E outputPath fs }"

definition copy_file :: "env \<Rightarrow> string \<Rightarrow> string \<Rightarrow> (error + nat) io" where
  "copy_file E src dst =
     attempt (osStat E src) (\<lambda>info.
       case info of
         Directory \<Rightarrow> State_Monad.return (Inl (Errorf (src @ '' is not a regular file'')))
       | Regular _ \<Rightarrow>
           attempt (osOpen E src) (\<lambda>_.
           attempt (osCreate E dst) (\<lambda>_.
           attempt (osRead E src) (\<lambda>c.
           attempt (osAppend E dst c) (\<lambda>_. State_Monad.return (Inr (length c)))))))"

definition move_file :: "env \<Rightarrow> string \<Rightarrow> string \<Rightarrow> (error + unit) io" where
  "move_file E src dst = osRename E src dst"

lemma quiet_file_read [quiet_rules]:
  "quiet (exists_file E f)" "quiet (list_files f)" "quiet (first_file f)" "quiet (remove_file E f)"
  unfolding exists_file_def list_files_def first_file_def remove_file_def
  by (intro quiet_rules)+

lemma quiet_remove_each [quiet_rules]: "quiet (remove_each E fs)"
  by (induction fs) (auto intro!: quiet_rules)

lemma quiet_case_fileInfo [quiet_rules]:
  "(\<And>n. quiet (a n)) \<Longrightarrow> quiet b \<Longrightarrow> quiet (case i of Regular n \<Rightarrow> a n | Directory \<Rightarrow> b)"
  by (simp split: fileInfo.split)

lemma quiet_file_write [quiet_rules]:
  "quiet (remove_all_files E d p)" "quiet (file_size E f)" "quiet (is_empty_file E f)"
  "quiet (write_file E f c)" "quiet (read_file E f)" "quiet (append_file E f c)"
  "quiet (checksum_file E f)" "quiet (copy_file E f g)" "quiet (move_file E f g)"
  unfolding remove_all_files_def file_size_def is_empty_file_def write_file_def read_file_def
    append_file_def checksum_file_def copy_file_def move_file_def
  by (intro quiet_rules)+

section \<open>Merging\<close>

lemma is_dir_store: "no_links fs \<Longrightarrow> is_dir (store p c fs) q \<longleftrightarrow> is_dir fs q \<or> beneath q p"
proof -
  assume nl: "no_links fs"
  have "list_ex (\<lambda>(r, _). beneath q r) (AList.update p n fs) \<longleftrightarrow> list_ex (\<lambda>(r, _). beneath q r) fs \<or> beneath q p" for n
    by (induction fs) auto
  then show ?thesis
    using nl by (simp add: is_dir_def store_def resolve_no_links no_links_update)
qed

lemma not_beneath_self: "\<not> beneath p p"
  by (auto simp: beneath_def prefix_def)

lemma append_file_ok:
  assumes "no_faults E" "no_links (files w)" "\<not> is_dir (files w) out"
  shows "\<exists>fs. files (after (append_file E out c) w) = fs \<and> no_links fs \<and> \<not> is_dir fs out \<and>
    content fs = (content (files w))(out \<mapsto> (case content (files w) out of Some d \<Rightarrow> d | None \<Rightarrow> []) @ c)"
proof (cases "content (files w) out")
  case None
  let ?w1 = "w\<lparr>files := store out [] (files w)\<rparr>"
  have created: "value_of (osCreate E out) w = Inr ()" "after (osCreate E out) w = ?w1"
    using osCreate_ok [OF assms] by simp_all
  have empty: "content (files ?w1) out = Some []"
    using assms(2) by (simp add: content_store_same)
  have "files (after (append_file E out c) w) = store out c (store out [] (files w))"
    using created osAppend_ok [OF assms(1) empty, of c] None
    by (simp add: append_file_def State_Monad.get_def)
  then show ?thesis
    using assms None by (simp add: content_store is_dir_store not_beneath_self)
next
  case (Some d)
  have "files (after (append_file E out c) w) = store out (d @ c) (files w)"
    using osAppend_ok [OF assms(1) Some, of c] osOpen_ok [where p = out and E = E and w = w] assms(1) Some
    by (simp add: append_file_def State_Monad.get_def)
  then show ?thesis
    using assms Some by (simp add: content_store is_dir_store not_beneath_self)
qed

lemma read_file_ok:
  assumes "no_faults E" "content (files w) f = Some c"
  shows "value_of (read_file E f) w = c" "after (read_file E f) w = w"
  using assms by (simp_all add: read_file_def osReadFile_def osOpen_ok osRead_ok)

lemma merge_files_content:
  assumes "no_faults E" "no_links (files w)" "\<not> is_dir (files w) out" "out \<notin> set fs" "fs \<noteq> []"
    and "map (content (files w)) fs = map Some pieces"
  shows "content (files (after (merge_files E out fs) w)) =
    (content (files w))(out \<mapsto> (case content (files w) out of Some d \<Rightarrow> d | None \<Rightarrow> []) @ concat pieces) \<and>
    no_links (files (after (merge_files E out fs) w))"
  using assms
proof (induction fs arbitrary: w pieces)
  case (Cons f fs)
  obtain c ps where p: "pieces = c # ps" "content (files w) f = Some c" "map (content (files w)) fs = map Some ps"
    using Cons.prems(6) by (cases pieces) auto
  let ?w = "after (append_file E out c) w"
  have aft: "after (merge_files E out (f # fs)) w = after (merge_files E out fs) ?w"
    using read_file_ok [OF Cons.prems(1) p(2)] by simp
  from append_file_ok [OF Cons.prems(1-3), of c] have inv: "no_links (files ?w)" "\<not> is_dir (files ?w) out"
    and cont: "content (files ?w) = (content (files w))(out \<mapsto> (case content (files w) out of Some d \<Rightarrow> d | None \<Rightarrow> []) @ c)"
    by blast+
  show ?case
  proof (cases "fs = []")
    case True
    then show ?thesis using aft cont p inv by simp
  next
    case False
    have "map (content (files ?w)) fs = map (content (files w)) fs"
      unfolding cont using Cons.prems(4) by (intro map_cong) auto
    then have "map (content (files ?w)) fs = map Some ps" using p(3) by simp
    from Cons.IH [OF Cons.prems(1) inv _ False this] Cons.prems(4) show ?thesis
      unfolding aft by (auto simp: cont p(1) fun_eq_iff)
  qed
qed simp

text \<open>C15. \<open>MergeFiles\<close> undoes a split: when the files listed hold the pieces of a content, in order, the output,
  which is none of them, holds afterwards what it held before followed by that content, and every other
  file is as it was.\<close>

theorem merge_files_restores:
  assumes "no_faults E" "no_links (files w)" "\<not> is_dir (files w) out" "out \<notin> set fs" "fs \<noteq> []"
    and "map (content (files w)) fs = map Some pieces" "concat pieces = b"
  shows "content (files (after (merge_files E out fs) w)) =
    (content (files w))(out \<mapsto> (case content (files w) out of Some d \<Rightarrow> d | None \<Rightarrow> []) @ b)"
  using merge_files_content [OF assms(1-6)] assms(7) by simp

theorem merge_files_restores_witness:
  "content (files (after (merge_files sample_env ''/o/all'' [''/o/x.aa'', ''/o/x.ab''])
       (empty_world\<lparr>files := [(''/o/x.aa'', File ''ab''), (''/o/x.ab'', File ''c'')]\<rparr>))) =
    (content [(''/o/x.aa'', File ''ab''), (''/o/x.ab'', File ''c'')])(''/o/all'' \<mapsto>
      (case content [(''/o/x.aa'', File ''ab''), (''/o/x.ab'', File ''c'')] ''/o/all'' of Some d \<Rightarrow> d | None \<Rightarrow> []) @ ''abc'')"
  using merge_files_restores [of sample_env "empty_world\<lparr>files := [(''/o/x.aa'', File ''ab''), (''/o/x.ab'', File ''c'')]\<rparr>"
      "''/o/all''" "[''/o/x.aa'', ''/o/x.ab'']" "[''ab'', ''c'']" "''abc''"]
  by (simp add: sample_env_lib no_links_def is_dir_def resolve_no_links beneath_def content_def)

section \<open>RemoveAll\<close>

lemma path_split_join: "path_split p = (d, f) \<Longrightarrow> d \<noteq> [] \<Longrightarrow> butlast d @ ''/'' @ f = p"
proof -
  assume "path_split p = (d, f)" "d \<noteq> []"
  then obtain i where i: "last_index p (CHR ''/'') = Some i" "d = take (Suc i) p" "f = drop (Suc i) p"
    by (auto simp: path_split_def split: option.splits)
  note last_index_Some [OF i(1)]
  then have "i < length p" "p ! i = CHR ''/''" by simp_all
  moreover from this(1) have "p = take i p @ p ! i # drop (Suc i) p" by (rule id_take_nth_drop)
  ultimately show ?thesis using i(2,3) by (simp add: take_Suc_conv_app_nth)
qed

lemma entry_of_no_links: "no_links fs \<Longrightarrow> entry_of fs p = p"
  using path_split_join [of p] by (auto simp: entry_of_def resolve_no_links Let_def split: prod.split)

lemma no_links_filter: "no_links fs \<Longrightarrow> no_links (filter P fs)"
  by (auto simp: no_links_def list_all_iff)

lemma content_no_links: "no_links fs \<Longrightarrow> content fs p = None \<longleftrightarrow> map_of fs p = None"
proof -
  assume nl: "no_links fs"
  then have "map_of fs p \<noteq> Some (Link t)" for t
    by (fastforce simp: no_links_def list_all_iff dest: map_of_SomeD)
  then show ?thesis using nl by (auto simp: content_def resolve_no_links split: option.split node.split)
qed

lemma in_files_content: "no_links fs \<Longrightarrow> (\<exists>x. (r, x) \<in> set fs) \<longleftrightarrow> content fs r \<noteq> None"
  using content_no_links [of fs r] by (metis weak_map_of_SomeI map_of_SomeD not_None_eq)

lemma is_dir_content:
  assumes "no_links fs"
  shows "is_dir fs p \<longleftrightarrow> (\<exists>q. beneath p q \<and> content fs q \<noteq> None)"
proof -
  have "is_dir fs p \<longleftrightarrow> (\<exists>q n. (q, n) \<in> set fs \<and> beneath p q)"
    by (auto simp: is_dir_def resolve_no_links [OF assms] list_ex_iff)
  then show ?thesis using in_files_content [OF assms] by blast
qed

lemma filter_absent: "map_of fs p = None \<Longrightarrow> filter (\<lambda>(r, _). r \<noteq> p) fs = fs"
  by (induction fs) (auto split: if_splits)

lemma files_remove_file:
  assumes "no_faults E" "no_links (files w)"
  shows "files (after (remove_file E f) w) = filter (\<lambda>(r, _). r \<noteq> f) (files w)"
proof -
  have ex: "value_of (exists_file E f) w = (content (files w) f \<noteq> None \<or> is_dir (files w) f)"
    "after (exists_file E f) w = w"
    using assms(1) by (auto simp: exists_file_def osStat_def faulty_def no_faults_def split: option.split)
  have rm: "files (after (osRemove E f) w') = filter (\<lambda>(r, _). r \<noteq> f) (files w)" if "files w' = files w" for w'
    using assms that filter_absent [of "files w" f]
    by (auto simp: osRemove_def faulty_def no_faults_def entry_of_no_links Let_def AList.delete_eq case_prod_unfold
        eq_commute [of f])
  show ?thesis
  proof (cases "value_of (exists_file E f) w")
    case True
    then show ?thesis using ex rm [OF files_logs(1)] by (simp add: remove_file_def split: sum.split)
  next
    case False
    then have "content (files w) f = None" using ex by simp
    then have "map_of (files w) f = None" using content_no_links [OF assms(2)] by simp
    with False ex show ?thesis by (simp add: remove_file_def filter_absent)
  qed
qed

lemma files_remove_each:
  "no_faults E \<Longrightarrow> no_links (files w) \<Longrightarrow>
     files (after (remove_each E ms) w) = filter (\<lambda>(r, _). r \<notin> set ms) (files w)"
proof (induction ms arbitrary: w)
  case (Cons m ms)
  let ?w = "after (remove_file E m) w"
  have fs: "files ?w = filter (\<lambda>(r, _). r \<noteq> m) (files w)"
    using files_remove_file [OF Cons.prems] .
  have logs: "files (after (case err of Some e \<Rightarrow> warningLogLn E (s e) | None \<Rightarrow> State_Monad.return ()) w') = files w'" for err s w'
    by (simp split: option.split)
  have nl: "no_links (files (after (case value_of (remove_file E m) w of
      Some e \<Rightarrow> warningLogLn E (''file could no be removed: '' @ error_text e) | None \<Rightarrow> State_Monad.return ()) ?w))"
    unfolding logs fs using Cons.prems(2) by (rule no_links_filter)
  from Cons.IH [OF Cons.prems(1) nl] show ?case
    unfolding logs fs by (simp add: conj_commute case_prod_unfold)
qed (simp add: case_prod_unfold)

lemma content_filter:
  "no_links fs \<Longrightarrow> content (filter (\<lambda>(r, _). P r) fs) p = (if P p then content fs p else None)"
proof -
  assume nl: "no_links fs"
  have "map_of (filter (\<lambda>(r, _). P r) fs) p = (if P p then map_of fs p else None)"
    by (induction fs) auto
  then show ?thesis
    using nl no_links_filter [OF nl] by (simp add: content_def resolve_no_links)
qed

lemma remove_all_files_content:
  assumes "no_faults E" "no_links (files w)"
  shows "content (files (after (remove_all_files E dir pat) w)) f =
     (if f \<in> set (glob (files w) (path_join [dir, ''*'' @ pat @ ''*''])) then None else content (files w) f)"
    and "no_links (files (after (remove_all_files E dir pat) w))"
  using assms
  by (simp_all add: remove_all_files_def list_files_def osGlob_def files_remove_each content_filter no_links_filter)

end
