(* ===== verification/Compressor.thy ===== *)
theory Compressor
  imports Logger
begin

text \<open>
  Package pkg/util/compressor: the compressor types (compressor\_types.go), \<open>Get\<close> (compressor.go) and
  the five compressors. The compression algorithms are parameters: \<open>encodeWith\<close> is what an encoder
  has written after its last write or \<open>Flush\<close>, \<open>closeWith\<close> what \<open>Close\<close> adds, \<open>newCoder\<close> the error of a
  constructor, \<open>decodeWith\<close> what a decoder writes and how it ends. \<open>codec_ok\<close> is the documented
  behaviour the code relies on: a complete encoding decodes to the input.

  A compressor reads its source file up to the end and appends to its destination file.
\<close>

section \<open>Types\<close>

datatype CompressorType = NoneType | Snappy | Gzip | Lzo | Zstd | OtherCompressor string

fun compressor_string :: "CompressorType \<Rightarrow> string" where
  "compressor_string NoneType = ''none''"
| "compressor_string Snappy = ''snappy''"
| "compressor_string Gzip = ''gzip''"
| "compressor_string Lzo = ''lzo''"
| "compressor_string Zstd = ''zstd''"
| "compressor_string (OtherCompressor s) = s"

definition compressor_of :: "string \<Rightarrow> CompressorType" where
  "compressor_of s =
     (case map_of (map (\<lambda>c. (compressor_string c, c)) [NoneType, Snappy, Gzip, Lzo, Zstd]) s of
        Some c \<Rightarrow> c | None \<Rightarrow> OtherCompressor s)"

definition availableCompressors :: "CompressorType list" where
  "availableCompressors = [NoneType, Snappy, Gzip, Lzo, Zstd]"

definition isSupportedCompressor :: "'a lib_scheme \<Rightarrow> string \<Rightarrow> bool" where
  "isSupportedCompressor L c = lo_contains L (map compressor_string availableCompressors) c"

fun getExtensionFileByCompressor :: "CompressorType \<Rightarrow> string" where
  "getExtensionFileByCompressor NoneType = ''''"
| "getExtensionFileByCompressor Snappy = ''.snappy''"
| "getExtensionFileByCompressor Gzip = ''.gz''"
| "getExtensionFileByCompressor Lzo = ''.lzo''"
| "getExtensionFileByCompressor Zstd = ''.zst''"
| "getExtensionFileByCompressor (OtherCompressor _) = ''''"

section \<open>The compressors\<close>

text \<open>\<open>None.go\<close>: both directions return at once.\<close>

definition noneEncode :: "env \<Rightarrow> string \<Rightarrow> string \<Rightarrow> error option io" where
  "noneEncode E dst src = State_Monad.return None"

definition noneDecode :: "env \<Rightarrow> string \<Rightarrow> string \<Rightarrow> error option io" where
  "noneDecode E dst src = State_Monad.return None"

text \<open>\<open>dst.Write(d)\<close>, keeping only its error.\<close>

definition writeTo :: "env \<Rightarrow> string \<Rightarrow> string \<Rightarrow> error option io" where
  "writeTo E dst d =
     do { r \<leftarrow> osAppend E dst d;
          State_Monad.return (case r of Inl e \<Rightarrow> Some e | Inr _ \<Rightarrow> None) }"

definition snappyEncode :: "env \<Rightarrow> string \<Rightarrow> string \<Rightarrow> error option io" where
  "snappyEncode E dst src =
     do { r \<leftarrow> osRead E src;
          case r of
            Inl e \<Rightarrow> State_Monad.return (Some e)
          | Inr b \<Rightarrow> guarded (writeTo E dst (encodeWith E ''snappy'' b)) id (State_Monad.return None) }"

definition lzoEncode :: "env \<Rightarrow> string \<Rightarrow> string \<Rightarrow> error option io" where
  "lzoEncode E dst src =
     do { r \<leftarrow> osRead E src;
          case r of
            Inl e \<Rightarrow> State_Monad.return (Some e)
          | Inr b \<Rightarrow> writeTo E dst (encodeWith E ''lzo'' b) }"

text \<open>
  The deferred \<open>Close\<close> writes the end of the stream and its error is dropped. A writer whose destination
  has failed keeps that error, and its \<open>Close\<close> then writes nothing.
\<close>

definition closing :: "env \<Rightarrow> string \<Rightarrow> string \<Rightarrow> error option io \<Rightarrow> error option io" where
  "closing E dst trailer body =
     guarded body id (do { _ \<leftarrow> writeTo E dst trailer; State_Monad.return None })"

text \<open>Where the source cannot be read the writer is sound, and \<open>Close\<close> completes an empty stream.\<close>

definition closingUnread :: "env \<Rightarrow> string \<Rightarrow> string \<Rightarrow> error \<Rightarrow> error option io" where
  "closingUnread E dst trailer e = do { _ \<leftarrow> writeTo E dst trailer; State_Monad.return (Some e) }"

definition gzipEncode :: "env \<Rightarrow> string \<Rightarrow> string \<Rightarrow> error option io" where
  "gzipEncode E dst src =
     do { r \<leftarrow> osRead E src;
          case r of
            Inl e \<Rightarrow> closingUnread E dst (closeWith E ''gzip'' []) e
          | Inr b \<Rightarrow> closing E dst (closeWith E ''gzip'' b) (writeTo E dst (encodeWith E ''gzip'' b)) }"

definition zstdEncode :: "env \<Rightarrow> string \<Rightarrow> string \<Rightarrow> error option io" where
  "zstdEncode E dst src =
     (case newCoder E ''zstd'' of
        Some e \<Rightarrow> State_Monad.return (Some e)
      | None \<Rightarrow>
          do { r \<leftarrow> osRead E src;
               case r of
                 Inl e \<Rightarrow> closingUnread E dst (closeWith E ''zstd'' []) e
               | Inr b \<Rightarrow> closing E dst (closeWith E ''zstd'' b) (writeTo E dst (encodeWith E ''zstd'' b)) })"

text \<open>
  The decoders that hold the whole output before they write it, and those that copy a stream and so
  have written what precedes an error.
\<close>

definition wholeDecode :: "string \<Rightarrow> env \<Rightarrow> string \<Rightarrow> string \<Rightarrow> error option io" where
  "wholeDecode alg E dst src =
     do { r \<leftarrow> osRead E src;
          case r of
            Inl e \<Rightarrow> State_Monad.return (Some e)
          | Inr b \<Rightarrow>
              (case decodeWith E alg b of
                 (_, Some e) \<Rightarrow> State_Monad.return (Some e)
               | (d, None) \<Rightarrow> guarded (writeTo E dst d) id (State_Monad.return None)) }"

definition streamDecode :: "string \<Rightarrow> env \<Rightarrow> string \<Rightarrow> string \<Rightarrow> error option io" where
  "streamDecode alg E dst src =
     do { r \<leftarrow> osRead E src;
          case r of
            Inl e \<Rightarrow> State_Monad.return (Some e)
          | Inr b \<Rightarrow>
              (let (d, err) = decodeWith E alg b
               in if d = [] then State_Monad.return err
                  else guarded (writeTo E dst d) id (State_Monad.return err)) }"

definition snappyDecode :: "env \<Rightarrow> string \<Rightarrow> string \<Rightarrow> error option io" where
  "snappyDecode = wholeDecode ''snappy''"

definition lzoDecode :: "env \<Rightarrow> string \<Rightarrow> string \<Rightarrow> error option io" where
  "lzoDecode = wholeDecode ''lzo''"

definition gzipDecode :: "env \<Rightarrow> string \<Rightarrow> string \<Rightarrow> error option io" where
  "gzipDecode = streamDecode ''gzip''"

definition zstdDecode :: "env \<Rightarrow> string \<Rightarrow> string \<Rightarrow> error option io" where
  "zstdDecode = streamDecode ''zstd''"

section \<open>compressor.Get\<close>

datatype Compressor = NoneCompressor | SnappyCompressor | GzipCompressor | LzoCompressor | ZstdCompressor

fun compressorGet :: "CompressorType \<Rightarrow> error + Compressor" where
  "compressorGet NoneType = Inr NoneCompressor"
| "compressorGet Snappy = Inr SnappyCompressor"
| "compressorGet Gzip = Inr GzipCompressor"
| "compressorGet Lzo = Inr LzoCompressor"
| "compressorGet Zstd = Inr ZstdCompressor"
| "compressorGet (OtherCompressor s) = Inl (Errorf (''could not find compressor for '' @ s))"

fun compEncode :: "Compressor \<Rightarrow> env \<Rightarrow> string \<Rightarrow> string \<Rightarrow> error option io" where
  "compEncode NoneCompressor = noneEncode"
| "compEncode SnappyCompressor = snappyEncode"
| "compEncode GzipCompressor = gzipEncode"
| "compEncode LzoCompressor = lzoEncode"
| "compEncode ZstdCompressor = zstdEncode"

fun compDecode :: "Compressor \<Rightarrow> env \<Rightarrow> string \<Rightarrow> string \<Rightarrow> error option io" where
  "compDecode NoneCompressor = noneDecode"
| "compDecode SnappyCompressor = snappyDecode"
| "compDecode GzipCompressor = gzipDecode"
| "compDecode LzoCompressor = lzoDecode"
| "compDecode ZstdCompressor = zstdDecode"

section \<open>The contract of a compressor\<close>

text \<open>
  The law of an encoder and a decoder that belong together: the encoder replaces the empty
  destination by a complete encoding of the source and touches nothing else; the decoder gives the
  source back. \<open>alg_ok\<close> is what is assumed of the algorithm.
\<close>

locale codec =
  fixes alg_ok :: "env \<Rightarrow> bool"
    and encoded :: "env \<Rightarrow> string \<Rightarrow> string"
    and enc :: "env \<Rightarrow> string \<Rightarrow> string \<Rightarrow> error option io"
    and dec :: "env \<Rightarrow> string \<Rightarrow> string \<Rightarrow> error option io"
  assumes encode_value:
    "\<lbrakk>alg_ok E; no_faults E; no_links (files w); src \<noteq> dst; content (files w) src = Some b;
      content (files w) dst = Some []\<rbrakk> \<Longrightarrow> value_of (enc E dst src) w = None"
    and encode_files:
    "\<lbrakk>alg_ok E; no_faults E; no_links (files w); src \<noteq> dst; content (files w) src = Some b;
      content (files w) dst = Some []\<rbrakk> \<Longrightarrow>
        no_links (files (after (enc E dst src) w)) \<and>
        content (files (after (enc E dst src) w)) = (content (files w))(dst \<mapsto> encoded E b)"
    and decode:
    "\<lbrakk>alg_ok E; no_faults E; no_links (files w); src \<noteq> dst;
      content (files w) src = Some (encoded E b); content (files w) dst = Some []\<rbrakk> \<Longrightarrow>
        value_of (dec E dst src) w = None \<and> content (files (after (dec E dst src) w)) dst = Some b"
begin

lemma roundtrip:
  assumes "alg_ok E" "no_faults E" "no_links (files w)" "distinct [src, dst, out]"
    and "content (files w) src = Some b" "content (files w) dst = Some []" "content (files w) out = Some []"
  shows "value_of (dec E out dst) (after (enc E dst src) w) = None"
    and "content (files (after (dec E out dst) (after (enc E dst src) w))) out = Some b"
proof -
  let ?w = "after (enc E dst src) w"
  have "no_links (files ?w)" "content (files ?w) = (content (files w))(dst \<mapsto> encoded E b)"
    using encode_files [OF assms(1-3) _ assms(5-6)] assms(4) by simp_all
  then show "value_of (dec E out dst) ?w = None"
    and "content (files (after (dec E out dst) ?w)) out = Some b"
    using decode [OF assms(1,2), of ?w dst out b] assms(4,7) by simp_all
qed

end

text \<open>What the code relies on from the algorithms.\<close>

definition fullEncoding :: "string \<Rightarrow> env \<Rightarrow> string \<Rightarrow> string" where
  "fullEncoding alg E b =
     encodeWith E alg b @ (if alg = ''gzip'' \<or> alg = ''zstd'' then closeWith E alg b else [])"

definition codec_ok :: "string \<Rightarrow> env \<Rightarrow> bool" where
  "codec_ok alg E \<longleftrightarrow> newCoder E alg = None \<and> (\<forall>b. decodeWith E alg (fullEncoding alg E b) = (b, None))"

lemma writeTo_ok:
  assumes "no_faults E" "content (files w) p = Some d"
  shows "value_of (writeTo E p c) w = None"
    and "after (writeTo E p c) w = w\<lparr>files := store p (d @ c) (files w)\<rparr>"
  using assms by (simp_all add: writeTo_def osAppend_ok)

lemma closing_ok:
  assumes "no_faults E" "no_links (files w)" "content (files w) dst = Some []"
  shows "value_of (closing E dst t (writeTo E dst c)) w = None"
    and "no_links (files (after (closing E dst t (writeTo E dst c)) w))"
    and "content (files (after (closing E dst t (writeTo E dst c)) w)) =
           (content (files w))(dst \<mapsto> c @ t)"
  using assms
  by (simp_all add: closing_def writeTo_ok [where d = "[]"] writeTo_ok [where d = c] content_store)

lemmas encode_simps = osRead_ok writeTo_ok [where d = "[]"] closing_ok content_store fullEncoding_def codec_ok_def

lemma wholeDecode_ok:
  assumes "codec_ok alg E" "no_faults E" "no_links (files w)" "src \<noteq> dst"
    "content (files w) src = Some (fullEncoding alg E b)" "content (files w) dst = Some []"
  shows "value_of (wholeDecode alg E dst src) w = None \<and>
    content (files (after (wholeDecode alg E dst src) w)) dst = Some b"
  using assms
  by (simp add: wholeDecode_def osRead_ok writeTo_ok [where d = "[]"] content_store codec_ok_def)

lemma streamDecode_ok:
  assumes "codec_ok alg E" "no_faults E" "no_links (files w)" "src \<noteq> dst"
    "content (files w) src = Some (fullEncoding alg E b)" "content (files w) dst = Some []"
  shows "value_of (streamDecode alg E dst src) w = None \<and>
    content (files (after (streamDecode alg E dst src) w)) dst = Some b"
  using assms
  by (simp add: streamDecode_def osRead_ok writeTo_ok [where d = "[]"] content_store codec_ok_def)

interpretation snappy: codec "codec_ok ''snappy''" "fullEncoding ''snappy''" snappyEncode snappyDecode
  by unfold_locales
    (simp_all add: snappyEncode_def snappyDecode_def encode_simps wholeDecode_ok [unfolded fullEncoding_def codec_ok_def])

interpretation lzo: codec "codec_ok ''lzo''" "fullEncoding ''lzo''" lzoEncode lzoDecode
  by unfold_locales
    (simp_all add: lzoEncode_def lzoDecode_def encode_simps wholeDecode_ok [unfolded fullEncoding_def codec_ok_def])

interpretation gzip: codec "codec_ok ''gzip''" "fullEncoding ''gzip''" gzipEncode gzipDecode
  by unfold_locales
    (simp_all add: gzipEncode_def gzipDecode_def encode_simps streamDecode_ok [unfolded fullEncoding_def codec_ok_def])

interpretation zstd: codec "codec_ok ''zstd''" "fullEncoding ''zstd''" zstdEncode zstdDecode
  by unfold_locales
    (simp_all add: zstdEncode_def zstdDecode_def encode_simps streamDecode_ok [unfolded fullEncoding_def codec_ok_def])

lemma quiet_writeTo [quiet_rules]: "quiet (writeTo E dst d)"
  unfolding writeTo_def by (intro quiet_rules)

lemma quiet_closing [quiet_rules]: "quiet body \<Longrightarrow> quiet (closing E dst t body)"
  "quiet (closingUnread E dst t e)"
  unfolding closing_def closingUnread_def by (intro quiet_rules; assumption?)+

lemma quiet_encode [quiet_rules]: "quiet (compEncode c E dst src)"
  by (cases c; simp add: noneEncode_def snappyEncode_def gzipEncode_def lzoEncode_def zstdEncode_def;
      intro quiet_rules)

text \<open>The contract of the compressor \<open>Get\<close> returns for any type but \<open>none\<close>.\<close>

lemma compressorGet_encode:
  assumes "compressorGet t = Inr c" "t \<noteq> NoneType" "codec_ok (compressor_string t) E"
    "no_faults E" "no_links (files w)" "src \<noteq> dst"
    "content (files w) src = Some b" "content (files w) dst = Some []"
  shows "value_of (compEncode c E dst src) w = None"
    and "no_links (files (after (compEncode c E dst src) w))"
    and "content (files (after (compEncode c E dst src) w)) =
           (content (files w))(dst \<mapsto> fullEncoding (compressor_string t) E b)"
  using assms
  by (cases t; use snappy.encode_value snappy.encode_files gzip.encode_value gzip.encode_files
      lzo.encode_value lzo.encode_files zstd.encode_value zstd.encode_files in force)+

text \<open>C8. For every compressor type that has an algorithm: compressing a file into an empty file and
  decompressing that into another empty file succeeds and gives back the original bytes.\<close>

theorem compress_roundtrip:
  assumes "compressorGet t = Inr c" "t \<noteq> NoneType" "codec_ok (compressor_string t) E"
    "no_faults E" "no_links (files w)" "distinct [src, dst, out]"
    "content (files w) src = Some b" "content (files w) dst = Some []" "content (files w) out = Some []"
  shows "value_of (compEncode c E dst src) w = None \<and>
    value_of (compDecode c E out dst) (after (compEncode c E dst src) w) = None \<and>
    content (files (after (compDecode c E out dst) (after (compEncode c E dst src) w))) out = Some b"
  using assms snappy.roundtrip [OF _ assms(4-9)] gzip.roundtrip [OF _ assms(4-9)]
    lzo.roundtrip [OF _ assms(4-9)] zstd.roundtrip [OF _ assms(4-9)] compressorGet_encode(1) [OF assms(1-5)]
  by (cases t) auto

theorem compress_roundtrip_witness:
  "let w = empty_world\<lparr>files := [(''/a'', File ''data''), (''/b'', File []), (''/c'', File [])]\<rparr>;
       w' = after (compEncode GzipCompressor sample_env ''/b'' ''/a'') w
   in value_of (compEncode GzipCompressor sample_env ''/b'' ''/a'') w = None \<and>
      value_of (compDecode GzipCompressor sample_env ''/c'' ''/b'') w' = None \<and>
      content (files (after (compDecode GzipCompressor sample_env ''/c'' ''/b'') w')) ''/c'' = Some ''data''"
  unfolding Let_def
  by (rule compress_roundtrip [of Gzip])
    (simp_all add: codec_ok_def fullEncoding_def sample_env_def no_faults_def no_links_def content_def
      resolve_no_links)

end
