(* ===== verification/Job.thy ===== *)
theory Job
  imports Compressor
begin

text \<open>
  internal/agent/job: the profiling job. The job is passed by pointer through the agent; its fields
  are set once by the profile action, except \<open>Iteration\<close>, which the action sets before each round and
  which is passed on with the record, and the map \<open>AdditionalArguments\<close>, a shared object some
  operations delete from, which lives in the \<open>world\<close>.
\<close>

definition flamegraphWidthInPixels :: string where
  "flamegraphWidthInPixels = ''flamegraph-width-in-pixels''"

record ProfilingJob =
  jobDuration :: int
  jobInterval :: int
  jobUID :: string
  jobContainerRuntime :: ContainerRuntime
  jobContainerRuntimePath :: string
  jobContainerID :: string
  jobPodUID :: string
  jobLanguage :: ProgrammingLanguage
  jobEvent :: ProfilingEvent
  jobCompressor :: CompressorType
  jobTool :: ProfilingTool
  jobOutputType :: OutputType
  jobFileName :: string
  jobHeapDumpSplitInChunkSize :: string
  jobPID :: string
  jobPgrep :: string
  jobNodeHeapSnapshotSignal :: int
  jobIteration :: int

definition getWidthAdditionalArgument :: "env \<Rightarrow> string io" where
  "getWidthAdditionalArgument E =
     do { w \<leftarrow> State_Monad.get;
          State_Monad.return
            (case additionalArguments w flamegraphWidthInPixels of
               Some width \<Rightarrow> if is_numeric E width then width else ''''
             | None \<Rightarrow> '''') }"

definition deleteWidthAdditionalArgument :: "unit io" where
  "deleteWidthAdditionalArgument =
     State (\<lambda>w. ((), w\<lparr>additionalArguments := (additionalArguments w)(flamegraphWidthInPixels := None)\<rparr>))"

definition getWidthAdditionalArgumentAndDelete :: "env \<Rightarrow> string io" where
  "getWidthAdditionalArgumentAndDelete E =
     do { width \<leftarrow> getWidthAdditionalArgument E; deleteWidthAdditionalArgument; State_Monad.return width }"

text \<open>
  \<open>String\<close> and \<open>ToMap\<close>. The JSON library is their argument: what it marshals a job with its additional
  arguments to, and what it unmarshals into an empty map, which may be partly filled when it fails. Both
  errors are dropped.
\<close>

definition jobString :: "(ProfilingJob \<Rightarrow> (string \<rightharpoonup> string) \<Rightarrow> error + string) \<Rightarrow> ProfilingJob \<Rightarrow> string io" where
  "jobString marshalJob j =
     do { w \<leftarrow> State_Monad.get;
          State_Monad.return (case marshalJob j (additionalArguments w) of Inr out \<Rightarrow> out | Inl _ \<Rightarrow> []) }"

definition jobToMap ::
  "(ProfilingJob \<Rightarrow> (string \<rightharpoonup> string) \<Rightarrow> error + string) \<Rightarrow> (string \<Rightarrow> (string \<rightharpoonup> 'v) \<times> error option) \<Rightarrow>
    ProfilingJob \<Rightarrow> (string \<rightharpoonup> 'v) io" where
  "jobToMap marshalJob unmarshalMap j =
     do { bytes \<leftarrow> jobString marshalJob j; State_Monad.return (fst (unmarshalMap bytes)) }"

lemma quiet_width [quiet_rules]:
  "quiet (getWidthAdditionalArgument E)" "quiet deleteWidthAdditionalArgument"
  "quiet (getWidthAdditionalArgumentAndDelete E)"
proof -
  show d: "quiet deleteWidthAdditionalArgument"
    by (simp add: quiet_def deleteWidthAdditionalArgument_def)
  show g: "quiet (getWidthAdditionalArgument E)"
    unfolding getWidthAdditionalArgument_def by (intro quiet_rules)
  show "quiet (getWidthAdditionalArgumentAndDelete E)"
    unfolding getWidthAdditionalArgumentAndDelete_def by (intro quiet_rules d g)
qed

text \<open>A numeric width is handed out once: the argument is gone afterwards, the others stay.\<close>

lemma width_value:
  "value_of (getWidthAdditionalArgumentAndDelete E) w =
     (case additionalArguments w flamegraphWidthInPixels of
        Some width \<Rightarrow> if is_numeric E width then width else '''' | None \<Rightarrow> '''')"
  "after (getWidthAdditionalArgumentAndDelete E) w =
     w\<lparr>additionalArguments := (additionalArguments w)(flamegraphWidthInPixels := None)\<rparr>"
  by (simp_all add: getWidthAdditionalArgumentAndDelete_def getWidthAdditionalArgument_def
      deleteWidthAdditionalArgument_def State_Monad.get_def value_of_def after_def)

text \<open>A job for the witnesses.\<close>

definition sample_job :: ProfilingJob where
  "sample_job =
     \<lparr>jobDuration = 60 * 10 ^ 9, jobInterval = 30 * 10 ^ 9, jobUID = ''u'',
      jobContainerRuntime = Containerd, jobContainerRuntimePath = ''/run/containerd'',
      jobContainerID = ''abc'', jobPodUID = ''p'', jobLanguage = Python, jobEvent = Cpu,
      jobCompressor = Gzip, jobTool = Pyspy, jobOutputType = FlameGraph, jobFileName = '''',
      jobHeapDumpSplitInChunkSize = '''', jobPID = '''', jobPgrep = '''',
      jobNodeHeapSnapshotSignal = 12, jobIteration = 1\<rparr>"

end
