(* ===== verification/Runtime.thy ===== *)
theory Runtime
  imports Job
begin

text \<open>
  internal/agent/util/runtime: where a container's root file system, root PID and working directory
  are found, for containerd, CRI-O and the fake runtime, and the choice of the runtime
  (internal/agent/util/container.go). Reading the OCI runtime spec and state from JSON is the
  parameters \<open>specCwd\<close>, \<open>specRoot\<close> and \<open>statePid\<close>; the spec's \<open>Process\<close> and \<open>Root\<close> are pointers, and
  \<open>None\<close> is the nil pointer the code dereferences.
\<close>

definition containerIDMandatoryError :: error where
  "containerIDMandatoryError = Errorf ''container ID is mandatory''"

definition containerRuntimePathError :: error where
  "containerRuntimePathError = Errorf ''container runtime path is mandatory''"

text \<open>The two guards every operation of containerd and CRI-O starts with.\<close>

definition with_container :: "env \<Rightarrow> string \<Rightarrow> string \<Rightarrow> (error + string) io \<Rightarrow> (error + string) io" where
  "with_container E cid path k =
     (if is_blank E cid then State_Monad.return (Inl containerIDMandatoryError)
      else if is_blank E path then State_Monad.return (Inl containerRuntimePathError)
      else k)"

section \<open>Reading and unmarshalling a file\<close>

definition readJson :: "env \<Rightarrow> string \<Rightarrow> (string \<Rightarrow> error + 'a) \<Rightarrow> (error + 'a) io" where
  "readJson E file unmarshal =
     do { r \<leftarrow> osReadFile E file;
          State_Monad.return
            (case r of
               Inl e \<Rightarrow> Inl (Wrap (''read file failed: '' @ file) e)
             | Inr c \<Rightarrow>
                 (case unmarshal c of
                    Inl e \<Rightarrow> Inl (Wrap (''unmarshal file failed: '' @ file) e)
                  | Inr v \<Rightarrow> Inr v)) }"

text \<open>\<open>spec.Process.Cwd\<close>, \<open>spec.Root.Path\<close>\<close>

definition deref :: "(error + string option) io \<Rightarrow> (error + string) io" where
  "deref m =
     attempt m (\<lambda>p. State_Monad.return (case p of Some v \<Rightarrow> Inr v | None \<Rightarrow> Inl nil_dereference))"

section \<open>containerd\<close>

definition taskDir :: "string \<Rightarrow> string \<Rightarrow> string" where
  "taskDir cid path = path @ ''/io.containerd.runtime.v2.task/k8s.io/'' @ cid"

definition pidFile :: "string \<Rightarrow> string \<Rightarrow> string" where
  "pidFile cid path = taskDir cid path @ ''/init.pid''"

definition pidContainerIDFile :: "string \<Rightarrow> string \<Rightarrow> string" where
  "pidContainerIDFile cid path = taskDir cid path @ ''/'' @ cid @ ''.pid''"

definition rootFS :: "string \<Rightarrow> string \<Rightarrow> string" where
  "rootFS cid path = taskDir cid path @ ''/rootfs''"

definition configFile :: "string \<Rightarrow> string \<Rightarrow> string" where
  "configFile cid path = taskDir cid path @ ''/config.json''"

definition containerdRootFileSystemLocation :: "env \<Rightarrow> string \<Rightarrow> string \<Rightarrow> (error + string) io" where
  "containerdRootFileSystemLocation E cid path =
     with_container E cid path (State_Monad.return (Inr (rootFS cid path)))"

definition missing :: "error + fileInfo \<Rightarrow> bool" where
  "missing r = (case r of Inl e \<Rightarrow> is_not_exist e | Inr _ \<Rightarrow> False)"

definition containerdPID :: "env \<Rightarrow> string \<Rightarrow> string \<Rightarrow> (error + string) io" where
  "containerdPID E cid path =
     with_container E cid path
       (do { st \<leftarrow> osStat E (pidFile cid path);
             if missing st
             then do { st' \<leftarrow> osStat E (pidContainerIDFile cid path);
                       if missing st'
                       then State_Monad.return
                         (Inl (Wrap (''pid file not found: '' @ pidContainerIDFile cid path) (projl st')))
                       else readJson E (pidContainerIDFile cid path) Inr }
             else readJson E (pidFile cid path) Inr })"

definition containerdCWD :: "env \<Rightarrow> string \<Rightarrow> string \<Rightarrow> (error + string) io" where
  "containerdCWD E cid path =
     with_container E cid path (deref (readJson E (configFile cid path) (specCwd E)))"

section \<open>CRI-O\<close>

definition crioConfigFile :: "string \<Rightarrow> string \<Rightarrow> string" where
  "crioConfigFile cid path = path @ ''/overlay-containers/'' @ cid @ ''/userdata/config.json''"

definition crioStateFile :: "string \<Rightarrow> string \<Rightarrow> string" where
  "crioStateFile cid path = path @ ''/overlay-containers/'' @ cid @ ''/userdata/state.json''"

definition crioRootFileSystemLocation :: "env \<Rightarrow> string \<Rightarrow> string \<Rightarrow> (error + string) io" where
  "crioRootFileSystemLocation E cid path =
     with_container E cid path (deref (readJson E (crioConfigFile cid path) (specRoot E)))"

definition crioPID :: "env \<Rightarrow> string \<Rightarrow> string \<Rightarrow> (error + string) io" where
  "crioPID E cid path =
     with_container E cid path
       (attempt (readJson E (crioStateFile cid path) (statePid E))
          (\<lambda>p. State_Monad.return (Inr (itoa p))))"

definition crioCWD :: "env \<Rightarrow> string \<Rightarrow> string \<Rightarrow> (error + string) io" where
  "crioCWD E cid path =
     with_container E cid path (deref (readJson E (crioConfigFile cid path) (specCwd E)))"

section \<open>The fake runtime\<close>

record RuntimeFake =
  rootFileSystemLocationResultError :: bool
  pidResultError :: bool
  cwdResultError :: bool

definition newRuntimeFake :: RuntimeFake where
  "newRuntimeFake =
     \<lparr>rootFileSystemLocationResultError = False, pidResultError = False, cwdResultError = False\<rparr>"

definition withRootFileSystemLocationResultError :: "RuntimeFake \<Rightarrow> RuntimeFake" where
  "withRootFileSystemLocationResultError r = r\<lparr>rootFileSystemLocationResultError := True\<rparr>"

definition withPIDResultError :: "RuntimeFake \<Rightarrow> RuntimeFake" where
  "withPIDResultError r = r\<lparr>pidResultError := True\<rparr>"

definition withCWDResultError :: "RuntimeFake \<Rightarrow> RuntimeFake" where
  "withCWDResultError r = r\<lparr>cwdResultError := True\<rparr>"

definition fakeRootFileSystemLocation :: "RuntimeFake \<Rightarrow> env \<Rightarrow> string \<Rightarrow> string \<Rightarrow> (error + string) io" where
  "fakeRootFileSystemLocation r E cid path =
     State_Monad.return
       (if rootFileSystemLocationResultError r
        then Inl (Errorf ''fake RootFileSystemLocation with error'') else Inr (''/root/fs/'' @ cid))"

definition fakePID :: "RuntimeFake \<Rightarrow> env \<Rightarrow> string \<Rightarrow> string \<Rightarrow> (error + string) io" where
  "fakePID r E cid path =
     State_Monad.return
       (if pidResultError r then Inl (Errorf ''fake PID with error'') else Inr (''PID_'' @ cid))"

definition fakeCWD :: "RuntimeFake \<Rightarrow> env \<Rightarrow> string \<Rightarrow> string \<Rightarrow> (error + string) io" where
  "fakeCWD r E cid path =
     State_Monad.return
       (if cwdResultError r then Inl (Errorf ''fake CWD with error'') else Inr ''/cwd'')"

section \<open>The runtime of a job\<close>

datatype Container = CrioRuntime | ContainerdRuntime | FakeRuntime RuntimeFake

fun containerRootFileSystemLocation :: "Container \<Rightarrow> env \<Rightarrow> string \<Rightarrow> string \<Rightarrow> (error + string) io" where
  "containerRootFileSystemLocation CrioRuntime = crioRootFileSystemLocation"
| "containerRootFileSystemLocation ContainerdRuntime = containerdRootFileSystemLocation"
| "containerRootFileSystemLocation (FakeRuntime r) = fakeRootFileSystemLocation r"

fun containerPID :: "Container \<Rightarrow> env \<Rightarrow> string \<Rightarrow> string \<Rightarrow> (error + string) io" where
  "containerPID CrioRuntime = crioPID"
| "containerPID ContainerdRuntime = containerdPID"
| "containerPID (FakeRuntime r) = fakePID r"

fun containerCWD :: "Container \<Rightarrow> env \<Rightarrow> string \<Rightarrow> string \<Rightarrow> (error + string) io" where
  "containerCWD CrioRuntime = crioCWD"
| "containerCWD ContainerdRuntime = containerdCWD"
| "containerCWD (FakeRuntime r) = fakeCWD r"

definition runtime :: "ContainerRuntime \<Rightarrow> error + Container" where
  "runtime r =
     (if runtime_string r = '''' then Inl (Errorf ''container runtime is are mandatory'')
      else case r of
        Crio \<Rightarrow> Inr CrioRuntime
      | Containerd \<Rightarrow> Inr ContainerdRuntime
      | FakeContainer \<Rightarrow> Inr (FakeRuntime newRuntimeFake)
      | FakeContainerWithRootFileSystemLocationResultError \<Rightarrow>
          Inr (FakeRuntime (newRuntimeFake\<lparr>rootFileSystemLocationResultError := True\<rparr>))
      | FakeContainerWithPIDResultError \<Rightarrow> Inr (FakeRuntime (newRuntimeFake\<lparr>pidResultError := True\<rparr>))
      | FakeContainerWithCWDResultError \<Rightarrow> Inr (FakeRuntime (newRuntimeFake\<lparr>cwdResultError := True\<rparr>))
      | OtherRuntime s \<Rightarrow> Inl (Errorf (''unsupported container runtime: '' @ s)))"

section \<open>The contract of a runtime\<close>

text \<open>A runtime only looks: it changes nothing the agent can see.\<close>

locale container_interface =
  fixes root_of pid_of cwd_of :: "env \<Rightarrow> string \<Rightarrow> string \<Rightarrow> (error + string) io"
  assumes root_reads: "after (root_of E cid path) w = w"
    and pid_reads: "after (pid_of E cid path) w = w"
    and cwd_reads: "after (cwd_of E cid path) w = w"
begin

lemma reads: "after (root_of E cid path) (after (pid_of E cid path) (after (cwd_of E cid path) w)) = w"
  by (simp add: root_reads pid_reads cwd_reads)

end

text \<open>The runtimes of a real node also refuse a blank container ID or path.\<close>

locale node_interface = container_interface +
  assumes blank_refused:
    "is_blank E cid \<or> is_blank E path \<Longrightarrow>
       value_of (root_of E cid path) w \<in> range Inl \<and> value_of (pid_of E cid path) w \<in> range Inl \<and>
       value_of (cwd_of E cid path) w \<in> range Inl"
begin

lemma pid_needs_id: "value_of (pid_of E cid path) w = Inr p \<Longrightarrow> is_not_blank E cid \<and> is_not_blank E path"
  using blank_refused [of E cid path w] by (auto simp: is_not_blank_def)

end

lemma after_with_container: "after k w = w \<Longrightarrow> after (with_container E cid path k) w = w"
  by (simp add: with_container_def)

lemma value_with_container_blank:
  "is_blank E cid \<or> is_blank E path \<Longrightarrow> value_of (with_container E cid path k) w \<in> range Inl"
  by (auto simp: with_container_def)

lemma after_osReadFile: "after (osReadFile E p) w = w"
  by (simp add: osReadFile_def osOpen_ok osRead_ok split: sum.split)

lemma after_readJson: "after (readJson E p u) w = w"
  by (simp add: readJson_def after_osReadFile)

lemma after_deref: "after m w = w \<Longrightarrow> after (deref m) w = w"
  by (simp add: deref_def split: sum.split)

lemmas containerd_defs = containerdRootFileSystemLocation_def containerdPID_def containerdCWD_def
lemmas crio_defs = crioRootFileSystemLocation_def crioPID_def crioCWD_def
lemmas fake_defs = fakeRootFileSystemLocation_def fakePID_def fakeCWD_def

interpretation containerd: node_interface
  containerdRootFileSystemLocation containerdPID containerdCWD
  by unfold_locales
    (auto simp: containerd_defs value_with_container_blank after_readJson after_deref osStat_ok
      intro!: after_with_container)

interpretation crio: node_interface crioRootFileSystemLocation crioPID crioCWD
  by unfold_locales
    (auto simp: crio_defs value_with_container_blank after_readJson after_deref
      intro!: after_with_container split: sum.split)

interpretation fake: container_interface
  "fakeRootFileSystemLocation r" "fakePID r" "fakeCWD r"
  by unfold_locales (simp_all add: fake_defs)

lemma container_reads [simp]:
  "after (containerRootFileSystemLocation c E cid path) w = w"
  "after (containerPID c E cid path) w = w" "after (containerCWD c E cid path) w = w"
  by (cases c; simp add: containerd.root_reads containerd.pid_reads containerd.cwd_reads
      crio.root_reads crio.pid_reads crio.cwd_reads fake.root_reads fake.pid_reads fake.cwd_reads)+

end
