(* ===== verification/Container.thy ===== *)
theory Container
  imports Runtime
begin

text \<open>
  internal/agent/util/container.go: the root file system, root PID and working directory of the job's
  container, and the PIDs to profile: the leaves of the container's process tree as \<open>pgrep\<close> shows
  them, filtered by the job's pattern. Go's recursion over the process tree is bounded by the stack
  only; \<open>stackDepth\<close> is that bound and running out of it the fatal error of the run-time.
\<close>

fun normalizeContainerID :: "string \<Rightarrow> string" where
  "normalizeContainerID [] = []"
| "normalizeContainerID (c # s) =
     (if prefix ''cri-o://'' (c # s) then normalizeContainerID (drop 7 s)
      else if prefix ''containerd://'' (c # s) then normalizeContainerID (drop 12 s)
      else c # normalizeContainerID s)"

definition containerRuntimeAndContainerIdMandatory :: error where
  "containerRuntimeAndContainerIdMandatory = Errorf ''container runtime and container ID are mandatory''"

definition containerFileSystem :: "env \<Rightarrow> ContainerRuntime \<Rightarrow> string \<Rightarrow> string \<Rightarrow> (error + string) io" where
  "containerFileSystem E r cid path =
     (if runtime_string r = '''' \<or> cid = ''''
      then State_Monad.return (Inl containerRuntimeAndContainerIdMandatory)
      else case runtime r of
             Inl e \<Rightarrow> State_Monad.return (Inl e)
           | Inr c \<Rightarrow> containerRootFileSystemLocation c E cid path)"

definition getRootPID :: "env \<Rightarrow> ProfilingJob \<Rightarrow> (error + string) io" where
  "getRootPID E job =
     (if runtime_string (jobContainerRuntime job) = '''' \<or> jobContainerID job = ''''
      then State_Monad.return (Inl containerRuntimeAndContainerIdMandatory)
      else case runtime (jobContainerRuntime job) of
             Inl e \<Rightarrow> State_Monad.return (Inl e)
           | Inr c \<Rightarrow> containerPID c E (jobContainerID job) (jobContainerRuntimePath job))"

definition getCWD :: "env \<Rightarrow> ProfilingJob \<Rightarrow> (error + string) io" where
  "getCWD E job =
     (if runtime_string (jobContainerRuntime job) = '''' \<or> jobContainerID job = ''''
      then State_Monad.return (Inl containerRuntimeAndContainerIdMandatory)
      else case runtime (jobContainerRuntime job) of
             Inl e \<Rightarrow> State_Monad.return (Inl e)
           | Inr c \<Rightarrow> containerCWD c E (jobContainerID job) (jobContainerRuntimePath job))"

section \<open>The process tree\<close>

definition childPID :: "env \<Rightarrow> string \<Rightarrow> string io" where
  "childPID E p =
     do { cmd \<leftarrow> command E True ''pgrep'' [''-P'', p];
          (err, out, _) \<leftarrow> runCmd E cmd [];
          let output = trim_space out;
          State_Monad.return (if err = None \<and> is_not_blank E output then output else '''') }"

text \<open>The \<open>%v\<close> of a slice of strings\<close>

definition show_slice :: "string list \<Rightarrow> string" where
  "show_slice ss = ''['' @ join_with '' '' ss @ '']''"

text \<open>A loop that runs \<open>f\<close> on every element and stops at the first error.\<close>

fun each :: "('a \<Rightarrow> 'b \<Rightarrow> (error + 'b) io) \<Rightarrow> 'a list \<Rightarrow> 'b \<Rightarrow> (error + 'b) io" where
  "each f [] acc = State_Monad.return (Inr acc)"
| "each f (x # xs) acc = attempt (f x acc) (each f xs)"

definition stack_overflow :: error where
  "stack_overflow = Panic ''stack overflow''"

primrec fillWithChildrenPIDs :: "nat \<Rightarrow> env \<Rightarrow> string \<Rightarrow> string list \<Rightarrow> (error + string list) io" where
  "fillWithChildrenPIDs 0 E p acc = State_Monad.return (Inl stack_overflow)"
| "fillWithChildrenPIDs (Suc n) E p acc =
     do { child \<leftarrow> childPID E p;
          if is_not_blank E child
          then (let pids = split_on (CHR 10) child in
                if 1 < length pids
                then do { debugLogLn E
                            (''Detected more than one child process '' @ show_slice pids @ '' for PID: '' @ p);
                          each (fillWithChildrenPIDs n E) pids acc }
                else fillWithChildrenPIDs n E child acc)
          else State_Monad.return (Inr (acc @ [p])) }"

definition psCommand :: string where
  "psCommand = ''/app/get-ps-command.sh''"

text \<open>The loop of \<open>filterPIDsToProfile\<close>; \<open>errText\<close> is the buffer for standard error, which is never reset.\<close>

fun filterLoop :: "env \<Rightarrow> string \<Rightarrow> string list \<Rightarrow> string list \<Rightarrow> string \<Rightarrow> (error + string list) io" where
  "filterLoop E pat [] filtered errText = State_Monad.return (Inr filtered)"
| "filterLoop E pat (p # ps) filtered errText =
     do { cmd \<leftarrow> command E True psCommand [p];
          (err, out, errOut) \<leftarrow> runCmd E cmd [];
          let errText' = errText @ errOut;
          let output = trim_space out;
          case err of
            Some e \<Rightarrow> State_Monad.return (Inl (Wrap (''ps command failed with error: '' @ errText') e))
          | None \<Rightarrow>
              do { debugLogLn E (''ps command output: '' @ output);
                   filterLoop E pat ps
                     (if contains_ignore_case E output pat then filtered @ [p] else filtered) errText' } }"

definition filterPIDsToProfile :: "env \<Rightarrow> string list \<Rightarrow> string \<Rightarrow> (error + string list) io" where
  "filterPIDsToProfile E pids pat =
     (if is_blank E pat then State_Monad.return (Inr pids) else filterLoop E pat pids [] [])"

definition getCandidatePIDs :: "env \<Rightarrow> ProfilingJob \<Rightarrow> (error + string list) io" where
  "getCandidatePIDs E job =
     (if runtime_string (jobContainerRuntime job) = '''' \<or> jobContainerID job = ''''
      then State_Monad.return (Inl containerRuntimeAndContainerIdMandatory)
      else case runtime (jobContainerRuntime job) of
        Inl e \<Rightarrow> State_Monad.return (Inl e)
      | Inr c \<Rightarrow>
          attempt (containerPID c E (jobContainerID job) (jobContainerRuntimePath job)) (\<lambda>p.
          attempt (fillWithChildrenPIDs (stackDepth E) E p []) (\<lambda>pids.
          if length pids = 0
          then State_Monad.return (Inl (Errorf (''no PIDs found for container ID: '' @ jobContainerID job)))
          else
          attempt (filterPIDsToProfile E pids (jobPgrep job)) (\<lambda>pids.
          do { (if 1 < length pids
                then do { t \<leftarrow> now;
                          _ \<leftarrow> eventLn E Notice (NoticeData t
                            (''Detected more than one PID to profile: '' @ show_slice pids @ ''. '' @
                             ''It will be attempt to profile all of them. '' @
                             ''Use the --pid flag specifying the corresponding PID if you only want to profile one of them.''));
                          State_Monad.return () }
                else State_Monad.return ());
               State_Monad.return (Inr pids) }))))"

definition getFirstCandidatePID :: "env \<Rightarrow> string \<Rightarrow> string io" where
  "getFirstCandidatePID E rootPID =
     do { child \<leftarrow> childPID E rootPID;
          State_Monad.return
            (if is_blank E child then rootPID
             else (case split_on (CHR 10) child of [p] \<Rightarrow> trim_space p | _ \<Rightarrow> rootPID)) }"

section \<open>No result is published here\<close>

lemma quiet_childPID [quiet_rules]: "quiet (childPID E p)"
  unfolding childPID_def by (intro quiet_rules)

lemma quiet_each [quiet_rules]: "(\<And>x acc. quiet (f x acc)) \<Longrightarrow> quiet (each f xs acc)"
  by (induction xs arbitrary: acc) (auto intro!: quiet_rules)

lemma quiet_fill [quiet_rules]: "quiet (fillWithChildrenPIDs n E p acc)"
  by (induction n arbitrary: p acc) (auto simp: Let_def intro!: quiet_rules)

lemma quiet_filterLoop [quiet_rules]: "quiet (filterLoop E pat ps filtered errText)"
  by (induction ps arbitrary: filtered errText) (auto simp: Let_def intro!: quiet_rules)

lemma quiet_container [quiet_rules]: "quiet (containerPID c E cid path)" "quiet (containerCWD c E cid path)"
  "quiet (containerRootFileSystemLocation c E cid path)"
  by (simp_all add: quiet_def)

lemma quiet_case_ContainerSum [quiet_rules]:
  "quiet (containerFileSystem E r cid path)" "quiet (getRootPID E job)" "quiet (getCWD E job)"
  unfolding containerFileSystem_def getRootPID_def getCWD_def by (intro quiet_rules)+

lemma quiet_getCandidatePIDs [quiet_rules]: "quiet (getCandidatePIDs E job)"
  unfolding getCandidatePIDs_def filterPIDsToProfile_def
  by (intro quiet_rules; simp)

lemma quiet_getFirstCandidatePID [quiet_rules]: "quiet (getFirstCandidatePID E p)"
  unfolding getFirstCandidatePID_def by (intro quiet_rules)

end
