(* ===== verification/ProfilePids.thy ===== *)
theory ProfilePids
  imports Container
begin

text \<open>
  internal/agent/profiler/common/pids.go: \<open>ProfilePIDs\<close> runs a body once for every PID, concurrently.

  The run is a sequence of scheduler steps: the main goroutine starts the next body (after the delay),
  or a body that was started and has not ended runs. A body is one atomic step at the moment it ends;
  which body ends when, and between which starts, is the parameter \<open>schedule\<close>, any list of steps. A step
  that is not possible in a state does nothing, and after the list the remaining steps are taken in
  order, so that every schedule is complete: \<open>wg.Wait\<close> returns only when all bodies have ended. \<open>Interleave\<close>
  cuts the bodies into their calls.

  A panic in a body ends the process with that panic; a body that never returns keeps \<open>wg.Wait\<close> and so
  the run from returning. Both are \<open>is_panic\<close> verdicts.
\<close>

section \<open>The run\<close>

record ppState =
  ppNext :: nat
  ppErrs :: "error option list"
  ppDone :: "bool list"

definition ppStep ::
  "env \<Rightarrow> string list \<Rightarrow> int \<Rightarrow> (string \<Rightarrow> error option io) \<Rightarrow> sched \<Rightarrow> ppState \<Rightarrow> ppState io" where
  "ppStep E pids delay profile a st =
     (case a of
        Spawn \<Rightarrow>
          if ppNext st < length pids
          then do { (if 0 < ppNext st then sleep E delay else State_Monad.return ());
                    State_Monad.return (st\<lparr>ppNext := Suc (ppNext st)\<rparr>) }
          else State_Monad.return st
      | Finish i \<Rightarrow>
          if i < ppNext st \<and> \<not> ppDone st ! i
          then do { err \<leftarrow> profile (pids ! i);
                    State_Monad.return
                      (st\<lparr>ppErrs := (ppErrs st)[i := err], ppDone := (ppDone st)[i := True]\<rparr>) }
          else State_Monad.return st)"

fun ppRun ::
  "env \<Rightarrow> string list \<Rightarrow> int \<Rightarrow> (string \<Rightarrow> error option io) \<Rightarrow> sched list \<Rightarrow> ppState \<Rightarrow> ppState io" where
  "ppRun E pids delay profile [] st = State_Monad.return st"
| "ppRun E pids delay profile (a # as) st =
     do { st' \<leftarrow> ppStep E pids delay profile a st; ppRun E pids delay profile as st' }"

definition ppInit :: "string list \<Rightarrow> ppState" where
  "ppInit pids =
     \<lparr>ppNext = 0, ppErrs = replicate (length pids) None, ppDone = replicate (length pids) False\<rparr>"

definition ppSchedule :: "env \<Rightarrow> string list \<Rightarrow> sched list" where
  "ppSchedule E pids =
     schedule E pids @ replicate (length pids) Spawn @ map Finish [0..<length pids]"

section \<open>The verdict\<close>

fun is_panic :: "error \<Rightarrow> bool" where
  "is_panic (Panic _) = True"
| "is_panic Blocked = True"
| "is_panic _ = False"

definition panic_of :: "error option list \<Rightarrow> error option" where
  "panic_of errs = List.find is_panic (List.map_filter id errs)"

definition failedPIDs :: "string list \<Rightarrow> error option list \<Rightarrow> (string \<times> error) list" where
  "failedPIDs pids errs =
     List.map_filter (\<lambda>(p, err). map_option (Pair p) err) (zip pids errs)"

definition pidsVerdict :: "env \<Rightarrow> string list \<Rightarrow> error option list \<Rightarrow> error option io" where
  "pidsVerdict E pids errs =
     (let failed = failedPIDs pids errs in
      if panic_of errs \<noteq> None then State_Monad.return (panic_of errs)
      else if length failed = 0 then State_Monad.return None
      else if length failed = length pids then State_Monad.return (Some (PidErrors failed))
      else do {
        t \<leftarrow> now;
        _ \<leftarrow> eventLn E Notice (NoticeData t
               (''Profiled '' @ show_nat (length pids - length failed) @ '' of '' @ show_nat (length pids) @
                '' PIDs; skipped '' @ error_text (PidErrors failed)));
        State_Monad.return None })"

definition profilePIDs ::
  "env \<Rightarrow> string list \<Rightarrow> int \<Rightarrow> (string \<Rightarrow> error option io) \<Rightarrow> error option io" where
  "profilePIDs E pids delay profile =
     (if length pids = 0 then State_Monad.return (Some (Errorf ''no PIDs to profile''))
      else do {
        st \<leftarrow> ppRun E pids delay profile (ppSchedule E pids) (ppInit pids);
        pidsVerdict E pids (ppErrs st) })"

text \<open>\<open>Unwrap\<close> of the error \<open>ProfilePIDs\<close> returns when every PID failed.\<close>

definition unwrapPidErrors :: "(string \<times> error) list \<Rightarrow> error list" where
  "unwrapPidErrors es = map snd es"

section \<open>The scheduler as a transition system\<close>

text \<open>A configuration is the number of bodies started and the set of those that have ended.\<close>

inductive pp_trans :: "nat \<Rightarrow> nat \<times> nat set \<Rightarrow> nat \<times> nat set \<Rightarrow> bool" for n where
  spawn: "k < n \<Longrightarrow> pp_trans n (k, D) (Suc k, D)"
| finish: "i < k \<Longrightarrow> i \<notin> D \<Longrightarrow> pp_trans n (k, D) (k, insert i D)"

inductive_cases pp_transE: "pp_trans n c c'"
inductive_simps pp_trans_simps: "pp_trans n (k, D) c'"

definition pp_reachable :: "nat \<Rightarrow> nat \<times> nat set \<Rightarrow> bool" where
  "pp_reachable n c \<longleftrightarrow> (pp_trans n)\<^sup>*\<^sup>* (0, {}) c"

definition pp_inv :: "nat \<Rightarrow> nat \<times> nat set \<Rightarrow> bool" where
  "pp_inv n c \<longleftrightarrow> fst c \<le> n \<and> snd c \<subseteq> {..<fst c}"

lemma pp_inv_step: "pp_inv n c \<Longrightarrow> pp_trans n c c' \<Longrightarrow> pp_inv n c'"
  by (auto simp: pp_inv_def elim!: pp_transE)

lemma pp_reachable_inv: "pp_reachable n c \<Longrightarrow> pp_inv n c"
  unfolding pp_reachable_def
  by (induction rule: rtranclp_induct) (auto simp: pp_inv_def intro: pp_inv_step [unfolded pp_inv_def] elim!: pp_transE)

text \<open>No deadlock: the only reachable configuration without a step is the one where all bodies have
  ended, and every step decreases the number of steps left.\<close>

lemma pp_stuck_final:
  assumes "pp_reachable n c" "\<forall>c'. \<not> pp_trans n c c'"
  shows "c = (n, {..<n})"
proof -
  obtain k D where c: "c = (k, D)" by (cases c)
  have inv: "k \<le> n" "D \<subseteq> {..<k}" using pp_reachable_inv [OF assms(1)] by (auto simp: pp_inv_def c)
  have "\<not> k < n" using assms(2) pp_trans.spawn c by blast
  moreover have "{..<k} \<subseteq> D" using assms(2) pp_trans.finish c by (metis lessThan_iff subsetI)
  ultimately show ?thesis using inv c by auto
qed

lemma pp_decreases:
  assumes "pp_reachable n c" "pp_trans n c c'"
  shows "2 * n - fst c' - card (snd c') < 2 * n - fst c - card (snd c)"
proof -
  obtain k D where c: "c = (k, D)" by (cases c)
  have inv: "k \<le> n" "D \<subseteq> {..<k}" using pp_reachable_inv [OF assms(1)] by (auto simp: pp_inv_def c)
  then have fin: "finite D" and le: "card D \<le> k"
    using finite_subset card_mono [of "{..<k}" D] by auto
  have "card D < k" if "i < k" "i \<notin> D" for i
  proof -
    have "D \<subset> {..<k}" using inv that by auto
    from psubset_card_mono [OF _ this] show ?thesis by simp
  qed
  with assms(2) c fin le inv show ?thesis
    by (fastforce elim!: pp_transE)
qed

section \<open>Every step of the run is a step of the scheduler\<close>

definition ppWf :: "string list \<Rightarrow> ppState \<Rightarrow> bool" where
  "ppWf pids st \<longleftrightarrow>
     length (ppErrs st) = length pids \<and> length (ppDone st) = length pids \<and>
     ppNext st \<le> length pids \<and> (\<forall>i < length pids. ppDone st ! i \<longrightarrow> i < ppNext st)"

definition ppConfig :: "ppState \<Rightarrow> nat \<times> nat set" where
  "ppConfig st = (ppNext st, {i. i < length (ppDone st) \<and> ppDone st ! i})"

lemma ppWf_init: "ppWf pids (ppInit pids)"
  by (simp add: ppWf_def ppInit_def)

lemma ppStep_wf: "ppWf pids st \<Longrightarrow> ppWf pids (value_of (ppStep E pids delay profile a st) w)"
  by (auto simp: ppWf_def ppStep_def nth_list_update Suc_le_eq split: sched.split)

lemma ppStep_simulates:
  assumes "ppWf pids st"
  shows "value_of (ppStep E pids delay profile a st) w = st \<or>
    pp_trans (length pids) (ppConfig st) (ppConfig (value_of (ppStep E pids delay profile a st) w))"
proof (cases a)
  case Spawn
  then show ?thesis by (auto simp: ppStep_def ppConfig_def intro: pp_trans.spawn)
next
  case (Finish i)
  show ?thesis
  proof (cases "i < ppNext st \<and> \<not> ppDone st ! i")
    case True
    with assms have "i < length (ppDone st)" by (simp add: ppWf_def)
    then have "{j. j < length (ppDone st) \<and> (ppDone st)[i := True] ! j} =
        insert i {j. j < length (ppDone st) \<and> ppDone st ! j}"
      by (auto simp: nth_list_update)
    with True Finish show ?thesis by (simp add: ppStep_def ppConfig_def pp_trans.finish)
  next
    case False
    then show ?thesis using Finish by (auto simp: ppStep_def)
  qed
qed

lemma ppRun_append:
  "ppRun E pids delay profile (as @ bs) st =
     State_Monad.bind (ppRun E pids delay profile as st) (ppRun E pids delay profile bs)"
proof (induction as arbitrary: st)
  case (Cons a as)
  then have "ppRun E pids delay profile (as @ bs) =
      (\<lambda>st. State_Monad.bind (ppRun E pids delay profile as st) (ppRun E pids delay profile bs))"
    by (rule ext)
  then show ?case by simp
qed simp

lemma ppStep_mono:
  "ppWf pids st \<Longrightarrow> ppNext st \<le> ppNext (value_of (ppStep E pids delay profile a st) w) \<and>
     (\<forall>i < length pids. ppDone st ! i \<longrightarrow> ppDone (value_of (ppStep E pids delay profile a st) w) ! i)"
  by (auto simp: ppWf_def ppStep_def nth_list_update split: sched.split)

lemma ppRun_mono:
  "ppWf pids st \<Longrightarrow> ppWf pids (value_of (ppRun E pids delay profile as st) w) \<and>
     ppNext st \<le> ppNext (value_of (ppRun E pids delay profile as st) w) \<and>
     (\<forall>i < length pids. ppDone st ! i \<longrightarrow> ppDone (value_of (ppRun E pids delay profile as st) w) ! i)"
proof (induction as arbitrary: st w)
  case (Cons a as)
  let ?st = "value_of (ppStep E pids delay profile a st) w"
  show ?case
    using Cons.IH [of ?st "after (ppStep E pids delay profile a st) w"]
      ppStep_wf [OF Cons.prems, of E delay profile a w] ppStep_mono [OF Cons.prems, of E delay profile a w]
    by auto
qed simp

lemma ppRun_spawns:
  "ppWf pids st \<Longrightarrow> ppNext (value_of (ppRun E pids delay profile (replicate m Spawn) st) w) =
     min (length pids) (ppNext st + m)"
proof (induction m arbitrary: st w)
  case (Suc m)
  let ?st = "value_of (ppStep E pids delay profile Spawn st) w"
  have "ppNext ?st = min (length pids) (Suc (ppNext st))"
    using Suc.prems by (auto simp: ppStep_def ppWf_def)
  with Suc.IH [OF ppStep_wf [OF Suc.prems]] show ?case by simp
qed (simp add: ppWf_def)

lemma ppRun_finishes:
  "ppWf pids st \<Longrightarrow> ppNext st = length pids \<Longrightarrow> i \<in> set is \<Longrightarrow> i < length pids \<Longrightarrow>
     ppDone (value_of (ppRun E pids delay profile (map Finish is) st) w) ! i"
proof (induction "is" arbitrary: st w)
  case (Cons j js)
  let ?st = "value_of (ppStep E pids delay profile (Finish j) st) w"
  let ?w = "after (ppStep E pids delay profile (Finish j) st) w"
  have wf: "ppWf pids ?st" and next': "ppNext ?st = length pids"
    using ppStep_wf [OF Cons.prems(1)] ppStep_mono [OF Cons.prems(1), of E delay profile "Finish j" w]
      Cons.prems(1,2) by (auto simp: ppWf_def intro: antisym)
  show ?case
  proof (cases "i = j")
    case True
    have "ppDone ?st ! j"
      using Cons.prems True by (auto simp: ppStep_def ppWf_def)
    with True Cons.prems(4) ppRun_mono [OF wf, of E delay profile "map Finish js" ?w] show ?thesis by simp
  next
    case False
    with Cons.IH [OF wf next', of ?w] Cons.prems show ?thesis by simp
  qed
qed simp

text \<open>Whatever the scheduler does, every body has run when \<open>wg.Wait\<close> returns.\<close>

lemma ppSchedule_completes:
  "i < length pids \<Longrightarrow> ppDone (value_of (ppRun E pids delay profile (ppSchedule E pids) (ppInit pids)) w) ! i"
proof -
  assume i: "i < length pids"
  let ?run = "ppRun E pids delay profile"
  let ?st1 = "value_of (?run (schedule E pids) (ppInit pids)) w"
  let ?w1 = "after (?run (schedule E pids) (ppInit pids)) w"
  let ?st2 = "value_of (?run (replicate (length pids) Spawn) ?st1) ?w1"
  have wf1: "ppWf pids ?st1" using ppRun_mono [OF ppWf_init] by blast
  then have wf2: "ppWf pids ?st2" using ppRun_mono by blast
  have "ppNext ?st2 = length pids" by (simp add: ppRun_spawns [OF wf1])
  from ppRun_finishes [OF wf2 this _ i] i show ?thesis
    by (simp add: ppSchedule_def ppRun_append)
qed

text \<open>Each error recorded is one its body returned.\<close>

definition ppOrigin :: "string list \<Rightarrow> (string \<Rightarrow> error option io) \<Rightarrow> ppState \<Rightarrow> bool" where
  "ppOrigin pids profile st \<longleftrightarrow>
     (\<forall>i < length pids. ppDone st ! i \<longrightarrow> (\<exists>w. ppErrs st ! i = value_of (profile (pids ! i)) w))"

lemma ppStep_origin:
  "ppWf pids st \<Longrightarrow> ppOrigin pids profile st \<Longrightarrow>
     ppOrigin pids profile (value_of (ppStep E pids delay profile a st) w)"
  by (auto simp: ppWf_def ppOrigin_def ppStep_def nth_list_update split: sched.split)

lemma ppRun_origin:
  "ppWf pids st \<Longrightarrow> ppOrigin pids profile st \<Longrightarrow>
     ppOrigin pids profile (value_of (ppRun E pids delay profile as st) w)"
  by (induction as arbitrary: st w) (simp_all add: ppStep_wf ppStep_origin)

lemma ppOrigin_init: "ppOrigin pids profile (ppInit pids)"
  by (simp add: ppOrigin_def ppInit_def)

section \<open>What a run publishes\<close>

definition ppPublished :: "ppState \<Rightarrow> nat" where
  "ppPublished st = length (filter (\<lambda>(err, d). d \<and> err = None) (zip (ppErrs st) (ppDone st)))"

lemma publishes_count:
  assumes "publishes m"
  shows "\<exists>ds. protocol (after m w) = protocol w @ map resultEvent ds \<and>
    length ds = (if value_of m w = None then 1 else 0)"
proof (cases "value_of m w")
  case None
  with publishesD(1) [OF assms this] obtain d where "protocol (after m w) = protocol w @ [resultEvent d]" by blast
  with None show ?thesis by (intro exI [of _ "[d]"]) simp
next
  case (Some e)
  with publishesD(2) [OF assms this] show ?thesis by (intro exI [of _ "[]"]) simp
qed

lemma ppStep_published:
  assumes wf: "ppWf pids st" and pub: "\<And>p. p \<in> set pids \<Longrightarrow> publishes (profile p)"
  shows "\<exists>ds. protocol (after (ppStep E pids delay profile a st) w) = protocol w @ map resultEvent ds \<and>
    ppPublished (value_of (ppStep E pids delay profile a st) w) = ppPublished st + length ds"
proof (cases a)
  case Spawn
  then show ?thesis
    using quietD [OF quiet_sleep] by (auto simp: ppStep_def ppPublished_def)
next
  case (Finish i)
  show ?thesis
  proof (cases "i < ppNext st \<and> \<not> ppDone st ! i")
    case True
    with wf have i: "i < length pids" "i < length (ppErrs st)" "i < length (ppDone st)"
      by (simp_all add: ppWf_def)
    let ?r = "value_of (profile (pids ! i)) w"
    have upd: "ppPublished (st\<lparr>ppErrs := (ppErrs st)[i := ?r], ppDone := (ppDone st)[i := True]\<rparr>) =
        ppPublished st + (if ?r = None then 1 else 0)"
      using length_filter_update [of i "zip (ppErrs st) (ppDone st)" "\<lambda>(err, d). d \<and> err = None" "(?r, True)"]
        i True by (simp add: ppPublished_def update_zip)
    have "publishes (profile (pids ! i))" using pub i by simp
    then have "\<exists>ds. protocol (after (profile (pids ! i)) w) = protocol w @ map resultEvent ds \<and>
        length ds = (if ?r = None then 1 else 0)"
      by (rule publishes_count)
    with True Finish upd show ?thesis by (auto simp: ppStep_def)
  next
    case False
    then show ?thesis using Finish by (auto simp: ppStep_def)
  qed
qed

lemma ppRun_published:
  "ppWf pids st \<Longrightarrow> (\<And>p. p \<in> set pids \<Longrightarrow> publishes (profile p)) \<Longrightarrow>
    \<exists>ds. protocol (after (ppRun E pids delay profile as st) w) = protocol w @ map resultEvent ds \<and>
      ppPublished (value_of (ppRun E pids delay profile as st) w) = ppPublished st + length ds"
proof (induction as arbitrary: st w)
  case (Cons a as)
  let ?st = "value_of (ppStep E pids delay profile a st) w"
  let ?w = "after (ppStep E pids delay profile a st) w"
  obtain ds1 where "protocol ?w = protocol w @ map resultEvent ds1"
      "ppPublished ?st = ppPublished st + length ds1"
    using ppStep_published [where a = a and E = E and delay = delay and w = w and profile = profile, OF Cons.prems]
    by blast
  moreover obtain ds2 where
      "protocol (after (ppRun E pids delay profile as ?st) ?w) = protocol ?w @ map resultEvent ds2"
      "ppPublished (value_of (ppRun E pids delay profile as ?st) ?w) = ppPublished ?st + length ds2"
    using Cons.IH [of ?st ?w, OF ppStep_wf [OF Cons.prems(1)] Cons.prems(2)] by blast
  ultimately show ?case by (intro exI [of _ "ds1 @ ds2"]) simp
qed simp

lemma ppPublished_complete:
  assumes "length (ppErrs st) = n" "length (ppDone st) = n" "\<forall>i < n. ppDone st ! i"
  shows "ppPublished st = length (filter (\<lambda>err. err = None) (ppErrs st))"
proof -
  have "ppDone st = replicate n True"
    using assms by (intro nth_equalityI) simp_all
  then have "zip (ppErrs st) (ppDone st) = map (\<lambda>e. (e, True)) (ppErrs st)"
    using assms(1) by (simp add: zip_replicate2)
  then show ?thesis by (simp add: ppPublished_def filter_map comp_def)
qed

lemma failedPIDs_length: "length pids = length errs \<Longrightarrow>
    length (failedPIDs pids errs) + length (filter (\<lambda>err. err = None) errs) = length pids"
  by (induction pids errs rule: list_induct2) (auto simp: failedPIDs_def map_filter_def)

lemma failedPIDs_all:
  "length pids = length errs \<Longrightarrow> length (failedPIDs pids errs) = length pids \<Longrightarrow>
     map fst (failedPIDs pids errs) = pids \<and> map (Some \<circ> snd) (failedPIDs pids errs) = errs"
proof (induction pids errs rule: list_induct2)
  case (Cons p pids err errs)
  have "length (failedPIDs pids errs) \<le> length pids"
    using failedPIDs_length [OF Cons.hyps] by simp
  with Cons show ?case by (cases err) (auto simp: failedPIDs_def map_filter_def)
qed (simp add: failedPIDs_def map_filter_def)

lemma failedPIDs_all_iff:
  assumes "length pids = length errs"
  shows "length (failedPIDs pids errs) = length pids \<longleftrightarrow> None \<notin> set errs"
    and "None \<notin> set errs \<Longrightarrow> failedPIDs pids errs = zip pids (map the errs)"
proof -
  have "length (filter (\<lambda>err. err = None) errs) = 0 \<longleftrightarrow> None \<notin> set errs"
    unfolding length_0_conv filter_empty_conv by metis
  then show iff: "length (failedPIDs pids errs) = length pids \<longleftrightarrow> None \<notin> set errs"
    using failedPIDs_length [OF assms] by auto
  show "failedPIDs pids errs = zip pids (map the errs)" if "None \<notin> set errs"
  proof -
    have F: "map fst (failedPIDs pids errs) = pids" "map (Some \<circ> snd) (failedPIDs pids errs) = errs"
      using failedPIDs_all [OF assms] that iff by simp_all
    have "map the errs = map snd (failedPIDs pids errs)"
      using arg_cong [OF F(2), of "map the"] by (simp add: comp_def)
    with F(1) show ?thesis by (metis zip_map_fst_snd)
  qed
qed

lemma pidsVerdict_value:
  assumes "length pids = length errs" "pids \<noteq> []"
  shows "value_of (pidsVerdict E pids errs) w =
     (if panic_of errs \<noteq> None then panic_of errs
      else if None \<in> set errs then None else Some (PidErrors (zip pids (map the errs))))"
proof (cases "None \<in> set errs")
  case True
  then have "length (failedPIDs pids errs) \<noteq> length pids" using failedPIDs_all_iff(1) [OF assms(1)] by blast
  with True show ?thesis by (simp add: pidsVerdict_def Let_def)
next
  case False
  then show ?thesis
    using failedPIDs_all_iff [OF assms(1)] assms(2) by (simp add: pidsVerdict_def Let_def)
qed

lemma quiet_pidsVerdict [quiet_rules]: "quiet (pidsVerdict E pids errs)"
  unfolding pidsVerdict_def by (intro quiet_rules) simp_all

text \<open>The verdict of a run, for the clients of \<open>ProfilePIDs\<close>.\<close>

lemma profilePIDs_runs:
  assumes "pids \<noteq> []" and pub: "\<And>p. p \<in> set pids \<Longrightarrow> publishes (profile p)"
  shows "\<exists>errs ds. length errs = length pids \<and>
     (\<forall>i < length pids. \<exists>w'. errs ! i = value_of (profile (pids ! i)) w') \<and>
     protocol (after (profilePIDs E pids delay profile) w) = protocol w @ map resultEvent ds \<and>
     length ds = length (filter (\<lambda>err. err = None) errs) \<and>
     value_of (profilePIDs E pids delay profile) w =
       (if panic_of errs \<noteq> None then panic_of errs
        else if None \<in> set errs then None
        else Some (PidErrors (zip pids (map the errs))))"
proof -
  let ?run = "ppRun E pids delay profile (ppSchedule E pids) (ppInit pids)"
  let ?st = "value_of ?run w"
  let ?errs = "ppErrs ?st"
  have wf: "ppWf pids ?st" using ppRun_mono [OF ppWf_init] by blast
  then have len: "length ?errs = length pids" "length (ppDone ?st) = length pids"
    by (simp_all add: ppWf_def)
  obtain ds where ds: "protocol (after ?run w) = protocol w @ map resultEvent ds"
    and cnt: "ppPublished ?st = ppPublished (ppInit pids) + length ds"
    using ppRun_published [where profile = profile and pids = pids, OF ppWf_init pub] by blast
  have "ppPublished (ppInit pids) = 0"
    by (simp add: ppPublished_def ppInit_def zip_replicate2)
  then have n: "length ds = length (filter (\<lambda>err. err = None) ?errs)"
    using cnt ppPublished_complete [OF len] ppSchedule_completes by simp
  have "protocol (after (profilePIDs E pids delay profile) w) = protocol (after ?run w)"
    using assms(1) quietD [OF quiet_pidsVerdict] by (simp add: profilePIDs_def)
  moreover have "\<forall>i < length pids. \<exists>w'. ?errs ! i = value_of (profile (pids ! i)) w'"
    using ppRun_origin [OF ppWf_init ppOrigin_init] ppSchedule_completes by (auto simp: ppOrigin_def)
  ultimately show ?thesis
    using ds n len assms(1) pidsVerdict_value [OF len(1) [symmetric] assms(1)]
    by (intro exI [of _ ?errs] exI [of _ ds]) (simp add: profilePIDs_def)
qed


text \<open>Three PIDs, the second of which cannot be profiled, finishing in the order 1, 3, 2.\<close>

definition sample_result :: "string \<Rightarrow> ResultData" where
  "sample_result p = \<lparr>resTime = 0, resultType = FlameGraph, resFile = ''/tmp/agent-flamegraph-'' @ p @ ''-1.svg'',
     fileSizeInBytes = 1, checksum = [], compressorType = [], chunks = []\<rparr>"

definition sample_body :: "env \<Rightarrow> string \<Rightarrow> error option io" where
  "sample_body E p =
     (if p = ''8'' then State_Monad.return (Some (Errorf ''not a Python process''))
      else eventLn E Result (ResultData (sample_result p)))"


lemma ppRun_reachable:
  "pp_reachable (length pids) (ppConfig (value_of (ppRun E pids delay profile as (ppInit pids)) w))"
proof -
  have "pp_reachable (length pids) (ppConfig (value_of (ppRun E pids delay profile as st) w))"
    if "ppWf pids st" "pp_reachable (length pids) (ppConfig st)" for st w
    using that
  proof (induction as arbitrary: st w)
    case (Cons a as)
    have "pp_reachable (length pids) (ppConfig (value_of (ppStep E pids delay profile a st) w))"
      using ppStep_simulates [OF Cons.prems(1), of E delay profile a w] Cons.prems(2)
      by (auto simp: pp_reachable_def intro: rtranclp.rtrancl_into_rtrancl)
    with Cons.IH [OF ppStep_wf [OF Cons.prems(1)]] show ?case by simp
  qed simp
  moreover have "ppConfig (ppInit pids) = (0, {})" by (auto simp: ppConfig_def ppInit_def)
  ultimately show ?thesis using ppWf_init by (simp add: pp_reachable_def)
qed


text \<open>The steps that are left: bodies to start, and bodies to end.\<close>

definition ppLeft :: "string list \<Rightarrow> ppState \<Rightarrow> nat" where
  "ppLeft pids st = 2 * length pids - ppNext st - card (snd (ppConfig st))"

lemma ppStep_progress:
  assumes "ppWf pids st" "pp_reachable (length pids) (ppConfig st)" "ppConfig st \<noteq> (length pids, {..<length pids})"
  shows "\<exists>a. \<forall>w. ppLeft pids (value_of (ppStep E pids delay profile a st) w) < ppLeft pids st"
proof -
  obtain c' where "pp_trans (length pids) (ppConfig st) c'"
    using pp_stuck_final [OF assms(2)] assms(3) by blast
  then consider "ppNext st < length pids" | i where "i < ppNext st" "i \<notin> snd (ppConfig st)"
    by (cases rule: pp_trans.cases) (auto simp: ppConfig_def)
  then obtain a where moved: "\<And>w. value_of (ppStep E pids delay profile a st) w \<noteq> st"
  proof cases
    case 1
    then show ?thesis
      by (intro that [of Spawn]) (auto simp: ppStep_def dest!: arg_cong [where f = ppNext])
  next
    case 2
    then have "i < length (ppDone st)" "\<not> ppDone st ! i"
      using assms(1) by (auto simp: ppWf_def ppConfig_def)
    then show ?thesis
      using 2 by (intro that [of "Finish i"]) (auto simp: ppStep_def dest!: arg_cong [where f = "\<lambda>st. ppDone st ! i"])
  qed
  have "pp_trans (length pids) (ppConfig st) (ppConfig (value_of (ppStep E pids delay profile a st) w))" for w
    using ppStep_simulates [OF assms(1), of E delay profile a w] moved by blast
  from pp_decreases [OF assms(2) this] show ?thesis
    by (intro exI [of _ a]) (simp add: ppLeft_def ppConfig_def)
qed


end
