(* ===== verification/Publisher.thy ===== *)
theory Publisher
  imports Job
begin

text \<open>
  internal/agent/util/publish/publisher.go: compressing a result file and printing the result event,
  whole or split into chunks. The \<open>Publisher\<close> the profilers are given is this one; the result file is
  written next to the profile, with the extension of the compressor.
\<close>

definition fromSum :: "(error + 'a) io \<Rightarrow> error option io" where
  "fromSum m = do { r \<leftarrow> m; State_Monad.return (case r of Inl e \<Rightarrow> Some e | Inr _ \<Rightarrow> None) }"

definition resultFileOf :: "CompressorType \<Rightarrow> string \<Rightarrow> string" where
  "resultFileOf c filePath = filePath @ getExtensionFileByCompressor c"

definition publishDo :: "env \<Rightarrow> CompressorType \<Rightarrow> string \<Rightarrow> OutputType \<Rightarrow> error option io" where
  "publishDo E c filePath eventType =
     guarded (fromSum (osOpen E filePath)) id
       (guarded
          (if c \<noteq> NoneType
           then guarded (fromSum (osCreate E (resultFileOf c filePath)))
                  (Wrap (''could not create result file '' @ resultFileOf c filePath)) (State_Monad.return None)
           else guarded (fromSum (osOpen E (resultFileOf c filePath)))
                  (Wrap (''could not open file '' @ resultFileOf c filePath)) (State_Monad.return None))
          id
          (case compressorGet c of
             Inl e \<Rightarrow> State_Monad.return (Some e)
           | Inr alg \<Rightarrow>
               guarded
                 (if c \<noteq> NoneType then compEncode alg E (resultFileOf c filePath) filePath
                  else State_Monad.return None)
                 (Wrap (''could not compress file '' @ resultFileOf c filePath))
                 (do { t \<leftarrow> now;
                       size \<leftarrow> file_size E (resultFileOf c filePath);
                       md5 \<leftarrow> checksum_file E (resultFileOf c filePath);
                       eventLn E Result (ResultData
                         \<lparr>resTime = t, resultType = eventType, resFile = resultFileOf c filePath,
                          fileSizeInBytes = size, checksum = md5, compressorType = compressor_string c,
                          chunks = []\<rparr>) })))"

text \<open>The loop that describes the chunk files.\<close>

fun chunkData :: "env \<Rightarrow> string list \<Rightarrow> ChunkData list io" where
  "chunkData E [] = State_Monad.return []"
| "chunkData E (f # fs) =
     do { size \<leftarrow> file_size E f;
          md5 \<leftarrow> checksum_file E f;
          rest \<leftarrow> chunkData E fs;
          State_Monad.return (\<lparr>chunkFile = f, chunkSize = size, chunkChecksum = md5\<rparr> # rest) }"

text \<open>The part after both commands have succeeded.\<close>

definition publishChunks :: "env \<Rightarrow> string \<Rightarrow> OutputType \<Rightarrow> error option io" where
  "publishChunks E file eventType =
     do { size \<leftarrow> file_size E (file @ ''.gz'');
          _ \<leftarrow> remove_file E (file @ ''.gz'');
          chunkFiles \<leftarrow> list_files (file @ ''.gz.*'');
          cs \<leftarrow> chunkData E chunkFiles;
          t \<leftarrow> now;
          eventLn E Result (ResultData
            \<lparr>resTime = t, resultType = eventType, resFile = file @ ''.gz'',
             fileSizeInBytes = size, checksum = [], compressorType = compressor_string Gzip,
             chunks = cs\<rparr>) }"

definition publishDoWithNativeGzipAndSplit ::
  "env \<Rightarrow> string \<Rightarrow> string \<Rightarrow> OutputType \<Rightarrow> error option io" where
  "publishDoWithNativeGzipAndSplit E file chunkSz eventType =
     do { ex \<leftarrow> exists_file E file;
          if \<not> ex then State_Monad.return (Some (Errorf (''file '' @ file @ '' does not exist'')))
          else if is_blank E chunkSz then State_Monad.return (Some (Errorf ''chunk size is mandatory''))
          else do {
            cmd \<leftarrow> command E True ''gzip'' [''-3'', file];
            (err, out, errOut) \<leftarrow> runCmd E cmd [];
            case err of
              Some e \<Rightarrow>
                State_Monad.return (Some (Wrap (''gzip failed on file '' @ file @ ''; detail: '' @ errOut) e))
            | None \<Rightarrow> do {
                cmd \<leftarrow> command E True ''split'' [''-b'', chunkSz, file @ ''.gz'', file @ ''.gz.''];
                (err', out', errOut') \<leftarrow> runCmd E cmd [];
                case err' of
                  Some e \<Rightarrow>
                    State_Monad.return
                      (Some (Wrap (''split failed on file '' @ (file @ ''.gz'') @ ''; detail: '' @ errOut @ errOut') e))
                | None \<Rightarrow> publishChunks E file eventType } } }"

section \<open>One result per successful call\<close>

lemma quiet_fromSum [quiet_rules]: "quiet m \<Longrightarrow> quiet (fromSum m)"
  unfolding fromSum_def by (intro quiet_rules)

lemma quiet_chunkData [quiet_rules]: "quiet (chunkData E fs)"
  by (induction fs) (auto intro!: quiet_rules)

lemma publishes_publishDo [publish_rules]: "publishes (publishDo E c f t)"
  unfolding publishDo_def by (intro publish_rules quiet_rules)

lemma publishes_chunks [publish_rules]: "publishes (publishChunks E f t)"
  unfolding publishChunks_def by (intro publish_rules quiet_rules)

lemma publishes_split [publish_rules]: "publishes (publishDoWithNativeGzipAndSplit E f c t)"
  unfolding publishDoWithNativeGzipAndSplit_def by (intro publish_rules quiet_rules)

section \<open>What the result says\<close>

lemma fromSum_value [simp]:
  "value_of (fromSum m) w = (case value_of m w of Inl e \<Rightarrow> Some e | Inr _ \<Rightarrow> None)"
  "after (fromSum m) w = after m w"
  by (simp_all add: fromSum_def)

lemma file_size_ok:
  assumes "no_faults E" "content (files w) p = Some c"
  shows "value_of (file_size E p) w = int (length c)" "after (file_size E p) w = w"
  using assms by (simp_all add: file_size_def osStat_ok)

lemma osReadFile_ok:
  assumes "no_faults E" "content (files w) p = Some c"
  shows "value_of (osReadFile E p) w = Inr c" "after (osReadFile E p) w = w"
  using assms by (simp_all add: osReadFile_def osOpen_ok osRead_ok)

lemma checksum_file_ok:
  assumes "no_faults E" "content (files w) p = Some c"
  shows "value_of (checksum_file E p) w = hex_encode (md5Sum E c)" "after (checksum_file E p) w = w"
  using assms by (simp_all add: checksum_file_def osReadFile_ok)

text \<open>The bytes of the result file for an input.\<close>

definition resultBytes :: "env \<Rightarrow> CompressorType \<Rightarrow> string \<Rightarrow> string" where
  "resultBytes E c b = (if c = NoneType then b else fullEncoding (compressor_string c) E b)"

definition result_for :: "env \<Rightarrow> CompressorType \<Rightarrow> string \<Rightarrow> OutputType \<Rightarrow> string \<Rightarrow> int \<Rightarrow> EventData" where
  "result_for E c file out bytes t =
     ResultData \<lparr>resTime = t, resultType = out, resFile = file, fileSizeInBytes = int (length bytes),
       checksum = hex_encode (md5Sum E bytes), compressorType = compressor_string c, chunks = []\<rparr>"

text \<open>The result that describes a file of content \<open>c\<close> truly.\<close>

definition describes :: "env \<Rightarrow> CompressorType \<Rightarrow> OutputType \<Rightarrow> string \<Rightarrow> string \<Rightarrow> ResultData \<Rightarrow> bool" where
  "describes E c out p b r \<longleftrightarrow>
     resultType r = out \<and> resFile r = p \<and> fileSizeInBytes r = int (length b) \<and>
     checksum r = hex_encode (md5Sum E b) \<and> compressorType r = compressor_string c \<and> chunks r = []"

lemma extension_not_Nil: "compressorGet c = Inr alg \<Longrightarrow> c \<noteq> NoneType \<Longrightarrow> getExtensionFileByCompressor c \<noteq> []"
  by (cases c) auto

text \<open>Publishing a profile that exists, with a supported compressor and no failing system call, succeeds and
  prints one result that tells the truth about the file the client will fetch; the profile itself is left
  as it was.\<close>

lemma publishDo_publishes:
  assumes "compressorGet c = Inr alg" "c \<noteq> NoneType \<longrightarrow> codec_ok (compressor_string c) E"
    and "no_faults E" "no_links (files w)" "content (files w) f = Some b"
    and "\<not> is_dir (files w) (resultFileOf c f)" "\<forall>d. marshal E d = None"
  shows "value_of (publishDo E c f out) w = None \<and>
    (\<exists>t. protocol (after (publishDo E c f out) w) =
       protocol w @ [Event Result (result_for E c (resultFileOf c f) out (resultBytes E c b) t)]) \<and>
    content (files (after (publishDo E c f out) w)) =
      (content (files w))(resultFileOf c f \<mapsto> resultBytes E c b)"
proof (cases "c = NoneType")
  case True
  with assms show ?thesis
    by (auto simp: publishDo_def resultFileOf_def osOpen_ok now_def file_size_ok checksum_file_ok
        after_eventLn isPrintLogsAllowed_def result_for_def resultBytes_def)
next
  case False
  let ?r = "resultFileOf c f"
  let ?w1 = "w\<lparr>files := store ?r [] (files w)\<rparr>"
  let ?w2 = "after (compEncode alg E ?r f) ?w1"
  have neq: "f \<noteq> ?r"
    using extension_not_Nil [OF assms(1) False] by (simp add: resultFileOf_def)
  have w1: "no_links (files ?w1)" "content (files ?w1) f = Some b" "content (files ?w1) ?r = Some []"
    using assms(4,5) neq by (simp_all add: content_store)
  note enc = compressorGet_encode [OF assms(1) False _ assms(3) w1(1) neq w1(2,3)]
  have codec: "codec_ok (compressor_string c) E" using assms(2) False by simp
  have w2: "content (files ?w2) ?r = Some (resultBytes E c b)"
    and cont: "content (files ?w2) = (content (files w))(?r \<mapsto> resultBytes E c b)"
    using enc(3) [OF codec] False assms(4) by (simp_all add: resultBytes_def content_store)
  have res: "protocol ?w2 = protocol w" using quietD [OF quiet_encode] by simp
  show ?thesis
    using assms False enc(1) [OF codec] w2 cont res
    by (auto simp: publishDo_def osOpen_ok osCreate_ok now_def file_size_ok checksum_file_ok
        after_eventLn isPrintLogsAllowed_def result_for_def)
qed

section \<open>Chunks\<close>

lemma chunkData_files: "map chunkFile (value_of (chunkData E fs) w) = fs"
  by (induction fs arbitrary: w) simp_all

lemma chunkData_ok:
  "no_faults E \<Longrightarrow> \<forall>f \<in> set fs. content (files w) f \<noteq> None \<Longrightarrow>
     after (chunkData E fs) w = w \<and>
     value_of (chunkData E fs) w =
       map (\<lambda>f. \<lparr>chunkFile = f, chunkSize = int (length (the (content (files w) f))),
                 chunkChecksum = hex_encode (md5Sum E (the (content (files w) f)))\<rparr>) fs"
  by (induction fs) (auto simp: file_size_ok checksum_file_ok)

lemma files_read [simp]:
  "files (after (file_size E p) w) = files w" "files (after (checksum_file E p) w) = files w"
  "files (after (list_files p) w) = files w" "value_of (list_files p) w = glob (files w) p"
  "files (after (eventLn E t d) w) = files w" "files (after now w) = files w"
  by (auto simp: file_size_def checksum_file_def list_files_def osGlob_def osReadFile_def osOpen_ok
      osRead_ok osStat_ok after_eventLn now_def split: sum.split fileInfo.split)

lemma files_chunkData [simp]: "files (after (chunkData E fs) w) = files w"
  by (induction fs arbitrary: w) simp_all

lemma chunkData_true:
  assumes "no_faults E" "cd \<in> set (value_of (chunkData E fs) w)" "content (files w) (chunkFile cd) = Some b"
  shows "chunkSize cd = int (length b) \<and> chunkChecksum cd = hex_encode (md5Sum E b)"
  using assms
proof (induction fs arbitrary: w)
  case (Cons f fs)
  let ?w = "after (checksum_file E f) (after (file_size E f) w)"
  show ?case
  proof (cases "cd \<in> set (value_of (chunkData E fs) ?w)")
    case True
    show ?thesis by (rule Cons.IH [OF Cons.prems(1) True]) (simp add: Cons.prems(3))
  next
    case False
    with Cons.prems(2) have "cd = \<lparr>chunkFile = f, chunkSize = value_of (file_size E f) w,
        chunkChecksum = value_of (checksum_file E f) (after (file_size E f) w)\<rparr>"
      by simp
    moreover from this Cons.prems(3) have "content (files w) f = Some b" by simp
    ultimately show ?thesis
      using file_size_ok [OF Cons.prems(1)] checksum_file_ok [OF Cons.prems(1)] by simp
  qed
qed simp

lemma publishChunks_result:
  assumes "no_faults E" "value_of (publishChunks E f out) w = None"
  shows "\<exists>r. protocol (after (publishChunks E f out) w) = protocol w @ [Event Result (ResultData r)] \<and>
    resFile r = f @ ''.gz'' \<and> compressorType r = ''gzip'' \<and> resultType r = out \<and>
    map chunkFile (chunks r) = glob (files (after (publishChunks E f out) w)) (f @ ''.gz.*'') \<and>
    (\<forall>cd \<in> set (chunks r). \<forall>b.
       content (files (after (publishChunks E f out) w)) (chunkFile cd) = Some b \<longrightarrow>
       chunkSize cd = int (length b) \<and> chunkChecksum cd = hex_encode (md5Sum E b))"
proof -
  let ?w1 = "after (file_size E (f @ ''.gz'')) w"
  let ?w2 = "after (list_files (f @ ''.gz.*'')) (after (remove_file E (f @ ''.gz'')) ?w1)"
  let ?cs = "value_of (chunkData E (glob (files ?w2) (f @ ''.gz.*''))) ?w2"
  have res: "protocol ?w2 = protocol w"
    by (simp add: quietD [OF quiet_file_write(2)] quietD [OF quiet_file_read(2)] quietD [OF quiet_file_read(4)])
  let ?w3 = "after now (after (chunkData E (glob (files ?w2) (f @ ''.gz.*''))) ?w2)"
  define r where "r = \<lparr>resTime = value_of now (after (chunkData E (glob (files ?w2) (f @ ''.gz.*''))) ?w2),
    resultType = out, resFile = f @ ''.gz'', fileSizeInBytes = value_of (file_size E (f @ ''.gz'')) w,
    checksum = [], compressorType = compressor_string Gzip, chunks = ?cs\<rparr>"
  have aft: "after (publishChunks E f out) w = after (eventLn E Result (ResultData r)) ?w3"
    and val: "value_of (publishChunks E f out) w = value_of (eventLn E Result (ResultData r)) ?w3"
    by (simp_all add: publishChunks_def r_def files_read(3))
  have m: "marshal E (ResultData r) = None" using assms(2) val by (simp add: after_eventLn)
  have "protocol (after (publishChunks E f out) w) = protocol w @ [Event Result (ResultData r)]"
    unfolding aft using m res
    by (simp add: after_eventLn isPrintLogsAllowed_def quietD [OF quiet_chunkData] quietD [OF quiet_now])
  moreover have fs: "files (after (publishChunks E f out) w) = files ?w2"
    unfolding aft by simp
  moreover have "\<forall>cd \<in> set (chunks r). \<forall>b. content (files ?w2) (chunkFile cd) = Some b \<longrightarrow>
       chunkSize cd = int (length b) \<and> chunkChecksum cd = hex_encode (md5Sum E b)"
    using chunkData_true [OF assms(1)] by (simp add: r_def)
  moreover have "map chunkFile (chunks r) = glob (files ?w2) (f @ ''.gz.*'')"
    by (simp add: r_def chunkData_files)
  ultimately show ?thesis
    unfolding fs by (intro exI [of _ r]) (simp add: r_def)
qed

lemma split_succeeds:
  assumes "no_faults E" "content (files w) f = Some b" "\<not> is_blank E c" "\<forall>d. marshal E d = None"
    and "\<forall>argv w. procErr (runProc E argv [] w) = None"
  shows "value_of (publishDoWithNativeGzipAndSplit E f c out) w = None"
  using assms
  by (simp add: publishDoWithNativeGzipAndSplit_def exists_file_def osStat_ok runCmd_def Let_def
      publishChunks_def after_eventLn)



end
