(* ===== verification/Flamegraph.thy ===== *)
theory Flamegraph
  imports Job
begin

text \<open>
  internal/agent/util/flamegraph: the script record with its options and arguments
  (flamegraph\_pl.go), the fake graphers (flamegraph\_fake.go) and the choice of a grapher for a job
  (factory.go). An option is a function on the record, as in the code.
\<close>

section \<open>The script and its options\<close>

record FlameGrapherScript =
  path :: string
  title :: string
  subtitle :: string
  width :: string
  height :: string
  minWidth :: string
  fontType :: string
  fontSize :: string
  countName :: string
  nameType :: string
  colors :: string
  bgColors :: string
  hash :: bool
  reverse :: bool
  inverted :: bool
  flameChart :: bool
  negate :: bool

definition defaultScript :: FlameGrapherScript where
  "defaultScript =
     \<lparr>path = ''/app/FlameGraph/flamegraph.pl'', title = ''CPU Flamegraph'', subtitle = [],
      width = ''1800'', height = ''16'', minWidth = [], fontType = ''Verdana'', fontSize = ''12'',
      countName = [], nameType = [], colors = [], bgColors = [],
      hash = False, reverse = False, inverted = False, flameChart = False, negate = False\<rparr>"

definition newFlameGrapherScript :: "(FlameGrapherScript \<Rightarrow> FlameGrapherScript) list \<Rightarrow> FlameGrapherScript" where
  "newFlameGrapherScript options = fold (\<lambda>option g. option g) options defaultScript"

definition withPath :: "env \<Rightarrow> string \<Rightarrow> FlameGrapherScript \<Rightarrow> FlameGrapherScript" where
  "withPath E v s = (if is_not_blank E v then s\<lparr>path := v\<rparr> else s)"

definition withTitle :: "env \<Rightarrow> string \<Rightarrow> FlameGrapherScript \<Rightarrow> FlameGrapherScript" where
  "withTitle E v s = (if is_not_blank E v then s\<lparr>title := v\<rparr> else s)"

definition withSubtitle :: "string \<Rightarrow> FlameGrapherScript \<Rightarrow> FlameGrapherScript" where
  "withSubtitle v s = s\<lparr>subtitle := v\<rparr>"

definition withWidth :: "env \<Rightarrow> string \<Rightarrow> FlameGrapherScript \<Rightarrow> FlameGrapherScript" where
  "withWidth E v s = (if is_not_blank E v \<and> is_numeric E v then s\<lparr>width := v\<rparr> else s)"

definition withHeight :: "env \<Rightarrow> string \<Rightarrow> FlameGrapherScript \<Rightarrow> FlameGrapherScript" where
  "withHeight E v s = (if is_not_blank E v \<and> is_numeric E v then s\<lparr>height := v\<rparr> else s)"

definition withMinWidth :: "env \<Rightarrow> string \<Rightarrow> FlameGrapherScript \<Rightarrow> FlameGrapherScript" where
  "withMinWidth E v s = (if is_numeric E v then s\<lparr>minWidth := v\<rparr> else s)"

definition withFontType :: "string \<Rightarrow> FlameGrapherScript \<Rightarrow> FlameGrapherScript" where
  "withFontType v s = s\<lparr>fontType := v\<rparr>"

definition withFontSize :: "env \<Rightarrow> string \<Rightarrow> FlameGrapherScript \<Rightarrow> FlameGrapherScript" where
  "withFontSize E v s = (if is_numeric E v then s\<lparr>fontSize := v\<rparr> else s)"

definition withCountName :: "string \<Rightarrow> FlameGrapherScript \<Rightarrow> FlameGrapherScript" where
  "withCountName v s = s\<lparr>countName := v\<rparr>"

definition withNameType :: "string \<Rightarrow> FlameGrapherScript \<Rightarrow> FlameGrapherScript" where
  "withNameType v s = s\<lparr>nameType := v\<rparr>"

definition withColors :: "string \<Rightarrow> FlameGrapherScript \<Rightarrow> FlameGrapherScript" where
  "withColors v s = s\<lparr>colors := v\<rparr>"

definition withBgColors :: "string \<Rightarrow> FlameGrapherScript \<Rightarrow> FlameGrapherScript" where
  "withBgColors v s = s\<lparr>bgColors := v\<rparr>"

definition withHash :: "bool \<Rightarrow> FlameGrapherScript \<Rightarrow> FlameGrapherScript" where
  "withHash v s = s\<lparr>hash := v\<rparr>"

definition withReverse :: "bool \<Rightarrow> FlameGrapherScript \<Rightarrow> FlameGrapherScript" where
  "withReverse v s = s\<lparr>reverse := v\<rparr>"

definition withInverted :: "bool \<Rightarrow> FlameGrapherScript \<Rightarrow> FlameGrapherScript" where
  "withInverted v s = s\<lparr>inverted := v\<rparr>"

definition withFlameChart :: "bool \<Rightarrow> FlameGrapherScript \<Rightarrow> FlameGrapherScript" where
  "withFlameChart v s = s\<lparr>flameChart := v\<rparr>"

definition withNegate :: "bool \<Rightarrow> FlameGrapherScript \<Rightarrow> FlameGrapherScript" where
  "withNegate v s = s\<lparr>negate := v\<rparr>"

definition scriptToArguments :: "env \<Rightarrow> FlameGrapherScript \<Rightarrow> string list" where
  "scriptToArguments E g =
     (let opt = (\<lambda>flag v. if is_not_blank E v then [flag, v] else []);
          switch = (\<lambda>flag b. if b then [flag] else [])
      in [''--title'', title g, ''--width'', width g, ''--height'', height g,
          ''--fonttype'', fontType g, ''--fontsize'', fontSize g]
         @ opt ''--subtitle'' (subtitle g) @ opt ''--minwidth'' (minWidth g)
         @ opt ''--countname'' (countName g) @ opt ''--nametype'' (nameType g)
         @ opt ''--colors'' (colors g) @ opt ''--bgcolors'' (bgColors g)
         @ switch ''--hash'' (hash g) @ switch ''--reverse'' (reverse g)
         @ switch ''--inverted'' (inverted g) @ switch ''--flamechart'' (flameChart g)
         @ switch ''--negate'' (negate g))"

section \<open>Drawing\<close>

text \<open>A process whose standard output is an open file.\<close>

definition writeThrough :: "string \<Rightarrow> string \<Rightarrow> unit io" where
  "writeThrough file out = State (\<lambda>w. ((), w\<lparr>files := store file out (files w)\<rparr>))"

definition fileInput :: "string \<Rightarrow> string io" where
  "fileInput file = State (\<lambda>w. (case content (files w) file of Some c \<Rightarrow> c | None \<Rightarrow> [], w))"

definition scriptStackSamplesToFlameGraph ::
  "env \<Rightarrow> FlameGrapherScript \<Rightarrow> string \<Rightarrow> string \<Rightarrow> error option io" where
  "scriptStackSamplesToFlameGraph E g inputFileName outputFileName =
     do { r \<leftarrow> osOpen E inputFileName;
          case r of
            Inl e \<Rightarrow> State_Monad.return (Some e)
          | Inr _ \<Rightarrow> do {
              r' \<leftarrow> osCreate E outputFileName;
              case r' of
                Inl e \<Rightarrow> State_Monad.return (Some e)
              | Inr _ \<Rightarrow> do {
                  cmd \<leftarrow> command E True (path g) (scriptToArguments E g);
                  stdin \<leftarrow> fileInput inputFileName;
                  (err, out, errOut) \<leftarrow> runCmd E cmd stdin;
                  writeThrough outputFileName out;
                  (if err \<noteq> None then errorLogLn E errOut else State_Monad.return ());
                  State_Monad.return err } } }"

text \<open>
  The doubles of flamegraph\_fake.go, with the flag only the tests read; their values are those
  \<open>stackSamplesToFlameGraph\<close> below gives for the two constructors, which is all a profiler sees.
\<close>

record GrapherDouble =
  stackSamplesToFlameGraphInvoked :: bool

definition newFlameGrapherFake :: GrapherDouble where
  "newFlameGrapherFake = \<lparr>stackSamplesToFlameGraphInvoked = False\<rparr>"

definition newFlameGrapherFakeWithError :: GrapherDouble where
  "newFlameGrapherFakeWithError = \<lparr>stackSamplesToFlameGraphInvoked = False\<rparr>"

definition fakeStackSamplesToFlameGraph :: "GrapherDouble \<Rightarrow> error option \<times> GrapherDouble" where
  "fakeStackSamplesToFlameGraph f = (None, f\<lparr>stackSamplesToFlameGraphInvoked := True\<rparr>)"

definition fakeWithErrorStackSamplesToFlameGraph :: "GrapherDouble \<Rightarrow> error option \<times> GrapherDouble" where
  "fakeWithErrorStackSamplesToFlameGraph f =
     (Some (Errorf ''StackSamplesToFlameGraph with error''), f\<lparr>stackSamplesToFlameGraphInvoked := True\<rparr>)"

datatype FrameGrapher =
    Script FlameGrapherScript
  | FlameGrapherFake
  | FlameGrapherFakeWithError

fun stackSamplesToFlameGraph :: "env \<Rightarrow> FrameGrapher \<Rightarrow> string \<Rightarrow> string \<Rightarrow> error option io" where
  "stackSamplesToFlameGraph E (Script g) i out = scriptStackSamplesToFlameGraph E g i out"
| "stackSamplesToFlameGraph E FlameGrapherFake i out = State_Monad.return None"
| "stackSamplesToFlameGraph E FlameGrapherFakeWithError i out =
     State_Monad.return (Some (Errorf ''StackSamplesToFlameGraph with error''))"

lemma grapher_doubles:
  "value_of (stackSamplesToFlameGraph E FlameGrapherFake i out) w = fst (fakeStackSamplesToFlameGraph f)"
  "value_of (stackSamplesToFlameGraph E FlameGrapherFakeWithError i out) w = fst (fakeWithErrorStackSamplesToFlameGraph f)"
  by (simp_all add: fakeStackSamplesToFlameGraph_def fakeWithErrorStackSamplesToFlameGraph_def)

definition flamegraphTitle :: "ProfilingJob \<Rightarrow> string" where
  "flamegraphTitle job = to_title (lang_string (jobLanguage job)) @ '' - Flamegraph''"

definition flamegraphGet :: "env \<Rightarrow> ProfilingJob \<Rightarrow> FrameGrapher io" where
  "flamegraphGet E job =
     (let title = flamegraphTitle job in
      if jobLanguage job = Python \<or> jobLanguage job = Go
      then do { v \<leftarrow> getWidthAdditionalArgumentAndDelete E;
                State_Monad.return (Script (newFlameGrapherScript [withTitle E title, withWidth E v])) }
      else if jobLanguage job = Node
      then do { v \<leftarrow> getWidthAdditionalArgumentAndDelete E;
                State_Monad.return
                  (Script (newFlameGrapherScript [withTitle E title, withWidth E v, withColors ''js''])) }
      else if jobLanguage job = Clang \<or> jobLanguage job = ClangPlusPlus
      then do { v \<leftarrow> getWidthAdditionalArgumentAndDelete E;
                State_Monad.return
                  (Script (newFlameGrapherScript [withTitle E title, withWidth E v, withColors ''mem''])) }
      else if jobLanguage job = FakeLang then State_Monad.return FlameGrapherFake
      else State_Monad.return FlameGrapherFakeWithError)"

lemma quiet_writeThrough [quiet_rules]: "quiet (writeThrough f out)" "quiet (fileInput f)"
  by (simp_all add: quiet_def writeThrough_def fileInput_def)

lemma quiet_grapher [quiet_rules]: "quiet (stackSamplesToFlameGraph E g i out)"
  by (cases g) (auto simp: scriptStackSamplesToFlameGraph_def intro!: quiet_rules)

lemma quiet_flamegraphGet [quiet_rules]: "quiet (flamegraphGet E job)"
  unfolding flamegraphGet_def by (intro quiet_rules)

section \<open>The graph of a job\<close>

definition drawn_languages :: "ProgrammingLanguage list" where
  "drawn_languages = [Python, Go, Node, Clang, ClangPlusPlus]"

lemma title_not_blank:
  assumes "is_blank_ok E" "l \<in> set drawn_languages"
  shows "is_not_blank E (to_title (lang_string l) @ '' - Flamegraph'')"
proof -
  let ?t = "to_title (lang_string l) @ '' - Flamegraph''"
  have "trim_space ?t = ?t"
    using assms(2)
    by (intro trim_space_clean) (auto simp: drawn_languages_def to_title_def title_char_def is_space_rune_def)
  then show ?thesis using assms(1) by (simp add: is_not_blank_def is_blankD)
qed

text \<open>C36. For the languages whose stacks the script draws, the grapher runs flamegraph.pl with the
  language as title and with the width the user asked for if it is a number, else 1800; and it takes the
  width out of the job, so that a second grapher of the same job draws with 1800.\<close>

theorem flamegraphGet_width:
  assumes "is_blank_ok E" "jobLanguage job \<in> set drawn_languages"
    and "additionalArguments w flamegraphWidthInPixels = Some v" "is_numeric E v" "is_not_blank E v"
  shows "\<exists>g g'. value_of (flamegraphGet E job) w = Script g \<and>
    take 4 (scriptToArguments E g) = [''--title'', flamegraphTitle job, ''--width'', v] \<and>
    value_of (flamegraphGet E job) (after (flamegraphGet E job) w) = Script g' \<and>
    take 4 (scriptToArguments E g') = [''--title'', flamegraphTitle job, ''--width'', ''1800'']"
proof -
  have "is_not_blank E (flamegraphTitle job)"
    using title_not_blank [OF assms(1,2)] by (simp add: flamegraphTitle_def)
  moreover have "\<not> is_not_blank E []" using assms(1) by (simp add: is_not_blank_def is_blankD)
  ultimately show ?thesis
    using assms(2-5)
    by (auto simp: drawn_languages_def flamegraphGet_def width_value newFlameGrapherScript_def
        withTitle_def withWidth_def withColors_def scriptToArguments_def defaultScript_def Let_def)
qed

theorem flamegraphGet_width_witness:
  "\<exists>g g'. value_of (flamegraphGet sample_env sample_job)
       (empty_world\<lparr>additionalArguments := [flamegraphWidthInPixels \<mapsto> ''900'']\<rparr>) = Script g \<and>
     take 4 (scriptToArguments sample_env g) =
       [''--title'', flamegraphTitle sample_job, ''--width'', ''900''] \<and>
     value_of (flamegraphGet sample_env sample_job)
       (after (flamegraphGet sample_env sample_job)
         (empty_world\<lparr>additionalArguments := [flamegraphWidthInPixels \<mapsto> ''900'']\<rparr>)) = Script g' \<and>
     take 4 (scriptToArguments sample_env g') =
       [''--title'', flamegraphTitle sample_job, ''--width'', ''1800'']"
  using sample_env_lib(5)
  by (intro flamegraphGet_width)
    (simp_all add: lib_ok_def sample_job_def drawn_languages_def sample_env_lib is_digit_def
      is_not_blank_def trim_space_clean is_space_rune_def)

end
