(* ===== verification/Common.thy ===== *)
theory Common
  imports Job
begin

text \<open>
  internal/agent/profiler/common/common.go: the name of a result file, and
  internal/agent/profiler/utils.go: the legend that names the process in every line of a profile.
\<close>

section \<open>Result files\<close>

definition profilingPrefix :: string where
  "profilingPrefix = ''agent-''"

definition minimumRawSize :: int where
  "minimumRawSize = 50"

fun getFileExtension :: "ProfilingTool \<Rightarrow> OutputType \<Rightarrow> string" where
  "getFileExtension AsyncProfiler out =
     (if out = Jfr then ''.jfr''
      else if out \<in> {ThreadDump, HeapHistogram, Flat, Traces, Collapsed, SpeedScope, Raw} then ''.txt''
      else if out = HeapDump then ''.hprof'' else ''.html'')"
| "getFileExtension Jcmd out =
     (if out \<in> {Jfr, Raw} then ''.jfr''
      else if out \<in> {ThreadDump, HeapHistogram, Flat, Traces, Collapsed, SpeedScope} then ''.txt''
      else if out = HeapDump then ''.hprof'' else ''.html'')"
| "getFileExtension Pyspy out =
     (if out = SpeedScope then ''.json'' else if out \<in> {ThreadDump, Raw} then ''.txt'' else ''.svg'')"
| "getFileExtension Rbspy out =
     (if out = SpeedScope then ''.json'' else if out = Callgrind then ''.out''
      else if out \<in> {Summary, SummaryByLine} then ''.txt'' else ''.svg'')"
| "getFileExtension Bpf out = (if out = Raw then ''.txt'' else ''.svg'')"
| "getFileExtension Perf out = (if out = Raw then ''.txt'' else ''.svg'')"
| "getFileExtension Austin out = (if out = Raw then ''.txt'' else ''.svg'')"
| "getFileExtension NodeDummy out = (if out = HeapSnapshot then ''.heapsnapshot'' else ''.svg'')"
| "getFileExtension PProf out = ''.pprof''"
| "getFileExtension _ out = ''.svg''"

definition getResultFile :: "string \<Rightarrow> ProfilingTool \<Rightarrow> OutputType \<Rightarrow> string \<Rightarrow> int \<Rightarrow> string" where
  "getResultFile targetDir tool out p iteration =
     path_join [targetDir, profilingPrefix] @ output_string out @ ''-'' @ p @ ''-'' @ itoa iteration
       @ getFileExtension tool out"

text \<open>The result files of one run never collide: for one tool and output type, two results have the
  same file only if they are of the same PID (a PID has no dash) and the same iteration.\<close>

lemma getResultFile_inject:
  assumes "CHR ''-'' \<notin> set p" "CHR ''-'' \<notin> set q"
    and "getResultFile dir tool out p i = getResultFile dir tool out q j"
  shows "p = q \<and> i = j"
proof -
  have "p @ CHR ''-'' # itoa i = q @ CHR ''-'' # itoa j"
    using assms(3) by (simp add: getResultFile_def)
  from butlast_takeWhile_split [OF assms(1,2) this] show ?thesis by simp
qed

section \<open>addProcessPIDLegend\<close>

definition legend_line :: "string \<Rightarrow> string \<Rightarrow> string" where
  "legend_line p l = ''process: '' @ p @ '';'' @ l @ [CHR 10]"

definition addProcessPIDLegend :: "'a lib_scheme \<Rightarrow> string \<Rightarrow> string \<Rightarrow> string" where
  "addProcessPIDLegend L input p =
     (if is_blank L input then input
      else let (ls, err) = scan_lines max_scan_token_size input
           in if err then input else concat (map (legend_line p) ls))"

lemma legend_lines: "CHR 10 \<notin> set p \<Longrightarrow> \<forall>l \<in> set ls. CHR 10 \<notin> set l \<Longrightarrow>
    raw_lines (concat (map (legend_line p) ls)) = map (\<lambda>l. ''process: '' @ p @ '';'' @ l) ls"
proof -
  assume a: "CHR 10 \<notin> set p" "\<forall>l \<in> set ls. CHR 10 \<notin> set l"
  have "concat (map (legend_line p) ls) = concat (map (\<lambda>l. l @ [CHR 10]) (map (\<lambda>l. ''process: '' @ p @ '';'' @ l) ls))"
    by (induction ls) (simp_all add: legend_line_def)
  then show ?thesis
    using a raw_lines_terminated [of "map (\<lambda>l. ''process: '' @ p @ '';'' @ l) ls"] by auto
qed

lemma drop_cr_no_lf: "CHR 10 \<notin> set l \<Longrightarrow> CHR 10 \<notin> set (drop_cr l)"
  by (auto simp: drop_cr_def dest: in_set_butlastD)

text \<open>C31. \<open>addProcessPIDLegend\<close> puts the legend in front of every line and changes nothing else: when no
  line reaches 64 KiB, the result has exactly the lines of the input (without a carriage return at the
  end), each after \<open>process: <pid>;\<close>; when one does, or the input is blank, the result is the input.\<close>

theorem addProcessPIDLegend_lines:
  assumes "CHR 10 \<notin> set p"
  shows "if is_blank L input \<or> \<not> list_all (\<lambda>l. length l < max_scan_token_size) (raw_lines input)
    then addProcessPIDLegend L input p = input
    else raw_lines (addProcessPIDLegend L input p) =
      map (\<lambda>l. ''process: '' @ p @ '';'' @ drop_cr l) (raw_lines input)"
proof (cases "is_blank L input \<or> snd (scan_lines max_scan_token_size input)")
  case True
  then show ?thesis by (auto simp: addProcessPIDLegend_def scan_lines_def)
next
  case False
  then have short: "list_all (\<lambda>l. length l < max_scan_token_size) (raw_lines input)"
    by (simp add: scan_lines_def)
  have "fst (scan_lines max_scan_token_size input) = map drop_cr (raw_lines input)"
    using False by (intro scan_lines_ok) simp
  then have "addProcessPIDLegend L input p = concat (map (legend_line p) (map drop_cr (raw_lines input)))"
    using False by (simp add: addProcessPIDLegend_def split_beta)
  with False short show ?thesis
    using legend_lines [OF assms, of "map drop_cr (raw_lines input)"]
    by (auto simp: drop_cr_no_lf raw_lines_no_lf comp_def)
qed

theorem addProcessPIDLegend_lines_witness:
  "if is_blank sample_lib ''a 1'' \<or> \<not> list_all (\<lambda>l. length l < max_scan_token_size) (raw_lines ''a 1'')
   then addProcessPIDLegend sample_lib ''a 1'' ''7'' = ''a 1''
   else raw_lines (addProcessPIDLegend sample_lib ''a 1'' ''7'') =
     map (\<lambda>l. ''process: '' @ ''7'' @ '';'' @ drop_cr l) (raw_lines ''a 1'')"
  by (rule addProcessPIDLegend_lines) simp

text \<open>A consumer that picks its renderer by the suffix is right to take \<open>.svg\<close> for a flame graph: for a tool
  and an output type it supports, the suffix is used for flame graphs only (and for all of them, but
  those of async-profiler, which are HTML), except that a heap dump of a Node process gets it too.\<close>

lemma svg_is_flame_graph:
  assumes "out \<in> set (getOutputTypesByProfilingTool tool)"
  shows "getFileExtension tool out = ''.svg'' \<longleftrightarrow>
    out = FlameGraph \<and> tool \<noteq> AsyncProfiler \<or> tool = NodeDummy \<and> out = HeapDump"
  using assms by (cases tool) auto

end
