(* ===== verification/GoTime.thy ===== *)
theory GoTime
  imports Complex_Main World
begin

text \<open>
  Package \<open>time\<close> as the agent uses it: durations are 64-bit counts of nanoseconds, modelled as \<open>int\<close>
  within that range; \<open>Seconds()\<close> and the divisions on its results are IEEE double arithmetic, modelled
  as exact rational arithmetic followed by rounding to 53 bits, ties to even; \<open>time.ParseDuration\<close>
  is followed branch by branch. Rounding is that of normal numbers: all values here lie far inside
  the exponent range of a double.
\<close>

section \<open>Rounding to a double\<close>

function bits :: "int \<Rightarrow> nat" where
  "bits n = (if n \<le> 0 then 0 else Suc (bits (n div 2)))"
  by pat_completeness auto
termination
  by (relation "measure nat") auto

declare bits.simps [simp del]

definition floor_log2 :: "rat \<Rightarrow> int" where
  "floor_log2 x =
     (let (p, q) = quotient_of x; k = int (bits p) - int (bits q)
      in if 2 powi k \<le> x then k else k - 1)"

definition round_even :: "rat \<Rightarrow> int" where
  "round_even y =
     (let n = \<lfloor>y\<rfloor>; r = y - of_int n
      in if r < 1 / 2 then n else if 1 / 2 < r then n + 1 else if even n then n else n + 1)"

definition fl_pos :: "rat \<Rightarrow> rat" where
  "fl_pos x = (let e = floor_log2 x - 52 in of_int (round_even (x / 2 powi e)) * 2 powi e)"

definition fl :: "rat \<Rightarrow> rat" where
  "fl x = (if x = 0 then 0 else if 0 < x then fl_pos x else - fl_pos (- x))"

lemma bits_bounds: "0 < n \<Longrightarrow> 2 ^ (bits n - 1) \<le> n \<and> n < 2 ^ bits n"
proof (induction n rule: bits.induct)
  case (1 n)
  show ?case
  proof (cases "n div 2 \<le> 0")
    case True
    with 1 have "n = 1" by auto
    then show ?thesis by (simp add: bits.simps [of 1] bits.simps [of 0])
  next
    case False
    with 1 have IH: "2 ^ (bits (n div 2) - 1) \<le> n div 2" "n div 2 < 2 ^ bits (n div 2)" by auto
    have b: "bits n = Suc (bits (n div 2))" and b': "bits (n div 2) = Suc (bits (n div 2) - 1)"
      using 1 False by (simp_all add: bits.simps [of n] bits.simps [of "n div 2"])
    define P :: int where "P = 2 ^ (bits (n div 2) - Suc 0)"
    have P: "2 ^ bits (n div 2) = 2 * P"
      unfolding P_def by (subst b') simp
    have "2 * P \<le> n" "n < 4 * P"
      using IH P by (simp_all add: P_def [symmetric])
    then show ?thesis by (simp add: b P)
  qed
qed

lemma bits_bounds_rat:
  assumes "0 < p"
  shows "2 ^ (bits p - 1) \<le> (of_int p :: rat)" and "(of_int p :: rat) < 2 ^ bits p"
  using bits_bounds [OF assms]
  by (metis of_int_le_iff of_int_numeral of_int_power,
      metis of_int_less_iff of_int_numeral of_int_power)

lemma floor_log2_bounds:
  assumes "0 < x"
  shows "2 powi (floor_log2 x) \<le> x" and "x < 2 powi (floor_log2 x + 1)"
proof -
  obtain p q where pq: "quotient_of x = (p, q)" by (cases "quotient_of x")
  then have q: "0 < q" and x: "x = of_int p / of_int q"
    by (simp_all add: quotient_of_denom_pos quotient_of_div)
  with assms have p: "0 < p" by (simp add: zero_less_divide_iff)
  define a b where "a = bits p" and "b = bits q"
  have pow: "(2::rat) powi (int m - int n) = 2 ^ m / 2 ^ n" for m n
    by (simp add: power_int_diff)
  have a0: "0 < a" and b0: "0 < b"
    using p q by (simp_all add: a_def b_def bits.simps [of p] bits.simps [of q])
  note A' = bits_bounds_rat [OF p, folded a_def] and B' = bits_bounds_rat [OF q, folded b_def]
  have up: "x < 2 powi (int a - int b + 1)"
  proof -
    have "(2::rat) powi (int a - int b + 1) = 2 ^ a / 2 ^ (b - 1)"
      using pow [of a "b - 1"] b0 by (simp add: of_nat_diff algebra_simps)
    moreover have "x < 2 ^ a / 2 ^ (b - 1)"
      unfolding x using A' B' p q by (intro frac_less) auto
    ultimately show ?thesis by simp
  qed
  have low: "2 powi (int a - int b - 1) \<le> x"
  proof -
    have "(2::rat) powi (int a - int b - 1) = 2 ^ (a - 1) / 2 ^ b"
      using pow [of "a - 1" b] a0 by (simp add: of_nat_diff algebra_simps)
    moreover have "2 ^ (a - 1) / 2 ^ b \<le> x"
      unfolding x using A' B' p q by (intro frac_le) auto
    ultimately show ?thesis by simp
  qed
  from up low show "2 powi (floor_log2 x) \<le> x" "x < 2 powi (floor_log2 x + 1)"
    by (auto simp: floor_log2_def pq Let_def a_def [symmetric] b_def [symmetric])
qed

lemma round_even_ge: "of_int k \<le> y \<Longrightarrow> k \<le> round_even y"
  using le_floor_iff [of k y] by (auto simp: round_even_def Let_def)

lemma round_even_le:
  assumes "y \<le> of_int k"
  shows "round_even y \<le> k"
proof (cases "y = of_int k")
  case True
  then show ?thesis by (simp add: round_even_def)
next
  case False
  with assms have "\<lfloor>y\<rfloor> < k" by (simp add: floor_less_iff)
  then show ?thesis by (auto simp: round_even_def Let_def)
qed

lemma round_even_mono:
  assumes "y \<le> z"
  shows "round_even y \<le> round_even z"
proof (cases "\<lfloor>y\<rfloor> = \<lfloor>z\<rfloor>")
  case True
  with assms show ?thesis by (auto simp: round_even_def Let_def)
next
  case False
  with assms have "\<lfloor>y\<rfloor> + 1 \<le> \<lfloor>z\<rfloor>" using floor_mono [OF assms] by linarith
  moreover have "round_even y \<le> \<lfloor>y\<rfloor> + 1" "\<lfloor>z\<rfloor> \<le> round_even z"
    by (auto simp: round_even_def Let_def)
  ultimately show ?thesis by linarith
qed

lemma round_even_error: "\<bar>of_int (round_even y) - y\<bar> \<le> 1 / 2"
  by (auto simp: round_even_def Let_def abs_if) (use floor_correct [of y] in linarith)+

text \<open>The rounded value lies within half a unit of the last place, and rounding is monotone.\<close>

lemma fl_pos_scale:
  assumes "0 < x"
  defines "e \<equiv> floor_log2 x - 52"
  shows "2 ^ 52 \<le> x / 2 powi e" and "x / 2 powi e < 2 ^ 53"
proof -
  have pos: "(0::rat) < 2 powi e" by simp
  have "(2::rat) ^ 52 * 2 powi e = 2 powi (floor_log2 x)"
    by (simp add: e_def power_int_diff)
  then show "2 ^ 52 \<le> x / 2 powi e"
    using floor_log2_bounds(1) [OF assms(1)] pos by (simp add: le_divide_eq)
  have "(2::rat) ^ 53 * 2 powi e = 2 powi (floor_log2 x + 1)"
    by (simp add: e_def power_int_diff power_int_add)
  then show "x / 2 powi e < 2 ^ 53"
    using floor_log2_bounds(2) [OF assms(1)] pos by (simp add: divide_less_eq)
qed

lemma fl_pos_error:
  assumes "0 < x"
  shows "\<bar>fl_pos x - x\<bar> \<le> x / 2 ^ 53"
proof -
  define e where "e = floor_log2 x - 52"
  define y where "y = x / 2 powi e"
  have pos: "(0::rat) < 2 powi e" by simp
  have x: "y * 2 powi e = x" by (simp add: y_def)
  have y: "2 ^ 52 \<le> y" using fl_pos_scale(1) [OF assms] by (simp add: y_def e_def)
  have f: "fl_pos x = of_int (round_even y) * 2 powi e"
    by (simp add: fl_pos_def e_def y_def Let_def)
  have "fl_pos x - x = of_int (round_even y) * 2 powi e - y * 2 powi e"
    by (simp only: f x)
  also have "\<dots> = (of_int (round_even y) - y) * 2 powi e"
    by (simp only: left_diff_distrib)
  finally have "\<bar>fl_pos x - x\<bar> = \<bar>of_int (round_even y) - y\<bar> * 2 powi e"
    using pos by (simp only: abs_mult abs_of_pos)
  also have "\<dots> \<le> (y / 2 ^ 53) * 2 powi e"
    using round_even_error [of y] y pos by (intro mult_right_mono) auto
  also have "\<dots> = x / 2 ^ 53"
    by (simp only: times_divide_eq_left x)
  finally show ?thesis .
qed

lemma fl_pos_ge_int:
  assumes k: "of_int k \<le> x" and x: "0 < x" and b: "k \<le> 2 ^ 53"
  shows "of_int k \<le> fl_pos x"
proof -
  define e where "e = floor_log2 x - 52"
  define y where "y = x / 2 powi e"
  have pos: "(0::rat) < 2 powi e" by simp
  have f: "fl_pos x = of_int (round_even y) * 2 powi e"
    by (simp add: fl_pos_def e_def y_def Let_def)
  have y: "2 ^ 52 \<le> y" using fl_pos_scale(1) [OF x] by (simp add: y_def e_def)
  show ?thesis
  proof (cases "e \<le> 0")
    case True
    then obtain n where n: "e = - int n" by (metis nat_0_le neg_0_le_iff_le minus_minus)
    have "of_int (k * 2 ^ n) \<le> y"
      using k by (simp add: y_def n power_int_minus divide_simps)
    then have "k * 2 ^ n \<le> round_even y" by (rule round_even_ge)
    then have "(of_int (k * 2 ^ n) :: rat) \<le> of_int (round_even y)" by (simp only: of_int_le_iff)
    then show ?thesis by (simp add: f n power_int_minus divide_simps)
  next
    case False
    have "2 ^ 52 \<le> round_even y" using y by (intro round_even_ge) simp
    then have "(2::rat) ^ 52 \<le> of_int (round_even y)"
      by (metis of_int_le_iff of_int_numeral of_int_power)
    moreover have "(2::rat) powi 1 \<le> 2 powi e" using False by (intro power_int_increasing) auto
    ultimately have "(2::rat) ^ 52 * 2 powi 1 \<le> fl_pos x"
      unfolding f by (intro mult_mono) auto
    moreover have "(of_int k :: rat) \<le> 2 ^ 53"
      using b by (metis of_int_le_iff of_int_numeral of_int_power)
    ultimately show ?thesis by simp
  qed
qed

lemma fl_pos_le_int:
  assumes k: "x \<le> of_int k" and x: "0 < x" and b: "k < 2 ^ 53"
  shows "fl_pos x \<le> of_int k"
proof -
  define e where "e = floor_log2 x - 52"
  define y where "y = x / 2 powi e"
  have f: "fl_pos x = of_int (round_even y) * 2 powi e"
    by (simp add: fl_pos_def e_def y_def Let_def)
  have "floor_log2 x < 53"
  proof (rule ccontr)
    assume "\<not> floor_log2 x < 53"
    then have "(2::rat) powi 53 \<le> 2 powi (floor_log2 x)" by (intro power_int_increasing) auto
    also have "\<dots> \<le> of_int k" using floor_log2_bounds(1) [OF x] k by linarith
    also have "(of_int k :: rat) < 2 ^ 53"
      using b by (metis of_int_less_iff of_int_numeral of_int_power)
    finally show False by simp
  qed
  then have "e \<le> 0" by (simp add: e_def)
  then obtain n where n: "e = - int n" by (metis nat_0_le neg_0_le_iff_le minus_minus)
  have "y \<le> of_int (k * 2 ^ n)"
    using k by (simp add: y_def n power_int_minus divide_simps)
  then have "round_even y \<le> k * 2 ^ n" by (rule round_even_le)
  then have "(of_int (round_even y) :: rat) \<le> of_int (k * 2 ^ n)" by (simp only: of_int_le_iff)
  then show ?thesis by (simp add: f n power_int_minus divide_simps)
qed

lemma floor_log2_mono:
  assumes "0 < x" "x \<le> y"
  shows "floor_log2 x \<le> floor_log2 y"
proof (rule ccontr)
  assume "\<not> floor_log2 x \<le> floor_log2 y"
  then have "(2::rat) powi (floor_log2 y + 1) \<le> 2 powi (floor_log2 x)"
    by (intro power_int_increasing) auto
  with floor_log2_bounds(1) [of x] floor_log2_bounds(2) [of y] assms show False by linarith
qed

lemma fl_pos_binade:
  assumes "0 < x"
  shows "2 powi (floor_log2 x) \<le> fl_pos x" and "fl_pos x \<le> 2 powi (floor_log2 x + 1)"
proof -
  define e where "e = floor_log2 x - 52"
  have f: "fl_pos x = of_int (round_even (x / 2 powi e)) * 2 powi e"
    by (simp add: fl_pos_def e_def Let_def)
  have "2 ^ 52 \<le> round_even (x / 2 powi e)"
    using fl_pos_scale(1) [OF assms] by (intro round_even_ge) (simp add: e_def)
  then have lo: "(2::rat) ^ 52 \<le> of_int (round_even (x / 2 powi e))"
    by (metis of_int_le_iff of_int_numeral of_int_power)
  have "round_even (x / 2 powi e) \<le> 2 ^ 53"
    using fl_pos_scale(2) [OF assms] by (intro round_even_le) (simp add: e_def)
  then have hi: "(of_int (round_even (x / 2 powi e)) :: rat) \<le> 2 ^ 53"
    by (metis of_int_le_iff of_int_numeral of_int_power)
  have "2 powi (floor_log2 x) = (2::rat) ^ 52 * 2 powi e"
    by (simp add: e_def power_int_diff)
  also have "\<dots> \<le> fl_pos x" unfolding f using lo by (intro mult_right_mono) auto
  finally show "2 powi (floor_log2 x) \<le> fl_pos x" .
  have "fl_pos x \<le> (2::rat) ^ 53 * 2 powi e"
    unfolding f using hi by (intro mult_right_mono) auto
  also have "\<dots> = 2 powi (floor_log2 x + 1)"
    by (simp add: e_def power_int_diff power_int_add)
  finally show "fl_pos x \<le> 2 powi (floor_log2 x + 1)" .
qed

lemma fl_pos_mono:
  assumes "0 < x" "x \<le> y"
  shows "fl_pos x \<le> fl_pos y"
proof (cases "floor_log2 x = floor_log2 y")
  case True
  have "round_even (x / 2 powi (floor_log2 y - 52)) \<le> round_even (y / 2 powi (floor_log2 y - 52))"
    using assms by (intro round_even_mono divide_right_mono) auto
  then show ?thesis by (simp add: fl_pos_def Let_def True mult_right_mono)
next
  case False
  with floor_log2_mono [OF assms] have "(2::rat) powi (floor_log2 x + 1) \<le> 2 powi (floor_log2 y)"
    by (intro power_int_increasing) auto
  with fl_pos_binade [of x] fl_pos_binade [of y] assms show ?thesis by linarith
qed

lemma fl_pos_positive: "0 < x \<Longrightarrow> 0 < fl_pos x"
  using fl_pos_binade(1) [of x] by (meson less_le_trans zero_less_power_int zero_less_numeral)

lemma fl_mono_nonneg: "0 \<le> x \<Longrightarrow> x \<le> y \<Longrightarrow> fl x \<le> fl y"
  using fl_pos_mono [of x y] fl_pos_positive [of y] by (auto simp: fl_def)

lemma fl_nonneg: "0 \<le> x \<Longrightarrow> 0 \<le> fl x"
  using fl_pos_positive [of x] by (auto simp: fl_def)

lemma fl_positive: "0 < x \<Longrightarrow> 0 < fl x"
  using fl_pos_positive [of x] by (auto simp: fl_def)

lemma fl_ge_int: "of_int k \<le> x \<Longrightarrow> 0 < x \<Longrightarrow> k \<le> 2 ^ 53 \<Longrightarrow> of_int k \<le> fl x"
  using fl_pos_ge_int [of k x] by (simp add: fl_def)

lemma fl_le_int: "x \<le> of_int k \<Longrightarrow> 0 < x \<Longrightarrow> k < 2 ^ 53 \<Longrightarrow> fl x \<le> of_int k"
  using fl_pos_le_int [of x k] by (simp add: fl_def)

lemma fl_of_int: "0 \<le> k \<Longrightarrow> k < 2 ^ 53 \<Longrightarrow> fl (of_int k) = of_int k"
  using fl_ge_int [of k "of_int k"] fl_le_int [of "of_int k" k]
  by (cases "k = 0") (auto simp: fl_def intro!: antisym)

lemma fl_error: "0 < x \<Longrightarrow> \<bar>fl x - x\<bar> \<le> x / 2 ^ 53"
  using fl_pos_error [of x] by (simp add: fl_def)

lemma fl_lower: "0 < x \<Longrightarrow> x - x / 2 ^ 53 \<le> fl x"
  and fl_upper: "0 < x \<Longrightarrow> fl x \<le> x + x / 2 ^ 53"
  using fl_error [of x, THEN abs_le_D1] fl_error [of x, THEN abs_le_D2] by linarith+

section \<open>Durations\<close>

definition second :: int where
  "second = 10 ^ 9"

text \<open>Go's integer division truncates toward zero.\<close>

definition quot :: "int \<Rightarrow> int \<Rightarrow> int" where
  "quot a b = sgn a * sgn b * (\<bar>a\<bar> div \<bar>b\<bar>)"

definition go_rem :: "int \<Rightarrow> int \<Rightarrow> int" where
  "go_rem a b = a - quot a b * b"

text \<open>\<open>d.Seconds()\<close> and \<open>d.Milliseconds()\<close>\<close>

definition seconds :: "int \<Rightarrow> rat" where
  "seconds d =
     fl (fl (of_int (quot d second)) + fl (fl (of_int (go_rem d second)) / of_int second))"

definition milliseconds :: "int \<Rightarrow> int" where
  "milliseconds d = quot d (10 ^ 6)"

text \<open>
  The conversion \<open>int64(f)\<close>: truncation, or the implementation-dependent value \<open>ov\<close> when the result
  does not fit.
\<close>

definition trunc :: "rat \<Rightarrow> int" where
  "trunc q = (if 0 \<le> q then \<lfloor>q\<rfloor> else \<lceil>q\<rceil>)"

definition to_int64 :: "int \<Rightarrow> rat \<Rightarrow> int" where
  "to_int64 ov q = (let t = trunc q in if - (2 ^ 63) \<le> t \<and> t < 2 ^ 63 then t else ov)"

text \<open>
  \<open>int64(a.Seconds() / b.Seconds())\<close>. A zero divisor gives an infinity or NaN, which does not fit
  either.
\<close>

definition seconds_ratio :: "int \<Rightarrow> int \<Rightarrow> int \<Rightarrow> int" where
  "seconds_ratio ov a b =
     (if seconds b = 0 then ov else to_int64 ov (fl (seconds a / seconds b)))"

text \<open>\<open>int(d.Seconds())\<close>, as the tools' arguments use it.\<close>

definition whole_seconds :: "int \<Rightarrow> int" where
  "whole_seconds d = trunc (seconds d)"

lemma quot_nonneg: "0 \<le> a \<Longrightarrow> 0 < b \<Longrightarrow> quot a b = a div b"
  by (cases "a = 0") (simp_all add: quot_def)

lemma go_rem_nonneg: "0 \<le> a \<Longrightarrow> 0 < b \<Longrightarrow> go_rem a b = a mod b"
  by (simp add: go_rem_def quot_nonneg minus_div_mult_eq_mod)

lemma fl_zero [simp]: "fl 0 = 0"
  by (simp add: fl_def)

lemma seconds_whole: "0 \<le> m \<Longrightarrow> m < 2 ^ 53 \<Longrightarrow> seconds (m * second) = of_int m"
  by (simp add: seconds_def quot_nonneg go_rem_nonneg second_def fl_of_int)

lemma whole_seconds_whole: "0 \<le> m \<Longrightarrow> m < 2 ^ 53 \<Longrightarrow> whole_seconds (m * second) = m"
  by (simp add: whole_seconds_def seconds_whole trunc_def)

text \<open>
  For whole seconds the quotient of doubles truncates to the integer quotient: the rounding error is
  smaller than the distance to the next integer.
\<close>

lemma div_le_dividend: "0 \<le> m \<Longrightarrow> 0 < n \<Longrightarrow> m div n \<le> (m::int)"
  using zdiv_mono2 [of m 1 n] by simp

lemma floor_fl_quotient:
  assumes m: "0 < m" "m < 2 ^ 53" and n: "0 < n"
  shows "\<lfloor>fl (of_int m / of_int n)\<rfloor> = m div n"
proof -
  define q :: rat where "q = of_int m / of_int n"
  have q: "0 < q" using m n by (simp add: q_def)
  have "(of_int (m div n) :: rat) \<le> q"
    using n of_int_floor_le [of q] by (simp add: q_def floor_divide_of_int_eq)
  moreover have "m div n \<le> m" using m n by (simp add: div_le_dividend)
  ultimately have lo: "of_int (m div n) \<le> fl q"
    using m q by (intro fl_ge_int) auto
  have "m * 1 \<le> m div n * n + n - 1"
    using n pos_mod_bound [OF n, of m] div_mult_mod_eq [of m n] by linarith
  then have "(of_int m :: rat) \<le> (of_int (m div n) + 1) * of_int n - 1"
    by (metis (no_types, opaque_lifting) add.commute distrib_right mult_1 mult.right_neutral
        of_int_1 of_int_add of_int_diff of_int_le_iff of_int_mult add_diff_eq)
  then have gap: "q \<le> of_int (m div n) + 1 - 1 / of_int n"
    using n by (simp add: q_def divide_simps)
  have "(of_int m :: rat) < 2 ^ 53"
    using m by (metis of_int_less_iff of_int_numeral of_int_power)
  then have "q / 2 ^ 53 < 1 / of_int n"
    using n by (simp add: q_def divide_simps)
  moreover note fl_upper [OF q]
  ultimately have "fl q < of_int (m div n) + 1" using gap by linarith
  with lo show ?thesis unfolding q_def [symmetric] by (intro floor_unique) auto
qed

lemma seconds_ratio_whole:
  assumes m: "0 < m" "m < 2 ^ 53" and n: "0 < n" "n < 2 ^ 53"
  shows "seconds_ratio ov (m * second) (n * second) = m div n"
proof -
  have "0 \<le> fl (of_int m / of_int n :: rat)" using m n by (intro fl_nonneg) simp
  then have "trunc (fl (of_int m / of_int n)) = m div n"
    using floor_fl_quotient [OF m n(1)] by (simp add: trunc_def)
  moreover have "0 \<le> m div n" "m div n \<le> m"
    using m n by (simp_all add: pos_imp_zdiv_nonneg_iff div_le_dividend)
  ultimately show ?thesis
    using m n by (simp add: seconds_ratio_def seconds_whole to_int64_def Let_def)
qed

text \<open>\<open>Seconds()\<close> is monotone and positive on positive durations.\<close>

lemma nanos_fraction:
  assumes "0 \<le> d"
  shows "0 \<le> fl (fl (of_int (go_rem d second)) / of_int second)"
    and "fl (fl (of_int (go_rem d second)) / of_int second) \<le> 1"
proof -
  have r: "0 \<le> go_rem d second" "go_rem d second < second"
    using assms by (simp_all add: go_rem_nonneg second_def)
  then have f: "fl (of_int (go_rem d second)) = of_int (go_rem d second)"
    by (intro fl_of_int) (simp_all add: second_def)
  show "0 \<le> fl (fl (of_int (go_rem d second)) / of_int second)"
    unfolding f using r by (intro fl_nonneg) (simp add: second_def)
  show "fl (fl (of_int (go_rem d second)) / of_int second) \<le> 1"
  proof (cases "go_rem d second = 0")
    case False
    with r show ?thesis
      unfolding f using fl_le_int [of "of_int (go_rem d second) / of_int second" 1]
      by (simp add: second_def)
  qed simp
qed

lemma seconds_mono:
  assumes "0 \<le> a" "a \<le> b" "b < 2 ^ 63"
  shows "seconds a \<le> seconds b"
proof -
  define fr where "fr d = fl (fl (of_int (go_rem d second)) / of_int second)" for d
  have b: "b div second < 2 ^ 53" "a div second < 2 ^ 53" "0 \<le> a div second" "0 \<le> b div second"
    using assms by (simp_all add: second_def)
  have s: "seconds d = fl (of_int (d div second) + fr d)" if "d \<in> {a, b}" for d
    using that assms b by (auto simp: seconds_def fr_def quot_nonneg second_def fl_of_int)
  have "of_int (a div second) + fr a \<le> of_int (b div second) + fr b"
  proof (cases "a div second = b div second")
    case True
    have "go_rem a second \<le> go_rem b second"
      using True assms
      by (simp add: go_rem_nonneg second_def minus_div_mult_eq_mod [symmetric])
    moreover have "0 \<le> go_rem a second" "go_rem b second < 2 ^ 53"
      using assms pos_mod_bound [of second b] by (simp_all add: go_rem_nonneg second_def)
    ultimately have "fr a \<le> fr b"
      unfolding fr_def
      by (intro fl_mono_nonneg divide_right_mono) (auto simp: second_def fl_nonneg)
    with True show ?thesis by simp
  next
    case False
    with zdiv_mono1 [OF assms(2), of second] have "a div second + 1 \<le> b div second"
      by (simp add: second_def)
    then have "of_int (a div second) + (1::rat) \<le> of_int (b div second)"
      by (metis of_int_1 of_int_add of_int_le_iff)
    with nanos_fraction [of a] nanos_fraction [of b] assms show ?thesis by (simp add: fr_def)
  qed
  moreover have "0 \<le> of_int (a div second) + fr a"
    using nanos_fraction(1) [of a] assms b by (simp add: fr_def)
  ultimately show ?thesis using s [of a] s [of b] by (simp add: fl_mono_nonneg)
qed

lemma seconds_ratio_at_least_1:
  assumes "0 < b" "b \<le> a" "a \<le> 10 ^ 17"
  shows "1 \<le> seconds_ratio ov a b"
proof -
  have le: "seconds b \<le> seconds a" using assms by (intro seconds_mono) auto
  have "fl (1::rat) = 1" using fl_of_int [of 1] by simp
  then have one: "seconds 1 = fl (fl (1 / 10 ^ 9))"
    by (simp add: seconds_def quot_def go_rem_def second_def)
  have tiny: "1 / 10 ^ 9 - 1 / 10 ^ 9 / 2 ^ 53 \<le> fl (1 / 10 ^ 9)" (is "?t \<le> _")
    by (intro fl_lower) simp
  have "?t - ?t / 2 ^ 53 \<le> fl ?t"
    by (intro fl_lower) simp
  also have "fl ?t \<le> seconds 1" unfolding one using tiny by (intro fl_mono_nonneg) auto
  finally have "1 / (2 * 10 ^ 9) \<le> seconds 1" by simp
  also have "seconds 1 \<le> seconds b" using assms by (intro seconds_mono) auto
  finally have b: "1 / (2 * 10 ^ 9) \<le> seconds b" .
  have "seconds a \<le> seconds (10 ^ 8 * second)"
    using assms by (intro seconds_mono) (auto simp: second_def)
  then have a: "seconds a \<le> 10 ^ 8" by (subst (asm) seconds_whole) auto
  define q where "q = seconds a / seconds b"
  have "0 < seconds b" using b by (rule less_le_trans [rotated]) simp
  then have q: "1 \<le> q" using le by (simp add: q_def)
  have "q \<le> 10 ^ 8 / (1 / (2 * 10 ^ 9))"
    unfolding q_def using a b le \<open>0 < seconds b\<close> by (intro frac_le) auto
  then have "q \<le> 2 * 10 ^ 17" by simp
  moreover have "fl q \<le> q + q / 2 ^ 53" using q by (intro fl_upper) simp
  ultimately have "fl q < 2 ^ 60" by simp
  moreover have lo: "1 \<le> fl q" using q fl_ge_int [of 1 q] by simp
  ultimately have "trunc (fl q) < 2 ^ 60" "1 \<le> trunc (fl q)"
    by (simp_all add: trunc_def floor_less_iff le_floor_iff)
  then show ?thesis
    using \<open>0 < seconds b\<close> by (simp add: seconds_ratio_def to_int64_def q_def [symmetric] Let_def)
qed

section \<open>time.ParseDuration\<close>

fun leading_int :: "int \<Rightarrow> string \<Rightarrow> (int \<times> string) option" where
  "leading_int x [] = Some (x, [])"
| "leading_int x (c # s) =
     (if \<not> is_digit c then Some (x, c # s)
      else if 2 ^ 63 div 10 < x then None
      else if 2 ^ 63 < 10 * x + int (digit_val c) then None
      else leading_int (10 * x + int (digit_val c)) s)"

fun leading_fraction :: "int \<Rightarrow> rat \<Rightarrow> bool \<Rightarrow> string \<Rightarrow> int \<times> rat \<times> string" where
  "leading_fraction x scale overflow [] = (x, scale, [])"
| "leading_fraction x scale overflow (c # s) =
     (if \<not> is_digit c then (x, scale, c # s)
      else if overflow then leading_fraction x scale overflow s
      else if (2 ^ 63 - 1) div 10 < x then leading_fraction x scale True s
      else if 2 ^ 63 < 10 * x + int (digit_val c) then leading_fraction x scale True s
      else leading_fraction (10 * x + int (digit_val c)) (fl (scale * 10)) overflow s)"

definition micro_sign :: string where
  "micro_sign = [char_of (194::nat), char_of (181::nat)]"

definition greek_mu :: string where
  "greek_mu = [char_of (206::nat), char_of (188::nat)]"

definition unit_map :: "(string \<times> int) list" where
  "unit_map =
     [(''ns'', 1), (''us'', 10 ^ 3), (micro_sign @ ''s'', 10 ^ 3), (greek_mu @ ''s'', 10 ^ 3),
      (''ms'', 10 ^ 6), (''s'', 10 ^ 9), (''m'', 60 * 10 ^ 9), (''h'', 3600 * 10 ^ 9)]"

definition go_quote :: "string \<Rightarrow> string" where
  "go_quote s = CHR 34 # s @ [CHR 34]"

definition invalid_duration :: "string \<Rightarrow> error" where
  "invalid_duration orig = Errorf (''time: invalid duration '' @ go_quote orig)"

definition unit_char :: "char \<Rightarrow> bool" where
  "unit_char c \<longleftrightarrow> c \<noteq> CHR ''.'' \<and> \<not> is_digit c"

text \<open>The optional fraction: value, scale, rest, and whether a digit was consumed.\<close>

definition parse_fraction :: "string \<Rightarrow> int \<times> rat \<times> string \<times> bool" where
  "parse_fraction s =
     (if s \<noteq> [] \<and> hd s = CHR ''.''
      then (let (f, scale, r) = leading_fraction 0 1 False (tl s)
            in (f, scale, r, length r \<noteq> length (tl s)))
      else (0, 1, s, False))"

lemma leading_int_length: "leading_int x s = Some (v, r) \<Longrightarrow> length r \<le> length s"
  by (induction x s rule: leading_int.induct) (auto split: if_splits)

lemma leading_fraction_length:
  "leading_fraction x sc ov s = (f, sc', r) \<Longrightarrow> length r \<le> length s"
  by (induction x sc ov s rule: leading_fraction.induct) (auto split: if_splits)

lemma parse_fraction_length: "parse_fraction s = (f, sc, r, post) \<Longrightarrow> length r \<le> length s"
  by (auto simp: parse_fraction_def split: if_splits prod.splits dest!: leading_fraction_length)

text \<open>The value of a number with its unit, and one pass of the loop: the value and the rest.\<close>

definition component_value :: "string \<Rightarrow> int \<Rightarrow> int \<Rightarrow> rat \<Rightarrow> int \<Rightarrow> error + int" where
  "component_value orig v f scale unit =
     (if 2 ^ 63 div unit < v then Inl (invalid_duration orig)
      else
        (let v' = v * unit
           + (if 0 < f then trunc (fl (fl (of_int f) * fl (of_int unit / scale))) else 0)
         in if 0 < f \<and> 2 ^ 63 < v' then Inl (invalid_duration orig) else Inr v'))"

definition parse_component :: "string \<Rightarrow> string \<Rightarrow> error + int \<times> string" where
  "parse_component orig s =
     (if \<not> (hd s = CHR ''.'' \<or> is_digit (hd s)) then Inl (invalid_duration orig)
      else
        (case leading_int 0 s of
           None \<Rightarrow> Inl (invalid_duration orig)
         | Some (v, s1) \<Rightarrow>
             (case parse_fraction s1 of (f, scale, s2, post) \<Rightarrow>
                (let u = takeWhile unit_char s2 in
                 if length s1 = length s \<and> \<not> post then Inl (invalid_duration orig)
                 else if u = [] then
                   Inl (Errorf (''time: missing unit in duration '' @ go_quote orig))
                 else
                   (case map_of unit_map u of
                      None \<Rightarrow> Inl (Errorf (''time: unknown unit '' @ go_quote u @ '' in duration '' @ go_quote orig))
                    | Some unit \<Rightarrow>
                        (case component_value orig v f scale unit of
                           Inl e \<Rightarrow> Inl e
                         | Inr v' \<Rightarrow> Inr (v', dropWhile unit_char s2)))))))"

lemma parse_component_length: "parse_component orig s = Inr (v, r) \<Longrightarrow> length r < length s"
proof -
  assume a: "parse_component orig s = Inr (v, r)"
  then obtain w s1 where s1: "leading_int 0 s = Some (w, s1)"
    by (cases "leading_int 0 s") (auto simp: parse_component_def split: if_splits)
  obtain f sc s2 post where s2: "parse_fraction s1 = (f, sc, s2, post)"
    by (cases "parse_fraction s1")
  from a have u: "takeWhile unit_char s2 \<noteq> []" and r: "r = dropWhile unit_char s2"
    by (auto simp: parse_component_def s1 s2 Let_def
        split: if_split_asm option.split_asm sum.split_asm)
  have "length (takeWhile unit_char s2) + length (dropWhile unit_char s2) = length s2"
    by (metis length_append takeWhile_dropWhile_id)
  moreover have "0 < length (takeWhile unit_char s2)" using u by blast
  ultimately have "length r < length s2" unfolding r by linarith
  with leading_int_length [OF s1] parse_fraction_length [OF s2] show ?thesis by simp
qed

function parse_loop :: "string \<Rightarrow> int \<Rightarrow> string \<Rightarrow> error + int" where
  "parse_loop orig d s =
     (if s = [] then Inr d
      else
        (case parse_component orig s of
           Inl e \<Rightarrow> Inl e
         | Inr (v, rest) \<Rightarrow>
             (let d' = (d + v) mod 2 ^ 64
              in if 2 ^ 63 < d' then Inl (invalid_duration orig) else parse_loop orig d' rest)))"
  by pat_completeness auto
termination
  by (relation "measure (\<lambda>(orig, d, s). length s)") (auto dest: parse_component_length)

declare parse_loop.simps [simp del]

definition parseDuration :: "string \<Rightarrow> error + int" where
  "parseDuration orig =
     (let signed = (orig \<noteq> [] \<and> (hd orig = CHR ''-'' \<or> hd orig = CHR ''+''));
          neg = (orig \<noteq> [] \<and> hd orig = CHR ''-'');
          s = (if signed then tl orig else orig)
      in if s = ''0'' then Inr 0
         else if s = [] then Inl (invalid_duration orig)
         else
           (case parse_loop orig 0 s of
              Inl e \<Rightarrow> Inl e
            | Inr d \<Rightarrow>
                if neg then Inr (- d)
                else if 2 ^ 63 - 1 < d then Inl (invalid_duration orig)
                else Inr d))"

lemma parse_loop_bound:
  "0 \<le> d \<and> d \<le> 2 ^ 63 \<Longrightarrow> parse_loop orig d s = Inr d' \<Longrightarrow> 0 \<le> d' \<and> d' \<le> 2 ^ 63"
proof (induction orig d s arbitrary: d' rule: parse_loop.induct)
  case (1 orig d s)
  show ?case
  proof (cases "s = []")
    case True
    with "1.prems" show ?thesis by (simp add: parse_loop.simps [of orig d "[]"])
  next
    case False
    with "1.prems"(2) obtain v r where
      v: "parse_component orig s = Inr (v, r)" and le: "\<not> 2 ^ 63 < (d + v) mod 2 ^ 64"
      and loop: "parse_loop orig ((d + v) mod 2 ^ 64) r = Inr d'"
      by (auto simp only: parse_loop.simps [of orig d s] Let_def
          split: if_split_asm sum.split_asm prod.split_asm)
    show ?thesis by (rule "1.IH" [OF False v refl refl le _ loop]) (use le in simp)
  qed
qed

lemma parseDuration_range:
  assumes "parseDuration s = Inr d"
  shows "- (2 ^ 63) \<le> d \<and> d < 2 ^ 63"
  using assms
  by (auto simp: parseDuration_def Let_def split: if_splits sum.splits dest!: parse_loop_bound [rotated])

lemma leading_int_digits:
  assumes "list_all is_digit ds" "rest = [] \<or> \<not> is_digit (hd rest)"
    and "0 \<le> x" and "foldl (\<lambda>n c. 10 * n + int (digit_val c)) x ds \<le> 2 ^ 63 div 10"
  shows "leading_int x (ds @ rest) = Some (foldl (\<lambda>n c. 10 * n + int (digit_val c)) x ds, rest)"
  using assms
proof (induction ds arbitrary: x)
  case Nil
  then show ?case by (cases rest) auto
next
  case (Cons c ds)
  have mono: "0 \<le> y \<Longrightarrow> y \<le> foldl (\<lambda>n c. 10 * n + int (digit_val c)) y es" for y es
  proof (induction es arbitrary: y)
    case (Cons e es)
    show ?case using Cons.IH [of "10 * y + int (digit_val e)"] Cons.prems by simp
  qed simp
  have "10 * x + int (digit_val c) \<le> 2 ^ 63 div 10"
    using mono [of "10 * x + int (digit_val c)" ds] Cons.prems by simp
  moreover have "x \<le> 2 ^ 63 div 10"
    using calculation Cons.prems by simp
  ultimately show ?case using Cons by simp
qed

lemma int_digits_val:
  "foldl (\<lambda>n c. 10 * n + int (digit_val c)) (int x) ds = int (foldl (\<lambda>n c. 10 * n + digit_val c) x ds)"
proof (induction ds arbitrary: x)
  case (Cons c ds)
  have "10 * int x + int (digit_val c) = int (10 * x + digit_val c)" by simp
  then show ?case by (simp only: foldl_Cons Cons.IH)
qed simp

lemma parseDuration_seconds:
  assumes "n \<le> 9223372036"
  shows "parseDuration (show_nat n @ ''s'') = Inr (int n * second)"
proof -
  have hd: "is_digit (hd (show_nat n))" and tl: "show_nat n \<noteq> []"
    by (simp_all add: hd_show_nat_digit)
  have li: "leading_int 0 (show_nat n @ ''s'') = Some (int n, ''s'')"
    using leading_int_digits [OF show_nat_digits [of n], of "''s''" 0] assms digits_val_show_nat [of n]
      int_digits_val [of 0 "show_nat n"]
    by (simp add: digits_val_def is_digit_def)
  have u: "map_of unit_map ''s'' = Some (10 ^ 9)"
    by (simp add: unit_map_def micro_sign_def greek_mu_def)
  have pc: "parse_component orig (show_nat n @ ''s'') = Inr (int n * 10 ^ 9, [])" for orig
    using hd tl assms
    by (simp add: parse_component_def li parse_fraction_def unit_char_def is_digit_def u component_value_def)
  have "parse_loop orig 0 (show_nat n @ ''s'') = Inr (int n * 10 ^ 9)" for orig
  proof -
    have m: "int n * 10 ^ 9 mod 2 ^ 64 = int n * 10 ^ 9" and le: "\<not> (2::int) ^ 63 < int n * 10 ^ 9"
      using assms by simp_all
    have "parse_loop orig 0 (show_nat n @ ''s'') = parse_loop orig (int n * 10 ^ 9) []"
      by (subst parse_loop.simps) (simp only: pc m le add_0 Let_def sum.case prod.case if_False append_is_Nil_conv tl simp_thms)
    moreover have "parse_loop orig d [] = Inr d" for d
      by (subst parse_loop.simps) simp
    ultimately show ?thesis by simp
  qed
  moreover have "show_nat n @ ''s'' \<noteq> ''0''"
    using tl by (metis append_eq_Cons_conv append_is_Nil_conv list.inject not_Cons_self2)
  ultimately show ?thesis
    using is_digit_not_sign [OF hd] assms tl by (simp add: parseDuration_def Let_def second_def)
qed

section \<open>Duration.String\<close>

text \<open>
  \<open>fmtFrac\<close>: the last \<open>prec\<close> decimal digits of \<open>v\<close> without trailing zeros, after a point if any are
  left, and the rest of \<open>v\<close>.
\<close>

fun frac_digits :: "nat \<Rightarrow> int \<Rightarrow> string" where
  "frac_digits 0 v = []"
| "frac_digits (Suc n) v = frac_digits n (v div 10) @ [digit_char (nat (v mod 10))]"

definition fmt_frac :: "nat \<Rightarrow> int \<Rightarrow> string \<times> int" where
  "fmt_frac prec v =
     (let ds = rev (dropWhile (\<lambda>c. c = CHR ''0'') (rev (frac_digits prec v)))
      in (if ds = [] then [] else CHR ''.'' # ds, v div 10 ^ prec))"

definition durationString :: "int \<Rightarrow> string" where
  "durationString d =
     (let u = \<bar>d\<bar>; sgn = (if d < 0 then ''-'' else []) in
      if u = 0 then ''0s''
      else if u < second then
        (let (prec, unit) = (if u < 1000 then (0, ''ns'')
                             else if u < 1000000 then (3, micro_sign @ ''s'') else (6, ''ms''));
             (frac, v) = fmt_frac prec u
         in sgn @ itoa v @ frac @ unit)
      else
        (let (frac, s) = fmt_frac 9 u; m = s div 60; h = m div 60
         in sgn @ (if 0 < h then itoa h @ ''h'' else []) @ (if 0 < m then itoa (m mod 60) @ ''m'' else [])
              @ itoa (s mod 60) @ frac @ ''s''))"

end
