(* ===== verification/PidProfiler.thy ===== *)
theory PidProfiler
  imports ProfilePids Publisher Flamegraph Common GoTime
begin

text \<open>
  What the profilers that run one body per PID share: the choice of the target PIDs in \<open>SetUp\<close>, the
  \<open>Invoke\<close> that hands a body to \<open>ProfilePIDs\<close>, and the contract between the two, the locale
  \<open>pid_body\<close>: a body publishes exactly one result when it succeeds and none when it fails. Each
  profiler interprets it for its own body.
\<close>

section \<open>SetUp and Invoke\<close>

record PidProfiler =
  targetPIDs :: "string list"
  delayBetween :: int

definition newPidProfiler :: "int \<Rightarrow> PidProfiler" where
  "newPidProfiler d = \<lparr>targetPIDs = [], delayBetween = d\<rparr>"

definition targetsOf :: "env \<Rightarrow> ProfilingJob \<Rightarrow> (error + string list) io" where
  "targetsOf E job =
     (if is_not_blank E (jobPID job) then State_Monad.return (Inr [jobPID job])
      else attempt (getCandidatePIDs E job) (\<lambda>pids.
             do { debugLogLn E (''The PIDs to be profiled: '' @ show_slice pids);
                  State_Monad.return (Inr pids) }))"

text \<open>The error of \<open>SetUp\<close> and the profiler afterwards.\<close>

definition pidSetUp :: "env \<Rightarrow> PidProfiler \<Rightarrow> ProfilingJob \<Rightarrow> (error option \<times> PidProfiler) io" where
  "pidSetUp E b job =
     do { r \<leftarrow> targetsOf E job;
          State_Monad.return
            (case r of Inl e \<Rightarrow> (Some e, b) | Inr pids \<Rightarrow> (None, b\<lparr>targetPIDs := pids\<rparr>)) }"

text \<open>The error and the duration of \<open>Invoke\<close>.\<close>

definition timed :: "error option io \<Rightarrow> (error option \<times> int) io" where
  "timed m = do { start \<leftarrow> now; err \<leftarrow> m; end \<leftarrow> now; State_Monad.return (err, end - start) }"

definition pidInvoke ::
  "env \<Rightarrow> (string \<Rightarrow> error option io) \<Rightarrow> PidProfiler \<Rightarrow> (error option \<times> int) io" where
  "pidInvoke E body b = timed (profilePIDs E (targetPIDs b) (delayBetween b) body)"

text \<open>\<open>strconv.Itoa(int(job.Interval.Seconds()))\<close>\<close>

definition intervalSeconds :: "env \<Rightarrow> ProfilingJob \<Rightarrow> string" where
  "intervalSeconds E job = itoa (whole_seconds (jobInterval job))"

section \<open>handleFlamegraph\<close>

definition noStacks :: error where
  "noStacks = Errorf ''unable to generate flamegraph: no stacks found (maybe due low cpu load)''"

text \<open>The test of bpf.go, which perf.go writes a second time: a raw file below 50 bytes has no stacks.\<close>

definition handleFlamegraph ::
  "env \<Rightarrow> ProfilingJob \<Rightarrow> FrameGrapher \<Rightarrow> string \<Rightarrow> string \<Rightarrow> error option io" where
  "handleFlamegraph E job g rawFileName flameFileName =
     (if jobOutputType job = FlameGraph
      then do { n \<leftarrow> file_size E rawFileName;
                if n < minimumRawSize then State_Monad.return (Some noStacks)
                else guarded (stackSamplesToFlameGraph E g rawFileName flameFileName)
                       (Wrap ''could not convert raw format to flamegraph'') (State_Monad.return None) }
      else State_Monad.return None)"

text \<open>Of python.go and python\_austin.go: only an empty one.\<close>

definition handleFlamegraphNonEmpty ::
  "env \<Rightarrow> ProfilingJob \<Rightarrow> FrameGrapher \<Rightarrow> string \<Rightarrow> string \<Rightarrow> error option io" where
  "handleFlamegraphNonEmpty E job g rawFileName flameFileName =
     (if jobOutputType job = FlameGraph
      then do { empty \<leftarrow> is_empty_file E rawFileName;
                if empty then State_Monad.return (Some noStacks)
                else guarded (stackSamplesToFlameGraph E g rawFileName flameFileName)
                       (Wrap ''could not convert raw format to flamegraph'') (State_Monad.return None) }
      else State_Monad.return None)"

lemma quiet_targetsOf [quiet_rules]: "quiet (targetsOf E job)"
  unfolding targetsOf_def by (intro quiet_rules)

lemma quiet_pidSetUp [quiet_rules]: "quiet (pidSetUp E b job)"
  unfolding pidSetUp_def by (intro quiet_rules)

lemma quiet_handleFlamegraph [quiet_rules]:
  "quiet (handleFlamegraph E job g raw flame)" "quiet (handleFlamegraphNonEmpty E job g raw flame)"
  unfolding handleFlamegraph_def handleFlamegraphNonEmpty_def by (intro quiet_rules)+

lemma timed_value [simp]:
  "fst (value_of (timed m) w) = value_of m w" "protocol (after (timed m) w) = protocol (after m w)"
  by (simp_all add: timed_def now_def)

text \<open>
  What is promised of an \<open>Invoke\<close> on \<open>n\<close> targets: it prints results only, at most one per target; at
  least one when it succeeds, none when it fails (with an error that is no crash or hang).
\<close>

definition accountable :: "nat \<Rightarrow> (error option \<times> int) io \<Rightarrow> bool" where
  "accountable n m \<longleftrightarrow>
     (\<forall>w. \<exists>ds. protocol (after m w) = protocol w @ map resultEvent ds \<and> length ds \<le> n \<and>
        (fst (value_of m w) = None \<longrightarrow> 1 \<le> length ds) \<and>
        (\<forall>e. fst (value_of m w) = Some e \<longrightarrow> \<not> is_panic e \<longrightarrow> ds = []))"

lemma accountableD:
  "accountable n m \<Longrightarrow>
     \<exists>ds. protocol (after m w) = protocol w @ map resultEvent ds \<and> length ds \<le> n \<and>
        (fst (value_of m w) = None \<longrightarrow> 1 \<le> length ds) \<and>
        (\<forall>e. fst (value_of m w) = Some e \<longrightarrow> \<not> is_panic e \<longrightarrow> ds = [])"
  by (simp add: accountable_def)

lemma publishes_accountable: "publishes m \<Longrightarrow> accountable 1 (timed m)"
  unfolding accountable_def
proof
  fix w
  assume "publishes m"
  from publishes_count [OF this, of w] obtain ds where
    "protocol (after m w) = protocol w @ map resultEvent ds" "length ds = (if value_of m w = None then 1 else 0)"
    by blast
  then show "\<exists>ds. protocol (after (timed m) w) = protocol w @ map resultEvent ds \<and> length ds \<le> 1 \<and>
        (fst (value_of (timed m) w) = None \<longrightarrow> 1 \<le> length ds) \<and>
        (\<forall>e. fst (value_of (timed m) w) = Some e \<longrightarrow> \<not> is_panic e \<longrightarrow> ds = [])"
    by (intro exI [of _ ds]) (simp split: if_splits)
qed

lemma accountable_bind:
  assumes "quiet m" "\<And>x. accountable n (k x)"
  shows "accountable n (State_Monad.bind m k)"
  unfolding accountable_def
proof
  fix w
  show "\<exists>ds. protocol (after (State_Monad.bind m k) w) = protocol w @ map resultEvent ds \<and> length ds \<le> n \<and>
        (fst (value_of (State_Monad.bind m k) w) = None \<longrightarrow> 1 \<le> length ds) \<and>
        (\<forall>e. fst (value_of (State_Monad.bind m k) w) = Some e \<longrightarrow> \<not> is_panic e \<longrightarrow> ds = [])"
    using accountableD [OF assms(2), of "value_of m w" "after m w"] quietD [OF assms(1), of w] by simp
qed

lemma accountable_case_sum:
  "(\<And>x. accountable n (f x)) \<Longrightarrow> (\<And>y. accountable n (g y)) \<Longrightarrow>
     accountable n (case r of Inl x \<Rightarrow> f x | Inr y \<Rightarrow> g y)"
  by (simp split: sum.split)

lemma accountable_fail: "quiet m \<Longrightarrow> accountable n (do { x \<leftarrow> m; State_Monad.return (Some e, d x) })"
  by (simp add: accountable_def quiet_def)

section \<open>The contract of a body\<close>

locale pid_body =
  fixes body :: "env \<Rightarrow> ProfilingJob \<Rightarrow> string \<Rightarrow> error option io"
  assumes body_publishes: "publishes (body E job p)"
begin

lemma run_verdict:
  assumes "pids \<noteq> []"
  shows "\<exists>errs ds. length errs = length pids \<and>
     protocol (after (profilePIDs E pids d (body E job)) w) = protocol w @ map resultEvent ds \<and>
     length ds = length (filter (\<lambda>err. err = None) errs) \<and>
     value_of (profilePIDs E pids d (body E job)) w =
       (if panic_of errs \<noteq> None then panic_of errs
        else if None \<in> set errs then None
        else Some (PidErrors (zip pids (map the errs))))"
  using profilePIDs_runs [OF assms, of "body E job" E d w] body_publishes by blast

text \<open>An \<open>Invoke\<close> that reports success has published a result; one that reports failure has not.\<close>

lemma invoke_accountable: "accountable (length (targetPIDs b)) (pidInvoke E (body E job) b)"
  unfolding accountable_def
proof
  fix w
  let ?m = "profilePIDs E (targetPIDs b) (delayBetween b) (body E job)"
  have "\<exists>ds. protocol (after ?m w) = protocol w @ map resultEvent ds \<and> length ds \<le> length (targetPIDs b) \<and>
      (value_of ?m w = None \<longrightarrow> 1 \<le> length ds) \<and>
      (\<forall>e. value_of ?m w = Some e \<longrightarrow> \<not> is_panic e \<longrightarrow> ds = [])"
  proof (cases "targetPIDs b = []")
    case True
    then show ?thesis by (simp add: profilePIDs_def)
  next
    case False
    from run_verdict [OF this, of E "delayBetween b" job w] obtain errs ds where
      r: "length errs = length (targetPIDs b)" "protocol (after ?m w) = protocol w @ map resultEvent ds"
        "length ds = length (filter (\<lambda>err. err = None) errs)"
      and v: "value_of ?m w =
         (if panic_of errs \<noteq> None then panic_of errs
          else if None \<in> set errs then None else Some (PidErrors (zip (targetPIDs b) (map the errs))))"
      by blast
    have "length ds \<le> length (targetPIDs b)"
      using r(1,3) length_filter_le [of "\<lambda>err. err = None" errs] by simp
    moreover have "1 \<le> length ds" if "value_of ?m w = None"
    proof -
      have "None \<in> set errs" using that v by (auto split: if_splits)
      then have "filter (\<lambda>err. err = None) errs \<noteq> []" by (simp add: filter_empty_conv)
      then show ?thesis using r(3) by (cases "filter (\<lambda>err. err = None) errs") auto
    qed
    moreover have "ds = []" if "value_of ?m w = Some e" "\<not> is_panic e" for e
    proof -
      have "panic_of errs \<noteq> Some e" using that(2) by (auto simp: panic_of_def find_Some_iff)
      then have "None \<notin> set errs" using that(1) v by (auto split: if_splits)
      then have "filter (\<lambda>err. err = None) errs = []" unfolding filter_empty_conv by metis
      with r(3) show ?thesis by simp
    qed
    ultimately show ?thesis using r(2) by (intro exI [of _ ds]) simp
  qed
  then show "\<exists>ds. protocol (after (pidInvoke E (body E job) b) w) = protocol w @ map resultEvent ds \<and>
      length ds \<le> length (targetPIDs b) \<and>
      (fst (value_of (pidInvoke E (body E job) b) w) = None \<longrightarrow> 1 \<le> length ds) \<and>
      (\<forall>e. fst (value_of (pidInvoke E (body E job) b) w) = Some e \<longrightarrow> \<not> is_panic e \<longrightarrow> ds = [])"
    by (simp add: pidInvoke_def)
qed

end

end
