(* ===== verification/BpfPerf.thy ===== *)
theory BpfPerf
  imports PidProfiler
begin

text \<open>
  internal/agent/profiler/bpf.go and perf.go: the profilers that sample a process from the kernel and
  draw a flame graph from the folded stacks.
\<close>

section \<open>bpf.go\<close>

abbreviation bpfProfilerLocation :: string where
  "bpfProfilerLocation \<equiv> ''/app/bcc-profiler/profile''"

abbreviation bpfDelayBetweenJobs :: int where
  "bpfDelayBetweenJobs \<equiv> 5 * second"

definition newBpfProfiler :: PidProfiler where
  "newBpfProfiler = newPidProfiler bpfDelayBetweenJobs"

definition bccProfilerCommand :: "env \<Rightarrow> ProfilingJob \<Rightarrow> string \<Rightarrow> string list io" where
  "bccProfilerCommand E job p =
     command E True bpfProfilerLocation
       [''-df'', ''-U'', ''-F'', ''99'', ''-p'', p, intervalSeconds E job]"

definition resultFileFor :: "env \<Rightarrow> ProfilingJob \<Rightarrow> OutputType \<Rightarrow> string \<Rightarrow> string" where
  "resultFileFor E job out p = getResultFile (tmpDir E) (jobTool job) out p (jobIteration job)"

definition bpfBody :: "env \<Rightarrow> ProfilingJob \<Rightarrow> string \<Rightarrow> error option io" where
  "bpfBody E job p =
     do { cmd \<leftarrow> bccProfilerCommand E job p;
          (err, out, errOut) \<leftarrow> runCmd E cmd [];
          case err of
            Some e \<Rightarrow>
              do { errorLogLn E out;
                   State_Monad.return (Some (Wrap (''could not launch profiler: '' @ errOut) e)) }
          | None \<Rightarrow>
              do { let resultFileName = resultFileFor E job (jobOutputType job) p;
                   let fileName = resultFileFor E job Raw p;
                   write_file E fileName (addProcessPIDLegend E out p);
                   g \<leftarrow> flamegraphGet E job;
                   guarded (handleFlamegraph E job g fileName resultFileName)
                     (Wrap ''could not generate flamegraph'')
                     (publishDo E (jobCompressor job) resultFileName (jobOutputType job)) } }"

definition bpfSetUp :: "env \<Rightarrow> PidProfiler \<Rightarrow> ProfilingJob \<Rightarrow> (error option \<times> PidProfiler) io" where
  "bpfSetUp = pidSetUp"

definition bpfInvoke :: "env \<Rightarrow> PidProfiler \<Rightarrow> ProfilingJob \<Rightarrow> (error option \<times> int) io" where
  "bpfInvoke E b job = pidInvoke E (bpfBody E job) b"

definition bpfCleanUp :: "env \<Rightarrow> error option io" where
  "bpfCleanUp E = do { remove_all_files E (tmpDir E) profilingPrefix; State_Monad.return None }"

section \<open>perf.go\<close>

abbreviation flameGraphStackCollapseLocation :: string where
  "flameGraphStackCollapseLocation \<equiv> ''/app/FlameGraph/stackcollapse-perf.pl''"

abbreviation perfDelayBetweenJobs :: int where
  "perfDelayBetweenJobs \<equiv> 2 * second"

type_synonym PerfProfiler = PidProfiler

definition newPerfProfiler :: PerfProfiler where
  "newPerfProfiler = newPidProfiler perfDelayBetweenJobs"

definition perfLocation :: string where
  "perfLocation = ''/app/perf''"

definition perfDataFile :: "ProfilingJob \<Rightarrow> string \<Rightarrow> string" where
  "perfDataFile job p = ''/tmp/perf-'' @ p @ ''-'' @ itoa (jobIteration job) @ ''.data''"

definition perfOutFile :: "ProfilingJob \<Rightarrow> string \<Rightarrow> string" where
  "perfOutFile job p = ''/tmp/perf-'' @ p @ ''-'' @ itoa (jobIteration job) @ ''.out''"

definition runPerfRecord :: "env \<Rightarrow> ProfilingJob \<Rightarrow> string \<Rightarrow> error option io" where
  "runPerfRecord E job p =
     do { cmd \<leftarrow> command E True perfLocation
                 [''record'', ''-p'', p, ''-o'', perfDataFile job p, ''-g'', ''--'', ''sleep'', intervalSeconds E job];
          (err, out, errOut) \<leftarrow> runCmd E cmd [];
          (if err \<noteq> None then errorLogLn E errOut else State_Monad.return ());
          State_Monad.return err }"

definition runPerfScript :: "env \<Rightarrow> ProfilingJob \<Rightarrow> string \<Rightarrow> error option io" where
  "runPerfScript E job p =
     do { f \<leftarrow> osCreate E (perfOutFile job p);
          case f of
            Inl e \<Rightarrow> State_Monad.return (Some e)
          | Inr _ \<Rightarrow>
              do { cmd \<leftarrow> command E True perfLocation [''script'', ''-i'', perfDataFile job p];
                   (err, out, errOut) \<leftarrow> runCmd E cmd [];
                   writeThrough (perfOutFile job p) out;
                   (if err \<noteq> None then errorLogLn E errOut else State_Monad.return ());
                   State_Monad.return err } }"

definition foldPerfOutput :: "env \<Rightarrow> ProfilingJob \<Rightarrow> string \<Rightarrow> (error + string) io" where
  "foldPerfOutput E job p =
     do { cmd \<leftarrow> command E True flameGraphStackCollapseLocation [perfOutFile job p];
          (err, out, errOut) \<leftarrow> runCmd E cmd [];
          case err of
            Some e \<Rightarrow>
              do { errorLogLn E out;
                   State_Monad.return (Inl (Wrap (''could not launch profiler: '' @ errOut) e)) }
          | None \<Rightarrow>
              do { write_file E (resultFileFor E job Raw p) (addProcessPIDLegend E out p);
                   State_Monad.return (Inr (resultFileFor E job Raw p)) } }"

definition perfHandleFlamegraph ::
  "env \<Rightarrow> ProfilingJob \<Rightarrow> FrameGrapher \<Rightarrow> string \<Rightarrow> string \<Rightarrow> error option io" where
  "perfHandleFlamegraph E job g rawFileName flameFileName =
     (if jobOutputType job = FlameGraph
      then do { n \<leftarrow> file_size E rawFileName;
                if n < minimumRawSize then State_Monad.return (Some noStacks)
                else guarded (stackSamplesToFlameGraph E g rawFileName flameFileName)
                       (Wrap ''could not convert raw format to flamegraph'') (State_Monad.return None) }
      else State_Monad.return None)"

definition perfBody :: "env \<Rightarrow> ProfilingJob \<Rightarrow> string \<Rightarrow> error option io" where
  "perfBody E job p =
     guarded (runPerfRecord E job p) (Wrap ''perf record failed'')
    (guarded (runPerfScript E job p) (Wrap ''perf script failed'')
    (do { folded \<leftarrow> foldPerfOutput E job p;
          case folded of
            Inl e \<Rightarrow> State_Monad.return (Some (Wrap ''folding perf output failed'' e))
          | Inr fileName \<Rightarrow>
              do { let resultFileName = resultFileFor E job (jobOutputType job) p;
                   g \<leftarrow> flamegraphGet E job;
                   guarded (perfHandleFlamegraph E job g fileName resultFileName)
                     (Wrap ''could not generate flamegraph'')
                     (publishDo E (jobCompressor job) resultFileName (jobOutputType job)) } }))"

definition perfSetUp :: "env \<Rightarrow> PerfProfiler \<Rightarrow> ProfilingJob \<Rightarrow> (error option \<times> PerfProfiler) io" where
  "perfSetUp = pidSetUp"

definition perfInvoke :: "env \<Rightarrow> PerfProfiler \<Rightarrow> ProfilingJob \<Rightarrow> (error option \<times> int) io" where
  "perfInvoke E b job = pidInvoke E (perfBody E job) b"

definition perfCleanUp :: "env \<Rightarrow> ProfilingJob \<Rightarrow> error option io" where
  "perfCleanUp E job =
     do { remove_all_files E (tmpDir E) ''perf'';
          remove_all_files E (tmpDir E) (profilingPrefix @ output_string (jobOutputType job));
          State_Monad.return None }"

section \<open>The contract\<close>

lemma perfHandleFlamegraph_bpf: "perfHandleFlamegraph = handleFlamegraph"
  by (intro ext) (simp add: perfHandleFlamegraph_def handleFlamegraph_def)

lemma quiet_perfHandleFlamegraph [quiet_rules]: "quiet (perfHandleFlamegraph E job g raw flame)"
  unfolding perfHandleFlamegraph_bpf by (intro quiet_rules)

lemma quiet_perf [quiet_rules]:
  "quiet (bccProfilerCommand E job p)" "quiet (runPerfRecord E job p)" "quiet (runPerfScript E job p)"
  "quiet (foldPerfOutput E job p)" "quiet (bpfCleanUp E)" "quiet (perfCleanUp E job)"
  unfolding bccProfilerCommand_def runPerfRecord_def runPerfScript_def foldPerfOutput_def
    bpfCleanUp_def perfCleanUp_def
  by (intro quiet_rules)+

interpretation bpf: pid_body bpfBody
  by unfold_locales (unfold bpfBody_def Let_def, intro publish_rules quiet_rules)

interpretation perf: pid_body perfBody
  by unfold_locales (unfold perfBody_def Let_def, intro publish_rules quiet_rules)

text \<open>C37. A Rust process, which the agent supports with bpf and perf and which draws flame graphs by
  default, never gets one: after the tool has sampled it for the whole interval the body fails, because
  the grapher the factory returns for that language always fails.\<close>

theorem rust_flamegraph_fails:
  assumes "jobLanguage job = Rust" "jobOutputType job = FlameGraph"
  shows "value_of (bpfBody E job p) w \<noteq> None \<and> value_of (perfBody E job p) w \<noteq> None"
proof -
  have g: "value_of (flamegraphGet E job) w = FlameGrapherFakeWithError" for w
    using assms by (simp add: flamegraphGet_def)
  have h: "value_of (handleFlamegraph E job FlameGrapherFakeWithError raw flame) w =
      Some (if value_of (file_size E raw) w < minimumRawSize then noStacks
            else Wrap ''could not convert raw format to flamegraph''
                   (Errorf ''StackSamplesToFlameGraph with error''))" for raw flame w
    using assms by (simp add: handleFlamegraph_def)
  show ?thesis
    by (simp add: bpfBody_def perfBody_def perfHandleFlamegraph_bpf Let_def g h split_beta split: option.split sum.split)
qed

theorem rust_flamegraph_fails_witness:
  "value_of (bpfBody sample_env (sample_job\<lparr>jobLanguage := Rust, jobTool := Bpf\<rparr>) ''7'') empty_world \<noteq> None \<and>
   value_of (perfBody sample_env (sample_job\<lparr>jobLanguage := Rust, jobTool := Bpf\<rparr>) ''7'') empty_world \<noteq> None"
  by (rule rust_flamegraph_fails) (simp_all add: sample_job_def)

end
