(* ===== verification/PythonRuby.thy ===== *)
theory PythonRuby
  imports BpfPerf
begin

text \<open>internal/agent/profiler/python.go (py-spy) and ruby.go (rbspy).\<close>

section \<open>python.go\<close>

abbreviation pySpyLocation :: string where
  "pySpyLocation \<equiv> ''/app/py-spy''"

abbreviation pySpyDelayBetweenJobs :: int where
  "pySpyDelayBetweenJobs \<equiv> 2 * second"

type_synonym PythonProfiler = PidProfiler

definition newPythonProfiler :: PythonProfiler where
  "newPythonProfiler = newPidProfiler pySpyDelayBetweenJobs"

definition pythonCommand :: "env \<Rightarrow> ProfilingJob \<Rightarrow> string \<Rightarrow> string \<Rightarrow> string list io" where
  "pythonCommand E job p fileName =
     (let output = (if jobOutputType job = FlameGraph then Raw else jobOutputType job) in
      if output \<in> {FlameGraph, SpeedScope, Raw}
      then command E True pySpyLocation
             [''record'', ''-p'', p, ''-o'', fileName, ''-d'', intervalSeconds E job, ''-s'', ''-t'',
              ''-f'', output_string output]
      else command E True pySpyLocation [''dump'', ''-p'', p])"

definition pythonBody :: "env \<Rightarrow> ProfilingJob \<Rightarrow> string \<Rightarrow> error option io" where
  "pythonBody E job p =
     (let fileName = resultFileFor E job (if jobOutputType job = FlameGraph then Raw else jobOutputType job) p
      in do { cmd \<leftarrow> pythonCommand E job p fileName;
              (err, out, errOut) \<leftarrow> runCmd E cmd [];
              case err of
                Some e \<Rightarrow>
                  do { errorLogLn E out;
                       State_Monad.return (Some (Wrap (''could not launch profiler: '' @ errOut) e)) }
              | None \<Rightarrow>
                  (let resultFileName = resultFileFor E job (jobOutputType job) p in
                   if jobOutputType job = ThreadDump
                   then do { write_file E resultFileName out;
                             publishDo E (jobCompressor job) resultFileName (jobOutputType job) }
                   else do { g \<leftarrow> flamegraphGet E job;
                             guarded (handleFlamegraphNonEmpty E job g fileName resultFileName)
                               (Wrap ''could not generate flamegraph'')
                               (publishDo E (jobCompressor job) resultFileName (jobOutputType job)) }) })"

definition pythonSetUp :: "env \<Rightarrow> PythonProfiler \<Rightarrow> ProfilingJob \<Rightarrow> (error option \<times> PythonProfiler) io" where
  "pythonSetUp = pidSetUp"

definition pythonInvoke :: "env \<Rightarrow> PythonProfiler \<Rightarrow> ProfilingJob \<Rightarrow> (error option \<times> int) io" where
  "pythonInvoke E b job = pidInvoke E (pythonBody E job) b"

definition pythonCleanUp :: "env \<Rightarrow> error option io" where
  "pythonCleanUp E = do { remove_all_files E (tmpDir E) profilingPrefix; State_Monad.return None }"

section \<open>ruby.go\<close>

abbreviation rbSpyLocation :: string where
  "rbSpyLocation \<equiv> ''/app/rbspy''"

abbreviation rbSpyDelayBetweenJobs :: int where
  "rbSpyDelayBetweenJobs \<equiv> 2 * second"

type_synonym RubyProfiler = PidProfiler

definition newRubyProfiler :: RubyProfiler where
  "newRubyProfiler = newPidProfiler rbSpyDelayBetweenJobs"

definition rubyCommand :: "env \<Rightarrow> ProfilingJob \<Rightarrow> string \<Rightarrow> string \<Rightarrow> string list io" where
  "rubyCommand E job p fileName =
     command E True rbSpyLocation
       [''record'', ''--pid'', p, ''--file'', fileName, ''--duration'', intervalSeconds E job,
        ''--format'', output_string (jobOutputType job)]"

definition rubyBody :: "env \<Rightarrow> ProfilingJob \<Rightarrow> string \<Rightarrow> error option io" where
  "rubyBody E job p =
     (let fileName = resultFileFor E job (jobOutputType job) p
      in do { cmd \<leftarrow> rubyCommand E job p fileName;
              (err, out, errOut) \<leftarrow> runCmd E cmd [];
              case err of
                Some e \<Rightarrow>
                  do { errorLogLn E out;
                       State_Monad.return (Some (Wrap (''could not launch profiler: '' @ errOut) e)) }
              | None \<Rightarrow> publishDo E (jobCompressor job) fileName (jobOutputType job) })"

definition rubySetUp :: "env \<Rightarrow> RubyProfiler \<Rightarrow> ProfilingJob \<Rightarrow> (error option \<times> RubyProfiler) io" where
  "rubySetUp = pidSetUp"

definition rubyInvoke :: "env \<Rightarrow> RubyProfiler \<Rightarrow> ProfilingJob \<Rightarrow> (error option \<times> int) io" where
  "rubyInvoke E b job = pidInvoke E (rubyBody E job) b"

definition rubyCleanUp :: "env \<Rightarrow> error option io" where
  "rubyCleanUp E = do { remove_all_files E (tmpDir E) profilingPrefix; State_Monad.return None }"

section \<open>The contract\<close>

lemma quiet_pythonCommand [quiet_rules]:
  "quiet (pythonCommand E job p f)" "quiet (rubyCommand E job p f)"
  "quiet (pythonCleanUp E)" "quiet (rubyCleanUp E)"
  unfolding pythonCommand_def rubyCommand_def pythonCleanUp_def rubyCleanUp_def
  by (intro quiet_rules)+

interpretation python: pid_body pythonBody
  by unfold_locales (unfold pythonBody_def Let_def, intro publish_rules quiet_rules)

interpretation ruby: pid_body rubyBody
  by unfold_locales (unfold rubyBody_def Let_def, intro publish_rules quiet_rules)

end
