(* ===== verification/Austin.thy ===== *)
theory Austin
  imports PythonRuby
begin

text \<open>
  internal/agent/profiler/python\_austin.go: austin, run in a mount namespace in which the target's
  interpreter is visible, its binary output converted to text, its samples counted, and its error
  output reduced to the sentence that explains a failure. Which runes outside ASCII are letters or
  digits are the parameters \<open>highLetter\<close> and \<open>highDigit\<close>.
\<close>

section \<open>The files of the target\<close>

record austinTargetFile =
  targetPath :: string
  targetSource :: string

definition procDir :: string where
  "procDir = ''/proc''"

definition sourceReadable :: "env \<Rightarrow> string \<Rightarrow> bool io" where
  "sourceReadable E p = exists_file E p"

definition deletedSuffix :: string where
  "deletedSuffix = '' (deleted)''"

text \<open>The library a line of /proc/<pid>/maps names, if it is libpython.\<close>

definition libpythonOf :: "string \<Rightarrow> string \<Rightarrow> austinTargetFile list" where
  "libpythonOf p line =
     (let fs = GoStrings.fields line in
      if length fs < 6 then []
      else (let file = trim_suffix (join_with '' '' (drop 5 fs)) deletedSuffix in
            if prefix ''libpython'' (path_base file)
            then [\<lparr>targetPath = file, targetSource = path_join [procDir, p, ''map_files'', fs ! 0]\<rparr>]
            else []))"

text \<open>The last loop: each absolute path once, if its source can be read.\<close>

fun readableFiles :: "env \<Rightarrow> string list \<Rightarrow> austinTargetFile list \<Rightarrow> austinTargetFile list io" where
  "readableFiles E seen [] = State_Monad.return []"
| "readableFiles E seen (f # fs) =
     (if targetPath f \<in> set seen \<or> \<not> is_abs (targetPath f) then readableFiles E seen fs
      else do { ok \<leftarrow> sourceReadable E (targetSource f);
                rest \<leftarrow> readableFiles E (targetPath f # seen) fs;
                State_Monad.return (if ok then f # rest else rest) })"

definition austinTargetFiles :: "env \<Rightarrow> string \<Rightarrow> (error + austinTargetFile list) io" where
  "austinTargetFiles E p =
     do { link \<leftarrow> osReadlink E (path_join [procDir, p, ''exe'']);
          case link of
            Inl e \<Rightarrow> State_Monad.return (Inl (Wrap (''could not resolve the interpreter of PID '' @ p) e))
          | Inr exe \<Rightarrow>
              do { maps \<leftarrow> osReadFile E (path_join [procDir, p, ''maps'']);
                   case maps of
                     Inl e \<Rightarrow> State_Monad.return (Inl (Wrap (''could not read the memory map of PID '' @ p) e))
                   | Inr c \<Rightarrow>
                       do { files \<leftarrow> readableFiles E []
                              (\<lparr>targetPath = trim_suffix exe deletedSuffix,
                                targetSource = path_join [procDir, p, ''exe'']\<rparr>
                               # concat (map (libpythonOf p) (split_on (CHR 10) c)));
                            State_Monad.return (Inr files) } } }"

section \<open>The command\<close>

definition austinInTargetFSScript :: string where
  "austinInTargetFSScript = join_with [CHR 10]
     [''set -e'', ''dir=$1; n=$2; shift 2'', ''i=0'', ''while [ '' @ [CHR 34] @ ''$i'' @ [CHR 34] @ '' -lt '' @ [CHR 34] @ ''$n'' @ [CHR 34] @ '' ]; do'',
      [CHR 9] @ ''src=$1; p=$2; shift 2'',
      [CHR 9] @ ''c='' @ [CHR 34] @ ''$dir$p'' @ [CHR 34],
      [CHR 9] @ ''mkdir -p '' @ [CHR 34] @ ''$(dirname '' @ [CHR 34] @ ''$c'' @ [CHR 34] @ '')'' @ [CHR 34] @ '' '' @ [CHR 34] @ ''$(dirname '' @ [CHR 34] @ ''$p'' @ [CHR 34] @ '')'' @ [CHR 34],
      [CHR 9] @ ''cp '' @ [CHR 34] @ ''$src'' @ [CHR 34] @ '' '' @ [CHR 34] @ ''$c'' @ [CHR 34],
      [CHR 9] @ ''[ -e '' @ [CHR 34] @ ''$p'' @ [CHR 34] @ '' ] || touch '' @ [CHR 34] @ ''$p'' @ [CHR 34],
      [CHR 9] @ ''mount --bind '' @ [CHR 34] @ ''$c'' @ [CHR 34] @ '' '' @ [CHR 34] @ ''$p'' @ [CHR 34],
      [CHR 9] @ ''i=$((i+1))'', ''done'', ''exec austin '' @ [CHR 34] @ ''$@'' @ [CHR 34]]"

abbreviation austinLocation :: string where
  "austinLocation \<equiv> ''austin''"

abbreviation unshareLocation :: string where
  "unshareLocation \<equiv> ''unshare''"

definition austinPythonCommand ::
  "env \<Rightarrow> ProfilingJob \<Rightarrow> string \<Rightarrow> string \<Rightarrow> string \<Rightarrow> austinTargetFile list \<Rightarrow> string list io" where
  "austinPythonCommand E job p fileName copyDir targetFiles =
     (let austinArgs = [''-p'', p, ''-o'', fileName, ''-x'', intervalSeconds E job, ''-m''] in
      if length targetFiles = 0 then command E True austinLocation austinArgs
      else command E True unshareLocation
             ([''-m'', ''--propagation'', ''private'', ''sh'', ''-c'', austinInTargetFSScript, ''sh'', copyDir,
               show_nat (length targetFiles)]
              @ concat (map (\<lambda>f. [targetSource f, targetPath f]) targetFiles) @ austinArgs))"

definition austinCopyDir :: "env \<Rightarrow> string \<Rightarrow> string" where
  "austinCopyDir E p = path_join [tmpDir E, ''austin-target-'' @ p]"

section \<open>austin's error output\<close>

definition is_ascii_letter :: "char \<Rightarrow> bool" where
  "is_ascii_letter c \<longleftrightarrow> 65 \<le> byte c \<and> byte c \<le> 90 \<or> 97 \<le> byte c \<and> byte c \<le> 122"

text \<open>The regular expression of a colour sequence: escape, bracket, digits and semicolons, a letter.\<close>

definition ansi_rest :: "string \<Rightarrow> string option" where
  "ansi_rest s =
     (if prefix [CHR 27, CHR ''[''] s
      then (case dropWhile (\<lambda>c. is_digit c \<or> c = CHR '';'') (drop 2 s) of
              c # r \<Rightarrow> if is_ascii_letter c then Some r else None
            | [] \<Rightarrow> None)
      else None)"

lemma ansi_rest_length: "ansi_rest s = Some r \<Longrightarrow> length r < length s"
proof -
  assume "ansi_rest s = Some r"
  then obtain c where "dropWhile (\<lambda>c. is_digit c \<or> c = CHR '';'') (drop 2 s) = c # r"
    by (auto simp: ansi_rest_def split: if_splits list.splits)
  then have "Suc (length r) \<le> length (drop 2 s)"
    using length_dropWhile_le [of "\<lambda>c. is_digit c \<or> c = CHR '';''" "drop 2 s"] by simp
  then show ?thesis by simp
qed

function strip_ansi :: "string \<Rightarrow> string" where
  "strip_ansi s =
     (case ansi_rest s of
        Some r \<Rightarrow> strip_ansi r
      | None \<Rightarrow> (case s of [] \<Rightarrow> [] | c # cs \<Rightarrow> c # strip_ansi cs))"
  by pat_completeness auto
termination
  by (relation "measure length") (auto dest: ansi_rest_length)

declare strip_ansi.simps [simp del]

text \<open>One number of the version, and the version line that ends the banner, at the start of a text.\<close>

definition number_rest :: "string \<Rightarrow> string option" where
  "number_rest s = (if takeWhile is_digit s = [] then None else Some (dropWhile is_digit s))"

definition expect :: "string \<Rightarrow> string \<Rightarrow> string option" where
  "expect t s = (if prefix t s then Some (drop (length t) s) else None)"

definition banner_rest :: "string \<Rightarrow> string option" where
  "banner_rest s =
     Option.bind (number_rest s) (\<lambda>s. Option.bind (expect ''.'' s) (\<lambda>s.
     Option.bind (number_rest s) (\<lambda>s. Option.bind (expect ''.'' s) (\<lambda>s.
     Option.bind (number_rest s) (\<lambda>s. Option.bind (expect '' ['' s) (\<lambda>s.
     expect '']'' (dropWhile (\<lambda>c. c \<noteq> CHR '']'') s)))))))"

text \<open>What follows the first match.\<close>

fun after_banner :: "string \<Rightarrow> string option" where
  "after_banner [] = banner_rest []"
| "after_banner (c # s) = (case banner_rest (c # s) of Some r \<Rightarrow> Some r | None \<Rightarrow> after_banner s)"

definition is_word_rune :: "env \<Rightarrow> nat \<Rightarrow> bool" where
  "is_word_rune E n \<longleftrightarrow>
     (if n < 128 then is_ascii_letter (char_of n) \<or> is_digit (char_of n)
      else highLetter E n \<or> highDigit E n)"

definition ellipsis :: string where
  "ellipsis = [CHR 0xE2, CHR 0x80, CHR 0xA6]"

definition austinErrorMessage :: "env \<Rightarrow> string \<Rightarrow> string" where
  "austinErrorMessage E errText =
     (let s = strip_ansi errText;
          s = (case after_banner s of Some r \<Rightarrow> r | None \<Rightarrow> s);
          s = (case index_of s ''If you are sure'' of Some i \<Rightarrow> take i s | None \<Rightarrow> s);
          s = join_with '' '' (GoStrings.fields s);
          s = unrunes (dropWhile (\<lambda>(n, _). \<not> is_word_rune E n) (runes s))
      in if s = [] then ''no error output''
         else if 300 < length s then take 300 s @ ellipsis else s)"

section \<open>The samples\<close>

abbreviation austinInterruptedExitCode :: int where
  "austinInterruptedExitCode \<equiv> 254"

definition austinStoppedOnSignal :: "error \<Rightarrow> bool" where
  "austinStoppedOnSignal e = (e = ExitError austinInterruptedExitCode)"

definition mojoMagic :: string where
  "mojoMagic = ''MOJ'' @ [CHR 3]"

definition austinSampleCount :: "env \<Rightarrow> string \<Rightarrow> (error + nat) io" where
  "austinSampleCount E fileName =
     attempt (osReadFile E fileName) (\<lambda>c.
       let (ls, tooLong) = scan_lines 16777216 c
       in State_Monad.return
            (if tooLong then Inl (Errorf ''bufio.Scanner: token too long'')
             else Inr (length (filter (\<lambda>l. l \<noteq> [] \<and> hd l = CHR ''P'') ls))))"

definition appendLine :: "env \<Rightarrow> string \<Rightarrow> string \<Rightarrow> error option io" where
  "appendLine E fileName line =
     fromSum (attempt (osOpen E fileName) (\<lambda>_. osAppend E fileName (line @ [CHR 10])))"

abbreviation mojo2austinLocation :: string where
  "mojo2austinLocation \<equiv> ''mojo2austin''"

definition convertMojo :: "env \<Rightarrow> string \<Rightarrow> error option io" where
  "convertMojo E fileName =
     guarded (fromSum (osOpen E fileName)) id
       (do { r \<leftarrow> osRead E fileName;
             if (case r of Inl e \<Rightarrow> [] | Inr c \<Rightarrow> take 4 c) \<noteq> mojoMagic then State_Monad.return None
             else do { cmd \<leftarrow> command E True mojo2austinLocation [fileName, fileName @ ''.txt''];
                       (err, out, errOut) \<leftarrow> runCmd E cmd [];
                       case err of
                         Some e \<Rightarrow> State_Monad.return (Some e)
                       | None \<Rightarrow> fromSum (osRename E (fileName @ ''.txt'') fileName) } })"

section \<open>The profiler\<close>

type_synonym AustinPythonProfiler = PidProfiler

definition newAustinPythonProfiler :: AustinPythonProfiler where
  "newAustinPythonProfiler = newPidProfiler pySpyDelayBetweenJobs"

definition noGrowth :: "ProfilingJob \<Rightarrow> string" where
  "noGrowth job =
     ''no memory growth observed during the '' @ durationString (jobInterval job) @
     '' window: austin's memory mode records allocations that grow the process's memory, so a process at steady state yields no samples''"

definition austinHandleFlamegraph ::
  "env \<Rightarrow> ProfilingJob \<Rightarrow> FrameGrapher \<Rightarrow> string \<Rightarrow> string \<Rightarrow> error option io" where
  "austinHandleFlamegraph E job g rawFileName flameFileName =
     (if jobOutputType job = FlameGraph
      then do { empty \<leftarrow> is_empty_file E rawFileName;
                if empty then State_Monad.return (Some noStacks)
                else guarded (stackSamplesToFlameGraph E g rawFileName flameFileName)
                       (Wrap ''could not convert raw format to flamegraph'') (State_Monad.return None) }
      else State_Monad.return None)"

definition austinFinish :: "env \<Rightarrow> ProfilingJob \<Rightarrow> string \<Rightarrow> string \<Rightarrow> error option io" where
  "austinFinish E job p fileName =
     (let resultFileName = resultFileFor E job (jobOutputType job) p in
      if jobOutputType job = FlameGraph
      then do { g \<leftarrow> flamegraphGet E job;
                guarded (austinHandleFlamegraph E job g fileName resultFileName)
                  (Wrap ''could not generate flamegraph'')
                  (publishDo E (jobCompressor job) resultFileName (jobOutputType job)) }
      else publishDo E (jobCompressor job) resultFileName (jobOutputType job))"

definition austinCollect :: "env \<Rightarrow> ProfilingJob \<Rightarrow> string \<Rightarrow> string \<Rightarrow> string \<Rightarrow> string \<Rightarrow> error option io" where
  "austinCollect E job p fileName binary errOut =
     guarded (convertMojo E fileName) (Wrap ''could not convert the profile to text'')
       (do { empty \<leftarrow> is_empty_file E fileName;
             if empty
             then State_Monad.return (Some (Errorf
               (''no samples collected: austin (PID '' @ p @ '', '' @ binary @ ''): '' @ austinErrorMessage E errOut)))
             else do {
               n \<leftarrow> austinSampleCount E fileName;
               case n of
                 Inl e \<Rightarrow> State_Monad.return (Some (Wrap ''could not read the profile'' e))
               | Inr samples \<Rightarrow>
                   if samples = 0
                   then (if jobOutputType job \<noteq> Raw
                         then State_Monad.return (Some (Errorf (''PID '' @ p @ '': '' @ noGrowth job)))
                         else guarded (appendLine E fileName (''# '' @ noGrowth job))
                                (Wrap ''could not annotate the profile'') (austinFinish E job p fileName))
                   else austinFinish E job p fileName } })"

definition austinBody :: "env \<Rightarrow> ProfilingJob \<Rightarrow> string \<Rightarrow> error option io" where
  "austinBody E job p =
     (let fileName = resultFileFor E job (if jobOutputType job = FlameGraph then Raw else jobOutputType job) p
      in do { r \<leftarrow> austinTargetFiles E p;
              (case r of Inl e \<Rightarrow> debugLogLn E (error_text e) | Inr _ \<Rightarrow> State_Monad.return ());
              let targetFiles = (case r of Inl e \<Rightarrow> [] | Inr fs \<Rightarrow> fs);
              let binary = (case targetFiles of [] \<Rightarrow> ''unknown binary'' | f # _ \<Rightarrow> targetPath f);
              deferring
                (do { cmd \<leftarrow> austinPythonCommand E job p fileName (austinCopyDir E p) targetFiles;
                      (err, out, errOut) \<leftarrow> runCmd E cmd [];
                      if err \<noteq> None \<and> \<not> austinStoppedOnSignal (the err)
                      then do { errorLogLn E out;
                                State_Monad.return (Some (Errorf
                                  (''could not launch profiler: austin (PID '' @ p @ '', '' @ binary @ ''): '' @
                                   austinErrorMessage E errOut @ '' ('' @ error_text (the err) @ '')''))) }
                      else austinCollect E job p fileName binary errOut })
                (if targetFiles \<noteq> []
                 then do { _ \<leftarrow> osRemoveAll E (austinCopyDir E p); State_Monad.return () }
                 else State_Monad.return ()) })"

definition austinSetUp :: "env \<Rightarrow> AustinPythonProfiler \<Rightarrow> ProfilingJob \<Rightarrow> (error option \<times> AustinPythonProfiler) io" where
  "austinSetUp = pidSetUp"

definition austinInvoke :: "env \<Rightarrow> AustinPythonProfiler \<Rightarrow> ProfilingJob \<Rightarrow> (error option \<times> int) io" where
  "austinInvoke E b job = pidInvoke E (austinBody E job) b"

definition austinCleanUp :: "env \<Rightarrow> error option io" where
  "austinCleanUp E = do { remove_all_files E (tmpDir E) profilingPrefix; State_Monad.return None }"

section \<open>The contract\<close>

lemma quiet_readableFiles [quiet_rules]: "quiet (readableFiles E seen fs)"
  by (induction E seen fs rule: readableFiles.induct) (auto simp: sourceReadable_def intro!: quiet_rules)

lemma quiet_austinHandleFlamegraph [quiet_rules]: "quiet (austinHandleFlamegraph E job g raw flame)"
  unfolding austinHandleFlamegraph_def by (intro quiet_rules)

lemma quiet_austin [quiet_rules]:
  "quiet (austinTargetFiles E p)" "quiet (austinPythonCommand E job p f d ts)"
  "quiet (austinSampleCount E f)" "quiet (appendLine E f l)" "quiet (convertMojo E f)" "quiet (austinCleanUp E)"
  unfolding austinTargetFiles_def austinPythonCommand_def austinSampleCount_def appendLine_def
    convertMojo_def austinCleanUp_def
  by (intro quiet_rules)+

lemma publishes_austinCollect [publish_rules]: "publishes (austinCollect E job p f b errOut)"
  unfolding austinCollect_def austinFinish_def Let_def by (intro publish_rules quiet_rules)

interpretation austin: pid_body austinBody
  by unfold_locales (unfold austinBody_def Let_def, intro publish_rules quiet_rules)

section \<open>The message and the files\<close>

lemma austin_sentence_line: "CHR 10 \<notin> set (unrunes (dropWhile P (runes (join_with '' '' (GoStrings.fields s)))))"
  using unrunes_dropWhile [of P "join_with '' '' (GoStrings.fields s)"]
    join_with_set [of "'' ''" "GoStrings.fields s"] fields_line_feed [of _ s]
  by fastforce

text \<open>C29. The explanation of an austin failure is one line of at most 303 bytes, and never empty, whatever
  austin has written, colours, banner and all.\<close>

theorem austinErrorMessage_line:
  "let m = austinErrorMessage E errText in m \<noteq> [] \<and> length m \<le> 303 \<and> CHR 10 \<notin> set m"
proof -
  define s where "s = (let s = strip_ansi errText;
          s = (case after_banner s of Some r \<Rightarrow> r | None \<Rightarrow> s);
          s = (case index_of s ''If you are sure'' of Some i \<Rightarrow> take i s | None \<Rightarrow> s)
      in unrunes (dropWhile (\<lambda>(n, _). \<not> is_word_rune E n) (runes (join_with '' '' (GoStrings.fields s)))))"
  have m: "austinErrorMessage E errText =
      (if s = [] then ''no error output'' else if 300 < length s then take 300 s @ ellipsis else s)"
    by (simp add: austinErrorMessage_def s_def Let_def)
  have "CHR 10 \<notin> set s"
    unfolding s_def Let_def by (rule austin_sentence_line)
  moreover from this have "CHR 10 \<notin> set (take 300 s)" by (meson in_set_takeD)
  ultimately show ?thesis
    unfolding m Let_def by (simp add: ellipsis_def)
qed

lemma readableFiles_ok:
  "let fs' = value_of (readableFiles E seen fs) w
   in distinct (map targetPath fs') \<and> set fs' \<subseteq> {f \<in> set fs. is_abs (targetPath f) \<and> targetPath f \<notin> set seen}"
proof (induction fs arbitrary: seen w)
  case (Cons f fs)
  show ?case
    using Cons.IH [of seen w] Cons.IH [of "targetPath f # seen" "after (sourceReadable E (targetSource f)) w"]
    by (auto simp: Let_def)
qed simp

lemma libpythonOf_source:
  "f \<in> set (libpythonOf p line) \<Longrightarrow>
     prefix ''libpython'' (path_base (targetPath f)) \<and> (\<exists>r. targetSource f = path_join [procDir, p, ''map_files'', r])"
  by (auto simp: libpythonOf_def Let_def split: if_splits)


definition python_world :: world where
  "python_world = empty_world\<lparr>files :=
     [(''/proc/7/exe'', Link ''/usr/bin/python3''), (''/usr/bin/python3'', File ''elf''),
      (''/proc/7/maps'', File ''7f0-7f1 r-xp 0 0:0 9 /usr/lib/libpython3.so''),
      (''/proc/7/map_files/7f0-7f1'', File ''elf'')]\<rparr>"


end
