(* ===== verification/GoPprof.thy ===== *)
theory GoPprof
  imports BpfPerf
begin

text \<open>
  internal/agent/profiler/go\_pprof.go: the port a Go process listens on, read from \<open>ss\<close>; the profile
  scraped from its pprof endpoint; and the reasons a failed scrape is turned into.
\<close>

section \<open>The listening port\<close>

text \<open>The port of a field, if the text after its last colon is a number.\<close>

definition portOfField :: "string \<Rightarrow> string option" where
  "portOfField field =
     (case last_index field (CHR '':'') of
        Some idx \<Rightarrow>
          if 0 < idx \<and> idx < length field - 1 \<and> atoi (drop (idx + 1) field) \<noteq> None
          then Some (drop (idx + 1) field) else None
      | None \<Rightarrow> None)"

fun firstPort :: "string list \<Rightarrow> string option" where
  "firstPort [] = None"
| "firstPort (f # fs) = (case portOfField f of Some port \<Rightarrow> Some port | None \<Rightarrow> firstPort fs)"

fun portInLines :: "string \<Rightarrow> string list \<Rightarrow> string option" where
  "portInLines p [] = None"
| "portInLines p (line # lines) =
     (if \<not> contains line ''LISTEN'' then portInLines p lines
      else if \<not> contains line p then portInLines p lines
      else (case firstPort (GoStrings.fields line) of
              Some port \<Rightarrow> Some port | None \<Rightarrow> portInLines p lines))"

definition findListeningPortForPID :: "env \<Rightarrow> string \<Rightarrow> (error + string) io" where
  "findListeningPortForPID E p =
     do { cmd \<leftarrow> command E True ''nsenter'' [''-t'', p, ''-n'', ''ss'', ''-tulnp''];
          (err, out, errOut) \<leftarrow> runCmd E cmd [];
          State_Monad.return
            (case err of
               Some e \<Rightarrow> Inl (Wrap ''failed to run ss'' e)
             | None \<Rightarrow>
                 (let (ls, tooLong) = scan_lines max_scan_token_size out in
                  case portInLines p ls of
                    Some port \<Rightarrow> Inr port
                  | None \<Rightarrow> if tooLong then Inl (Errorf ''bufio.Scanner: token too long'')
                            else Inl (Errorf ''no listening port found for PID''))) }"

section \<open>The reason of a failed scrape\<close>

text \<open>The status code of the expression \<open>HTTP/\d(?:\.\d)? (\d{3})\<close> at the start of a text.\<close>

definition status_at :: "string \<Rightarrow> string option" where
  "status_at s =
     (if prefix ''HTTP/'' s
      then (case drop 5 s of
              d # r \<Rightarrow>
                (let r' = (case r of a # b # r'' \<Rightarrow> if a = CHR ''.'' \<and> is_digit b then r'' else r | _ \<Rightarrow> r)
                 in case r' of
                      e # x # y # z # _ \<Rightarrow>
                        if is_digit d \<and> e = CHR '' '' \<and> is_digit x \<and> is_digit y \<and> is_digit z
                        then Some [x, y, z] else None
                    | _ \<Rightarrow> None)
            | [] \<Rightarrow> None)
      else None)"

fun wgetHTTPStatus :: "string \<Rightarrow> string option" where
  "wgetHTTPStatus [] = None"
| "wgetHTTPStatus (c # s) = (case status_at (c # s) of Some m \<Rightarrow> Some m | None \<Rightarrow> wgetHTTPStatus s)"

definition pprofScrapeError :: "string \<Rightarrow> string \<Rightarrow> string \<Rightarrow> error \<Rightarrow> error" where
  "pprofScrapeError port targetURL errText e =
     (let msg = trim_space errText; status = wgetHTTPStatus msg in
      if status = Some ''401'' \<or> status = Some ''403''
      then Errorf (''the pprof endpoint on :'' @ port @ '' requires authentication'')
      else if status = Some ''404''
      then Errorf (''no /debug/pprof handler on :'' @ port @ '' (is net/http/pprof registered?)'')
      else if contains msg ''Connection refused''
      then Errorf (''nothing listening on :'' @ port)
      else Wrap (''failed to nsenter+wget '' @ go_quote targetURL @ '' error '' @ msg) e)"

section \<open>Scraping\<close>

definition scrape :: "env \<Rightarrow> string \<Rightarrow> string \<Rightarrow> string \<Rightarrow> string \<Rightarrow> error option io" where
  "scrape E p port targetURL fileName =
     do { cmd \<leftarrow> command E True ''nsenter'' [''-t'', p, ''-n'', ''wget'', ''-qO'', fileName, targetURL];
          (err, out, errOut) \<leftarrow> runCmd E cmd [];
          case err of
            Some e \<Rightarrow> do { errorLogLn E out; State_Monad.return (Some (pprofScrapeError port targetURL errOut e)) }
          | None \<Rightarrow> State_Monad.return None }"

definition heapProfile :: "env \<Rightarrow> ProfilingJob \<Rightarrow> string \<Rightarrow> string \<Rightarrow> error option io" where
  "heapProfile E job port fileName =
     scrape E (jobPID job) port (''http://127.0.0.1:'' @ port @ ''/debug/pprof/heap?gc=1'') fileName"

definition cpuProfile :: "env \<Rightarrow> ProfilingJob \<Rightarrow> string \<Rightarrow> string \<Rightarrow> error option io" where
  "cpuProfile E job port fileName =
     scrape E (jobPID job) port
       (''http://127.0.0.1:'' @ port @ ''/debug/pprof/profile?seconds='' @ intervalSeconds E job) fileName"

definition convertPprofToRaw :: "env \<Rightarrow> string \<Rightarrow> (error + string) io" where
  "convertPprofToRaw E file =
     do { (err, out, errOut) \<leftarrow> runCmd E [''go'', ''tool'', ''pprof'', ''--raw'', file] [];
          case err of
            Some e \<Rightarrow>
              do { errorLogLn E out;
                   State_Monad.return (Inl (Wrap (''failed to convert pprof output '' @ go_quote file @
                     '' to raw format error '' @ errOut) e)) }
          | None \<Rightarrow> State_Monad.return (Inr out) }"

definition orFail :: "(error + 'a) io \<Rightarrow> (error \<Rightarrow> error) \<Rightarrow> ('a \<Rightarrow> error option io) \<Rightarrow> error option io" where
  "orFail m wrap k =
     do { r \<leftarrow> m; case r of Inl e \<Rightarrow> State_Monad.return (Some (wrap e)) | Inr x \<Rightarrow> k x }"

definition fetchProfile :: "env \<Rightarrow> ProfilingJob \<Rightarrow> string \<Rightarrow> error option io" where
  "fetchProfile E job port =
     (let rawFilePath = resultFileFor E job (jobOutputType job) (jobPID job);
          publish = publishDo E (jobCompressor job) rawFilePath (jobOutputType job)
      in if jobOutputType job = HeapDump
         then guarded (heapProfile E job port rawFilePath) (Wrap ''failed to fetch heap profile'') publish
         else if jobOutputType job = Pprof
         then guarded (cpuProfile E job port rawFilePath) (Wrap ''failed to fetch CPU profile'') publish
         else if jobOutputType job = Raw
         then (let cpuFile = resultFileFor E job (OtherOutput ''cpu'') (jobPID job);
                   heapFile = resultFileFor E job (OtherOutput ''heap'') (jobPID job)
               in guarded (cpuProfile E job port cpuFile) (Wrap ''failed to create CPU profile'')
                 (orFail (convertPprofToRaw E cpuFile) (Wrap ''failed to convert CPU profile'') (\<lambda>profileRaw.
                  guarded (heapProfile E job port heapFile) (Wrap ''failed to fetch heap profile'')
                 (orFail (convertPprofToRaw E heapFile) (Wrap ''failed to convert heap profile'') (\<lambda>heapRaw.
                  do { write_file E rawFilePath
                         (''heap dump'' @ [CHR 10] @ '' '' @ heapRaw @ '' '' @ [CHR 10] @ '' cpu dump'' @ [CHR 10] @
                          '' '' @ profileRaw);
                       publish })))))
         else State_Monad.return (Some (Errorf ''unsupported output type for Go pprof profiler'')))"

abbreviation defaultPprofPort :: string where
  "defaultPprofPort \<equiv> ''8080''"

definition fetchProfileFromPID :: "env \<Rightarrow> ProfilingJob \<Rightarrow> error option io" where
  "fetchProfileFromPID E job =
     do { r \<leftarrow> findListeningPortForPID E (jobPID job);
          case r of
            Inr port \<Rightarrow> fetchProfile E job port
          | Inl portErr \<Rightarrow>
              do { errorLogLn E (''failed to find listening port for PID '' @ jobPID job @ '': '' @ error_text portErr);
                   debugLogLn E (''using default port '' @ defaultPprofPort);
                   err \<leftarrow> fetchProfile E job defaultPprofPort;
                   State_Monad.return
                     (map_option (Wrap (''could not detect the listening port ('' @ error_text portErr @
                        ''), so tried the default :'' @ defaultPprofPort)) err) } }"

section \<open>The profiler\<close>

abbreviation goPprofDelayBetweenJobs :: int where
  "goPprofDelayBetweenJobs \<equiv> 2 * second"

type_synonym GoPprofProfiler = PidProfiler

definition newGoPprofProfiler :: GoPprofProfiler where
  "newGoPprofProfiler = newPidProfiler goPprofDelayBetweenJobs"

text \<open>Each PID works on a copy of the job.\<close>

definition pprofBody :: "env \<Rightarrow> ProfilingJob \<Rightarrow> string \<Rightarrow> error option io" where
  "pprofBody E job p = fetchProfileFromPID E (job\<lparr>jobPID := p\<rparr>)"

definition pprofSetUp :: "env \<Rightarrow> GoPprofProfiler \<Rightarrow> ProfilingJob \<Rightarrow> (error option \<times> GoPprofProfiler) io" where
  "pprofSetUp = pidSetUp"

definition pprofInvoke :: "env \<Rightarrow> GoPprofProfiler \<Rightarrow> ProfilingJob \<Rightarrow> (error option \<times> int) io" where
  "pprofInvoke E b job = pidInvoke E (pprofBody E job) b"

definition pprofCleanUp :: "env \<Rightarrow> error option io" where
  "pprofCleanUp E = do { remove_all_files E (tmpDir E) profilingPrefix; State_Monad.return None }"

section \<open>The contract\<close>

lemma quiet_pprof [quiet_rules]:
  "quiet (findListeningPortForPID E p)" "quiet (scrape E p port u f)" "quiet (heapProfile E job port f)"
  "quiet (cpuProfile E job port f)" "quiet (convertPprofToRaw E f)" "quiet (pprofCleanUp E)"
  unfolding findListeningPortForPID_def scrape_def heapProfile_def cpuProfile_def convertPprofToRaw_def
    pprofCleanUp_def
  by (intro quiet_rules)+

lemma publishes_orFail [publish_rules]:
  "quiet m \<Longrightarrow> (\<And>x. publishes (k x)) \<Longrightarrow> publishes (orFail m wrap k)"
  unfolding orFail_def by (intro publish_rules)

lemma publishes_fetchProfile [publish_rules]: "publishes (fetchProfile E job port)"
  unfolding fetchProfile_def Let_def by (intro publish_rules quiet_rules)

lemma publishes_map_error:
  "publishes m \<Longrightarrow> publishes (do { err \<leftarrow> m; State_Monad.return (map_option f err) })"
  by (simp add: publishes_def)

interpretation pprof: pid_body pprofBody
  by unfold_locales
    (unfold pprofBody_def fetchProfileFromPID_def, intro publish_rules quiet_rules publishes_map_error)

section \<open>The port that is chosen\<close>

lemma portOfField_Some:
  assumes "portOfField f = Some port"
  shows "\<exists>host. f = host @ '':'' @ port \<and> host \<noteq> [] \<and> CHR '':'' \<notin> set port \<and> atoi port \<noteq> None"
proof -
  obtain i where i: "last_index f (CHR '':'') = Some i" "0 < i" "port = drop (Suc i) f" "atoi port \<noteq> None"
    using assms by (auto simp: portOfField_def split: option.splits if_splits)
  from last_index_Some [OF i(1)] have l: "i < length f" "f ! i = CHR '':''" "CHR '':'' \<notin> set port"
    by (simp_all add: i(3))
  have "f = take i f @ '':'' @ port"
    using id_take_nth_drop [OF l(1)] l(2) i(3) by simp
  moreover have "take i f \<noteq> []" using i(2) l(1) by auto
  ultimately show ?thesis using l(3) i(4) by blast
qed

lemma firstPort_Some: "firstPort fs = Some port \<Longrightarrow> \<exists>f \<in> set fs. portOfField f = Some port"
  by (induction fs) (auto split: option.splits)

lemma portInLines_Some:
  "portInLines p ls = Some port \<Longrightarrow>
     \<exists>l \<in> set ls. contains l ''LISTEN'' \<and> contains l p \<and> (\<exists>f \<in> set (GoStrings.fields l). portOfField f = Some port)"
  by (induction p ls rule: portInLines.induct) (auto split: if_splits option.splits dest: firstPort_Some)

text \<open>C28. The port that is scraped is a number, without a colon, that stands after a colon in a field of a
  line of \<open>ss\<close> that has both the word LISTEN and the digits of the PID.\<close>

theorem findListeningPort_line:
  assumes "value_of (findListeningPortForPID E p) w = Inr port"
  shows "atoi port \<noteq> None \<and> CHR '':'' \<notin> set port \<and>
    (\<exists>out l host. out = fst (snd (value_of (runCmd E [''nsenter'', ''-t'', p, ''-n'', ''ss'', ''-tulnp''] [])
          (after (command E True ''nsenter'' [''-t'', p, ''-n'', ''ss'', ''-tulnp'']) w))) \<and>
       l \<in> set (fst (scan_lines max_scan_token_size out)) \<and> sublist ''LISTEN'' l \<and> sublist p l \<and>
       host \<noteq> [] \<and> host @ '':'' @ port \<in> set (GoStrings.fields l))"
proof -
  let ?out = "fst (snd (value_of (runCmd E [''nsenter'', ''-t'', p, ''-n'', ''ss'', ''-tulnp''] [])
          (after (command E True ''nsenter'' [''-t'', p, ''-n'', ''ss'', ''-tulnp'']) w)))"
  have "portInLines p (fst (scan_lines max_scan_token_size ?out)) = Some port"
    using assms by (auto simp: findListeningPortForPID_def split_beta split: option.splits if_splits)
  from portInLines_Some [OF this] obtain l f where
    l: "l \<in> set (fst (scan_lines max_scan_token_size ?out))" "contains l ''LISTEN''" "contains l p"
    and f: "f \<in> set (GoStrings.fields l)" "portOfField f = Some port"
    by blast
  from portOfField_Some [OF f(2)] obtain host where
    "f = host @ '':'' @ port" "host \<noteq> []" "CHR '':'' \<notin> set port" "atoi port \<noteq> None"
    by blast
  with l f(1) show ?thesis unfolding contains_sublist by blast
qed

text \<open>An environment in which \<open>ss\<close> lists one socket, of the process 4712.\<close>

definition ss_env :: env where
  "ss_env = sample_env\<lparr>runProc := (\<lambda>argv input w.
     \<lparr>procErr = None, procOut = ''tcp LISTEN 0 4096 *:6060 *:* users:((app,pid=4712))'', procErrOut = [],
      procFiles = files w, procClock = clock w\<rparr>)\<rparr>"

lemma ss_line_fields:
  "GoStrings.fields ''tcp LISTEN 0 4096 *:6060 *:* users:((app,pid=4712))'' =
     [''tcp'', ''LISTEN'', ''0'', ''4096'', ''*:6060'', ''*:*'', ''users:((app,pid=4712))'']"
  by (simp add: GoStrings.fields_def runes_ascii_all is_space_rune_def del: runes.simps)

lemma ss_port: "portInLines p [''tcp LISTEN 0 4096 *:6060 *:* users:((app,pid=4712))''] =
    (if contains ''tcp LISTEN 0 4096 *:6060 *:* users:((app,pid=4712))'' p then Some ''6060'' else None)"
proof -
  have "contains ''tcp LISTEN 0 4096 *:6060 *:* users:((app,pid=4712))'' ''LISTEN''" by code_simp
  moreover have "firstPort [''tcp'', ''LISTEN'', ''0'', ''4096'', ''*:6060'', ''*:*'', ''users:((app,pid=4712))''] = Some ''6060''"
    by code_simp
  ultimately show ?thesis by (simp add: ss_line_fields)
qed

lemma ss_scan: "scan_lines max_scan_token_size ''tcp LISTEN 0 4096 *:6060 *:* users:((app,pid=4712))'' =
    ([''tcp LISTEN 0 4096 *:6060 *:* users:((app,pid=4712))''], False)"
  by (simp add: scan_lines_def raw_lines_def max_scan_token_size_def drop_cr_def)

lemma ss_found:
  "contains ''tcp LISTEN 0 4096 *:6060 *:* users:((app,pid=4712))'' p \<Longrightarrow>
     value_of (findListeningPortForPID ss_env p) w = Inr ''6060''"
  by (simp add: findListeningPortForPID_def runCmd_def ss_env_def ss_scan ss_port Let_def del: portInLines.simps)

text \<open>The test for the PID is too weak: for any string of the line, such as the PID 12 when the socket
  belongs to process 4712, the port of that other process is taken.\<close>

lemma findListeningPort_other_process:
  "value_of (findListeningPortForPID ss_env ''12'') w = Inr ''6060''"
  by (rule ss_found) code_simp

theorem findListeningPort_line_witness:
  "atoi ''6060'' \<noteq> None \<and> CHR '':'' \<notin> set ''6060'' \<and>
    (\<exists>out l host. out = fst (snd (value_of (runCmd ss_env [''nsenter'', ''-t'', ''4712'', ''-n'', ''ss'', ''-tulnp''] [])
          (after (command ss_env True ''nsenter'' [''-t'', ''4712'', ''-n'', ''ss'', ''-tulnp'']) empty_world))) \<and>
       l \<in> set (fst (scan_lines max_scan_token_size out)) \<and> sublist ''LISTEN'' l \<and> sublist ''4712'' l \<and>
       host \<noteq> [] \<and> host @ '':'' @ ''6060'' \<in> set (GoStrings.fields l))"
  by (rule findListeningPort_line, rule ss_found) code_simp

end
