(* ===== verification/Jvm.thy ===== *)
theory Jvm
  imports BpfPerf
begin

text \<open>
  internal/agent/profiler/jvm: async\_profiler.go and jcmd.go. Both replace the agent's temporary
  directory by a link to the one of the target, so that the JVM can write there.

  A jcmd recording is watched by a goroutine that polls \<open>JFR.check\<close> and listens on the channel
  \<open>recordingPIDs\<close> for a request to stop, which \<open>CleanUp\<close> sends when the agent is interrupted:
  \<open>stopTokens\<close> is what has been sent since the goroutine last looked. The body waits for the goroutine
  on a channel of its own; where that is never written, the body is \<open>Blocked\<close>.
\<close>

section \<open>What both share\<close>

definition removeTmpDir :: "env \<Rightarrow> error option io" where
  "removeTmpDir E = fromSum (osRemoveAll E (tmpDir E))"

definition linkTmpDirToTargetTmpDir :: "env \<Rightarrow> string \<Rightarrow> error option io" where
  "linkTmpDirToTargetTmpDir E targetTmpDir = fromSum (osSymlink E targetTmpDir (tmpDir E))"

text \<open>\<open>cmd.Run()\<close> where only the error is looked at.\<close>

definition runOnly :: "env \<Rightarrow> string \<Rightarrow> string list \<Rightarrow> error option io" where
  "runOnly E name args =
     do { cmd \<leftarrow> command E True name args; (err, _, _) \<leftarrow> runCmd E cmd []; State_Monad.return err }"

text \<open>\<open>SetUp\<close> up to the link, with what follows it, which gets the target's root.\<close>

definition withTargetTmp ::
  "env \<Rightarrow> ProfilingJob \<Rightarrow> PidProfiler \<Rightarrow> (string \<Rightarrow> (error option \<times> PidProfiler) io) \<Rightarrow>
     (error option \<times> PidProfiler) io" where
  "withTargetTmp E job b k =
     do { r \<leftarrow> containerFileSystem E (jobContainerRuntime job) (jobContainerID job) (jobContainerRuntimePath job);
          case r of
            Inl e \<Rightarrow> State_Monad.return (Some e, b)
          | Inr targetFs \<Rightarrow>
              do { debugLogLn E (''The target filesystem is: '' @ targetFs);
                   err \<leftarrow> removeTmpDir E;
                   case err of
                     Some e \<Rightarrow> State_Monad.return (Some e, b)
                   | None \<Rightarrow>
                       do { let targetTmpDir = path_join [targetFs, ''tmp''];
                            remove_all_files E targetTmpDir
                              (profilingPrefix @ output_string (jobOutputType job));
                            err' \<leftarrow> linkTmpDirToTargetTmpDir E targetTmpDir;
                            case err' of
                              Some e \<Rightarrow> State_Monad.return (Some e, b)
                            | None \<Rightarrow> k targetFs } } }"

section \<open>async\_profiler.go\<close>

definition asyncProfilerDir :: string where
  "asyncProfilerDir = ''/tmp/async-profiler''"

definition profilerSh :: string where
  "profilerSh = asyncProfilerDir @ ''/profiler.sh''"

abbreviation asyncProfilerDelayBetweenJobs :: int where
  "asyncProfilerDelayBetweenJobs \<equiv> 2 * second"

abbreviation profilerLib :: string where
  "profilerLib \<equiv> asyncProfilerDir @ ''/build/libasyncProfiler.so''"

abbreviation profilerLibMusl :: string where
  "profilerLibMusl \<equiv> asyncProfilerDir @ ''/build/libasyncProfiler-musl.so''"

type_synonym AsyncProfiler = PidProfiler

definition newAsyncProfiler :: AsyncProfiler where
  "newAsyncProfiler = newPidProfiler asyncProfilerDelayBetweenJobs"

definition asyncProfilerCommand :: "env \<Rightarrow> ProfilingJob \<Rightarrow> string \<Rightarrow> string \<Rightarrow> string list io" where
  "asyncProfilerCommand E job p fileName =
     command E True profilerSh
       [''-o'', output_string (if jobOutputType job = Raw then Collapsed else jobOutputType job),
        ''-d'', intervalSeconds E job, ''-f'', fileName, ''-e'', event_string (jobEvent job), ''--fdtransfer'', p]"

definition asyncProfilerStopCommand :: "env \<Rightarrow> string \<Rightarrow> string list io" where
  "asyncProfilerStopCommand E p = command E True profilerSh [''stop'', p]"

definition targetUsesMusl :: "env \<Rightarrow> string \<Rightarrow> bool io" where
  "targetUsesMusl E targetFs =
     (if targetFs = [] then State_Monad.return False
      else do { m1 \<leftarrow> osGlob (path_join [targetFs, ''lib'', ''ld-musl-*.so.1'']);
                if 0 < length m1 then State_Monad.return True
                else do { m2 \<leftarrow> osGlob (path_join [targetFs, ''usr/lib'', ''ld-musl-*.so.1'']);
                          State_Monad.return (0 < length m2) } })"

definition selectProfilerLibrary :: "env \<Rightarrow> string \<Rightarrow> error option io" where
  "selectProfilerLibrary E targetFs =
     do { musl \<leftarrow> targetUsesMusl E targetFs;
          if \<not> musl then State_Monad.return None
          else do { debugLogLn E ''The target is musl-based; using the musl build of libasyncProfiler.so'';
                    runOnly E ''cp'' [''-f'', profilerLibMusl,
                                      profilerLib] } }"

definition copyProfilerToTmpDir :: "env \<Rightarrow> error option io" where
  "copyProfilerToTmpDir E = runOnly E ''cp'' [''-r'', ''/app/async-profiler'', tmpDir E]"

definition asyncSetUp :: "env \<Rightarrow> AsyncProfiler \<Rightarrow> ProfilingJob \<Rightarrow> (error option \<times> AsyncProfiler) io" where
  "asyncSetUp E b job =
     withTargetTmp E job b (\<lambda>targetFs.
       do { (err, b') \<leftarrow> pidSetUp E b job;
            if err \<noteq> None then State_Monad.return (err, b')
            else do { err' \<leftarrow> guarded (copyProfilerToTmpDir E) id (selectProfilerLibrary E targetFs);
                      State_Monad.return (err', b') } })"

definition asyncBody :: "env \<Rightarrow> ProfilingJob \<Rightarrow> string \<Rightarrow> error option io" where
  "asyncBody E job p =
     (let resultFileName = resultFileFor E job (jobOutputType job) p
      in do { cmd \<leftarrow> asyncProfilerCommand E job p resultFileName;
              (err, out, errOut) \<leftarrow> runCmd E cmd [];
              case err of
                Some e \<Rightarrow>
                  do { errorLogLn E out;
                       State_Monad.return (Some (Wrap (''could not launch profiler: '' @ errOut) e)) }
              | None \<Rightarrow>
                  do { debugLogLn E out;
                       publishDo E (jobCompressor job) resultFileName (jobOutputType job) } })"

definition asyncInvoke :: "env \<Rightarrow> AsyncProfiler \<Rightarrow> ProfilingJob \<Rightarrow> (error option \<times> int) io" where
  "asyncInvoke E b job = pidInvoke E (asyncBody E job) b"

definition asyncCleanUpPID :: "env \<Rightarrow> string \<Rightarrow> unit io" where
  "asyncCleanUpPID E p =
     do { cmd \<leftarrow> asyncProfilerStopCommand E p;
          (err, out, errOut) \<leftarrow> runCmd E cmd [];
          if err \<noteq> None then warningLogLn E errOut else State_Monad.return () }"

fun forEach :: "('a \<Rightarrow> unit io) \<Rightarrow> 'a list \<Rightarrow> unit io" where
  "forEach f [] = State_Monad.return ()"
| "forEach f (x # xs) = do { f x; forEach f xs }"

definition asyncCleanUp :: "env \<Rightarrow> PidProfiler \<Rightarrow> ProfilingJob \<Rightarrow> error option io" where
  "asyncCleanUp E b job =
     do { forEach (asyncCleanUpPID E) (targetPIDs b);
          r \<leftarrow> osRemoveAll E asyncProfilerDir;
          (case r of
             Inl e \<Rightarrow> warningLogLn E (''async-profiler folder could not be removed: '' @ error_text e)
           | Inr _ \<Rightarrow> State_Monad.return ());
          remove_all_files E (tmpDir E) (profilingPrefix @ output_string (jobOutputType job));
          State_Monad.return None }"

lemma quiet_async [quiet_rules]:
  "quiet (removeTmpDir E)" "quiet (linkTmpDirToTargetTmpDir E d)" "quiet (runOnly E name args)"
  "quiet (targetUsesMusl E fs)" "quiet (selectProfilerLibrary E fs)" "quiet (copyProfilerToTmpDir E)"
  "quiet (asyncProfilerCommand E job p f)" "quiet (asyncCleanUpPID E p)"
  unfolding removeTmpDir_def linkTmpDirToTargetTmpDir_def runOnly_def targetUsesMusl_def
    selectProfilerLibrary_def copyProfilerToTmpDir_def asyncProfilerCommand_def asyncProfilerStopCommand_def asyncCleanUpPID_def
  by (intro quiet_rules)+

lemma quiet_withTargetTmp [quiet_rules]: "(\<And>fs. quiet (k fs)) \<Longrightarrow> quiet (withTargetTmp E job b k)"
  unfolding withTargetTmp_def Let_def by (intro quiet_rules)

lemma quiet_forEach [quiet_rules]: "(\<And>x. quiet (f x)) \<Longrightarrow> quiet (forEach f xs)"
  by (induction xs) (auto intro!: quiet_rules)

lemma quiet_asyncSetUp [quiet_rules]: "quiet (asyncSetUp E b job)" "quiet (asyncCleanUp E b job)"
  unfolding asyncSetUp_def asyncCleanUp_def by (intro quiet_rules)+

interpretation async: pid_body asyncBody
  by unfold_locales (unfold asyncBody_def Let_def, intro publish_rules quiet_rules)

section \<open>The linked directory\<close>

lemma link_step_update:
  "no_links fs \<Longrightarrow> map_of fs l = None \<Longrightarrow>
     link_step (AList.update l (Link t) fs) p = (if p = l \<or> beneath l p then Some (t @ drop (length l) p) else None)"
proof (induction fs)
  case (Cons e fs)
  then show ?case by (cases e) (auto simp: no_links_def split: node.splits if_splits)
qed simp

lemma not_beneath_join:
  assumes "t \<noteq> l" "\<not> beneath l t" "\<not> beneath t l"
  shows "t @ ''/'' @ x \<noteq> l \<and> \<not> beneath l (t @ ''/'' @ x)"
  using assms by (auto simp: beneath_def prefix_def append_eq_append_conv2 append_eq_Cons_conv Cons_eq_append_conv)

text \<open>What is seen below the link is what is below its target.\<close>

lemma content_through_link:
  assumes "no_links fs" "map_of fs l = None" "t \<noteq> l" "\<not> beneath l t" "\<not> beneath t l"
  shows "content (AList.update l (Link t) fs) (l @ ''/'' @ x) = content (AList.update l (Link t) fs) (t @ ''/'' @ x)"
proof -
  let ?fs = "AList.update l (Link t) fs"
  have "beneath l (l @ ''/'' @ x)" by (simp add: beneath_def)
  then have step: "link_step ?fs (l @ ''/'' @ x) = Some (t @ ''/'' @ x)"
    by (simp add: link_step_update [OF assms(1,2)])
  have stop: "link_step ?fs (t @ ''/'' @ x) = None"
    using not_beneath_join [OF assms(3-5)] by (simp add: link_step_update [OF assms(1,2)])
  have "follow (Suc n) ?fs (l @ ''/'' @ x) = Some (t @ ''/'' @ x)" "follow n ?fs (t @ ''/'' @ x) = Some (t @ ''/'' @ x)" for n
    using step stop by (cases n; simp)+
  from this(1) [of 39] this(2) [of 40] show ?thesis
    by (simp add: content_def resolve_def)
qed

lemma files_containerFileSystem: "after (containerFileSystem E r cid rp) w = w"
  by (simp add: containerFileSystem_def split: sum.split)

lemma removeTmpDir_ok:
  assumes "no_faults E" "no_links (files w)"
  shows "value_of (removeTmpDir E) w = None"
    and "files (after (removeTmpDir E) w) = filter (\<lambda>(r, _). r \<noteq> tmpDir E \<and> \<not> beneath (tmpDir E) r) (files w)"
  using assms by (simp_all add: removeTmpDir_def osRemoveAll_def faulty_def no_faults_def entry_of_no_links Let_def)

lemma linkTmpDir_ok:
  assumes "no_faults E" "no_links (files w)" "\<forall>(r, _) \<in> set (files w). r \<noteq> tmpDir E \<and> \<not> beneath (tmpDir E) r"
  shows "value_of (linkTmpDirToTargetTmpDir E t) w = None"
    and "files (after (linkTmpDirToTargetTmpDir E t) w) = AList.update (tmpDir E) (Link t) (files w)"
    and "map_of (files w) (tmpDir E) = None"
proof -
  show none: "map_of (files w) (tmpDir E) = None"
    using assms(3) by (auto simp: map_of_eq_None_iff)
  have "\<not> is_dir (files w) (tmpDir E)"
    using assms(3) by (auto simp: is_dir_def resolve_no_links [OF assms(2)] list_ex_iff)
  with none assms(1,2) show "value_of (linkTmpDirToTargetTmpDir E t) w = None"
    "files (after (linkTmpDirToTargetTmpDir E t) w) = AList.update (tmpDir E) (Link t) (files w)"
    by (simp_all add: linkTmpDirToTargetTmpDir_def osSymlink_def faulty_def no_faults_def entry_of_no_links)
qed

text \<open>C17. Once \<open>SetUp\<close> of async-profiler and of jcmd has come past the link, whatever the JVM writes to its own
  /tmp is what the agent reads in its temporary directory: the two see the same files, by the same
  names, and the rest of \<open>SetUp\<close> works on that file system.\<close>

theorem withTargetTmp_shares_tmp:
  assumes "no_faults E" "no_links (files w)"
    and "value_of (containerFileSystem E (jobContainerRuntime job) (jobContainerID job) (jobContainerRuntimePath job)) w =
      Inr targetFs"
    and "t = path_join [targetFs, ''tmp'']" "t \<noteq> tmpDir E" "\<not> beneath (tmpDir E) t" "\<not> beneath t (tmpDir E)"
  shows "\<exists>w'. value_of (withTargetTmp E job b k) w = value_of (k targetFs) w' \<and>
    after (withTargetTmp E job b k) w = after (k targetFs) w' \<and>
    (\<forall>x. content (files w') (tmpDir E @ ''/'' @ x) = content (files w') (t @ ''/'' @ x))"
proof -
  let ?w1 = "after (debugLogLn E (''The target filesystem is: '' @ targetFs))
    (after (containerFileSystem E (jobContainerRuntime job) (jobContainerID job) (jobContainerRuntimePath job)) w)"
  let ?w2 = "after (removeTmpDir E) ?w1"
  let ?w3 = "after (remove_all_files E t (profilingPrefix @ output_string (jobOutputType job))) ?w2"
  let ?w4 = "after (linkTmpDirToTargetTmpDir E t) ?w3"
  have f1: "files ?w1 = files w" by (simp add: files_containerFileSystem)
  have nl1: "no_links (files ?w1)" using assms(2) unfolding f1 .
  note r = removeTmpDir_ok [OF assms(1) nl1]
  have nl2: "no_links (files ?w2)" unfolding r(2) by (rule no_links_filter [OF nl1])
  have f3: "files ?w3 = filter (\<lambda>(r, _). r \<notin> set (glob (files ?w2) (path_join [t, ''*'' @ (profilingPrefix @ output_string (jobOutputType job)) @ ''*'']))) (files ?w2)"
    using files_remove_each [OF assms(1), of ?w2] nl2 by (simp add: remove_all_files_def list_files_def osGlob_def)
  have nl3: "no_links (files ?w3)" unfolding f3 by (rule no_links_filter [OF nl2])
  have free: "\<forall>(r, _) \<in> set (files ?w3). r \<noteq> tmpDir E \<and> \<not> beneath (tmpDir E) r"
    unfolding f3 r(2) by auto
  note l = linkTmpDir_ok [OF assms(1) nl3 free]
  have "value_of (withTargetTmp E job b k) w = value_of (k targetFs) ?w4"
    "after (withTargetTmp E job b k) w = after (k targetFs) ?w4"
    using assms(3) r(1) l(1) by (simp_all add: withTargetTmp_def Let_def assms(4))
  moreover have "content (files ?w4) (tmpDir E @ ''/'' @ x) = content (files ?w4) (t @ ''/'' @ x)" for x
    unfolding l(2) by (rule content_through_link [OF nl3 l(3) assms(5-7)])
  ultimately show ?thesis by blast
qed

theorem withTargetTmp_shares_tmp_witness:
  "\<exists>w'. value_of (withTargetTmp sample_env sample_job newAsyncProfiler (\<lambda>fs. State_Monad.return (None :: error option, newAsyncProfiler)))
        (empty_world\<lparr>files := [(''/tmp/x'', File ''a'')]\<rparr>) =
      value_of ((\<lambda>fs. State_Monad.return (None :: error option, newAsyncProfiler)) (rootFS ''abc'' ''/run/containerd'')) w' \<and>
    after (withTargetTmp sample_env sample_job newAsyncProfiler (\<lambda>fs. State_Monad.return (None :: error option, newAsyncProfiler)))
        (empty_world\<lparr>files := [(''/tmp/x'', File ''a'')]\<rparr>) =
      after ((\<lambda>fs. State_Monad.return (None :: error option, newAsyncProfiler)) (rootFS ''abc'' ''/run/containerd'')) w' \<and>
    (\<forall>x. content (files w') (tmpDir sample_env @ ''/'' @ x) =
       content (files w') (''/run/containerd/io.containerd.runtime.v2.task/k8s.io/abc/rootfs/tmp'' @ ''/'' @ x))"
proof (rule withTargetTmp_shares_tmp [where k = "\<lambda>fs. State_Monad.return (None :: error option, newAsyncProfiler)" and targetFs = "rootFS ''abc'' ''/run/containerd''"])
  show "no_faults sample_env" by (rule sample_env_lib)
  have "trim_space ''abc'' = ''abc''" "trim_space ''/run/containerd'' = ''/run/containerd''"
    by (simp_all add: trim_space_clean is_space_rune_def)
  then show "value_of (containerFileSystem sample_env (jobContainerRuntime sample_job) (jobContainerID sample_job)
      (jobContainerRuntimePath sample_job)) (empty_world\<lparr>files := [(''/tmp/x'', File ''a'')]\<rparr>) =
      Inr (rootFS ''abc'' ''/run/containerd'')"
    by (simp add: containerFileSystem_def sample_job_def runtime_def containerdRootFileSystemLocation_def
        with_container_def sample_env_lib)
  show "''/run/containerd/io.containerd.runtime.v2.task/k8s.io/abc/rootfs/tmp'' = path_join [rootFS ''abc'' ''/run/containerd'', ''tmp'']"
    by code_simp
qed (simp_all add: sample_env_sel no_links_def beneath_def)

end
