(* ===== verification/Jcmd.thy ===== *)
theory Jcmd
  imports Jvm
begin

text \<open>
  internal/agent/profiler/jvm/jcmd.go, over the notions of \<open>Jvm\<close>. The goroutine that watches a
  recording is \<open>jcmdPoll\<close>, which may run for ever: it is a partial function, \<open>None\<close> when it does not end.
\<close>

section \<open>Channels\<close>

text \<open>What others have sent, and a receive in a \<open>select\<close> with a \<open>default\<close>.\<close>

fun arrive :: "string list \<Rightarrow> channel \<Rightarrow> channel" where
  "arrive ts NilChan = NilChan"
| "arrive ts (OpenChan n buf) = OpenChan n (take n (buf @ ts))"
| "arrive ts (ClosedChan buf) = ClosedChan buf"

fun receive :: "channel \<Rightarrow> (string \<times> channel) option" where
  "receive NilChan = None"
| "receive (OpenChan n []) = None"
| "receive (OpenChan n (t # ts)) = Some (t, OpenChan n ts)"
| "receive (ClosedChan []) = Some ([], ClosedChan [])"
| "receive (ClosedChan (t # ts)) = Some (t, ClosedChan ts)"

text \<open>A send that waits has no one to wait for, so it blocks; on a closed channel it panics, as does a second \<open>close\<close>.\<close>

fun sendTo :: "string \<Rightarrow> channel \<Rightarrow> error + channel" where
  "sendTo t (OpenChan n buf) = (if length buf < n then Inr (OpenChan n (buf @ [t])) else Inl Blocked)"
| "sendTo t NilChan = Inl Blocked"
| "sendTo t (ClosedChan buf) = Inl (Panic ''send on closed channel'')"

fun closeChan :: "channel \<Rightarrow> error + channel" where
  "closeChan (OpenChan n buf) = Inr (ClosedChan buf)"
| "closeChan NilChan = Inl (Panic ''close of nil channel'')"
| "closeChan (ClosedChan buf) = Inl (Panic ''close of closed channel'')"

definition setRecordingPIDs :: "channel \<Rightarrow> unit io" where
  "setRecordingPIDs c = State (\<lambda>w. ((), w\<lparr>recordingPIDs := c\<rparr>))"

section \<open>Commands\<close>

definition jcmdLocation :: string where
  "jcmdLocation = ''/opt/jdk/bin/jcmd''"

definition invocationName :: "ProfilingJob \<Rightarrow> string \<Rightarrow> string" where
  "invocationName job p =
     ''name=pid_'' @ p @ ''_'' @ itoa (jobIteration job) @ ''_'' @ output_string (jobOutputType job)"

definition jcmdCommand :: "env \<Rightarrow> ProfilingJob \<Rightarrow> string \<Rightarrow> string \<Rightarrow> string list io" where
  "jcmdCommand E job p fileName =
     (if jobOutputType job = ThreadDump then command E True jcmdLocation [p, ''Thread.print'']
      else if jobOutputType job = HeapDump then command E True jcmdLocation [p, ''GC.heap_dump'', fileName]
      else if jobOutputType job = HeapHistogram then command E True jcmdLocation [p, ''GC.class_histogram'']
      else command E True jcmdLocation
             [p, ''JFR.start'', ''duration='' @ intervalSeconds E job @ ''s'', ''filename='' @ fileName,
              invocationName job p, ''settings=/tmp/jfr-profile.jfc''])"

definition jcmdStopCommand :: "env \<Rightarrow> ProfilingJob \<Rightarrow> string \<Rightarrow> string list io" where
  "jcmdStopCommand E job p = command E True jcmdLocation [p, ''JFR.stop'', invocationName job p]"

section \<open>SetUp\<close>

abbreviation jfrLocation :: string where
  "jfrLocation \<equiv> ''/opt/jdk/bin/jfr''"

abbreviation jfrSettingsImageFilePath :: string where
  "jfrSettingsImageFilePath \<equiv> ''/app/jfr/settings/jfr-profile.jfc''"

abbreviation jcmdDelayBetweenJobs :: int where
  "jcmdDelayBetweenJobs \<equiv> 2 * second"

type_synonym JcmdProfiler = PidProfiler

definition newJcmdProfiler :: JcmdProfiler where
  "newJcmdProfiler = newPidProfiler jcmdDelayBetweenJobs"

definition copyJfrSettingsToTmpDir :: "env \<Rightarrow> error option io" where
  "copyJfrSettingsToTmpDir E = runOnly E ''cp'' [jfrSettingsImageFilePath, tmpDir E]"

definition jcmdSetUp :: "env \<Rightarrow> JcmdProfiler \<Rightarrow> ProfilingJob \<Rightarrow> (error option \<times> JcmdProfiler) io" where
  "jcmdSetUp E b job =
     withTargetTmp E job b (\<lambda>targetFs.
       do { (err, b') \<leftarrow> pidSetUp E b job;
            if err \<noteq> None then State_Monad.return (err, b')
            else do { setRecordingPIDs (OpenChan (length (targetPIDs b')) []);
                      err' \<leftarrow> copyJfrSettingsToTmpDir E;
                      State_Monad.return (err', b') } })"

section \<open>Watching a recording\<close>

definition printErrorIfStopped :: "env \<Rightarrow> string \<Rightarrow> unit io" where
  "printErrorIfStopped E outputTxt =
     (if str_contains E outputTxt ''stopped''
      then errorLogLn E ''Jcmd remains stopped for unknown reason, please restart the pod to be profiled''
      else State_Monad.return ())"

text \<open>
  The loop of the goroutine for one PID: \<open>True\<close> when it ends with \<open>done <- true\<close>, \<open>False\<close> when it
  returns without.
\<close>

partial_function (option) jcmdPoll :: "env \<Rightarrow> string \<Rightarrow> string list \<Rightarrow> world \<Rightarrow> (bool \<times> world) option" where
  "jcmdPoll E p check w =
     (let ch = arrive (stopTokens E w) (recordingPIDs w) in
      case receive ch of
        Some (currentPID, ch') \<Rightarrow>
          (let w1 = w\<lparr>recordingPIDs := ch'\<rparr> in
           if currentPID = p
           then Some (False, after (warningLogLn E (''Stopping is detected. Ignoring jcmd recording for PID '' @ p)) w1)
           else jcmdPoll E p check (after (sleep E second) w1))
      | None \<Rightarrow>
          (let w1 = w\<lparr>recordingPIDs := ch\<rparr>;
               (err, out, errOut) = value_of (runCmd E check []) w1;
               w2 = after (runCmd E check []) w1
           in if err \<noteq> None then Some (True, after (errorLogLn E errOut) w2)
              else if \<not> str_contains E out ''running'' \<and> \<not> str_contains E out ''delayed''
              then Some (True, after (printErrorIfStopped E out) w2)
              else jcmdPoll E p check (after (sleep E second) w2)))"

text \<open>The body after \<open><-done\<close>: it goes on only if the goroutine has written the channel.\<close>

definition handleJcmdRecording :: "env \<Rightarrow> ProfilingJob \<Rightarrow> string \<Rightarrow> error option io" where
  "handleJcmdRecording E job p =
     do { debugLogLn E (''Jcmd recording started for PID '' @ p);
          State (\<lambda>w. case jcmdPoll E p [jcmdLocation, p, ''JFR.check'', invocationName job p] w of
                       Some (True, w') \<Rightarrow> (None, w')
                     | Some (False, w') \<Rightarrow> (Some Blocked, w')
                     | None \<Rightarrow> (Some Blocked, w)) }"

definition handleJFRFile :: "env \<Rightarrow> string \<Rightarrow> string \<Rightarrow> (error + string) io" where
  "handleJFRFile E p fileName =
     do { debugLogLn E (''Converting JFr file to json raw for '' @ p);
          (err, out, errOut) \<leftarrow> runCmd E [jfrLocation, ''summary'', fileName] [];
          case err of
            Some e \<Rightarrow> do { errorLogLn E errOut; State_Monad.return (Inl e) }
          | None \<Rightarrow> State_Monad.return (Inr out) }"

definition handleProfilingResult :: "env \<Rightarrow> ProfilingJob \<Rightarrow> string \<Rightarrow> string \<Rightarrow> string \<Rightarrow> error option io" where
  "handleProfilingResult E job fileName out p =
     (if jobOutputType job = Jfr then handleJcmdRecording E job p
      else if jobOutputType job = ThreadDump \<or> jobOutputType job = HeapHistogram
      then guarded (fromSum (osWriteFile E fileName out)) (Wrap ''could not save dump to file'')
             (State_Monad.return None)
      else if jobOutputType job = Raw
      then guarded (handleJcmdRecording E job p) id
             (do { r \<leftarrow> handleJFRFile E p fileName;
                   case r of
                     Inl e \<Rightarrow> State_Monad.return (Some (Wrap ''error while converting JFR file to raw output'' e))
                   | Inr rawOutput \<Rightarrow> do { write_file E fileName rawOutput; State_Monad.return None } })
      else do { debugLogLn E out; State_Monad.return None })"

definition publishResult :: "env \<Rightarrow> CompressorType \<Rightarrow> string \<Rightarrow> OutputType \<Rightarrow> string \<Rightarrow> error option io" where
  "publishResult E c fileName out chunkSz =
     (if out = HeapDump then publishDoWithNativeGzipAndSplit E fileName chunkSz out
      else publishDo E c fileName out)"

section \<open>Invoke and CleanUp\<close>

definition jcmdBody :: "env \<Rightarrow> ProfilingJob \<Rightarrow> string \<Rightarrow> error option io" where
  "jcmdBody E job p =
     (let resultFileName = resultFileFor E job (jobOutputType job) p
      in do { cmd \<leftarrow> jcmdCommand E job p resultFileName;
              (err, out, errOut) \<leftarrow> runCmd E cmd [];
              case err of
                Some e \<Rightarrow>
                  do { errorLogLn E out;
                       State_Monad.return (Some (Wrap (''could not launch profiler: '' @ errOut) e)) }
              | None \<Rightarrow>
                  guarded (handleProfilingResult E job resultFileName out p) id
                    (publishResult E (jobCompressor job) resultFileName (jobOutputType job)
                       (jobHeapDumpSplitInChunkSize job)) })"

definition jcmdInvoke :: "env \<Rightarrow> JcmdProfiler \<Rightarrow> ProfilingJob \<Rightarrow> (error option \<times> int) io" where
  "jcmdInvoke E b job = pidInvoke E (jcmdBody E job) b"

text \<open>\<open>recordingPIDs <- pid\<close> waits for ever when the buffer is full and nobody receives.\<close>

definition jcmdCleanUpPID :: "env \<Rightarrow> ProfilingJob \<Rightarrow> string \<Rightarrow> error option io" where
  "jcmdCleanUpPID E job p =
     do { w \<leftarrow> State_Monad.get;
          case sendTo p (recordingPIDs w) of
            Inl e \<Rightarrow> State_Monad.return (Some e)
          | Inr ch \<Rightarrow>
              do { setRecordingPIDs ch;
                   sleep E second;
                   cmd \<leftarrow> jcmdStopCommand E job p;
                   (err, out, errOut) \<leftarrow> runCmd E cmd [];
                   (if err \<noteq> None then warningLogLn E errOut else State_Monad.return ());
                   State_Monad.return None } }"

fun jcmdCleanUpAll :: "env \<Rightarrow> ProfilingJob \<Rightarrow> string list \<Rightarrow> error option io" where
  "jcmdCleanUpAll E job [] = State_Monad.return None"
| "jcmdCleanUpAll E job (p # ps) = guarded (jcmdCleanUpPID E job p) id (jcmdCleanUpAll E job ps)"

definition jcmdCleanUp :: "env \<Rightarrow> PidProfiler \<Rightarrow> ProfilingJob \<Rightarrow> error option io" where
  "jcmdCleanUp E b job =
     do { w \<leftarrow> State_Monad.get;
          let stopping = (recordingPIDs w \<noteq> NilChan \<and> jobOutputType job = Jfr);
          guarded (if stopping then jcmdCleanUpAll E job (targetPIDs b) else State_Monad.return None) id
            (do { remove_all_files E (tmpDir E) (profilingPrefix @ output_string (jobOutputType job));
                  w' \<leftarrow> State_Monad.get;
                  if \<not> stopping then State_Monad.return None
                  else case closeChan (recordingPIDs w') of
                         Inl e \<Rightarrow> State_Monad.return (Some e)
                       | Inr ch \<Rightarrow> do { setRecordingPIDs ch; State_Monad.return None } }) }"

section \<open>The contract\<close>

lemma quiet_printErrorIfStopped [quiet_rules]: "quiet (printErrorIfStopped E out)"
  unfolding printErrorIfStopped_def by (intro quiet_rules)

lemma clock_advances [simp]:
  "clock (after (sleep E d) w) = clock w + max 0 d" "clock w \<le> clock (after (runCmd E argv input) w)"
  by (simp_all add: sleep_def runCmd_def Let_def)

lemma jcmdPoll_results:
  assumes "jcmdPoll E p check w = Some r"
  shows "protocol (snd r) = protocol w \<and> clock w \<le> clock (snd r)"
proof (rule jcmdPoll.raw_induct
    [where P = "\<lambda>E p check w r. protocol (snd r) = protocol w \<and> clock w \<le> clock (snd r)", OF _ assms],
    goal_cases)
  case (1 poll E p check w r)
  note q = quietD [OF quiet_runCmd] quietD [OF quiet_sleep] quietD [OF quiet_logs(3)]
    quietD [OF quiet_logs(4)] quietD [OF quiet_printErrorIfStopped]
  have [simp]: "clock (after (printErrorIfStopped E out) v) = clock v" for out v
    by (simp add: printErrorIfStopped_def)
  have run: "clock w \<le> clock (after (runCmd E check []) (w\<lparr>recordingPIDs := ch\<rparr>))" for ch
    using clock_advances(2) [of "w\<lparr>recordingPIDs := ch\<rparr>" E check "[]"] by simp
  show ?case
  proof (cases "receive (arrive (stopTokens E w) (recordingPIDs w))")
    case None
    with "1"(2) show ?thesis
      by (auto simp: Let_def split_beta q run second_def split: if_split_asm dest!: "1"(1)
          intro: order_trans [OF run [of "arrive (stopTokens E w) (recordingPIDs w)"]])
  next
    case (Some tc)
    with "1"(2) show ?thesis
      by (cases tc) (auto simp: Let_def q second_def split: if_split_asm dest!: "1"(1))
  qed
qed

lemma quiet_handleJcmdRecording [quiet_rules]: "quiet (handleJcmdRecording E job p)"
proof -
  have "quiet (State (\<lambda>w. case jcmdPoll E p check w of
      Some (True, w') \<Rightarrow> (None, w') | Some (False, w') \<Rightarrow> (Some Blocked, w') | None \<Rightarrow> (Some Blocked, w)))" for check
    by (auto simp: quiet_def dest!: jcmdPoll_results split: option.split bool.split)
  then show ?thesis unfolding handleJcmdRecording_def by (intro quiet_rules)
qed

lemma quiet_setRecordingPIDs [quiet_rules]: "quiet (setRecordingPIDs c)"
  by (simp add: quiet_def setRecordingPIDs_def)

lemma quiet_jcmd [quiet_rules]:
  "quiet (jcmdCommand E job p f)" "quiet (jcmdStopCommand E job p)" "quiet (copyJfrSettingsToTmpDir E)"
  "quiet (handleJFRFile E p f)" "quiet (handleProfilingResult E job f out p)"
  unfolding jcmdCommand_def jcmdStopCommand_def copyJfrSettingsToTmpDir_def handleJFRFile_def
    handleProfilingResult_def
  by (intro quiet_rules)+

lemma quiet_jcmdSetUp [quiet_rules]: "quiet (jcmdSetUp E b job)"
  unfolding jcmdSetUp_def by (intro quiet_rules)

lemma quiet_jcmdCleanUpPID [quiet_rules]: "quiet (jcmdCleanUpPID E job p)"
  unfolding jcmdCleanUpPID_def by (intro quiet_rules)

lemma quiet_jcmdCleanUp [quiet_rules]: "quiet (jcmdCleanUp E b job)"
proof -
  have "quiet (jcmdCleanUpAll E job ps)" for ps
    by (induction ps) (auto intro!: quiet_rules)
  then show ?thesis unfolding jcmdCleanUp_def Let_def by (intro quiet_rules)
qed

interpretation jcmd: pid_body jcmdBody
  by unfold_locales
    (unfold jcmdBody_def publishResult_def Let_def, intro publish_rules quiet_rules)

section \<open>Stopping\<close>

lemma recordingPIDs_debugLogLn [simp]: "recordingPIDs (after (debugLogLn E msg) w) = recordingPIDs w"
  by (simp add: debugLogLn_def printLogLn_def after_eventLn now_def)



lemma recordingPIDs_logs [simp]:
  "recordingPIDs (after (errorLogLn E msg) w) = recordingPIDs w"
  "recordingPIDs (after (printErrorIfStopped E out) w) = recordingPIDs w"
  "recordingPIDs (after (sleep E d) w) = recordingPIDs w"
  "recordingPIDs (after (runCmd E argv input) w) = recordingPIDs w"
  by (simp_all add: errorLogLn_def printLogLn_def after_eventLn now_def printErrorIfStopped_def sleep_def runCmd_def Let_def)

text \<open>What ends the polling: \<open>JFR.check\<close> fails or no longer says that the recording runs or is delayed.\<close>

definition recordingOver :: "env \<Rightarrow> string list \<Rightarrow> world \<Rightarrow> bool" where
  "recordingOver E check w \<longleftrightarrow>
     (let r = runProc E check [] w
      in procErr r \<noteq> None \<or> \<not> str_contains E (procOut r) ''running'' \<and> \<not> str_contains E (procOut r) ''delayed'')"

lemma jcmdPoll_ends:
  assumes "recordingPIDs w = OpenChan n ts" "p \<notin> set ts" "\<And>w. p \<notin> set (stopTokens E w)"
    and over: "\<And>w. T \<le> clock w \<Longrightarrow> stopTokens E w = [] \<and> recordingOver E check w"
  shows "\<exists>w'. jcmdPoll E p check w = Some (True, w') \<and> recordingPIDs w' = OpenChan n []"
  using assms(1,2)
proof (induction "(nat (T - clock w), length ts)" arbitrary: w ts rule: wf_induct_rule [OF wf_lex_prod [OF wf_less_than wf_less_than]])
  case (1 w ts)
  let ?ch = "take n (ts @ stopTokens E w)"
  have IH: "\<exists>w'. jcmdPoll E p check v = Some (True, w') \<and> recordingPIDs w' = OpenChan n []"
    if "recordingPIDs v = OpenChan n us" "p \<notin> set us" "clock w + second \<le> clock v"
      "T \<le> clock w \<Longrightarrow> length us < length ts" for v us
    using "1"(1) [of v us] that by (cases "T \<le> clock w") (auto simp: second_def)
  have notin: "p \<notin> set ?ch" using "1"(3) assms(3) by (auto dest!: in_set_takeD)
  show ?case
  proof (cases ?ch)
    case (Cons t us)
    let ?v = "after (sleep E second) (w\<lparr>recordingPIDs := OpenChan n us\<rparr>)"
    have drained: "length us < length ts" if "T \<le> clock w"
    proof -
      have "length (take n ts) = Suc (length us)" using Cons over [OF that] by simp
      then show ?thesis by simp
    qed
    have own: "t \<noteq> p" "p \<notin> set us" using notin unfolding Cons by auto
    with drained have "\<exists>w'. jcmdPoll E p check ?v = Some (True, w') \<and> recordingPIDs w' = OpenChan n []"
      by (intro IH [of ?v us]) (simp_all add: second_def)
    moreover have "jcmdPoll E p check w = jcmdPoll E p check ?v"
      using Cons own(1) "1"(2) by (subst jcmdPoll.simps) (simp add: Let_def)
    ultimately show ?thesis by simp
  next
    case Nil
    let ?w1 = "w\<lparr>recordingPIDs := OpenChan n []\<rparr>"
    let ?w2 = "after (runCmd E check []) ?w1"
    let ?v = "after (sleep E second) ?w2"
    show ?thesis
    proof (cases "recordingOver E check ?w1")
      case True
      then show ?thesis
        using Nil "1"(2) by (subst jcmdPoll.simps) (auto simp: Let_def recordingOver_def runCmd_def)
    next
      case False
      then have "\<not> T \<le> clock w" using over [of ?w1] by auto
      moreover have "clock ?w1 \<le> clock ?w2" by (rule clock_advances)
      ultimately have "\<exists>w'. jcmdPoll E p check ?v = Some (True, w') \<and> recordingPIDs w' = OpenChan n []"
        by (intro IH [of ?v "[]"]) (auto simp: second_def)
      moreover have "jcmdPoll E p check w = jcmdPoll E p check ?v"
        using Nil False "1"(2) by (subst jcmdPoll.simps) (auto simp: Let_def recordingOver_def runCmd_def)
      ultimately show ?thesis by simp
    qed
  qed
qed



section \<open>The second clean-up\<close>

lemma recordingPIDs_remove [simp]:
  "recordingPIDs (after (remove_file E f) w) = recordingPIDs w"
  "recordingPIDs (after (warningLogLn E msg) w) = recordingPIDs w"
proof -
  have "recordingPIDs (after (osRemove E f) w) = recordingPIDs w" for w
    by (simp add: osRemove_def faulty_def Let_def split: option.split)
  moreover have "after (exists_file E f) w = w" by (simp add: exists_file_def osStat_ok)
  ultimately show "recordingPIDs (after (remove_file E f) w) = recordingPIDs w" by (simp add: remove_file_def)
  show "recordingPIDs (after (warningLogLn E msg) w) = recordingPIDs w"
    by (simp add: warningLogLn_def printLogLn_def after_eventLn now_def)
qed

lemma recordingPIDs_remove_all [simp]: "recordingPIDs (after (remove_all_files E d pat) w) = recordingPIDs w"
proof -
  have "recordingPIDs (after (remove_each E fs) w) = recordingPIDs w" for fs
    by (induction fs arbitrary: w) (simp_all split: option.split)
  then show ?thesis by (simp add: remove_all_files_def list_files_def osGlob_def)
qed

lemma jcmdCleanUp_closes:
  assumes "value_of (jcmdCleanUp E b job) w = None" "recordingPIDs w \<noteq> NilChan" "jobOutputType job = Jfr"
  shows "\<exists>buf. recordingPIDs (after (jcmdCleanUp E b job) w) = ClosedChan buf"
proof -
  have closed: "closeChan ch = Inr ch' \<Longrightarrow> \<exists>buf. ch' = ClosedChan buf" for ch ch'
    by (cases ch) auto
  show ?thesis
    using assms closed
    by (auto simp: jcmdCleanUp_def Let_def State_Monad.get_def setRecordingPIDs_def
        split: option.split_asm sum.split_asm option.split sum.split)
qed

lemma jcmdCleanUp_closed_panics:
  assumes "recordingPIDs w = ClosedChan buf" "jobOutputType job = Jfr"
  shows "\<exists>m. value_of (jcmdCleanUp E b job) w = Some (Panic m)"
  using assms
  by (cases "targetPIDs b") (simp_all add: jcmdCleanUp_def jcmdCleanUpPID_def Let_def State_Monad.get_def)

lemma jcmdCleanUpPID_sends:
  assumes "sendTo p (recordingPIDs w) = Inr ch"
  shows "value_of (jcmdCleanUpPID E job p) w = None" "recordingPIDs (after (jcmdCleanUpPID E job p) w) = ch"
  using assms
  by (simp_all add: jcmdCleanUpPID_def State_Monad.get_def setRecordingPIDs_def jcmdStopCommand_def command_def split_beta)

lemma jcmdCleanUp_one:
  assumes "recordingPIDs w = OpenChan n ts" "length ts < n" "targetPIDs b = [p]" "jobOutputType job = Jfr"
  shows "value_of (jcmdCleanUp E b job) w = None"
proof -
  have "sendTo p (recordingPIDs w) = Inr (OpenChan n (ts @ [p]))" using assms(1,2) by simp
  from jcmdCleanUpPID_sends [OF this] show ?thesis
    using assms by (simp add: jcmdCleanUp_def Let_def State_Monad.get_def)
qed

end
