(* ===== verification/NodeDummy.thy ===== *)
theory NodeDummy
  imports BpfPerf
begin

text \<open>
  internal/agent/profiler/node\_dummy.go: a signal asks the Node process for a heap snapshot, and the
  profiler waits, a second at a time, for a snapshot file whose size has stopped changing.
\<close>

record NodeDummyProfiler =
  nodeCwd :: string
  snapshotRetries :: nat

abbreviation nodeDummySnapshotRetries :: nat where
  "nodeDummySnapshotRetries \<equiv> 120"

definition newNodeDummyProfiler :: NodeDummyProfiler where
  "newNodeDummyProfiler = \<lparr>nodeCwd = [], snapshotRetries = nodeDummySnapshotRetries\<rparr>"

definition nodeSetUp :: "env \<Rightarrow> NodeDummyProfiler \<Rightarrow> ProfilingJob \<Rightarrow> (error option \<times> NodeDummyProfiler) io" where
  "nodeSetUp E n job =
     do { r \<leftarrow> containerFileSystem E (jobContainerRuntime job) (jobContainerID job) (jobContainerRuntimePath job);
          case r of
            Inl e \<Rightarrow> State_Monad.return (Some e, n)
          | Inr targetFs \<Rightarrow>
              do { debugLogLn E (''The target filesystem is: '' @ targetFs);
                   r' \<leftarrow> getCWD E job;
                   case r' of
                     Inl e \<Rightarrow> State_Monad.return (Some e, n)
                   | Inr cwd \<Rightarrow>
                       do { remove_all_files E cwd ''*.heapsnapshot*'';
                            State_Monad.return (None, n\<lparr>nodeCwd := path_join [targetFs, cwd]\<rparr>) } } }"

text \<open>The value \<open>strconv.Atoi\<close> returns beside its error: 0, or the nearest \<open>int\<close> out of range.\<close>

definition atoiValue :: "string \<Rightarrow> int" where
  "atoiValue s =
     (case atoi s of
        Some i \<Rightarrow> i
      | None \<Rightarrow>
          (let ds = (if s \<noteq> [] \<and> (hd s = CHR ''-'' \<or> hd s = CHR ''+'') then tl s else s) in
           if ds = [] \<or> \<not> list_all is_digit ds then 0
           else if hd s = CHR ''-'' then - (2 ^ 63) else 2 ^ 63 - 1))"

text \<open>The loop over the ticks, with the number of retries that are left.\<close>

primrec nodeWait :: "nat \<Rightarrow> env \<Rightarrow> string \<Rightarrow> string \<Rightarrow> int \<Rightarrow> int \<Rightarrow> (error + string) io" where
  "nodeWait 0 E p cwd fileSize currentFileSize =
     do { sleep E second;
          fileName \<leftarrow> first_file (path_join [cwd, ''*.heapsnapshot*'']);
          current \<leftarrow> (if fileName \<noteq> [] then file_size E fileName else State_Monad.return currentFileSize);
          if fileName \<noteq> [] \<and> current = fileSize then State_Monad.return (Inr fileName)
          else State_Monad.return (Inl (Errorf (''no heapsnapshot files found (PID: '' @ p @ '')''))) }"
| "nodeWait (Suc k) E p cwd fileSize currentFileSize =
     do { sleep E second;
          fileName \<leftarrow> first_file (path_join [cwd, ''*.heapsnapshot*'']);
          current \<leftarrow> (if fileName \<noteq> [] then file_size E fileName else State_Monad.return currentFileSize);
          if fileName \<noteq> [] \<and> current = fileSize then State_Monad.return (Inr fileName)
          else do { debugLogLn E (''No heapsnapshot available yet (PID: '' @ p @ ''). Retrying...'');
                    nodeWait k E p cwd current current } }"

definition nodeBody :: "env \<Rightarrow> NodeDummyProfiler \<Rightarrow> ProfilingJob \<Rightarrow> string \<Rightarrow> error option io" where
  "nodeBody E n job p =
     guarded (kill E (atoiValue p) (jobNodeHeapSnapshotSignal job))
       (Wrap (''unable to send signal: '' @ itoa (jobNodeHeapSnapshotSignal job) @
              '' to target process (PID: '' @ p @ '')''))
       (do { r \<leftarrow> nodeWait (snapshotRetries n) E p (nodeCwd n) 1 0;
             case r of
               Inl e \<Rightarrow> State_Monad.return (Some e)
             | Inr fileName \<Rightarrow>
                 (let resultFileName = resultFileFor E job (jobOutputType job) p in
                  guarded (fromSum (copy_file E fileName resultFileName))
                    (Wrap (''could not move file: '' @ fileName))
                    (do { err \<leftarrow> remove_file E fileName;
                          (if err \<noteq> None then warningLogLn E (''The file could not be removed: '' @ fileName)
                           else State_Monad.return ());
                          publishDoWithNativeGzipAndSplit E resultFileName
                            (jobHeapDumpSplitInChunkSize job) (jobOutputType job) })) })"

text \<open>The duration is the one \<open>invoke\<close> measures, without the look-up of the PIDs, unless that fails.\<close>

definition nodeInvoke :: "env \<Rightarrow> NodeDummyProfiler \<Rightarrow> ProfilingJob \<Rightarrow> (error option \<times> int) io" where
  "nodeInvoke E n job =
     do { start \<leftarrow> now;
          r \<leftarrow> getRootPID E job;
          case r of
            Inl e \<Rightarrow> do { end \<leftarrow> now; State_Monad.return (Some e, end - start) }
          | Inr rootPID \<Rightarrow> do { p \<leftarrow> getFirstCandidatePID E rootPID; timed (nodeBody E n job p) } }"

definition nodeCleanUp :: "env \<Rightarrow> error option io" where
  "nodeCleanUp E = do { remove_all_files E (tmpDir E) profilingPrefix; State_Monad.return None }"

lemma quiet_nodeWait [quiet_rules]: "quiet (nodeWait k E p cwd a b)"
  by (induction k arbitrary: a b) (auto intro!: quiet_rules)

lemma quiet_nodeSetUp [quiet_rules]: "quiet (nodeSetUp E n job)" "quiet (nodeCleanUp E)"
  unfolding nodeSetUp_def nodeCleanUp_def by (intro quiet_rules)+

lemma publishes_nodeBody [publish_rules]: "publishes (nodeBody E n job p)"
  unfolding nodeBody_def Let_def by (intro publish_rules quiet_rules)

lemma node_accountable: "accountable 1 (nodeInvoke E n job)"
  unfolding nodeInvoke_def
  by (intro accountable_bind accountable_case_sum publishes_accountable accountable_fail publish_rules quiet_rules)

section \<open>The waiting loop\<close>

lemma clock_file_size [simp]: "clock (after (file_size E p) w) = clock w"
  by (auto simp: file_size_def osStat_ok split: sum.split fileInfo.split)

lemma after_first_file [simp]:
  "after (first_file p) w = w"
  "value_of (first_file p) w = (case glob (files w) p of m # _ \<Rightarrow> m | [] \<Rightarrow> [])"
  by (simp_all add: first_file_def list_files_def osGlob_def)

text \<open>C24. The wait ends: after at most one tick more than the number of retries (two minutes and a
  second for the profiler the factory builds) the loop has returned a file or given up.\<close>

theorem nodeWait_bounded:
  "clock (after (nodeWait k E p cwd fileSize current) w) \<le> clock w + (int k + 1) * second"
proof (induction k arbitrary: fileSize current w)
  case 0
  then show ?case by (simp add: sleep_def second_def)
next
  case (Suc k)
  have tick: "clock (after (sleep E second) w) = clock w + second"
    by (simp add: sleep_def second_def)
  have step: "clock (after (nodeWait k E p cwd c c) w') \<le> clock w + (int (Suc k) + 1) * second"
    if "clock w' = clock w + second" for c w'
    using Suc.IH [of c c w'] that by (simp add: algebra_simps)
  have le: "clock w + second \<le> clock w + (int (Suc k) + 1) * second"
    by (simp add: second_def)
  have size: "clock (after (if f \<noteq> [] then file_size E f else State_Monad.return x) w') = clock w'" for f x w'
    by simp
  show ?case
    unfolding nodeWait.simps value_of_simps after_first_file
    using tick step le size by (simp del: of_nat_Suc)
qed

text \<open>C25. A snapshot that was in the target's working directory before the signal was sent is taken for
  the new one: when no process writes a file while the agent waits, and any snapshot is there already,
  the loop still succeeds, on the second tick at the latest, and returns the old file. (\<open>SetUp\<close> means to
  remove such files, but removes them from the path as the container sees it, not from \<open>n.cwd\<close>.)\<close>

theorem nodeWait_accepts_stale:
  assumes "no_faults E" "\<And>d w. meanwhile E d w = files w"
    and "glob (files w) (path_join [cwd, ''*.heapsnapshot*'']) = f # fs" "content (files w) f = Some c" "f \<noteq> []"
  shows "value_of (nodeWait (Suc k) E p cwd 1 0) w = Inr f"
proof -
  have tick: "files (after (sleep E second) w) = files w" for w
    by (simp add: sleep_def assms(2))
  have size: "value_of (file_size E f) w' = int (length c)" if "files w' = files w" for w'
    using file_size_ok [OF assms(1), of w' f c] that assms(4) by simp
  have again: "value_of (nodeWait k E p cwd (int (length c)) (int (length c))) w' = Inr f"
    if "files w' = files w" for w'
    using assms(3,5) that by (cases k) (simp_all add: tick size)
  show ?thesis
    using assms(3,5) again by (simp add: tick size files_read)
qed

theorem nodeWait_accepts_stale_witness:
  "value_of (nodeWait (Suc 119) sample_env ''7'' ''/r/app'' 1 0)
     (empty_world\<lparr>files := [(''/r/app/old.heapsnapshot'', File ''{old}'')]\<rparr>) = Inr ''/r/app/old.heapsnapshot''"
proof (rule nodeWait_accepts_stale)
  show "no_faults sample_env" by (rule sample_env_lib)
  show "glob (files (empty_world\<lparr>files := [(''/r/app/old.heapsnapshot'', File ''{old}'')]\<rparr>))
      (path_join [''/r/app'', ''*.heapsnapshot*'']) = [''/r/app/old.heapsnapshot'']"
    by code_simp
qed (simp_all add: sample_env_def content_def resolve_no_links no_links_def)

end
