(* ===== verification/Factory.thy ===== *)
theory Factory
  imports Austin GoPprof Jcmd NodeDummy
begin

text \<open>
  internal/agent/profiler/factory.go: the interface \<open>Profiler\<close> as the tagged union of its
  implementations, \<open>Get\<close>, and the dispatch of the three operations; profiler\_fake.go: the mock that
  \<open>Get\<close> returns for any other tool.
\<close>

section \<open>profiler\_fake.go\<close>

record MockProfiler =
  setUpInvokedTimes :: int
  invokeInvokedTimes :: int
  cleanUpInvokedTimes :: int

definition newMockProfiler :: MockProfiler where
  "newMockProfiler = \<lparr>setUpInvokedTimes = 0, invokeInvokedTimes = 0, cleanUpInvokedTimes = 0\<rparr>"

definition mockSetUp :: "env \<Rightarrow> MockProfiler \<Rightarrow> ProfilingJob \<Rightarrow> (error option \<times> MockProfiler) io" where
  "mockSetUp E m job =
     (let m' = m\<lparr>setUpInvokedTimes := setUpInvokedTimes m + 1\<rparr> in
      if jobContainerID job = ''WithSetupError''
      then State_Monad.return (Some (Errorf ''fake SetUp with error''), m')
      else do { printLine ''fake SetUp''; State_Monad.return (None, m') })"

definition mockInvoke :: "env \<Rightarrow> MockProfiler \<Rightarrow> ProfilingJob \<Rightarrow> ((error option \<times> int) \<times> MockProfiler) io" where
  "mockInvoke E m job =
     do { r \<leftarrow> timed (if jobContainerID job = ''WithInvokeError''
                     then State_Monad.return (Some (Errorf ''fake Invoke with error''))
                     else do { printLine ''fake Invoke''; State_Monad.return None });
          State_Monad.return (r, m\<lparr>invokeInvokedTimes := invokeInvokedTimes m + 1\<rparr>) }"

definition mockCleanUp :: "env \<Rightarrow> MockProfiler \<Rightarrow> (error option \<times> MockProfiler) io" where
  "mockCleanUp E m =
     do { printLine ''fake CleanUp'';
          State_Monad.return (None, m\<lparr>cleanUpInvokedTimes := cleanUpInvokedTimes m + 1\<rparr>) }"

text \<open>The getters of \<open>MockProfiler\<close> are the fields; each operation moves exactly its own counter.\<close>

definition mockInvokedTimes :: "MockProfiler \<Rightarrow> int \<times> int \<times> int" where
  "mockInvokedTimes m = (setUpInvokedTimes m, invokeInvokedTimes m, cleanUpInvokedTimes m)"

lemma mock_counts:
  "mockInvokedTimes (snd (value_of (mockSetUp E m job) w)) =
     (setUpInvokedTimes m + 1, invokeInvokedTimes m, cleanUpInvokedTimes m)"
  "mockInvokedTimes (snd (value_of (mockInvoke E m job) w)) =
     (setUpInvokedTimes m, invokeInvokedTimes m + 1, cleanUpInvokedTimes m)"
  "mockInvokedTimes (snd (value_of (mockCleanUp E m) w)) =
     (setUpInvokedTimes m, invokeInvokedTimes m, cleanUpInvokedTimes m + 1)"
  by (simp_all add: mockInvokedTimes_def mockSetUp_def mockInvoke_def mockCleanUp_def Let_def)

section \<open>factory.go\<close>

datatype Profiler =
    JcmdProfiler JcmdProfiler
  | AsyncJavaProfiler AsyncProfiler
  | BpfProfiler PidProfiler
  | PythonProfiler PythonProfiler
  | PerfProfiler PerfProfiler
  | RubyProfiler RubyProfiler
  | AustinPythonProfiler AustinPythonProfiler
  | GoPprofProfiler GoPprofProfiler
  | NodeProfiler NodeDummyProfiler
  | is_Mock: Mock MockProfiler

fun profilerGet :: "ProfilingTool \<Rightarrow> Profiler" where
  "profilerGet Jcmd = JcmdProfiler newJcmdProfiler"
| "profilerGet AsyncProfiler = AsyncJavaProfiler newAsyncProfiler"
| "profilerGet Bpf = BpfProfiler newBpfProfiler"
| "profilerGet Pyspy = PythonProfiler newPythonProfiler"
| "profilerGet Perf = PerfProfiler newPerfProfiler"
| "profilerGet Rbspy = RubyProfiler newRubyProfiler"
| "profilerGet Austin = AustinPythonProfiler newAustinPythonProfiler"
| "profilerGet PProf = GoPprofProfiler newGoPprofProfiler"
| "profilerGet NodeDummy = NodeProfiler newNodeDummyProfiler"
| "profilerGet _ = Mock newMockProfiler"

definition map_snd :: "('b \<Rightarrow> 'c) \<Rightarrow> ('a \<times> 'b) io \<Rightarrow> ('a \<times> 'c) io" where
  "map_snd f m = do { (x, y) \<leftarrow> m; State_Monad.return (x, f y) }"

definition unchanged :: "'b \<Rightarrow> 'a io \<Rightarrow> ('a \<times> 'b) io" where
  "unchanged y m = do { x \<leftarrow> m; State_Monad.return (x, y) }"

fun profilerSetUp :: "env \<Rightarrow> Profiler \<Rightarrow> ProfilingJob \<Rightarrow> (error option \<times> Profiler) io" where
  "profilerSetUp E (JcmdProfiler b) job = map_snd JcmdProfiler (jcmdSetUp E b job)"
| "profilerSetUp E (AsyncJavaProfiler b) job = map_snd AsyncJavaProfiler (asyncSetUp E b job)"
| "profilerSetUp E (BpfProfiler b) job = map_snd BpfProfiler (bpfSetUp E b job)"
| "profilerSetUp E (PythonProfiler b) job = map_snd PythonProfiler (pythonSetUp E b job)"
| "profilerSetUp E (PerfProfiler b) job = map_snd PerfProfiler (perfSetUp E b job)"
| "profilerSetUp E (RubyProfiler b) job = map_snd RubyProfiler (rubySetUp E b job)"
| "profilerSetUp E (AustinPythonProfiler b) job = map_snd AustinPythonProfiler (austinSetUp E b job)"
| "profilerSetUp E (GoPprofProfiler b) job = map_snd GoPprofProfiler (pprofSetUp E b job)"
| "profilerSetUp E (NodeProfiler n) job = map_snd NodeProfiler (nodeSetUp E n job)"
| "profilerSetUp E (Mock m) job = map_snd Mock (mockSetUp E m job)"

fun profilerInvoke :: "env \<Rightarrow> Profiler \<Rightarrow> ProfilingJob \<Rightarrow> ((error option \<times> int) \<times> Profiler) io" where
  "profilerInvoke E (JcmdProfiler b) job = unchanged (JcmdProfiler b) (jcmdInvoke E b job)"
| "profilerInvoke E (AsyncJavaProfiler b) job = unchanged (AsyncJavaProfiler b) (asyncInvoke E b job)"
| "profilerInvoke E (BpfProfiler b) job = unchanged (BpfProfiler b) (bpfInvoke E b job)"
| "profilerInvoke E (PythonProfiler b) job = unchanged (PythonProfiler b) (pythonInvoke E b job)"
| "profilerInvoke E (PerfProfiler b) job = unchanged (PerfProfiler b) (perfInvoke E b job)"
| "profilerInvoke E (RubyProfiler b) job = unchanged (RubyProfiler b) (rubyInvoke E b job)"
| "profilerInvoke E (AustinPythonProfiler b) job = unchanged (AustinPythonProfiler b) (austinInvoke E b job)"
| "profilerInvoke E (GoPprofProfiler b) job = unchanged (GoPprofProfiler b) (pprofInvoke E b job)"
| "profilerInvoke E (NodeProfiler n) job = unchanged (NodeProfiler n) (nodeInvoke E n job)"
| "profilerInvoke E (Mock m) job = map_snd Mock (mockInvoke E m job)"

fun profilerCleanUp :: "env \<Rightarrow> Profiler \<Rightarrow> ProfilingJob \<Rightarrow> (error option \<times> Profiler) io" where
  "profilerCleanUp E (JcmdProfiler b) job = unchanged (JcmdProfiler b) (jcmdCleanUp E b job)"
| "profilerCleanUp E (AsyncJavaProfiler b) job = unchanged (AsyncJavaProfiler b) (asyncCleanUp E b job)"
| "profilerCleanUp E (BpfProfiler b) job = unchanged (BpfProfiler b) (bpfCleanUp E)"
| "profilerCleanUp E (PythonProfiler b) job = unchanged (PythonProfiler b) (pythonCleanUp E)"
| "profilerCleanUp E (PerfProfiler b) job = unchanged (PerfProfiler b) (perfCleanUp E job)"
| "profilerCleanUp E (RubyProfiler b) job = unchanged (RubyProfiler b) (rubyCleanUp E)"
| "profilerCleanUp E (AustinPythonProfiler b) job = unchanged (AustinPythonProfiler b) (austinCleanUp E)"
| "profilerCleanUp E (GoPprofProfiler b) job = unchanged (GoPprofProfiler b) (pprofCleanUp E)"
| "profilerCleanUp E (NodeProfiler n) job = unchanged (NodeProfiler n) (nodeCleanUp E)"
| "profilerCleanUp E (Mock m) job = map_snd Mock (mockCleanUp E m)"

section \<open>The contract of an Invoke\<close>

text \<open>The PIDs a profiler will run on; the ones of the node profiler and the mock count as one.\<close>

fun targetCount :: "Profiler \<Rightarrow> nat" where
  "targetCount (JcmdProfiler b) = length (targetPIDs b)"
| "targetCount (AsyncJavaProfiler b) = length (targetPIDs b)"
| "targetCount (BpfProfiler b) = length (targetPIDs b)"
| "targetCount (PythonProfiler b) = length (targetPIDs b)"
| "targetCount (PerfProfiler b) = length (targetPIDs b)"
| "targetCount (RubyProfiler b) = length (targetPIDs b)"
| "targetCount (AustinPythonProfiler b) = length (targetPIDs b)"
| "targetCount (GoPprofProfiler b) = length (targetPIDs b)"
| "targetCount (NodeProfiler _) = 1"
| "targetCount (Mock _) = 1"

lemma map_snd_value [simp]:
  "fst (value_of (map_snd f m) w) = fst (value_of m w)" "after (map_snd f m) w = after m w"
  "snd (value_of (map_snd f m) w) = f (snd (value_of m w))"
  by (simp_all add: map_snd_def split_beta)

lemma quiet_map_snd [quiet_rules]: "quiet m \<Longrightarrow> quiet (map_snd f m)"
  by (simp add: quiet_def)

lemma unchanged_value [simp]:
  "value_of (unchanged y m) w = (value_of m w, y)" "after (unchanged y m) w = after m w"
  by (simp_all add: unchanged_def)

lemmas invoke_defs = jcmdInvoke_def asyncInvoke_def bpfInvoke_def pythonInvoke_def perfInvoke_def
  rubyInvoke_def austinInvoke_def pprofInvoke_def

lemmas invokes_accountable = jcmd.invoke_accountable async.invoke_accountable bpf.invoke_accountable
  python.invoke_accountable perf.invoke_accountable ruby.invoke_accountable austin.invoke_accountable
  pprof.invoke_accountable node_accountable

lemma unchanged_accountable:
  "accountable n m \<Longrightarrow> \<exists>m'. accountable n m' \<and> unchanged p m = unchanged p m'"
  by blast

lemma profilerInvoke_accountable:
  "\<not> is_Mock p \<Longrightarrow> \<exists>m. accountable (targetCount p) m \<and> profilerInvoke E p job = unchanged p m"
  by (cases p; simp only: profilerInvoke.simps targetCount.simps invoke_defs Profiler.disc simp_thms;
      (rule unchanged_accountable invokes_accountable)+)

text \<open>C1. No profiler reports success without a result: an \<open>Invoke\<close> of any real profiler prints nothing of
  the protocol but results, at most one per target PID; at least one when it returns no error, and none
  when it returns an error (and has not crashed or hung).\<close>

theorem invoke_result_iff_success:
  assumes "\<not> is_Mock p" "value_of (profilerInvoke E p job) w = ((err, d), p')"
  shows "\<exists>ds. protocol (after (profilerInvoke E p job) w) = protocol w @ map resultEvent ds \<and>
    length ds \<le> targetCount p \<and> (err = None \<longrightarrow> 1 \<le> length ds) \<and>
    (\<forall>e. err = Some e \<longrightarrow> \<not> is_panic e \<longrightarrow> ds = [])"
proof -
  obtain m where m: "accountable (targetCount p) m" "profilerInvoke E p job = unchanged p m"
    using profilerInvoke_accountable [OF assms(1)] by blast
  from accountableD [OF m(1), of w] assms(2) m(2) show ?thesis by simp
qed

theorem invoke_result_iff_success_witness:
  "let p = RubyProfiler (newRubyProfiler\<lparr>targetPIDs := [''7'']\<rparr>);
       err = fst (fst (value_of (profilerInvoke sample_env p sample_job) empty_world))
   in \<exists>ds. protocol (after (profilerInvoke sample_env p sample_job) empty_world) =
        protocol empty_world @ map resultEvent ds \<and>
      length ds \<le> targetCount p \<and> (err = None \<longrightarrow> 1 \<le> length ds) \<and>
      (\<forall>e. err = Some e \<longrightarrow> \<not> is_panic e \<longrightarrow> ds = [])"
  unfolding Let_def
  by (rule invoke_result_iff_success [where d = "snd (fst (value_of (profilerInvoke sample_env
        (RubyProfiler (newRubyProfiler\<lparr>targetPIDs := [''7'']\<rparr>)) sample_job) empty_world))"
      and p' = "snd (value_of (profilerInvoke sample_env
        (RubyProfiler (newRubyProfiler\<lparr>targetPIDs := [''7'']\<rparr>)) sample_job) empty_world)"])
    (simp_all only: prod.collapse Profiler.disc not_False_eq_True)

end
