(* ===== verification/Profile.thy ===== *)
theory Profile
  imports Factory
begin

text \<open>
  internal/agent/action/profile/profile.go: the arguments of the agent turned into a job
  (\<open>getProfilingJob\<close> with its validations and defaults) and the run of a profiler over the iterations
  of the job (\<open>Run\<close>).

  The argument map holds dynamically typed values; a type assertion on a missing key or another type is
  a panic. The text of the job for the debug log, made by the JSON library, is the argument \<open>jobText\<close>.
\<close>

section \<open>Arguments\<close>

datatype argValue = StrArg string | BoolArg bool | IntArg int

type_synonym arguments = "string \<Rightarrow> argValue option"

definition assertion_failed :: error where
  "assertion_failed = Panic ''interface conversion''"

text \<open>\<open>args[k].(string)\<close>, \<open>args[k].(bool)\<close>, \<open>args[k].(int)\<close>\<close>

definition strArg :: "arguments \<Rightarrow> string \<Rightarrow> (error + string) io" where
  "strArg args k =
     State_Monad.return (case args k of Some (StrArg s) \<Rightarrow> Inr s | _ \<Rightarrow> Inl assertion_failed)"

definition boolArg :: "arguments \<Rightarrow> string \<Rightarrow> (error + bool) io" where
  "boolArg args k =
     State_Monad.return (case args k of Some (BoolArg b) \<Rightarrow> Inr b | _ \<Rightarrow> Inl assertion_failed)"

definition intArg :: "arguments \<Rightarrow> string \<Rightarrow> (error + int) io" where
  "intArg args k =
     State_Monad.return (case args k of Some (IntArg i) \<Rightarrow> Inr i | _ \<Rightarrow> Inl assertion_failed)"

definition lift_sum :: "error + 'a \<Rightarrow> (error + 'a) io" where
  "lift_sum r = State_Monad.return r"

definition newJob :: ProfilingJob where
  "newJob =
     \<lparr>jobDuration = 0, jobInterval = 0, jobUID = [], jobContainerRuntime = OtherRuntime [],
      jobContainerRuntimePath = [], jobContainerID = [], jobPodUID = [], jobLanguage = OtherLang [],
      jobEvent = OtherEvent [], jobCompressor = OtherCompressor [], jobTool = OtherTool [],
      jobOutputType = OtherOutput [], jobFileName = [], jobHeapDumpSplitInChunkSize = [],
      jobPID = [], jobPgrep = [], jobNodeHeapSnapshotSignal = 0, jobIteration = 0\<rparr>"

text \<open>The constants with the names of the arguments, in the order of the source.\<close>

definition argumentNames :: "string list" where
  "argumentNames =
     [''job-id'', ''target-container-runtime'', ''target-container-runtime-path'', ''target-pod-uid'',
      ''target-container-id'', ''duration'', ''interval'', ''lang'', ''event-type'', ''compressor-type'',
      ''profiling-tool'', ''output-type'', ''filename'', ''print-logs'', ''grace-period-ending'',
      ''heap-dump-split-in-chunk-size'', ''pid'', ''pgrep'', ''node-heap-snapshot-signal'']"

section \<open>Validations\<close>

definition validateProfilingTool :: "env \<Rightarrow> string \<Rightarrow> string \<Rightarrow> ProfilingJob \<Rightarrow> (error + ProfilingJob) io" where
  "validateProfilingTool E profilingTool outType job =
     (if is_blank E profilingTool
      then attempt (lift_sum (getProfilingTool (jobLanguage job) (output_of outType))) (\<lambda>t.
             do { infoLogLn E (''Default profiling tool '' @ tool_string t @ '' will be used'');
                  State_Monad.return (Inr (job\<lparr>jobTool := t\<rparr>)) })
      else attempt (lift_sum (index0 (getProfilingToolsByProgrammingLanguage (jobLanguage job)))) (\<lambda>defaultTool.
             if \<not> isSupportedProfilingTool E profilingTool
             then do { warningLogLn E (''Unsupported profiling tool '' @ profilingTool @ '', default '' @
                         tool_string defaultTool @ '' will be used'');
                       State_Monad.return (Inr (job\<lparr>jobTool := defaultTool\<rparr>)) }
             else if \<not> isValidProfilingTool (tool_of profilingTool) (jobLanguage job)
             then do { warningLogLn E (''Unsupported profiling tool '' @ profilingTool @ '' for language '' @
                         lang_string (jobLanguage job) @ '', default '' @ tool_string defaultTool @ '' will be used'');
                       State_Monad.return (Inr (job\<lparr>jobTool := defaultTool\<rparr>)) }
             else State_Monad.return (Inr (job\<lparr>jobTool := tool_of profilingTool\<rparr>))))"

definition validateOutputType :: "env \<Rightarrow> string \<Rightarrow> ProfilingJob \<Rightarrow> (error + ProfilingJob) io" where
  "validateOutputType E outType job =
     attempt (lift_sum (index0 (getOutputTypesByProfilingTool (jobTool job)))) (\<lambda>dflt.
       if is_blank E outType
       then do { warningLogLn E (''Default output type '' @ output_string dflt @ '' will be used'');
                 State_Monad.return (Inr (job\<lparr>jobOutputType := dflt\<rparr>)) }
       else if \<not> isSupportedOutputType E outType
       then do { warningLogLn E (''Unsupported output type '' @ outType @ '', default '' @
                   output_string dflt @ '' will be used'');
                 State_Monad.return (Inr (job\<lparr>jobOutputType := dflt\<rparr>)) }
       else if \<not> isValidOutputType (output_of outType) (jobTool job)
       then do { warningLogLn E (''Unsupported output type '' @ outType @ '' for profiling tool '' @
                   tool_string (jobTool job) @ '', default '' @ output_string dflt @ '' will be used'');
                 State_Monad.return (Inr (job\<lparr>jobOutputType := dflt\<rparr>)) }
       else State_Monad.return (Inr (job\<lparr>jobOutputType := output_of outType\<rparr>)))"

text \<open>\<open>args[k] != nil && stringUtils.IsNotBlank(args[k].(string))\<close>, with the value.\<close>

definition optionalArg :: "env \<Rightarrow> arguments \<Rightarrow> string \<Rightarrow> (error + string option) io" where
  "optionalArg E args k =
     (if args k = None then State_Monad.return (Inr None)
      else attempt (strArg args k) (\<lambda>s.
             State_Monad.return (Inr (if is_not_blank E s then Some s else None))))"

abbreviation defaultHeapDumpSplitInChunkSize :: string where
  "defaultHeapDumpSplitInChunkSize \<equiv> ''50M''"

definition setHeapDumpSplitChunkSize :: "env \<Rightarrow> arguments \<Rightarrow> ProfilingJob \<Rightarrow> (error + ProfilingJob) io" where
  "setHeapDumpSplitChunkSize E args j =
     (if jobOutputType j = HeapDump \<or> jobOutputType j = HeapSnapshot
      then attempt (optionalArg E args ''heap-dump-split-in-chunk-size'') (\<lambda>v.
             State_Monad.return (Inr (j\<lparr>jobHeapDumpSplitInChunkSize :=
               (case v of Some s \<Rightarrow> s | None \<Rightarrow> defaultHeapDumpSplitInChunkSize)\<rparr>)))
      else State_Monad.return (Inr j))"

definition setPid :: "env \<Rightarrow> arguments \<Rightarrow> ProfilingJob \<Rightarrow> (error + ProfilingJob) io" where
  "setPid E args j =
     attempt (optionalArg E args ''pid'') (\<lambda>v.
       State_Monad.return (Inr (case v of Some s \<Rightarrow> j\<lparr>jobPID := s\<rparr> | None \<Rightarrow> j)))"

definition setPgrep :: "env \<Rightarrow> arguments \<Rightarrow> ProfilingJob \<Rightarrow> (error + ProfilingJob) io" where
  "setPgrep E args j =
     attempt (optionalArg E args ''pgrep'') (\<lambda>v.
       State_Monad.return (Inr (case v of Some s \<Rightarrow> j\<lparr>jobPgrep := s\<rparr> | None \<Rightarrow> j)))"

definition setNodeHeapSnapshotSignal :: "arguments \<Rightarrow> ProfilingJob \<Rightarrow> (error + ProfilingJob) io" where
  "setNodeHeapSnapshotSignal args j =
     (if args ''node-heap-snapshot-signal'' = None then State_Monad.return (Inr j)
      else attempt (intArg args ''node-heap-snapshot-signal'') (\<lambda>i.
             State_Monad.return (Inr (j\<lparr>jobNodeHeapSnapshotSignal := i\<rparr>))))"

section \<open>getProfilingJob\<close>

definition defaultDuration :: int where
  "defaultDuration = 60 * second"

definition durationArg :: "env \<Rightarrow> arguments \<Rightarrow> string \<Rightarrow> int \<Rightarrow> (error + int) io" where
  "durationArg E args k dflt =
     attempt (strArg args k) (\<lambda>s.
       if is_not_blank E s then lift_sum (parseDuration s) else State_Monad.return (Inr dflt))"

definition check :: "bool \<Rightarrow> string \<Rightarrow> (error + unit) io" where
  "check b msg = State_Monad.return (if b then Inr () else Inl (Errorf msg))"

text \<open>The part of the job that comes from the durations and the container.\<close>

definition containerJob :: "env \<Rightarrow> arguments \<Rightarrow> (error + ProfilingJob) io" where
  "containerJob E args =
     attempt (durationArg E args ''duration'' defaultDuration) (\<lambda>d.
     attempt (durationArg E args ''interval'' d) (\<lambda>i.
     attempt (check (\<not> d < i)
       (''interval cannot be greater than duration (duration '' @ itoa d @ '', interval: '' @ itoa i @ '')'')) (\<lambda>_.
     attempt (strArg args ''target-container-runtime'') (\<lambda>r.
     attempt (check (isSupportedContainerRuntime E r)
       (''unsupported container runtime, choose one of '' @ show_slice (map runtime_string availableContainerRuntimes))) (\<lambda>_.
     attempt (strArg args ''target-container-runtime-path'') (\<lambda>rp.
     attempt (strArg args ''job-id'') (\<lambda>uid.
     attempt (strArg args ''target-pod-uid'') (\<lambda>podUID.
     attempt (strArg args ''target-container-id'') (\<lambda>cid.
     attempt (strArg args ''filename'') (\<lambda>fileName.
       State_Monad.return (Inr (newJob\<lparr>jobDuration := d, jobInterval := i,
         jobContainerRuntime := runtime_of r,
         jobContainerRuntimePath := (if is_blank E rp then getContainerRuntimeRootPath (runtime_of r) else rp),
         jobUID := uid, jobPodUID := podUID, jobContainerID := normalizeContainerID cid,
         jobFileName := fileName\<rparr>))))))))))))"

abbreviation defaultEventType :: ProfilingEvent where
  "defaultEventType \<equiv> Itimer"

abbreviation defaultCompressor :: CompressorType where
  "defaultCompressor \<equiv> Gzip"

definition defaulted :: "env \<Rightarrow> string \<Rightarrow> string \<Rightarrow> string" where
  "defaulted E s dflt = (if is_blank E s then dflt else s)"

definition getProfilingJob :: "env \<Rightarrow> (ProfilingJob \<Rightarrow> string) \<Rightarrow> arguments \<Rightarrow> (error + ProfilingJob) io" where
  "getProfilingJob E jobText args =
     attempt (containerJob E args) (\<lambda>j.
     attempt (strArg args ''lang'') (\<lambda>lang.
     attempt (check (isSupportedLanguage E lang)
       (''unsupported language, choose one of '' @ show_slice (map lang_string availableLanguages))) (\<lambda>_.
     attempt (strArg args ''event-type'') (\<lambda>ev.
     attempt (check (isSupportedEvent E (defaulted E ev (event_string defaultEventType)))
       (''unsupported event, choose one of '' @ show_slice (map event_string availableEvents))) (\<lambda>_.
     attempt (strArg args ''compressor-type'') (\<lambda>co.
     attempt (check (isSupportedCompressor E (defaulted E co (compressor_string defaultCompressor)))
       (''unsupported compressor, choose one of '' @ show_slice (map compressor_string availableCompressors))) (\<lambda>_.
     attempt (strArg args ''profiling-tool'') (\<lambda>toolArg.
     attempt (strArg args ''output-type'') (\<lambda>out.
     attempt (validateProfilingTool E toolArg out
       (j\<lparr>jobLanguage := lang_of lang, jobEvent := event_of (defaulted E ev (event_string defaultEventType)),
          jobCompressor := compressor_of (defaulted E co (compressor_string defaultCompressor))\<rparr>)) (\<lambda>j.
     attempt (validateOutputType E out j) (\<lambda>j.
     attempt (setHeapDumpSplitChunkSize E args j) (\<lambda>j.
     attempt (setPid E args j) (\<lambda>j.
     attempt (setPgrep E args j) (\<lambda>j.
     attempt (setNodeHeapSnapshotSignal args j) (\<lambda>j.
       do { debugLogLn E (jobText j); State_Monad.return (Inr j) })))))))))))))))"

definition newAction ::
  "env \<Rightarrow> (ProfilingJob \<Rightarrow> string) \<Rightarrow> arguments \<Rightarrow> (error + Profiler \<times> ProfilingJob) io" where
  "newAction E jobText args =
     attempt (boolArg args ''print-logs'') (\<lambda>b.
       do { setPrintLogs b;
            attempt (getProfilingJob E jobText args) (\<lambda>j.
              State_Monad.return (Inr (profilerGet (jobTool j), j))) })"

section \<open>Run\<close>

definition iterationsOf :: "env \<Rightarrow> ProfilingJob \<Rightarrow> int" where
  "iterationsOf E job = seconds_ratio (convOverflow E) (jobDuration job) (jobInterval job)"

text \<open>What is left of the interval of an iteration that took \<open>d\<close>.\<close>

definition pauseAfter :: "env \<Rightarrow> int \<Rightarrow> int \<Rightarrow> ProfilingJob \<Rightarrow> unit io" where
  "pauseAfter E iterations d job =
     (if 1 < iterations \<and> seconds d < seconds (jobInterval job)
      then sleep E ((milliseconds (jobInterval job) - milliseconds d) * 1000000)
      else State_Monad.return ())"

lemma quiet_pauseAfter [quiet_rules]: "quiet (pauseAfter E iterations d job)"
  unfolding pauseAfter_def by (intro quiet_rules)

text \<open>The loop, with the iterations left, from iteration \<open>i + 1\<close>; the job with its last \<open>Iteration\<close>.\<close>

primrec runLoop ::
  "nat \<Rightarrow> env \<Rightarrow> int \<Rightarrow> int \<Rightarrow> Profiler \<Rightarrow> ProfilingJob \<Rightarrow> (error option \<times> Profiler \<times> ProfilingJob) io" where
  "runLoop 0 E iterations i p job = State_Monad.return (None, p, job)"
| "runLoop (Suc n) E iterations i p job =
     do { let job' = job\<lparr>jobIteration := i + 1\<rparr>;
          ((err, d), p') \<leftarrow> profilerInvoke E p job';
          if err \<noteq> None then State_Monad.return (err, p', job')
          else do {
            pauseAfter E iterations d job';
            runLoop n E iterations (i + 1) p' job' } }"

definition run :: "env \<Rightarrow> Profiler \<Rightarrow> ProfilingJob \<Rightarrow> (error option \<times> Profiler \<times> ProfilingJob) io" where
  "run E p job =
     do { t \<leftarrow> now;
          _ \<leftarrow> eventLn E Progress (ProgressData t Started);
          (err, p1) \<leftarrow> profilerSetUp E p job;
          if err \<noteq> None then State_Monad.return (err, p1, job)
          else do {
            (err', p2, job') \<leftarrow> runLoop (nat (iterationsOf E job)) E (iterationsOf E job) 0 p1 job;
            if err' \<noteq> None then State_Monad.return (err', p2, job')
            else do {
              t' \<leftarrow> now;
              _ \<leftarrow> eventLn E Progress (ProgressData t' Ended);
              State_Monad.return (None, p2, job') } } }"

end
