(* ===== verification/JobSpec.thy ===== *)
theory JobSpec
  imports Profile
begin

text \<open>
  What \<open>getProfilingJob\<close> of profile.go guarantees: a specification of a well-formed job, and the lemmas
  that every validation establishes its part of it.
\<close>

section \<open>A well-formed job\<close>

definition job_ok :: "env \<Rightarrow> ProfilingJob \<Rightarrow> bool" where
  "job_ok E j \<longleftrightarrow>
     jobInterval j \<le> jobDuration j \<and>
     runtime (jobContainerRuntime j) \<in> range Inr \<and>
     isValidProfilingTool (jobTool j) (jobLanguage j) \<and>
     isValidOutputType (jobOutputType j) (jobTool j) \<and>
     compressorGet (jobCompressor j) \<in> range Inr \<and>
     (jobOutputType j \<in> {HeapDump, HeapSnapshot} \<longrightarrow> is_not_blank E (jobHeapDumpSplitInChunkSize j))"

text \<open>The keys the agent always sets to a string, and the other ones.\<close>

definition string_keys :: "string list" where
  "string_keys =
     [''job-id'', ''target-container-runtime'', ''target-container-runtime-path'', ''target-pod-uid'',
      ''target-container-id'', ''duration'', ''interval'', ''lang'', ''event-type'', ''compressor-type'',
      ''profiling-tool'', ''output-type'', ''filename'']"

definition typed_args :: "arguments \<Rightarrow> bool" where
  "typed_args args \<longleftrightarrow>
     (\<forall>k \<in> set string_keys. \<exists>s. args k = Some (StrArg s)) \<and>
     (\<forall>k \<in> {''heap-dump-split-in-chunk-size'', ''pid'', ''pgrep''}. args k = None \<or> (\<exists>s. args k = Some (StrArg s))) \<and>
     (args ''node-heap-snapshot-signal'' = None \<or> (\<exists>i. args ''node-heap-snapshot-signal'' = Some (IntArg i))) \<and>
     (\<exists>b. args ''print-logs'' = Some (BoolArg b))"

abbreviation harmless :: "error \<Rightarrow> bool" where
  "harmless e \<equiv> \<not> is_panic e"

section \<open>Each validation\<close>

lemma spec_strArg: "args k = Some (StrArg s) \<Longrightarrow> spec (strArg args k) harmless (\<lambda>x. x = s)"
  by (simp add: spec_def strArg_def)

lemma spec_stringKey: "typed_args args \<Longrightarrow> k \<in> set string_keys \<Longrightarrow> spec (strArg args k) harmless (\<lambda>_. True)"
  by (auto simp: spec_def strArg_def typed_args_def split: option.split argValue.split)

lemma spec_optionalArg:
  "typed_args args \<Longrightarrow> k \<in> {''heap-dump-split-in-chunk-size'', ''pid'', ''pgrep''} \<Longrightarrow>
     spec (optionalArg E args k) harmless (\<lambda>v. \<forall>s. v = Some s \<longrightarrow> is_not_blank E s)"
  unfolding typed_args_def by (auto simp: spec_def optionalArg_def strArg_def)

lemma spec_check: "spec (check b msg) harmless (\<lambda>_. b)"
  by (simp add: spec_def check_def)

lemma parseDuration_harmless: "parseDuration s = Inl e \<Longrightarrow> harmless e"
proof -
  have val: "component_value orig v f sc u = Inl e \<Longrightarrow> harmless e" for orig v f sc u e
    by (auto simp: component_value_def invalid_duration_def Let_def split: if_splits)
  have comp: "parse_component orig t = Inl e \<Longrightarrow> harmless e" for orig t e
    by (auto simp: parse_component_def invalid_duration_def Let_def split: if_splits option.splits prod.splits sum.splits
        dest: val)
  have loop: "parse_loop orig d t = Inl e \<Longrightarrow> harmless e" for orig d t e
  proof (induction orig d t rule: parse_loop.induct)
    case (1 orig d t)
    show ?case
    proof (cases "t = []")
      case True
      with "1.prems" show ?thesis by (simp add: parse_loop.simps [of orig d "[]"])
    next
      case False
      with "1.prems" "1.IH" comp show ?thesis
        by (auto simp only: parse_loop.simps [of orig d t] Let_def invalid_duration_def is_panic.simps
            split: if_split_asm sum.split_asm prod.split_asm)
    qed
  qed
  assume "parseDuration s = Inl e"
  with loop show ?thesis
    by (auto simp: parseDuration_def Let_def invalid_duration_def split: if_splits sum.splits)
qed

lemma spec_durationArg:
  "typed_args args \<Longrightarrow> k \<in> set string_keys \<Longrightarrow> spec (durationArg E args k d) harmless (\<lambda>_. True)"
  unfolding durationArg_def lift_sum_def
  by (rule spec_attempt [OF spec_stringKey])
    (auto simp: spec_def split: sum.split dest: parseDuration_harmless)

lemma supported_runtime:
  assumes "lo_contains_ok E" "isSupportedContainerRuntime E r"
  shows "runtime (runtime_of r) \<in> range Inr"
proof -
  have "r \<in> {''crio'', ''containerd'', ''fake'', ''fakeWithRootFileSystemLocationResultError'',
      ''fakeWithPIDResultError'', ''fakeWithCWDResultError''}"
    using assms by (auto simp: isSupportedContainerRuntime_def lo_containsD availableContainerRuntimes_def split: if_splits)
  then show ?thesis by (auto simp: runtime_of_def runtime_def)
qed

lemma supported_compressor:
  assumes "lo_contains_ok E" "isSupportedCompressor E c"
  shows "compressorGet (compressor_of c) \<in> range Inr"
proof -
  have "c \<in> {''none'', ''snappy'', ''gzip'', ''lzo'', ''zstd''}"
    using assms by (auto simp: isSupportedCompressor_def lo_containsD availableCompressors_def)
  then show ?thesis by (auto simp: compressor_of_def)
qed

lemma supported_language:
  assumes "lo_contains_ok E" "isSupportedLanguage E l"
  shows "getProfilingToolsByProgrammingLanguage (lang_of l) \<noteq> []"
proof -
  have "l \<in> {''java'', ''go'', ''python'', ''ruby'', ''node'', ''clang'', ''clang++'', ''rust'', ''fake''}"
    using assms by (auto simp: isSupportedLanguage_def lo_containsD availableLanguages_def split: if_splits)
  then show ?thesis by (auto simp: lang_of_def)
qed

text \<open>The default tool of a language with tools is one of them.\<close>

lemma getProfilingTool_valid:
  assumes "getProfilingToolsByProgrammingLanguage l \<noteq> []"
  shows "\<exists>t. getProfilingTool l out = Inr t \<and> t \<in> set (getProfilingToolsByProgrammingLanguage l)"
  using assms by (cases l) (simp_all add: getProfilingTool_def Let_def)

lemma tools_have_outputs:
  "t \<in> set (getProfilingToolsByProgrammingLanguage l) \<Longrightarrow> getOutputTypesByProfilingTool t \<noteq> []"
  by (cases l) auto

lemma spec_validateProfilingTool:
  assumes "getProfilingToolsByProgrammingLanguage (jobLanguage j) \<noteq> []"
  shows "spec (validateProfilingTool E t out j) harmless
    (\<lambda>j'. \<exists>t'. j' = j\<lparr>jobTool := t'\<rparr> \<and> t' \<in> set (getProfilingToolsByProgrammingLanguage (jobLanguage j)))"
proof -
  obtain t1 where t1: "getProfilingTool (jobLanguage j) (output_of out) = Inr t1"
      "t1 \<in> set (getProfilingToolsByProgrammingLanguage (jobLanguage j))"
    using getProfilingTool_valid [OF assms] by blast
  obtain t2 ts where t2: "getProfilingToolsByProgrammingLanguage (jobLanguage j) = t2 # ts"
    using assms by (cases "getProfilingToolsByProgrammingLanguage (jobLanguage j)") auto
  show ?thesis
    using t1 t2
    by (auto simp: validateProfilingTool_def spec_def lift_sum_def isValidProfilingTool_def)
qed

lemma spec_validateOutputType:
  assumes "getOutputTypesByProfilingTool (jobTool j) \<noteq> []"
  shows "spec (validateOutputType E out j) harmless
    (\<lambda>j'. \<exists>o'. j' = j\<lparr>jobOutputType := o'\<rparr> \<and> o' \<in> set (getOutputTypesByProfilingTool (jobTool j)))"
proof -
  obtain o2 os where "getOutputTypesByProfilingTool (jobTool j) = o2 # os"
    using assms by (cases "getOutputTypesByProfilingTool (jobTool j)") auto
  then show ?thesis
    by (auto simp: validateOutputType_def spec_def lift_sum_def isValidOutputType_def)
qed

lemma spec_setters:
  assumes "typed_args args"
  shows "spec (setPid E args j) harmless (\<lambda>j'. \<exists>p. j' = j\<lparr>jobPID := p\<rparr>)"
    and "spec (setPgrep E args j) harmless (\<lambda>j'. \<exists>p. j' = j\<lparr>jobPgrep := p\<rparr>)"
    and "spec (setNodeHeapSnapshotSignal args j) harmless (\<lambda>j'. \<exists>i. j' = j\<lparr>jobNodeHeapSnapshotSignal := i\<rparr>)"
proof -
  have id: "\<exists>p. j = j\<lparr>jobPID := p\<rparr>" "\<exists>p. j = j\<lparr>jobPgrep := p\<rparr>" "\<exists>i. j = j\<lparr>jobNodeHeapSnapshotSignal := i\<rparr>"
    by (rule exI [of _ "jobPID j"], simp, rule exI [of _ "jobPgrep j"], simp,
        rule exI [of _ "jobNodeHeapSnapshotSignal j"], simp)
  show "spec (setPid E args j) harmless (\<lambda>j'. \<exists>p. j' = j\<lparr>jobPID := p\<rparr>)"
    unfolding setPid_def using id(1)
    by (intro spec_attempt [OF spec_optionalArg [OF assms]]) (auto simp: spec_def split: option.split)
  show "spec (setPgrep E args j) harmless (\<lambda>j'. \<exists>p. j' = j\<lparr>jobPgrep := p\<rparr>)"
    unfolding setPgrep_def using id(2)
    by (intro spec_attempt [OF spec_optionalArg [OF assms]]) (auto simp: spec_def split: option.split)
  show "spec (setNodeHeapSnapshotSignal args j) harmless (\<lambda>j'. \<exists>i. j' = j\<lparr>jobNodeHeapSnapshotSignal := i\<rparr>)"
  proof (cases "args ''node-heap-snapshot-signal''")
    case None
    with id(3) show ?thesis by (simp add: setNodeHeapSnapshotSignal_def spec_def)
  next
    case (Some v)
    with assms obtain i where "v = IntArg i" by (auto simp: typed_args_def)
    with Some show ?thesis
      by (auto simp: setNodeHeapSnapshotSignal_def spec_def intArg_def)
  qed
qed

lemma trim_50M: "trim_space ''50M'' = ''50M''"
  by (simp add: trim_space_clean is_space_rune_def)

lemma spec_chunkSize:
  assumes "typed_args args" "is_blank_ok E"
  shows "spec (setHeapDumpSplitChunkSize E args j) harmless
    (\<lambda>j'. \<exists>c. j' = j\<lparr>jobHeapDumpSplitInChunkSize := c\<rparr> \<and>
       (jobOutputType j \<in> {HeapDump, HeapSnapshot} \<longrightarrow> is_not_blank E c))"
proof -
  have dflt: "is_not_blank E ''50M''"
    using assms(2) trim_50M by (simp add: is_not_blank_def is_blankD)
  show ?thesis
  proof (cases "jobOutputType j \<in> {HeapDump, HeapSnapshot}")
    case True
    then have eq: "setHeapDumpSplitChunkSize E args j =
        attempt (optionalArg E args ''heap-dump-split-in-chunk-size'') (\<lambda>v.
          State_Monad.return (Inr (j\<lparr>jobHeapDumpSplitInChunkSize :=
            (case v of Some s \<Rightarrow> s | None \<Rightarrow> ''50M'')\<rparr>)))"
      unfolding setHeapDumpSplitChunkSize_def by (intro if_P) simp
    show ?thesis
      unfolding eq
    proof (rule spec_attempt [OF spec_optionalArg [OF assms(1)]])
      fix v :: "string option"
      let ?c = "case v of Some s \<Rightarrow> s | None \<Rightarrow> ''50M''"
      assume "\<forall>s. v = Some s \<longrightarrow> is_not_blank E s"
      then have "is_not_blank E ?c" using dflt by (cases v) simp_all
      then have "\<exists>c. j\<lparr>jobHeapDumpSplitInChunkSize := ?c\<rparr> = j\<lparr>jobHeapDumpSplitInChunkSize := c\<rparr> \<and>
          (jobOutputType j \<in> {HeapDump, HeapSnapshot} \<longrightarrow> is_not_blank E c)"
        by (intro exI [of _ ?c] conjI refl impI)
      then show "spec (State_Monad.return (Inr (j\<lparr>jobHeapDumpSplitInChunkSize := ?c\<rparr>))) harmless
          (\<lambda>j'. \<exists>c. j' = j\<lparr>jobHeapDumpSplitInChunkSize := c\<rparr> \<and>
            (jobOutputType j \<in> {HeapDump, HeapSnapshot} \<longrightarrow> is_not_blank E c))"
        by (intro spec_return) (simp only: sum.case)
    qed simp
  next
    case False
    have "j = j\<lparr>jobHeapDumpSplitInChunkSize := jobHeapDumpSplitInChunkSize j\<rparr>" by simp
    then have "\<exists>c. j = j\<lparr>jobHeapDumpSplitInChunkSize := c\<rparr>" by (rule exI)
    with False show ?thesis
      by (simp add: setHeapDumpSplitChunkSize_def spec_def)
  qed
qed

definition container_ok :: "ProfilingJob \<Rightarrow> bool" where
  "container_ok j \<longleftrightarrow> jobInterval j \<le> jobDuration j \<and> runtime (jobContainerRuntime j) \<in> range Inr"

lemma spec_containerJob:
  assumes "typed_args args" "lo_contains_ok E"
  shows "spec (containerJob E args) harmless container_ok"
  unfolding containerJob_def
  apply (rule spec_attempt [OF spec_durationArg [OF assms(1)]], simp add: string_keys_def)
  apply (rule spec_attempt [OF spec_durationArg [OF assms(1)]], simp add: string_keys_def)
  apply (rule spec_attempt [OF spec_check])
  apply (rule spec_attempt [OF spec_stringKey [OF assms(1)]], simp add: string_keys_def)
  apply (rule spec_attempt [OF spec_check])
  apply (rule spec_attempt [OF spec_stringKey [OF assms(1)]], simp add: string_keys_def)+
  apply (rule spec_return)
  using supported_runtime [OF assms(2)] by (simp add: container_ok_def)

lemma spec_getProfilingJob:
  assumes typed: "typed_args args" and lib: "lo_contains_ok E" "is_blank_ok E"
  shows "spec (getProfilingJob E jobText args) harmless (job_ok E)"
  unfolding getProfilingJob_def
  apply (rule spec_attempt [OF spec_containerJob [OF typed lib(1)]])
  apply (rule spec_attempt [OF spec_stringKey [OF typed]], simp add: string_keys_def)
  apply (rule spec_attempt [OF spec_check])
  apply (rule spec_attempt [OF spec_stringKey [OF typed]], simp add: string_keys_def)
  apply (rule spec_attempt [OF spec_check])
  apply (rule spec_attempt [OF spec_stringKey [OF typed]], simp add: string_keys_def)
  apply (rule spec_attempt [OF spec_check])
  apply (rule spec_attempt [OF spec_stringKey [OF typed]], simp add: string_keys_def)+
  apply (rule spec_attempt [OF spec_validateProfilingTool])
   apply (simp add: supported_language [OF lib(1)])
  apply (rule spec_attempt [OF spec_validateOutputType])
   apply (clarsimp simp: tools_have_outputs)
  apply (rule spec_attempt [OF spec_chunkSize [OF typed lib(2)]])
  apply (rule spec_attempt [OF spec_setters(1) [OF typed]])
  apply (rule spec_attempt [OF spec_setters(2) [OF typed]])
  apply (rule spec_attempt [OF spec_setters(3) [OF typed]])
  apply (rule spec_bind, rule spec_return)
  using supported_compressor [OF lib(1)]
  by (clarsimp simp: job_ok_def container_ok_def isValidProfilingTool_def isValidOutputType_def)

section \<open>Properties of the job\<close>

text \<open>C11. From arguments of the types the agent passes, \<open>getProfilingJob\<close> never panics: it returns an
  error, or a job that is well-formed: the interval is at most the duration, the runtime is one the agent
  has an implementation for, the tool is one of the language's, the output type is one of the tool's, the
  compressor exists, and a job that dumps a heap has a chunk size.\<close>

theorem getProfilingJob_ok:
  assumes "typed_args args" "lo_contains_ok E" "is_blank_ok E"
  shows "case value_of (getProfilingJob E jobText args) w of Inl e \<Rightarrow> \<not> is_panic e | Inr j \<Rightarrow> job_ok E j"
  using spec_getProfilingJob [OF assms] by (simp add: spec_def)

definition sample_args :: arguments where
  "sample_args =
     map_of (map (\<lambda>k. (k, StrArg [])) string_keys @ [(''print-logs'', BoolArg True)]) ++
     map_of [(''target-container-runtime'', StrArg ''containerd''), (''lang'', StrArg ''java''),
             (''output-type'', StrArg ''heapdump''), (''target-container-id'', StrArg ''containerd://abc'')]"

lemma sample_args_typed: "typed_args sample_args"
  by (auto simp: typed_args_def sample_args_def string_keys_def)

theorem getProfilingJob_ok_witness:
  "case value_of (getProfilingJob sample_env (\<lambda>_. ''job'') sample_args) empty_world of
     Inl e \<Rightarrow> \<not> is_panic e | Inr j \<Rightarrow> job_ok sample_env j"
  using sample_env_lib(5) by (intro getProfilingJob_ok sample_args_typed) (simp_all add: lib_ok_def)

lemma spec_any: "spec m (\<lambda>_. True) (\<lambda>_. True)"
  by (simp add: spec_def split: sum.split)

lemma blank_not_supported:
  "lo_contains_ok E \<Longrightarrow> is_blank_ok E \<Longrightarrow> is_blank E r \<Longrightarrow> \<not> isSupportedContainerRuntime E r"
proof
  assume a: "lo_contains_ok E" "is_blank_ok E" "is_blank E r" "isSupportedContainerRuntime E r"
  then have "r \<in> {''crio'', ''containerd'', ''fake'', ''fakeWithRootFileSystemLocationResultError'',
      ''fakeWithPIDResultError'', ''fakeWithCWDResultError''}"
    by (auto simp: isSupportedContainerRuntime_def lo_containsD availableContainerRuntimes_def split: if_splits)
  then have "trim_space r = r" "r \<noteq> []"
    by (auto simp: trim_space_clean is_space_rune_def)
  with a show False by (simp add: is_blankD)
qed

text \<open>A job without a container runtime is rejected, whatever the other arguments are: the default
  the code prepares for a blank runtime is never used, because the blank argument itself is then checked.\<close>

lemma blank_runtime_rejected:
  assumes "lo_contains_ok E" "is_blank_ok E"
    and "args ''target-container-runtime'' = Some (StrArg r)" "is_blank E r"
  shows "value_of (getProfilingJob E jobText args) w \<noteq> Inr j"
proof -
  have "spec (containerJob E args) (\<lambda>_. True) (\<lambda>_. False)"
    unfolding containerJob_def
    apply (rule spec_attempt [OF spec_any])
    apply (rule spec_attempt [OF spec_any])
    apply (rule spec_attempt [OF spec_any])
    apply (rule spec_attempt [where P = "\<lambda>x. x = r"])
     apply (simp add: spec_def strArg_def assms(3))
    apply (rule spec_attempt [where P = "\<lambda>_. False"])
     apply (simp add: spec_def check_def blank_not_supported [OF assms(1,2,4)])
    apply simp
    done
  then have "spec (getProfilingJob E jobText args) (\<lambda>_. True) (\<lambda>_. False)"
    unfolding getProfilingJob_def by (rule spec_attempt) simp
  then show ?thesis by (auto simp: spec_def dest: spec [of _ w] split: sum.splits)
qed

section \<open>Properties of a run\<close>

lemma quiet_args [quiet_rules]: "quiet (strArg args k)" "quiet (boolArg args k)" "quiet (intArg args k)" "quiet (lift_sum r)" "quiet (check b msg)"
  unfolding strArg_def boolArg_def intArg_def lift_sum_def check_def by (intro quiet_rules)+

lemma quiet_optionalArg [quiet_rules]: "quiet (optionalArg E args k)" "quiet (durationArg E args k d)"
  unfolding optionalArg_def durationArg_def by (intro quiet_rules)+

lemma quiet_validate [quiet_rules]: "quiet (validateProfilingTool E t out job)" "quiet (validateOutputType E out job)"
  "quiet (setHeapDumpSplitChunkSize E args j)" "quiet (setPid E args j)" "quiet (setPgrep E args j)"
  "quiet (setNodeHeapSnapshotSignal args j)" "quiet (containerJob E args)"
  unfolding validateProfilingTool_def validateOutputType_def setHeapDumpSplitChunkSize_def setPid_def setPgrep_def
    setNodeHeapSnapshotSignal_def containerJob_def
  by (intro quiet_rules)+

lemma quiet_getProfilingJob [quiet_rules]: "quiet (getProfilingJob E jobText args)"
  unfolding getProfilingJob_def by (intro quiet_rules)

lemma quiet_newAction [quiet_rules]: "quiet (newAction E jobText args)"
  unfolding newAction_def by (intro quiet_rules)

text \<open>The mock prints a line of its own.\<close>

lemma profilerSetUp_quiet [quiet_rules]: "\<not> is_Mock p \<Longrightarrow> quiet (profilerSetUp E p job)"
  by (cases p) (simp_all add: quiet_map_snd bpfSetUp_def pythonSetUp_def perfSetUp_def rubySetUp_def austinSetUp_def
      pprofSetUp_def quiet_pidSetUp quiet_jcmdSetUp quiet_asyncSetUp quiet_nodeSetUp)

lemma is_Mock_SetUp: "is_Mock (snd (value_of (profilerSetUp E p job) w)) = is_Mock p"
  by (cases p) simp_all

lemma profilerInvoke_same: "\<not> is_Mock p \<Longrightarrow> snd (value_of (profilerInvoke E p job) w) = p"
  by (cases p) simp_all

lemma runLoop_protocol:
  assumes "\<not> is_Mock p"
  shows "\<exists>ds. protocol (after (runLoop n E its i p job) w) = protocol w @ map resultEvent ds \<and>
      length ds \<le> n * targetCount p \<and>
      (fst (value_of (runLoop n E its i p job) w) = None \<longrightarrow> n \<le> length ds)"
proof (induction n arbitrary: i job w)
  case (Suc n)
  let ?job = "job\<lparr>jobIteration := i + 1\<rparr>"
  let ?v = "value_of (profilerInvoke E p ?job) w"
  let ?w1 = "after (profilerInvoke E p ?job) w"
  let ?pause = "pauseAfter E its (snd (fst ?v)) ?job"
  obtain err d p' where v: "?v = ((err, d), p')" by (metis prod.collapse)
  have same: "p' = p" using profilerInvoke_same [OF assms, of E ?job w] v by simp
  obtain m where m: "accountable (targetCount p) m" "profilerInvoke E p ?job = unchanged p m"
    using profilerInvoke_accountable [OF assms] by blast
  from accountableD [OF m(1), of w] m(2) v
  obtain ds1 where d1: "protocol ?w1 = protocol w @ map resultEvent ds1" "length ds1 \<le> targetCount p"
      "err = None \<longrightarrow> 1 \<le> length ds1"
    by auto
  have pause: "protocol (after ?pause ?w1) = protocol ?w1"
    by (rule quietD [OF quiet_pauseAfter])
  obtain ds2 where d2: "protocol (after (runLoop n E its (i + 1) p ?job) (after ?pause ?w1)) =
      protocol (after ?pause ?w1) @ map resultEvent ds2" "length ds2 \<le> n * targetCount p"
      "fst (value_of (runLoop n E its (i + 1) p ?job) (after ?pause ?w1)) = None \<longrightarrow> n \<le> length ds2"
    using Suc.IH by blast
  show ?case
  proof (cases "err = None")
    case True
    then have run: "after (runLoop (Suc n) E its i p job) w = after (runLoop n E its (i + 1) p ?job) (after ?pause ?w1)"
      "value_of (runLoop (Suc n) E its i p job) w = value_of (runLoop n E its (i + 1) p ?job) (after ?pause ?w1)"
      using v same by (simp_all add: Let_def split_beta)
    have one: "1 \<le> length ds1" using d1(3) True by blast
    have len: "Suc n \<le> length (ds1 @ ds2)"
      if "fst (value_of (runLoop n E its (i + 1) p ?job) (after ?pause ?w1)) = None"
      unfolding length_append using mp [OF d2(3) that] one by linarith
    have bound: "length (ds1 @ ds2) \<le> Suc n * targetCount p"
      using d1(2) d2(2) by simp
    have out: "protocol (after (runLoop n E its (i + 1) p ?job) (after ?pause ?w1)) =
        protocol w @ map resultEvent (ds1 @ ds2)"
      using d1(1) d2(1) pause by simp
    show ?thesis
      unfolding run by (intro exI [of _ "ds1 @ ds2"] conjI impI out bound len)
  next
    case False
    then have run: "after (runLoop (Suc n) E its i p job) w = ?w1"
      "fst (value_of (runLoop (Suc n) E its i p job) w) = err"
      using v by (simp_all add: Let_def split_beta)
    have "length ds1 \<le> Suc n * targetCount p" using d1(2) by simp
    then show ?thesis
      unfolding run using d1(1) False by blast
  qed
qed simp

lemma protocol_eventLn:
  "protocol (after (eventLn E t d) w) =
     protocol w @ (if marshal E d = None \<and> isPrintLogsAllowed w t \<and> is_protocol (Event t d) then [Event t d] else [])"
  by (simp add: after_eventLn)

lemma runLoop_same: "\<not> is_Mock p \<Longrightarrow> fst (snd (value_of (runLoop n E its i p job) w)) = p"
proof (induction n arbitrary: i job w)
  case (Suc n)
  then show ?case
    using profilerInvoke_same [OF Suc.prems] by (simp add: Let_def split_beta)
qed simp

lemma run_stream:
  assumes "\<not> is_Mock p" "\<And>t s. marshal E (ProgressData t s) = None"
    and "value_of (run E p job) w = (err, p', job')"
  shows "\<exists>ds. protocol (after (run E p job) w) =
      protocol w @ Event Progress (ProgressData (clock w) Started) # map resultEvent ds @
        (if err = None then [Event Progress (ProgressData (clock (after (run E p job) w)) Ended)] else []) \<and>
      length ds \<le> nat (iterationsOf E job) * targetCount p' \<and>
      (err = None \<longrightarrow> nat (iterationsOf E job) \<le> length ds)"
proof -
  let ?w1 = "after (eventLn E Progress (ProgressData (value_of now w) Started)) (after now w)"
  let ?p1 = "snd (value_of (profilerSetUp E p job) ?w1)"
  let ?w2 = "after (profilerSetUp E p job) ?w1"
  let ?loop = "runLoop (nat (iterationsOf E job)) E (iterationsOf E job) 0 ?p1 job"
  have mock: "\<not> is_Mock ?p1" using assms(1) by (simp add: is_Mock_SetUp)
  have start: "protocol ?w2 = protocol w @ [Event Progress (ProgressData (clock w) Started)]"
    by (simp add: quietD [OF profilerSetUp_quiet [OF assms(1)]] protocol_eventLn isPrintLogsAllowed_def assms(2) now_def)
  obtain ds where ds: "protocol (after ?loop ?w2) = protocol ?w2 @ map resultEvent ds"
      "length ds \<le> nat (iterationsOf E job) * targetCount ?p1"
      "fst (value_of ?loop ?w2) = None \<longrightarrow> nat (iterationsOf E job) \<le> length ds"
    using runLoop_protocol [OF mock] by blast
  show ?thesis
  proof (cases "fst (value_of (profilerSetUp E p job) ?w1)")
    case None
    then have err: "err = fst (value_of ?loop ?w2)" and p': "p' = fst (snd (value_of ?loop ?w2))"
      using assms(3) by (auto simp: run_def split_beta split: if_splits)
    have "protocol (after (run E p job) w) = protocol (after ?loop ?w2) @
        (if err = None then [Event Progress (ProgressData (clock (after ?loop ?w2)) Ended)] else [])"
      using None by (simp add: run_def split_beta err protocol_eventLn isPrintLogsAllowed_def assms(2) now_def)
    moreover have "clock (after (run E p job) w) = clock (after ?loop ?w2)"
      using None by (simp add: run_def split_beta now_def after_eventLn)
    ultimately show ?thesis
      using start ds err p' runLoop_same [OF mock] by (intro exI [of _ ds]) simp
  next
    case (Some e)
    then have "err = Some e" "after (run E p job) w = ?w2"
      using assms(3) by (auto simp: run_def split_beta split: if_splits)
    with start show ?thesis by (intro exI [of _ "[]"]) simp
  qed
qed

lemma runLoop_job: "\<exists>n. snd (snd (value_of (runLoop k E its i p job) w)) = job\<lparr>jobIteration := n\<rparr>"
proof (induction k arbitrary: i p job w)
  case 0
  show ?case by (intro exI [of _ "jobIteration job"]) simp
next
  case (Suc k)
  let ?job = "job\<lparr>jobIteration := i + 1\<rparr>"
  have "\<exists>n. snd (snd (value_of (runLoop k E its (i + 1) p' ?job) w')) = job\<lparr>jobIteration := n\<rparr>" for p' w'
    using Suc.IH [of "i + 1" p' ?job w'] by auto
  then show ?case by (simp add: Let_def split_beta) (metis option.discI)
qed

text \<open>The job a run leaves is the one it was given, up to the number of the iteration.\<close>

lemma run_job: "\<exists>n. snd (snd (value_of (run E p job) w)) = job\<lparr>jobIteration := n\<rparr>"
proof -
  have "\<exists>n. job = job\<lparr>jobIteration := n\<rparr>" by (intro exI [of _ "jobIteration job"]) simp
  with runLoop_job show ?thesis by (simp add: run_def split_beta)
qed

lemma iteration_irrelevant [simp]:
  "iterationsOf E (job\<lparr>jobIteration := n\<rparr>) = iterationsOf E job" "job_ok E (job\<lparr>jobIteration := n\<rparr>) = job_ok E job"
  by (simp_all add: iterationsOf_def job_ok_def)

text \<open>C4. What a client sees of a run: the started event, then results only, at most one per iteration and
  target, and at least one per iteration when the run succeeds; then the ended event exactly when it
  succeeds, whether it is \<open>SetUp\<close>, an \<open>Invoke\<close> or nothing that fails. The number of iterations is the one
  the durations give.\<close>

theorem run_protocol:
  assumes "\<not> is_Mock p" "\<And>t s. marshal E (ProgressData t s) = None"
    and "value_of (run E p job) w = (err, p', job')"
  shows "\<exists>ds. protocol (after (run E p job) w) =
      protocol w @ Event Progress (ProgressData (clock w) Started) # map resultEvent ds @
        (if err = None then [Event Progress (ProgressData (clock (after (run E p job) w)) Ended)] else []) \<and>
      length ds \<le> nat (iterationsOf E job) * targetCount p' \<and>
      (err = None \<longrightarrow> nat (iterationsOf E job) \<le> length ds)"
  by (rule run_stream [OF assms])

text \<open>A run of rbspy on one PID, with the profile the tool wrote already in place.\<close>

definition ruby_job :: ProfilingJob where
  "ruby_job = sample_job\<lparr>jobDuration := 1 * second, jobInterval := 1 * second, jobLanguage := Ruby,
     jobTool := Rbspy, jobOutputType := Summary, jobPID := ''7''\<rparr>"

definition ruby_world :: world where
  "ruby_world = empty_world\<lparr>files := [(''/tmp/agent-summary-7-1.txt'', File ''main 3'')]\<rparr>"

lemma profilePIDs_single:
  assumes "schedule E [p] = []"
  shows "value_of (profilePIDs E [p] d body) w =
    (case value_of (body p) w of
       None \<Rightarrow> None | Some e \<Rightarrow> Some (if is_panic e then e else PidErrors [(p, e)]))"
  using assms
  by (simp add: profilePIDs_def pidsVerdict_def ppSchedule_def ppInit_def ppStep_def Let_def panic_of_def failedPIDs_def
      map_filter_def split: option.split)

lemma ruby_publish:
  assumes "files w = [(''/tmp/agent-summary-7-1.txt'', File ''main 3'')]"
  shows "value_of (publishDo sample_env Gzip ''/tmp/agent-summary-7-1.txt'' Summary) w = None"
  by (rule publishDo_publishes [where alg = GzipCompressor and b = "''main 3''", THEN conjunct1])
    (simp_all add: assms codec_ok_def fullEncoding_def sample_env_sel no_faults_def no_links_def content_def
      resolve_no_links is_dir_def beneath_def resultFileOf_def)

text \<open>The jobs that make one summary of PID 7.\<close>

definition one_summary :: "ProfilingJob \<Rightarrow> bool" where
  "one_summary j \<longleftrightarrow> jobPID j = ''7'' \<and> jobTool j = Rbspy \<and> jobOutputType j = Summary \<and> jobCompressor j = Gzip \<and>
     iterationsOf sample_env j = 1"

lemma ruby_body_ok:
  assumes "files w = files ruby_world" "one_summary j"
  shows "value_of (rubyBody sample_env (j\<lparr>jobIteration := 1\<rparr>) ''7'') w = None"
proof -
  let ?job = "j\<lparr>jobIteration := 1\<rparr>"
  let ?f = "''/tmp/agent-summary-7-1.txt''"
  have "path_join [''/tmp'', ''agent-''] = ''/tmp/agent-''" by code_simp
  moreover have "itoa 1 = ''1''" by code_simp
  ultimately have f: "resultFileFor sample_env ?job Summary ''7'' = ?f"
    using assms(2) by (simp add: resultFileFor_def getResultFile_def sample_env_sel one_summary_def profilingPrefix_def)
  let ?w = "after (runCmd sample_env (value_of (rubyCommand sample_env ?job ''7'' ?f) w) [])
      (after (rubyCommand sample_env ?job ''7'' ?f) w)"
  have fs: "files ?w = [(?f, File ''main 3'')]"
    using assms by (simp add: ruby_world_def rubyCommand_def runCmd_def Let_def sample_env_sel)
  have "value_of (publishDo sample_env Gzip ?f Summary) ?w = None"
    by (rule ruby_publish [OF fs])
  moreover have "fst (value_of (runCmd sample_env argv []) w') = None" for argv w'
    by (simp add: runCmd_def Let_def sample_env_sel)
  ultimately show ?thesis
    using f assms(2) by (simp add: rubyBody_def Let_def split_beta one_summary_def)
qed

lemma one_summary_run:
  assumes "one_summary j" "files w = files ruby_world"
  shows "fst (value_of (run sample_env (RubyProfiler newRubyProfiler) j) w) = None"
    "targetCount (fst (snd (value_of (run sample_env (RubyProfiler newRubyProfiler) j) w))) = 1"
proof -
  have blank: "is_not_blank sample_env ''7''"
    by (simp add: is_not_blank_def sample_env_lib trim_space_clean is_space_rune_def)
  have upd: "value_of (rubySetUp sample_env newRubyProfiler j) v =
      (None, newRubyProfiler\<lparr>targetPIDs := [''7'']\<rparr>)"
    "after (rubySetUp sample_env newRubyProfiler j) v = v" for v
    using blank assms(1) by (simp_all add: rubySetUp_def pidSetUp_def targetsOf_def one_summary_def)
  have "fst (value_of (rubyInvoke sample_env (newRubyProfiler\<lparr>targetPIDs := [''7'']\<rparr>) (j\<lparr>jobIteration := 1\<rparr>)) v) = None"
    if "files v = files ruby_world" for v
    using ruby_body_ok [OF that assms(1)]
    by (simp add: rubyInvoke_def pidInvoke_def profilePIDs_single sample_env_sel newRubyProfiler_def newPidProfiler_def)
  then show "fst (value_of (run sample_env (RubyProfiler newRubyProfiler) j) w) = None"
      "targetCount (fst (snd (value_of (run sample_env (RubyProfiler newRubyProfiler) j) w))) = 1"
    using assms by (simp_all add: run_def split_beta upd Let_def one_summary_def)
qed

lemma ruby_job_summary: "one_summary ruby_job"
  using seconds_ratio_whole [of 1 1] by (simp add: one_summary_def iterationsOf_def ruby_job_def sample_job_def)

theorem run_protocol_witness:
  "\<exists>ds. protocol (after (run sample_env (RubyProfiler newRubyProfiler) ruby_job) ruby_world) =
      protocol ruby_world @ Event Progress (ProgressData (clock ruby_world) Started) # map resultEvent ds @
        (if (None :: error option) = None then
           [Event Progress (ProgressData (clock (after (run sample_env (RubyProfiler newRubyProfiler) ruby_job) ruby_world)) Ended)]
         else []) \<and>
      length ds \<le> nat (iterationsOf sample_env ruby_job) *
        targetCount (fst (snd (value_of (run sample_env (RubyProfiler newRubyProfiler) ruby_job) ruby_world))) \<and>
      ((None :: error option) = None \<longrightarrow> nat (iterationsOf sample_env ruby_job) \<le> length ds)"
proof (rule run_protocol)
  show "value_of (run sample_env (RubyProfiler newRubyProfiler) ruby_job) ruby_world =
      (None, fst (snd (value_of (run sample_env (RubyProfiler newRubyProfiler) ruby_job) ruby_world)),
        snd (snd (value_of (run sample_env (RubyProfiler newRubyProfiler) ruby_job) ruby_world)))"
    using one_summary_run(1) [OF ruby_job_summary] by (metis prod.collapse)
qed (simp_all add: sample_env_sel)



text \<open>C32. For durations of whole seconds the number of iterations is the integer quotient of duration
  and interval, although the code divides floating-point seconds.\<close>

theorem iterations_whole_seconds:
  assumes "jobDuration job = m * second" "jobInterval job = n * second" "0 < n" "n \<le> m" "m < 2 ^ 53"
  shows "iterationsOf E job = m div n"
  using assms seconds_ratio_whole [of m n] by (simp add: iterationsOf_def)

theorem iterations_whole_seconds_witness: "iterationsOf sample_env sample_job = 60 div 30"
  by (rule iterations_whole_seconds) (simp_all add: sample_job_def second_def)

text \<open>A positive interval that does not exceed the duration gives at least one iteration, for any duration
  up to three years.\<close>

lemma iterations_positive:
  assumes "0 < jobInterval job" "jobInterval job \<le> jobDuration job" "jobDuration job \<le> 10 ^ 17"
  shows "1 \<le> iterationsOf E job"
  using seconds_ratio_at_least_1 [OF assms] by (simp add: iterationsOf_def)


end
