(* ===== verification/AgentMain.thy ===== *)
theory AgentMain
  imports JobSpec
begin

text \<open>
  cmd/agent/main.go: the arguments (\<open>toArgs\<close>), the action of the application, and the life of the
  process. The command line itself is parsed by urfave/cli: \<open>cliContext\<close> is what \<open>c.String\<close>, \<open>c.Bool\<close>
  and \<open>c.Int\<close> return.

  Four goroutines decide how the process ends: the main one runs the action and then waits for the end of
  the grace period (\<open>handleForEnding\<close>), one waits for SIGTERM (\<open>handleSignals\<close>), one for the flag that
  profiling is over (\<open>handleForDone\<close>), one for the timer. They are the steps of \<open>agent_step\<close>, in any order; a panic of the
  action or of a clean-up ends the process at once.
\<close>

section \<open>The action\<close>

record cliContext =
  cString :: "string \<Rightarrow> string"
  cBool :: "string \<Rightarrow> bool"
  cInt :: "string \<Rightarrow> int"

text \<open>The flags the application declares: name, kind, and whether the command line must have it.\<close>

datatype flagKind = StringFlag | BoolFlag | IntFlag

definition agentFlags :: "(string \<times> flagKind \<times> bool) list" where
  "agentFlags =
     [(''job-id'', StringFlag, False),
      (''target-container-runtime'', StringFlag, False),
      (''target-container-runtime-path'', StringFlag, False),
      (''target-pod-uid'', StringFlag, False),
      (''target-container-id'', StringFlag, True),
      (''duration'', StringFlag, False),
      (''interval'', StringFlag, False),
      (''lang'', StringFlag, True),
      (''event-type'', StringFlag, False),
      (''compressor-type'', StringFlag, False),
      (''profiling-tool'', StringFlag, False),
      (''output-type'', StringFlag, True),
      (''filename'', StringFlag, False),
      (''print-logs'', BoolFlag, False),
      (''grace-period-ending'', StringFlag, False),
      (''heap-dump-split-in-chunk-size'', StringFlag, False),
      (''pid'', StringFlag, False),
      (''pgrep'', StringFlag, False),
      (''node-heap-snapshot-signal'', IntFlag, False)]"

definition string_flags :: "string list" where
  "string_flags =
     [''job-id'', ''target-container-runtime'', ''target-container-runtime-path'', ''target-pod-uid'',
      ''target-container-id'', ''duration'', ''interval'', ''lang'', ''event-type'', ''compressor-type'',
      ''profiling-tool'', ''output-type'', ''filename'', ''grace-period-ending'',
      ''heap-dump-split-in-chunk-size'', ''pid'', ''pgrep'']"

text \<open>Every argument of the action has a flag, and there is no other flag.\<close>

lemma agentFlags_names: "map fst agentFlags = argumentNames"
  by (simp add: agentFlags_def argumentNames_def)

definition toArgs :: "cliContext \<Rightarrow> arguments" where
  "toArgs c k =
     (if k \<in> set string_flags then Some (StrArg (cString c k))
      else if k = ''print-logs'' then Some (BoolArg (cBool c k))
      else if k = ''node-heap-snapshot-signal'' then Some (IntArg (cInt c k))
      else None)"

definition defaultGracePeriod :: int where
  "defaultGracePeriod = 5 * 60 * second"

definition gracePeriodOf :: "cliContext \<Rightarrow> int" where
  "gracePeriodOf c =
     (case parseDuration (cString c ''grace-period-ending'') of Inr d \<Rightarrow> d | Inl _ \<Rightarrow> defaultGracePeriod)"

text \<open>The error of the action, and the package variables \<open>p\<close> and \<open>profilingJob\<close> after it.\<close>

definition agentAction ::
  "env \<Rightarrow> (ProfilingJob \<Rightarrow> string) \<Rightarrow> cliContext \<Rightarrow> (error option \<times> (Profiler \<times> ProfilingJob) option) io" where
  "agentAction E jobText c =
     do { r \<leftarrow> newAction E jobText (toArgs c);
          case r of
            Inl e \<Rightarrow> State_Monad.return (Some e, None)
          | Inr (p, job) \<Rightarrow>
              do { (err, p', job') \<leftarrow> run E p job; State_Monad.return (err, Some (p', job')) } }"

text \<open>\<open>runApp\<close> in \<open>main\<close>: any error is printed. A panic ends the process before that.\<close>

definition runApp ::
  "env \<Rightarrow> (ProfilingJob \<Rightarrow> string) \<Rightarrow> cliContext \<Rightarrow> (error option \<times> (Profiler \<times> ProfilingJob) option) io" where
  "runApp E jobText c =
     do { (err, q) \<leftarrow> agentAction E jobText c;
          (case err of
             Some e \<Rightarrow> if is_panic e then State_Monad.return () else errorLn E e
           | None \<Rightarrow> State_Monad.return ());
          State_Monad.return (err, q) }"

text \<open>\<open>if p != nil \{ p.CleanUp(profilingJob) \}\<close>\<close>

definition cleanUpIfSet :: "env \<Rightarrow> (Profiler \<times> ProfilingJob) option \<Rightarrow> error option io" where
  "cleanUpIfSet E q =
     (case q of
        None \<Rightarrow> State_Monad.return None
      | Some (p, job) \<Rightarrow>
          do { (err, _) \<leftarrow> profilerCleanUp E p job;
               case err of
                 None \<Rightarrow> State_Monad.return None
               | Some e \<Rightarrow> if is_panic e then State_Monad.return (Some e)
                           else do { errorLogLn E (error_text e); State_Monad.return None } })"

text \<open>
  The main goroutine where no signal arrives: the action, the wait for the grace period, and the clean-up.
  The value is the panic that ended the process, if one did; a clean-up that blocks is one.
\<close>

definition handleForEnding :: "env \<Rightarrow> cliContext \<Rightarrow> (Profiler \<times> ProfilingJob) option \<Rightarrow> error option io" where
  "handleForEnding E c q =
     do { sleep E (gracePeriodOf c);
          warningLogLn E (''Maximum allowed time '' @ durationString (gracePeriodOf c) @
            '' surpassed. Cleaning up and auto-deleting the agent...'');
          cleanUpIfSet E q }"

text \<open>What the goroutine of \<open>handleSignals\<close> does with a signal, before it raises the flag.\<close>

definition handleSignal :: "env \<Rightarrow> (Profiler \<times> ProfilingJob) option \<Rightarrow> error option io" where
  "handleSignal E q =
     do { debugLogLn E ''Received signal: terminated''; cleanUpIfSet E q }"

definition agentMain :: "env \<Rightarrow> (ProfilingJob \<Rightarrow> string) \<Rightarrow> cliContext \<Rightarrow> error option io" where
  "agentMain E jobText c =
     do { (err, q) \<leftarrow> runApp E jobText c;
          if (case err of Some e \<Rightarrow> is_panic e | None \<Rightarrow> False) then State_Monad.return err
          else handleForEnding E c q }"

lemma toArgs_typed: "typed_args (toArgs c)"
  by (auto simp: typed_args_def toArgs_def string_keys_def string_flags_def)

lemma real_tool: "t \<in> set (getProfilingToolsByProgrammingLanguage l) \<Longrightarrow> is_Mock (profilerGet t) = (l = FakeLang)"
  by (cases l) auto

text \<open>The arguments are exactly the declared flags, each read with the accessor of its kind: no flag is
  dropped, none is read that was not declared, and no value has another type than its flag.\<close>

lemma toArgs_flags:
  "toArgs c k =
     (case map_of agentFlags k of
        Some (StringFlag, _) \<Rightarrow> Some (StrArg (cString c k))
      | Some (BoolFlag, _) \<Rightarrow> Some (BoolArg (cBool c k))
      | Some (IntFlag, _) \<Rightarrow> Some (IntArg (cInt c k))
      | None \<Rightarrow> None)"
  by (simp add: toArgs_def string_flags_def agentFlags_def)

lemma newAction_job:
  assumes "lo_contains_ok E" "is_blank_ok E"
  shows "case value_of (newAction E jobText (toArgs c)) w of
      Inl e \<Rightarrow> \<not> is_panic e
    | Inr (p, j) \<Rightarrow> job_ok E j \<and> p = profilerGet (jobTool j) \<and> (is_Mock p \<longleftrightarrow> jobLanguage j = FakeLang)"
proof -
  have arg: "value_of (boolArg (toArgs c) ''print-logs'') w = Inr (cBool c ''print-logs'')"
    by (simp add: boolArg_def toArgs_def string_flags_def)
  have "case value_of (getProfilingJob E jobText (toArgs c)) w' of Inl e \<Rightarrow> \<not> is_panic e | Inr j \<Rightarrow> job_ok E j" for w'
    using spec_getProfilingJob [OF toArgs_typed assms] by (simp add: spec_def)
  then have "case value_of (getProfilingJob E jobText (toArgs c)) w' of
      Inl e \<Rightarrow> \<not> is_panic e
    | Inr j \<Rightarrow> job_ok E j \<and> (is_Mock (profilerGet (jobTool j)) \<longleftrightarrow> jobLanguage j = FakeLang)" for w'
    using real_tool by (fastforce simp: job_ok_def isValidProfilingTool_def split: sum.split_asm split: sum.split)
  then show ?thesis
    using arg by (fastforce simp: newAction_def split: sum.split_asm split: sum.split)
qed

text \<open>C12. Whatever the command line is, the agent's arguments make \<open>NewAction\<close> return an error or a
  profiler for a well-formed job, never a panic; and the mock profiler is only made for the fake language.\<close>

theorem newAction_ok:
  assumes "lo_contains_ok E" "is_blank_ok E"
  shows "case value_of (newAction E jobText (toArgs c)) w of
      Inl e \<Rightarrow> \<not> is_panic e
    | Inr (p, j) \<Rightarrow> job_ok E j \<and> p = profilerGet (jobTool j) \<and> (is_Mock p \<longleftrightarrow> jobLanguage j = FakeLang)"
  by (rule newAction_job [OF assms])

definition sample_cli :: cliContext where
  "sample_cli =
     \<lparr>cString = (\<lambda>k. if k = ''lang'' then ''go'' else if k = ''output-type'' then ''pprof''
                    else if k = ''target-container-runtime'' then ''crio'' else []),
      cBool = (\<lambda>_. False), cInt = (\<lambda>_. 0)\<rparr>"

theorem newAction_ok_witness:
  "case value_of (newAction sample_env (\<lambda>_. ''job'') (toArgs sample_cli)) empty_world of
      Inl e \<Rightarrow> \<not> is_panic e
    | Inr (p, j) \<Rightarrow> job_ok sample_env j \<and> p = profilerGet (jobTool j) \<and> (is_Mock p \<longleftrightarrow> jobLanguage j = FakeLang)"
  using sample_env_lib(5) by (intro newAction_ok) (simp_all add: lib_ok_def)

section \<open>The life of the process\<close>

datatype mainPhase = Running | Ending | MainCleaning | MainReturned
datatype handlerPhase = Listening | HandlerCleaning | HandlerDone

record agentState =
  mainAt :: mainPhase
  handlerAt :: handlerPhase
  created :: bool        \<comment> \<open>\<open>p\<close> is set\<close>
  signals :: nat         \<comment> \<open>signals in the buffer of capacity 1\<close>
  fired :: bool
  doneFlag :: bool
  cleanUps :: nat        \<comment> \<open>\<open>CleanUp\<close>s that have returned\<close>
  crashed :: bool        \<comment> \<open>a panic has ended the process\<close>
  exited :: bool

definition agentInit :: agentState where
  "agentInit = \<lparr>mainAt = Running, handlerAt = Listening, created = False, signals = 0, fired = False,
     doneFlag = False, cleanUps = 0, crashed = False, exited = False\<rparr>"

inductive agent_step :: "agentState \<Rightarrow> agentState \<Rightarrow> bool" where
  sigterm: "\<not> exited s \<Longrightarrow> agent_step s (s\<lparr>signals := 1\<rparr>)"
| create: "\<not> exited s \<Longrightarrow> mainAt s = Running \<Longrightarrow> agent_step s (s\<lparr>created := True\<rparr>)"
| action_ends: "\<not> exited s \<Longrightarrow> mainAt s = Running \<Longrightarrow> agent_step s (s\<lparr>mainAt := Ending\<rparr>)"
| timer: "\<not> exited s \<Longrightarrow> mainAt s = Ending \<Longrightarrow> \<not> fired s \<Longrightarrow> agent_step s (s\<lparr>fired := True\<rparr>)"
| main_cleans: "\<not> exited s \<Longrightarrow> mainAt s = Ending \<Longrightarrow> fired s \<Longrightarrow> created s \<Longrightarrow>
    agent_step s (s\<lparr>mainAt := MainCleaning\<rparr>)"
| main_skips: "\<not> exited s \<Longrightarrow> mainAt s = Ending \<Longrightarrow> fired s \<Longrightarrow> \<not> created s \<Longrightarrow>
    agent_step s (s\<lparr>mainAt := MainReturned, exited := True\<rparr>)"
| main_returns: "\<not> exited s \<Longrightarrow> mainAt s = MainCleaning \<Longrightarrow>
    agent_step s (s\<lparr>mainAt := MainReturned, cleanUps := Suc (cleanUps s), exited := True\<rparr>)"
| handler_cleans: "\<not> exited s \<Longrightarrow> handlerAt s = Listening \<Longrightarrow> signals s = 1 \<Longrightarrow> created s \<Longrightarrow>
    agent_step s (s\<lparr>handlerAt := HandlerCleaning, signals := 0\<rparr>)"
| handler_skips: "\<not> exited s \<Longrightarrow> handlerAt s = Listening \<Longrightarrow> signals s = 1 \<Longrightarrow> \<not> created s \<Longrightarrow>
    agent_step s (s\<lparr>handlerAt := HandlerDone, signals := 0, doneFlag := True\<rparr>)"
| handler_done: "\<not> exited s \<Longrightarrow> handlerAt s = HandlerCleaning \<Longrightarrow>
    agent_step s (s\<lparr>handlerAt := HandlerDone, cleanUps := Suc (cleanUps s), doneFlag := True\<rparr>)"
| done_seen: "\<not> exited s \<Longrightarrow> doneFlag s \<Longrightarrow> agent_step s (s\<lparr>exited := True\<rparr>)"
| crashes: "\<not> exited s \<Longrightarrow> mainAt s \<in> {Running, MainCleaning} \<or> handlerAt s = HandlerCleaning \<Longrightarrow>
    agent_step s (s\<lparr>crashed := True, exited := True\<rparr>)"

inductive_cases agent_stepE: "agent_step s s'"

definition agent_reachable :: "agentState \<Rightarrow> bool" where
  "agent_reachable s \<longleftrightarrow> agent_step\<^sup>*\<^sup>* agentInit s"

section \<open>Invariants\<close>

text \<open>
  The flag is raised only by the handler, after its part; every clean-up counted is one of the two; a
  process that has exited did so by one of the two ways.
\<close>

definition agent_inv :: "agentState \<Rightarrow> bool" where
  "agent_inv s \<longleftrightarrow>
     (doneFlag s \<longleftrightarrow> handlerAt s = HandlerDone) \<and>
     cleanUps s \<le> 2 \<and>
     (cleanUps s = 0 \<longrightarrow> mainAt s = MainReturned \<longrightarrow> \<not> created s) \<and>
     (handlerAt s \<noteq> HandlerDone \<longrightarrow> cleanUps s \<le> (if mainAt s = MainReturned then 1 else 0)) \<and>
     (mainAt s \<noteq> MainReturned \<longrightarrow> cleanUps s \<le> (if handlerAt s = HandlerDone then 1 else 0)) \<and>
     (mainAt s \<in> {MainCleaning, MainReturned} \<longrightarrow> fired s) \<and>
     (mainAt s = MainCleaning \<longrightarrow> created s) \<and>
     (handlerAt s = HandlerCleaning \<longrightarrow> created s) \<and>
     (crashed s \<longrightarrow> mainAt s \<in> {Running, MainCleaning} \<or> handlerAt s = HandlerCleaning) \<and>
     (crashed s \<longrightarrow> exited s) \<and>
     (exited s \<longrightarrow> doneFlag s \<or> mainAt s = MainReturned \<or> crashed s)"

lemma agent_inv_init: "agent_inv agentInit"
  by (simp add: agent_inv_def agentInit_def)

lemma agent_inv_step: "agent_step s s' \<Longrightarrow> agent_inv s \<Longrightarrow> agent_inv s'"
  by (erule agent_stepE) (auto simp: agent_inv_def split: if_splits)

lemma agent_reachable_inv: "agent_reachable s \<Longrightarrow> agent_inv s"
  unfolding agent_reachable_def
  by (induction rule: rtranclp_induct) (auto intro: agent_inv_init agent_inv_step)

lemma agent_reachable_init: "agent_reachable agentInit"
  by (simp add: agent_reachable_def)

lemma agent_reachable_step: "agent_reachable s \<Longrightarrow> agent_step s s' \<Longrightarrow> agent_reachable s'"
  unfolding agent_reachable_def by (rule rtranclp.rtrancl_into_rtrancl)


text \<open>A run without a signal: the action ends, the timer fires, the profiler is cleaned up.\<close>

lemma agent_run_to_end:
  "agent_reachable (agentInit\<lparr>mainAt := MainReturned, created := True, fired := True, cleanUps := 1, exited := True\<rparr>)"
proof -
  let ?s1 = "agentInit\<lparr>created := True\<rparr>"
  let ?s2 = "?s1\<lparr>mainAt := Ending\<rparr>"
  let ?s3 = "?s2\<lparr>fired := True\<rparr>"
  let ?s4 = "?s3\<lparr>mainAt := MainCleaning\<rparr>"
  have "agent_reachable ?s1"
    by (rule agent_reachable_step [OF agent_reachable_init], rule agent_step.create) (simp_all add: agentInit_def)
  then have "agent_reachable ?s2"
    by (rule agent_reachable_step, intro agent_step.action_ends) (simp_all add: agentInit_def)
  then have "agent_reachable ?s3"
    by (rule agent_reachable_step, intro agent_step.timer) (simp_all add: agentInit_def)
  then have "agent_reachable ?s4"
    by (rule agent_reachable_step, intro agent_step.main_cleans) (simp_all add: agentInit_def)
  then have "agent_reachable (?s4\<lparr>mainAt := MainReturned, cleanUps := Suc (cleanUps ?s4), exited := True\<rparr>)"
    by (rule agent_reachable_step, intro agent_step.main_returns) (simp_all add: agentInit_def)
  then show ?thesis by (simp add: agentInit_def)
qed


text \<open>A run in which the handler has cleaned up and the grace period ends before the flag it raised is seen.\<close>

lemma agent_second_cleanUp:
  "agent_reachable (agentInit\<lparr>mainAt := MainCleaning, handlerAt := HandlerDone, created := True, fired := True,
     doneFlag := True, cleanUps := 1\<rparr>)"
proof -
  let ?s1 = "agentInit\<lparr>created := True\<rparr>"
  let ?s2 = "?s1\<lparr>mainAt := Ending\<rparr>"
  let ?s3 = "?s2\<lparr>signals := 1\<rparr>"
  let ?s4 = "?s3\<lparr>handlerAt := HandlerCleaning, signals := 0\<rparr>"
  let ?s5 = "?s4\<lparr>handlerAt := HandlerDone, cleanUps := Suc (cleanUps ?s4), doneFlag := True\<rparr>"
  let ?s6 = "?s5\<lparr>fired := True\<rparr>"
  have "agent_reachable ?s1"
    by (rule agent_reachable_step [OF agent_reachable_init], rule agent_step.create) (simp_all add: agentInit_def)
  then have "agent_reachable ?s2"
    by (rule agent_reachable_step, intro agent_step.action_ends) (simp_all add: agentInit_def)
  then have "agent_reachable ?s3"
    by (rule agent_reachable_step, intro agent_step.sigterm) (simp_all add: agentInit_def)
  then have "agent_reachable ?s4"
    by (rule agent_reachable_step, intro agent_step.handler_cleans) (simp_all add: agentInit_def)
  then have "agent_reachable ?s5"
    by (rule agent_reachable_step, intro agent_step.handler_done) (simp_all add: agentInit_def)
  then have "agent_reachable ?s6"
    by (rule agent_reachable_step, intro agent_step.timer) (simp_all add: agentInit_def)
  then have "agent_reachable (?s6\<lparr>mainAt := MainCleaning\<rparr>)"
    by (rule agent_reachable_step, intro agent_step.main_cleans) (simp_all add: agentInit_def)
  then show ?thesis by (simp add: agentInit_def)
qed


end
