(* ===== verification/CleanUp.thy ===== *)
theory CleanUp
  imports Factory
begin

text \<open>
  What the \<open>CleanUp\<close> of the profilers leaves on disk: \<open>RemoveAll\<close> of pkg/util/file/file.go deletes exactly
  the matches of its pattern, so the profilers that clean by the prefix of the result files leave none of
  them and touch nothing else, and perf, which cleans by the output type, leaves its raw samples.
\<close>

section \<open>The pattern in the temporary directory\<close>

definition plain_name :: "string \<Rightarrow> bool" where
  "plain_name n \<longleftrightarrow> CHR ''/'' \<notin> set n \<and> n \<noteq> [] \<and> n \<noteq> ''.'' \<and> n \<noteq> ''..''"

lemma path_join_tmp: "plain_name n \<Longrightarrow> path_join [''/tmp'', n] = ''/tmp/'' @ n"
  by (simp add: plain_name_def path_join_def path_clean_def split_on_absent clean_step_def)

lemma last_index_absent: "c \<notin> set s \<Longrightarrow> last_index s c = None"
  by (induction s) auto

lemma path_split_tmp: "CHR ''/'' \<notin> set n \<Longrightarrow> path_split (''/tmp/'' @ n) = (''/tmp/'', n)"
  by (simp add: path_split_def last_index_absent)

lemma plain_pattern: "CHR ''/'' \<notin> set pat \<Longrightarrow> plain_name (''*'' @ pat @ ''*'')"
  by (auto simp: plain_name_def)

lemma names_in_tmp:
  assumes "no_links fs"
  shows "n \<in> set (names_in fs ''/tmp'') \<longleftrightarrow>
    (\<exists>r x. (r, x) \<in> set fs \<and> strict_prefix ''/tmp/'' r \<and> n = first_component (drop 5 r))"
  by (simp add: names_in_def resolve_no_links [OF assms] image_iff Bex_def split_beta numeral_eq_Suc)

lemma glob_tmp:
  assumes "no_links fs" "CHR ''/'' \<notin> set pat"
  shows "set (glob fs (path_join [''/tmp'', ''*'' @ pat @ ''*''])) =
    (\<lambda>n. path_join [''/tmp'', n]) ` {n \<in> set (names_in fs ''/tmp''). glob_match (''*'' @ pat @ ''*'') n}"
proof -
  have "path_split (path_join [''/tmp'', ''*'' @ pat @ ''*'']) = (''/tmp/'', ''*'' @ pat @ ''*'')"
    unfolding path_join_tmp [OF plain_pattern [OF assms(2)]] using assms(2) by (intro path_split_tmp) simp
  moreover have "CHR ''*'' \<in> set (path_join [''/tmp'', ''*'' @ pat @ ''*''])"
    unfolding path_join_tmp [OF plain_pattern [OF assms(2)]] by simp
  moreover have "clean_glob_path ''/tmp/'' = ''/tmp''" by (simp add: clean_glob_path_def)
  ultimately show ?thesis
    by (auto simp: glob_def Let_def)
qed

lemma first_component_plain: "CHR ''/'' \<notin> set n \<Longrightarrow> first_component n = n"
  by (auto simp: first_component_def takeWhile_eq_all_conv)

lemma names_plain: "n \<in> set (names_in fs ''/tmp'') \<Longrightarrow> CHR ''/'' \<notin> set n"
  by (auto simp: names_in_def first_component_def Let_def dest: set_takeWhileD split: option.splits)

text \<open>A file whose name contains the literal is a match, and a match is a name that contains it.\<close>

lemma glob_tmp_match:
  assumes "no_links fs" "(''/tmp/'' @ u @ pat @ v, x) \<in> set fs" "plain_name (u @ pat @ v)"
    and "CHR ''*'' \<notin> set pat" "CHR ''?'' \<notin> set pat"
  shows "''/tmp/'' @ u @ pat @ v \<in> set (glob fs (path_join [''/tmp'', ''*'' @ pat @ ''*'']))"
proof -
  have plain: "CHR ''/'' \<notin> set u" "CHR ''/'' \<notin> set pat" "CHR ''/'' \<notin> set v" "u @ pat @ v \<noteq> []"
    using assms(3) by (auto simp: plain_name_def)
  have "u @ pat @ v \<in> set (names_in fs ''/tmp'')"
    unfolding names_in_tmp [OF assms(1)]
    using assms(2) plain by (intro exI [of _ "''/tmp/'' @ u @ pat @ v"] exI [of _ x]) (auto simp: first_component_plain strict_prefix_def)
  moreover have "glob_match (''*'' @ pat @ ''*'') (u @ pat @ v)"
    by (rule glob_match_infix [OF assms(4,5) plain(1,3)])
  ultimately show ?thesis
    unfolding glob_tmp [OF assms(1) plain(2)] using path_join_tmp [OF assms(3)] by (intro image_eqI) auto
qed

lemma glob_match_star: "glob_match (CHR ''*'' # ps) s \<Longrightarrow> \<exists>u v. s = u @ v \<and> glob_match ps v"
proof (induction s)
  case (Cons c s)
  then consider "glob_match ps (c # s)" | "glob_match (CHR ''*'' # ps) s" by auto
  then show ?case
  proof cases
    case 1
    then show ?thesis by (metis append_Nil)
  next
    case 2
    with Cons.IH obtain u v where "s = u @ v" "glob_match ps v" by blast
    then show ?thesis by (metis append_Cons)
  qed
qed simp

lemma glob_match_prefix:
  "CHR ''*'' \<notin> set pat \<Longrightarrow> CHR ''?'' \<notin> set pat \<Longrightarrow> glob_match (pat @ ps) s \<Longrightarrow> prefix pat s"
proof (induction pat arbitrary: s)
  case (Cons c pat)
  then show ?case by (cases s) (auto split: if_splits)
qed simp

lemma glob_match_sublist:
  assumes "CHR ''*'' \<notin> set pat" "CHR ''?'' \<notin> set pat" "glob_match (''*'' @ pat @ ''*'') s"
  shows "sublist pat s"
proof -
  obtain u v where "s = u @ v" "glob_match (pat @ ''*'') v"
    using glob_match_star [of "pat @ ''*''" s] assms(3) by auto
  moreover from this obtain t where "v = pat @ t"
    using glob_match_prefix [OF assms(1,2)] by (metis prefixE)
  ultimately show ?thesis by (auto simp: sublist_def)
qed

lemma glob_tmp_only:
  assumes "no_links fs" "CHR ''/'' \<notin> set pat" "CHR ''*'' \<notin> set pat" "CHR ''?'' \<notin> set pat" "plain_name n"
    and "\<not> sublist pat n"
  shows "''/tmp/'' @ n \<notin> set (glob fs (path_join [''/tmp'', ''*'' @ pat @ ''*'']))"
proof
  assume "''/tmp/'' @ n \<in> set (glob fs (path_join [''/tmp'', ''*'' @ pat @ ''*'']))"
  then obtain m where m: "''/tmp/'' @ n = path_join [''/tmp'', m]" "m \<in> set (names_in fs ''/tmp'')"
      "glob_match (''*'' @ pat @ ''*'') m"
    unfolding glob_tmp [OF assms(1,2)] by auto
  have "path_join [''/tmp'', m] = ''/tmp/'' @ m \<or> m \<in> {[], ''.'', ''..''}"
    using path_join_tmp names_plain [OF m(2)] by (auto simp: plain_name_def)
  moreover have "path_join [''/tmp'', []] = ''/tmp''" "path_join [''/tmp'', ''.''] = ''/tmp''" "path_join [''/tmp'', ''..''] = ''/''"
    by code_simp+
  ultimately have "m = n" using m(1) by auto
  with glob_match_sublist [OF assms(3,4) m(3)] assms(6) show False by simp
qed

section \<open>The result files\<close>

lemma resultFile_tmp:
  "getResultFile ''/tmp'' tool out p it =
     ''/tmp/'' @ ''agent-'' @ output_string out @ ''-'' @ p @ ''-'' @ itoa it @ getFileExtension tool out"
proof -
  have "path_join [''/tmp'', ''agent-''] = ''/tmp/agent-''" by code_simp
  then show ?thesis by (simp add: getResultFile_def profilingPrefix_def)
qed

lemma extension_plain: "CHR ''/'' \<notin> set (getFileExtension tool out)"
  by (cases tool) auto

lemma itoa_only: "\<not> is_digit c \<Longrightarrow> c \<noteq> CHR ''-'' \<Longrightarrow> c \<notin> set (itoa n)"
  using show_nat_all_digits by (auto simp: itoa_def)

lemma itoa_plain: "CHR ''/'' \<notin> set (itoa n)"
  by (rule itoa_only) (simp_all add: is_digit_def)

lemma resultFile_name:
  "CHR ''/'' \<notin> set (output_string out) \<Longrightarrow> CHR ''/'' \<notin> set p \<Longrightarrow>
     plain_name ([] @ ''agent-'' @ output_string out @ ''-'' @ p @ ''-'' @ itoa it @ getFileExtension tool out)"
  using extension_plain itoa_plain by (auto simp: plain_name_def)

lemma cleanUp_prefix:
  assumes "no_faults E" "no_links (files w)" "tmpDir E = ''/tmp''"
  shows "CHR ''/'' \<notin> set (output_string out) \<Longrightarrow> CHR ''/'' \<notin> set p \<Longrightarrow>
      content (files (after (remove_all_files E (tmpDir E) profilingPrefix) w)) (getResultFile (tmpDir E) tool out p it) = None"
    and "plain_name n \<Longrightarrow> \<not> sublist ''agent-'' n \<Longrightarrow>
      content (files (after (remove_all_files E (tmpDir E) profilingPrefix) w)) (''/tmp/'' @ n) = content (files w) (''/tmp/'' @ n)"
proof -
  assume plain: "CHR ''/'' \<notin> set (output_string out)" "CHR ''/'' \<notin> set p"
  let ?f = "getResultFile ''/tmp'' tool out p it"
  show "content (files (after (remove_all_files E (tmpDir E) profilingPrefix) w)) (getResultFile (tmpDir E) tool out p it) = None"
  proof (cases "content (files w) ?f")
    case None
    then show ?thesis by (simp add: remove_all_files_content [OF assms(1,2)] assms(3))
  next
    case (Some c)
    then obtain x where "(?f, x) \<in> set (files w)"
      using content_no_links [OF assms(2), of ?f] by (metis map_of_SomeD not_None_eq)
    then have "?f \<in> set (glob (files w) (path_join [''/tmp'', ''*'' @ ''agent-'' @ ''*'']))"
      unfolding resultFile_tmp using glob_tmp_match [OF assms(2) _ resultFile_name [OF plain]] by simp
    then show ?thesis by (simp add: remove_all_files_content [OF assms(1,2)] assms(3) profilingPrefix_def)
  qed
next
  assume "plain_name n" "\<not> sublist ''agent-'' n"
  then have "''/tmp/'' @ n \<notin> set (glob (files w) (path_join [''/tmp'', ''*'' @ ''agent-'' @ ''*'']))"
    by (intro glob_tmp_only [OF assms(2)]) auto
  then show "content (files (after (remove_all_files E (tmpDir E) profilingPrefix) w)) (''/tmp/'' @ n) = content (files w) (''/tmp/'' @ n)"
    by (simp add: remove_all_files_content [OF assms(1,2)] assms(3) profilingPrefix_def)
qed

text \<open>The profilers that clean up by the prefix of the result files.\<close>

fun cleans_by_prefix :: "Profiler \<Rightarrow> bool" where
  "cleans_by_prefix (BpfProfiler _) = True"
| "cleans_by_prefix (PythonProfiler _) = True"
| "cleans_by_prefix (RubyProfiler _) = True"
| "cleans_by_prefix (AustinPythonProfiler _) = True"
| "cleans_by_prefix (GoPprofProfiler _) = True"
| "cleans_by_prefix (NodeProfiler _) = True"
| "cleans_by_prefix _ = False"

lemma cleans_by_prefix_files:
  "cleans_by_prefix prof \<Longrightarrow>
     files (after (profilerCleanUp E prof job) w) = files (after (remove_all_files E (tmpDir E) profilingPrefix) w)"
  by (cases prof) (simp_all add: bpfCleanUp_def pythonCleanUp_def rubyCleanUp_def austinCleanUp_def
      pprofCleanUp_def nodeCleanUp_def)



text \<open>C26. The \<open>CleanUp\<close> of perf after a flame graph leaves the raw samples of every PID: it deletes by the
  output type of the job, and the raw file has another one in its name.\<close>

theorem perf_leaves_raw:
  assumes "no_faults E" "no_links (files w)" "tmpDir E = ''/tmp''" "jobOutputType job = FlameGraph"
    and "list_all is_digit p"
  shows "content (files (after (profilerCleanUp E (PerfProfiler b) job) w)) (getResultFile (tmpDir E) Perf Raw p it) =
    content (files w) (getResultFile (tmpDir E) Perf Raw p it)"
proof -
  let ?n = "''agent-raw-'' @ p @ ''-'' @ itoa it @ ''.txt''"
  have p: "CHR ''/'' \<notin> set p" "c \<in> {CHR ''a'', CHR ''f''} \<Longrightarrow> c \<notin> set p" for c
    using assms(5) by (auto simp: list_all_iff is_digit_def)
  have name: "plain_name ?n" using p(1) itoa_plain [of it] by (simp add: plain_name_def)
  have f: "getResultFile (tmpDir E) Perf Raw p it = ''/tmp/'' @ ?n"
    by (simp add: assms(3) resultFile_tmp)
  have nof: "CHR ''f'' \<notin> set ?n"
    using p(2) [of "CHR ''f''"] itoa_only [of "CHR ''f''" it] by (simp add: is_digit_def)
  have no: "\<not> sublist pat ?n" if "CHR ''f'' \<in> set pat" for pat
    using that set_mono_sublist [of pat ?n] nof by blast
  let ?w1 = "after (remove_all_files E (tmpDir E) ''perf'') w"
  have keep: "content (files (after (remove_all_files E (tmpDir E) pat) w')) (''/tmp/'' @ ?n) = content (files w') (''/tmp/'' @ ?n)"
    if "no_links (files w')" "pat = ''perf'' \<or> pat = ''agent-flamegraph''" for w' pat
  proof -
    have "''/tmp/'' @ ?n \<notin> set (glob (files w') (path_join [''/tmp'', ''*'' @ pat @ ''*'']))"
      using that(2) name by (intro glob_tmp_only [OF that(1)] no) auto
    then show ?thesis by (simp add: remove_all_files_content [OF assms(1) that(1)] assms(3))
  qed
  have "content (files (after (profilerCleanUp E (PerfProfiler b) job) w)) (''/tmp/'' @ ?n) = content (files w) (''/tmp/'' @ ?n)"
    using keep [OF assms(2), of "''perf''"]
      keep [OF remove_all_files_content(2) [OF assms(1,2)], of "''agent-flamegraph''" "tmpDir E" "''perf''"]
    by (simp add: perfCleanUp_def profilingPrefix_def assms(4))
  then show ?thesis unfolding f .
qed

theorem perf_leaves_raw_witness:
  "let w = empty_world\<lparr>files := [(''/tmp/agent-raw-7-1.txt'', File ''a'')]\<rparr>
   in content (files (after (profilerCleanUp sample_env (PerfProfiler newPerfProfiler) (sample_job\<lparr>jobOutputType := FlameGraph\<rparr>)) w))
        (getResultFile (tmpDir sample_env) Perf Raw ''7'' 1) =
      content (files w) (getResultFile (tmpDir sample_env) Perf Raw ''7'' 1)"
  unfolding Let_def
proof (rule perf_leaves_raw)
  show "no_faults sample_env" by (rule sample_env_lib)
qed (simp_all add: sample_env_sel no_links_def is_digit_def)

end
