(* ===== verification/AgentEnd.thy ===== *)
theory AgentEnd
  imports AgentMain CleanUp
begin

text \<open>
  How an agent that gets no signal ends (\<open>handleForEnding\<close> of cmd/agent/main.go): the client has seen all it
  will see when the action returns, the process stays for the grace period, in which the client copies
  the results, and the clean-up then leaves none of them. And what happens when the handler of the signals
  has cleaned up already: the second clean-up of a jcmd recording panics.
\<close>

section \<open>The clean-up prints nothing a client acts on\<close>

lemma quiet_profilerCleanUp: "\<not> is_Mock p \<Longrightarrow> quiet (profilerCleanUp E p job)"
proof -
  have "quiet (remove_all_files E dir pat)" for dir pat
    by (intro quiet_rules)
  then show "\<not> is_Mock p \<Longrightarrow> ?thesis"
    by (cases p) (auto simp: unchanged_def bpfCleanUp_def pythonCleanUp_def perfCleanUp_def rubyCleanUp_def
        austinCleanUp_def pprofCleanUp_def intro!: quiet_rules)
qed

lemma cleans_by_prefix_real: "cleans_by_prefix prof \<Longrightarrow> \<not> is_Mock prof"
  by (cases prof) simp_all

lemma quiet_cleanUpIfSet: "\<not> is_Mock prof \<Longrightarrow> quiet (cleanUpIfSet E (Some (prof, job)))"
  unfolding cleanUpIfSet_def option.case prod.case by (intro quiet_rules quiet_profilerCleanUp)

lemma quiet_handleForEnding: "\<not> is_Mock prof \<Longrightarrow> quiet (handleForEnding E c (Some (prof, job)))"
  unfolding handleForEnding_def by (intro quiet_rules quiet_cleanUpIfSet)

lemma files_warningLogLn [simp]: "files (after (warningLogLn E msg) w) = files w"
  by (simp add: warningLogLn_def)

text \<open>The clean-up by prefix reports no error.\<close>

lemma cleans_by_prefix_value:
  "cleans_by_prefix prof \<Longrightarrow> fst (value_of (profilerCleanUp E prof job) w) = None"
  by (cases prof) (simp_all add: bpfCleanUp_def pythonCleanUp_def rubyCleanUp_def austinCleanUp_def
      pprofCleanUp_def nodeCleanUp_def)

section \<open>The end\<close>

text \<open>An agent for a Go program whose container is not given: \<open>SetUp\<close> fails, and a result file that another
  process leaves in the meantime is gone in the end.\<close>

definition ending_env :: env where
  "ending_env = sample_env\<lparr>meanwhile := \<lambda>_ _. [(''/tmp/agent-pprof-7-1.pb.gz'', File ''a'')]\<rparr>"

lemma ending_env_lib:
  "lo_contains ending_env xs x = (x \<in> set xs)" "is_blank ending_env s = (trim_space s = [])"
  "no_faults ending_env" "tmpDir ending_env = ''/tmp''"
  "meanwhile ending_env d w = [(''/tmp/agent-pprof-7-1.pb.gz'', File ''a'')]"
  by (simp_all add: ending_env_def sample_env_lib sample_env_sel no_faults_def)

lemma ending_blank: "is_blank ending_env [] \<and> \<not> is_blank ending_env ''go'' \<and> \<not> is_blank ending_env ''crio'' \<and> \<not> is_blank ending_env ''pprof''"
  by (simp add: ending_env_lib trim_space_clean is_space_rune_def)


lemma ending_supported:
  "isSupportedContainerRuntime ending_env ''crio''" "isSupportedLanguage ending_env ''go''"
  "isSupportedEvent ending_env ''itimer''" "isSupportedCompressor ending_env ''gzip''"
  by (simp_all add: isSupportedContainerRuntime_def isSupportedLanguage_def isSupportedEvent_def isSupportedCompressor_def ending_env_lib
   availableContainerRuntimes_def availableLanguages_def availableEvents_def availableCompressors_def)

lemma ending_tool: "lang_of ''go'' = Go" "output_of ''pprof'' = Pprof" "getProfilingTool Go Pprof = Inr PProf"
  by (code_simp, code_simp, simp add: getProfilingTool_def)


lemma attempt_return:
  "attempt (State_Monad.return (Inr x)) f = f x" "attempt (State_Monad.return (Inl e)) f = State_Monad.return (Inl e)"
  by (simp_all add: attempt_def)

lemma ending_args_cli:
  "strArg (toArgs sample_cli) k = State_Monad.return
    (if k \<in> set string_flags
     then Inr (if k = ''lang'' then ''go'' else if k = ''output-type'' then ''pprof''
               else if k = ''target-container-runtime'' then ''crio'' else [])
     else Inl assertion_failed)"
  "boolArg (toArgs sample_cli) ''print-logs'' = State_Monad.return (Inr False)"
  "intArg (toArgs sample_cli) ''node-heap-snapshot-signal'' = State_Monad.return (Inr 0)"
  by (auto simp: strArg_def boolArg_def intArg_def toArgs_def sample_cli_def string_flags_def assertion_failed_def)

lemma ending_container:
  "\<exists>j. containerJob ending_env (toArgs sample_cli) = State_Monad.return (Inr j) \<and> jobPID j = [] \<and> jobContainerID j = []"
  using ending_blank
  by (simp add: containerJob_def durationArg_def is_not_blank_def ending_args_cli string_flags_def newJob_def
       check_def ending_supported attempt_return)
    (rule exI, rule conjI, rule refl, simp)

lemma ending_setters:
  "setPid ending_env (toArgs sample_cli) j = State_Monad.return (Inr j)"
  "setPgrep ending_env (toArgs sample_cli) j = State_Monad.return (Inr j)"
  "setNodeHeapSnapshotSignal (toArgs sample_cli) j = State_Monad.return (Inr (j\<lparr>jobNodeHeapSnapshotSignal := 0\<rparr>))"
  using ending_blank
  by (simp_all add: setPid_def setPgrep_def setNodeHeapSnapshotSignal_def optionalArg_def ending_args_cli string_flags_def
    is_not_blank_def attempt_return, simp_all add: toArgs_def string_flags_def)

lemma ending_chunks:
  "\<exists>s. setHeapDumpSplitChunkSize ending_env (toArgs sample_cli) j = State_Monad.return (Inr (j\<lparr>jobHeapDumpSplitInChunkSize := s\<rparr>))"
proof -
  have same: "\<exists>s. State_Monad.return (Inr j) = State_Monad.return (Inr (j\<lparr>jobHeapDumpSplitInChunkSize := s\<rparr>))"
    by (intro exI [of _ "jobHeapDumpSplitInChunkSize j"]) simp
  have "optionalArg ending_env (toArgs sample_cli) ''heap-dump-split-in-chunk-size'' = State_Monad.return (Inr None)"
    using ending_blank
    by (simp add: optionalArg_def ending_args_cli string_flags_def is_not_blank_def attempt_return toArgs_def)
  with same show ?thesis by (auto simp: setHeapDumpSplitChunkSize_def attempt_return)
qed

lemma ending_output:
  "jobTool j = PProf \<Longrightarrow> \<exists>out. \<forall>w. value_of (validateOutputType ending_env s j) w = Inr (j\<lparr>jobOutputType := out\<rparr>)"
  by (auto simp: validateOutputType_def lift_sum_def attempt_return)

lemma ending_newAction:
  "\<exists>j. value_of (newAction ending_env (\<lambda>_. ''job'') (toArgs sample_cli)) w = Inr (profilerGet PProf, j) \<and> jobPID j = [] \<and> jobContainerID j = []"
proof -
  obtain j0 where j0: "containerJob ending_env (toArgs sample_cli) = State_Monad.return (Inr j0)" "jobPID j0 = []" "jobContainerID j0 = []"
    using ending_container by blast
  define j where "j = j0\<lparr>jobLanguage := Go, jobEvent := event_of ''itimer'', jobCompressor := compressor_of ''gzip'', jobTool := PProf\<rparr>"
  have "\<exists>j'. value_of (getProfilingJob ending_env (\<lambda>_. ''job'') (toArgs sample_cli)) v = Inr j' \<and> jobTool j' = PProf \<and> jobPID j' = [] \<and> jobContainerID j' = []" for v
  proof -
    obtain out where out: "value_of (validateOutputType ending_env ''pprof'' j) w = Inr (j\<lparr>jobOutputType := out\<rparr>)" for w
      using ending_output [of j "''pprof''"] by (auto simp: j_def)
    obtain s where s: "setHeapDumpSplitChunkSize ending_env (toArgs sample_cli) (j\<lparr>jobOutputType := out\<rparr>) =
        State_Monad.return (Inr (j\<lparr>jobOutputType := out, jobHeapDumpSplitInChunkSize := s\<rparr>))"
      using ending_chunks [of "j\<lparr>jobOutputType := out\<rparr>"] by auto
    show ?thesis
      using ending_blank j0(2,3)
      by (simp add: getProfilingJob_def j0 ending_args_cli string_flags_def check_def ending_supported defaulted_def ending_tool
        attempt_return validateProfilingTool_def lift_sum_def ending_setters out [unfolded j_def] s [unfolded j_def])
  qed
  from this [of "after (setPrintLogs False) w"] show ?thesis
    by (auto simp: newAction_def ending_args_cli attempt_return)
qed

lemma ending_action:
  "\<exists>e job. value_of (runApp ending_env (\<lambda>_. ''job'') sample_cli) w = (Some e, Some (profilerGet PProf, job)) \<and> \<not> is_panic e"
proof -
  obtain job where job: "value_of (newAction ending_env (\<lambda>_. ''job'') (toArgs sample_cli)) w = Inr (profilerGet PProf, job)"
      "jobPID job = []" "jobContainerID job = []"
    using ending_newAction by blast
  have "value_of (targetsOf ending_env job) v = Inl containerRuntimeAndContainerIdMandatory" for v
    using ending_blank job(2,3) by (simp add: targetsOf_def is_not_blank_def getCandidatePIDs_def)
  then have "value_of (run ending_env (profilerGet PProf) job) v = (Some containerRuntimeAndContainerIdMandatory, profilerGet PProf, job)" for v
    by (simp add: run_def split_beta pprofSetUp_def pidSetUp_def)
  then show ?thesis
    using job(1) by (simp add: runApp_def agentAction_def split_beta containerRuntimeAndContainerIdMandatory_def)
qed


section \<open>Two clean-ups\<close>

text \<open>C35. The handler of a signal and the end of the grace period may both clean up, and for a recording of
  jcmd the second time is a crash: the first \<open>CleanUp\<close> closes the channel of the stop requests and leaves it
  in its variable, so the next one sends on or closes a closed channel.\<close>

theorem second_cleanUp_panics:
  assumes "fst (value_of (profilerCleanUp E (JcmdProfiler b) job) w) = None"
    and "recordingPIDs w \<noteq> NilChan" "jobOutputType job = Jfr"
    and "recordingPIDs v = recordingPIDs (after (profilerCleanUp E (JcmdProfiler b) job) w)"
  shows "(\<exists>m. fst (value_of (profilerCleanUp E (JcmdProfiler b) job) v) = Some (Panic m)) \<and>
    (\<exists>s. agent_reachable s \<and> \<not> exited s \<and> handlerAt s = HandlerDone \<and> cleanUps s = 1 \<and> mainAt s = MainCleaning)"
proof
  obtain buf where "recordingPIDs v = ClosedChan buf"
    using jcmdCleanUp_closes [of E b job w] assms by auto
  from jcmdCleanUp_closed_panics [OF this assms(3)]
  show "\<exists>m. fst (value_of (profilerCleanUp E (JcmdProfiler b) job) v) = Some (Panic m)" by simp
  show "\<exists>s. agent_reachable s \<and> \<not> exited s \<and> handlerAt s = HandlerDone \<and> cleanUps s = 1 \<and> mainAt s = MainCleaning"
    using agent_second_cleanUp by (rule_tac exI, intro conjI, assumption) (simp_all add: agentInit_def)
qed

text \<open>A recording of PID 7 that nobody has stopped yet.\<close>

theorem second_cleanUp_panics_witness:
  "let p = JcmdProfiler (newJcmdProfiler\<lparr>targetPIDs := [''7'']\<rparr>);
       job = sample_job\<lparr>jobOutputType := Jfr\<rparr>;
       w = empty_world\<lparr>recordingPIDs := OpenChan 1 []\<rparr>;
       w' = after (profilerCleanUp sample_env p job) w
   in \<exists>m. fst (value_of (profilerCleanUp sample_env p job) w') = Some (Panic m)"
proof -
  let ?b = "newJcmdProfiler\<lparr>targetPIDs := [''7'']\<rparr>" and ?job = "sample_job\<lparr>jobOutputType := Jfr\<rparr>"
  let ?w = "empty_world\<lparr>recordingPIDs := OpenChan 1 []\<rparr>"
  have "fst (value_of (profilerCleanUp sample_env (JcmdProfiler ?b) ?job) ?w) = None"
    by (simp add: jcmdCleanUp_one)
  then show ?thesis
    unfolding Let_def by (rule second_cleanUp_panics [THEN conjunct1]) simp_all
qed

end
