(* ===== verification/Events.thy ===== *)
theory Events
  imports Api
begin

text \<open>
  api/event\_types.go: \<open>GetDataStructByType\<close> and \<open>ParseEvent\<close>, by which a client reads the lines the agent
  prints. The table \<open>typeToData\<close> holds one pointer per event type, so the structs it points to are shared
  objects: the store maps each type to the struct behind its pointer.

  The JSON library is a parameter: \<open>decodeEvent\<close> splits a line into its type and the raw bytes of its
  data (\<open>None\<close> when the line has none), \<open>unmarshalInto\<close> writes raw bytes into a struct.
\<close>

record jsonLib =
  decodeEvent :: "string \<Rightarrow> error + EventType \<times> string option"
  unmarshalInto :: "string \<Rightarrow> EventData \<Rightarrow> EventData \<times> error option"

definition emptyResult :: ResultData where
  "emptyResult = \<lparr>resTime = 0, resultType = OtherOutput [], resFile = [], fileSizeInBytes = 0,
     checksum = [], compressorType = [], chunks = []\<rparr>"

type_synonym eventStore = "EventType \<Rightarrow> EventData option"

text \<open>\<open>typeToData\<close> when the program starts: zero values; a zero time is written \<open>0\<close>.\<close>

fun typeToData :: eventStore where
  "typeToData Error = Some (ErrorData [])"
| "typeToData Result = Some (ResultData emptyResult)"
| "typeToData Progress = Some (ProgressData 0 (OtherStage []))"
| "typeToData Notice = Some (NoticeData 0 [])"
| "typeToData Log = Some (LogData 0 [] [])"
| "typeToData (OtherEventType _) = None"

text \<open>The pointer of a type: the type itself is the address, \<open>None\<close> the nil interface.\<close>

definition getDataStructByType :: "eventStore \<Rightarrow> EventType \<Rightarrow> EventType option" where
  "getDataStructByType st t = (if st t = None then None else Some t)"

definition unmarshalNil :: error where
  "unmarshalNil = Errorf ''ReadVal: can only unmarshal into pointer''"

text \<open>The pointer and the error \<open>ParseEvent\<close> returns, and the store afterwards.\<close>

definition parseEvent ::
  "jsonLib \<Rightarrow> string \<Rightarrow> eventStore \<Rightarrow> (EventType option \<times> error option) \<times> eventStore" where
  "parseEvent J eventString st =
     (case decodeEvent J eventString of
        Inl e \<Rightarrow> ((None, Some e), st)
      | Inr (t, raw) \<Rightarrow>
          (let eventData = getDataStructByType st t in
           case raw of
             None \<Rightarrow> ((None, Some nil_dereference), st)
           | Some bytes \<Rightarrow>
               (case eventData of
                  None \<Rightarrow> ((None, Some unmarshalNil), st)
                | Some p \<Rightarrow>
                    (let (d, err) = unmarshalInto J bytes (the (st p))
                     in ((Some p, err), st(p \<mapsto> d))))))"

definition deref_event :: "eventStore \<Rightarrow> EventType option \<Rightarrow> EventData option" where
  "deref_event st p = Option.bind p st"

section \<open>What a client reads\<close>

text \<open>
  The JSON text of a struct decoded onto a struct of its type: a field that is in the text is overwritten,
  one that is not keeps its value. The text lacks the fields tagged \<open>omitempty\<close> that are zero.
\<close>

definition overlayResult :: "ResultData \<Rightarrow> ResultData \<Rightarrow> ResultData" where
  "overlayResult r old =
     r\<lparr>resFile := if resFile r = [] then resFile old else resFile r,
       fileSizeInBytes := if fileSizeInBytes r = 0 then fileSizeInBytes old else fileSizeInBytes r,
       checksum := if checksum r = [] then checksum old else checksum r,
       compressorType := if compressorType r = [] then compressorType old else compressorType r,
       chunks := if chunks r = [] then chunks old else chunks r\<rparr>"

fun overlay :: "EventData \<Rightarrow> EventData \<Rightarrow> EventData" where
  "overlay (ResultData r) (ResultData old) = ResultData (overlayResult r old)"
| "overlay d old = d"

text \<open>The JSON library decodes the lines \<open>enc\<close> writes for the events \<open>ds\<close>.\<close>

definition json_ok :: "jsonLib \<Rightarrow> (EventData \<Rightarrow> string) \<Rightarrow> EventData list \<Rightarrow> bool" where
  "json_ok J enc ds \<longleftrightarrow>
     (\<forall>d \<in> set ds. \<exists>b. decodeEvent J (enc d) = Inr (dataType d, Some b) \<and>
        (\<forall>old. dataType old = dataType d \<longrightarrow> unmarshalInto J b old = (overlay d old, None)))"

definition typed_store :: "eventStore \<Rightarrow> bool" where
  "typed_store st \<longleftrightarrow> (\<forall>d. \<exists>old. st (dataType d) = Some old \<and> dataType old = dataType d)"

lemma typed_store_init: "typed_store typeToData"
  unfolding typed_store_def
proof
  fix d show "\<exists>old. typeToData (dataType d) = Some old \<and> dataType old = dataType d"
    by (cases d) simp_all
qed

lemma dataType_overlay [simp]: "dataType (overlay d old) = dataType d"
  by (cases "(d, old)" rule: overlay.cases) simp_all

lemma parseEvent_enc:
  assumes "json_ok J enc ds" "d \<in> set ds" "st (dataType d) = Some old" "dataType old = dataType d"
  shows "parseEvent J (enc d) st = ((Some (dataType d), None), st(dataType d \<mapsto> overlay d old))"
proof -
  obtain b where "decodeEvent J (enc d) = Inr (dataType d, Some b)" "unmarshalInto J b old = (overlay d old, None)"
    using assms(1,2,4) unfolding json_ok_def by blast
  then show ?thesis using assms(3) by (simp add: parseEvent_def getDataStructByType_def)
qed

text \<open>A client that looks at each event before it parses the next line.\<close>

primrec readEvents :: "jsonLib \<Rightarrow> string list \<Rightarrow> eventStore \<Rightarrow> (EventData option \<times> error option) list" where
  "readEvents J [] st = []"
| "readEvents J (l # ls) st =
     (let ((p, err), st') = parseEvent J l st in (deref_event st' p, err) # readEvents J ls st')"

text \<open>Two results with the same fields empty; a struct with no field set that a result leaves empty.\<close>

definition covers :: "ResultData \<Rightarrow> ResultData \<Rightarrow> bool" where
  "covers r old \<longleftrightarrow>
     (resFile r = [] \<longrightarrow> resFile old = []) \<and> (fileSizeInBytes r = 0 \<longrightarrow> fileSizeInBytes old = 0) \<and>
     (checksum r = [] \<longrightarrow> checksum old = []) \<and> (compressorType r = [] \<longrightarrow> compressorType old = []) \<and>
     (chunks r = [] \<longrightarrow> chunks old = [])"

lemma overlayResult_covers: "covers r old \<Longrightarrow> overlayResult r old = r"
  by (simp add: overlayResult_def covers_def)

lemma covers_empty: "covers r emptyResult"
  by (simp add: covers_def emptyResult_def)

lemma readEvents_enc:
  assumes "json_ok J enc ds" "typed_store st" "st Result = Some (ResultData old)"
    and "\<And>r. ResultData r \<in> set ds \<Longrightarrow> covers r old"
    and "\<And>r r'. ResultData r \<in> set ds \<Longrightarrow> ResultData r' \<in> set ds \<Longrightarrow> covers r r'"
  shows "readEvents J (map enc ds) st = map (\<lambda>d. (Some d, None)) ds"
  using assms
proof (induction ds arbitrary: st old)
  case (Cons d ds)
  obtain x where x: "st (dataType d) = Some x" "dataType x = dataType d"
    using Cons.prems(2) unfolding typed_store_def by blast
  have exact: "overlay d x = d"
  proof (cases "\<exists>r. d = ResultData r")
    case True
    then show ?thesis using x Cons.prems(3) Cons.prems(4) overlayResult_covers by auto
  next
    case False
    then show ?thesis by (cases d) simp_all
  qed
  let ?st = "st(dataType d \<mapsto> d)"
  let ?old = "case d of ResultData r \<Rightarrow> r | _ \<Rightarrow> old"
  have "typed_store ?st" using Cons.prems(2) unfolding typed_store_def by (metis fun_upd_apply)
  moreover have "?st Result = Some (ResultData ?old)" using Cons.prems(3) by (cases d) simp_all
  moreover have "covers r ?old" if "ResultData r \<in> set ds" for r
    using Cons.prems(4,5) that by (cases d) simp_all
  moreover have "json_ok J enc ds" using Cons.prems(1) by (simp add: json_ok_def)
  moreover have "covers r r'" if "ResultData r \<in> set ds" "ResultData r' \<in> set ds" for r r'
    using Cons.prems(5) that by simp
  ultimately have "readEvents J (map enc ds) ?st = map (\<lambda>d. (Some d, None)) ds"
    by (intro Cons.IH)
  then show ?case
    using parseEvent_enc [OF Cons.prems(1), of d st x] x by (simp add: exact deref_event_def)
qed simp

text \<open>C16. What the agent prints is what a client reads: parsing the lines of any sequence of events gives
  these events back, without an error, if the results among them have the same fields empty, as the ones
  of one job have, and the client looks at each event before it parses the next.\<close>

theorem parseEvent_roundtrip:
  assumes "json_ok J enc ds"
    and "\<And>r r'. ResultData r \<in> set ds \<Longrightarrow> ResultData r' \<in> set ds \<Longrightarrow> covers r r'"
  shows "readEvents J (map enc ds) typeToData = map (\<lambda>d. (Some d, None)) ds"
  by (rule readEvents_enc [OF assms(1) typed_store_init _ covers_empty assms(2)]) simp_all

text \<open>Two results of one job, the first in chunks, and a library that knows their texts.\<close>

definition result1 :: ResultData where
  "result1 = emptyResult\<lparr>chunks := [\<lparr>chunkFile = ''a.00'', chunkSize = 5, chunkChecksum = ''00''\<rparr>]\<rparr>"

definition result2 :: ResultData where
  "result2 = emptyResult\<lparr>resFile := ''b.gz'', fileSizeInBytes := 5\<rparr>"

definition sample_enc :: "EventData \<Rightarrow> string" where
  "sample_enc d = (if d = ResultData result1 then ''1'' else if d = ResultData result2 then ''2'' else ''3'')"

definition sample_dec :: "string \<Rightarrow> EventData" where
  "sample_dec l = (if l = ''1'' then ResultData result1 else if l = ''2'' then ResultData result2
     else ProgressData 0 Ended)"

definition sample_json :: jsonLib where
  "sample_json =
     \<lparr>decodeEvent = (\<lambda>l. Inr (dataType (sample_dec l), Some l)),
      unmarshalInto = (\<lambda>b old. (overlay (sample_dec b) old, None))\<rparr>"

lemma results_differ: "result1 \<noteq> result2"
  by (simp add: result1_def result2_def emptyResult_def)

lemma sample_json_ok: "json_ok sample_json sample_enc [ResultData result1, ResultData result2, ProgressData 0 Ended]"
  using results_differ by (auto simp: json_ok_def sample_json_def sample_enc_def sample_dec_def)

theorem parseEvent_roundtrip_witness:
  "readEvents sample_json (map sample_enc [ResultData result2, ProgressData 0 Ended]) typeToData =
     map (\<lambda>d. (Some d, None)) [ResultData result2, ProgressData 0 Ended]"
proof (rule parseEvent_roundtrip)
  show "json_ok sample_json sample_enc [ResultData result2, ProgressData 0 Ended]"
    using sample_json_ok by (simp add: json_ok_def)
qed (auto simp: covers_def)

text \<open>C40. Two events of one type share their struct: the second result is read through the pointer of the
  first, which is gone, and where the second has no chunks it is read with the chunks of the first (the
  same holds for the other fields that may be left out).\<close>

theorem parseEvent_aliases:
  assumes "json_ok J enc [ResultData r1, ResultData r2]" "st Result = Some (ResultData r0)"
    and "parseEvent J (enc (ResultData r1)) st = ((p1, e1), st1)"
    and "parseEvent J (enc (ResultData r2)) st1 = ((p2, e2), st2)"
  shows "p1 = p2 \<and> e1 = None \<and> e2 = None \<and>
    deref_event st2 p1 = Some (ResultData (overlayResult r2 (overlayResult r1 r0))) \<and>
    (chunks r2 = [] \<and> chunks r1 \<noteq> [] \<longrightarrow> chunks (overlayResult r2 (overlayResult r1 r0)) = chunks r1)"
  using parseEvent_enc [OF assms(1), of "ResultData r1" st "ResultData r0"] assms(2-)
    parseEvent_enc [OF assms(1), of "ResultData r2" st1 "ResultData (overlayResult r1 r0)"]
  by (auto simp: deref_event_def overlayResult_def)

theorem parseEvent_aliases_witness:
  "let ((p1, e1), st1) = parseEvent sample_json (sample_enc (ResultData result1)) typeToData;
       ((p2, e2), st2) = parseEvent sample_json (sample_enc (ResultData result2)) st1
   in deref_event st2 p2 = Some (ResultData (result2\<lparr>chunks := chunks result1\<rparr>))"
proof -
  obtain p1 e1 st1 where a: "parseEvent sample_json (sample_enc (ResultData result1)) typeToData = ((p1, e1), st1)"
    by (metis prod.collapse)
  obtain p2 e2 st2 where b: "parseEvent sample_json (sample_enc (ResultData result2)) st1 = ((p2, e2), st2)"
    by (metis prod.collapse)
  have "json_ok sample_json sample_enc [ResultData result1, ResultData result2]"
    using sample_json_ok by (simp add: json_ok_def)
  from parseEvent_aliases [OF this _ a b, of emptyResult]
  have "deref_event st2 p2 = Some (ResultData (overlayResult result2 (overlayResult result1 emptyResult)))"
    by (metis typeToData.simps(2))
  moreover have "overlayResult result2 (overlayResult result1 emptyResult) = result2\<lparr>chunks := chunks result1\<rparr>"
    by (simp add: overlayResult_def result1_def result2_def emptyResult_def)
  ultimately show ?thesis by (simp add: a b)
qed

end
