(* ===== verification/Client.thy ===== *)
theory Client
  imports AgentEnd Events
begin

text \<open>
  What a client makes of the output of the agent: the stream of events of an action, and what
  \<open>ParseEvent\<close> returns for the lines of standard output.
\<close>

section \<open>The stream of an action\<close>

lemma protocol_runApp: "protocol (after (runApp E jobText c) w) = protocol (after (agentAction E jobText c) w)"
proof -
  have "quiet (case err of Some e \<Rightarrow> if is_panic e then State_Monad.return () else errorLn E e
      | None \<Rightarrow> State_Monad.return ())" for err
    by (cases err) (simp_all add: quiet_rules)
  then show ?thesis by (simp add: runApp_def split_beta quietD)
qed

lemma runApp_stream:
  assumes "lo_contains_ok E" "is_blank_ok E" "\<And>t s. marshal E (ProgressData t s) = None"
  shows "case value_of (runApp E jobText c) w of
      (err, None) \<Rightarrow> err \<noteq> None \<and> protocol (after (runApp E jobText c) w) = protocol w
    | (err, Some (p, j)) \<Rightarrow>
        job_ok E j \<and>
        (jobLanguage j \<noteq> FakeLang \<longrightarrow>
          (\<exists>ds t0 t. protocol (after (runApp E jobText c) w) =
             protocol w @ Event Progress (ProgressData t0 Started) # map resultEvent ds @
               (if err = None then [Event Progress (ProgressData t Ended)] else []) \<and>
             length ds \<le> nat (iterationsOf E j) * targetCount p \<and>
             (err = None \<longrightarrow> nat (iterationsOf E j) \<le> length ds \<and>
               (0 < jobInterval j \<and> jobDuration j \<le> 10 ^ 17 \<longrightarrow> ds \<noteq> []))))"
proof -
  let ?new = "newAction E jobText (toArgs c)"
  have quiet: "protocol (after ?new w) = protocol w" by (rule quietD [OF quiet_newAction])
  show ?thesis
  proof (cases "value_of ?new w")
    case (Inl e)
    then show ?thesis
      unfolding protocol_runApp by (simp add: runApp_def agentAction_def quiet)
  next
    case (Inr pj)
    obtain p job where pj: "pj = (p, job)" by (cases pj)
    have ok: "job_ok E job" "is_Mock p \<longleftrightarrow> jobLanguage job = FakeLang"
      using newAction_job [OF assms(1,2), of jobText c w] Inr pj by auto
    obtain err p' j where r: "value_of (run E p job) (after ?new w) = (err, p', j)" by (metis prod_cases3)
    obtain n where j: "j = job\<lparr>jobIteration := n\<rparr>" using run_job [of E p job "after ?new w"] r by auto
    have v: "value_of (runApp E jobText c) w = (err, Some (p', j))"
      by (simp add: runApp_def agentAction_def Inr pj r)
    have a: "protocol (after (runApp E jobText c) w) = protocol (after (run E p job) (after ?new w))"
      unfolding protocol_runApp by (simp add: agentAction_def Inr pj split_beta)
    have pos: "1 \<le> nat (iterationsOf E job)" if "0 < jobInterval job" "jobDuration job \<le> 10 ^ 17"
      using iterations_positive [OF that(1) _ that(2), of E] ok(1) unfolding job_ok_def by linarith
    show ?thesis
      using run_stream [OF _ assms(3) r] ok pos unfolding v a quiet j by fastforce
  qed
qed

section \<open>What the client reads\<close>

text \<open>
  The line of a printed event is the JSON text \<open>enc\<close> of its type and its data. A client parses each line
  as it comes.
\<close>

fun lineOf :: "(EventType \<Rightarrow> EventData \<Rightarrow> string) \<Rightarrow> printed \<Rightarrow> string" where
  "lineOf enc (Event t d) = enc t d"
| "lineOf enc (Text s) = s"

definition readOutput ::
  "jsonLib \<Rightarrow> (EventType \<Rightarrow> EventData \<Rightarrow> string) \<Rightarrow> printed list \<Rightarrow> (EventData option \<times> error option) list" where
  "readOutput J enc out = readEvents J (map (lineOf enc) out) typeToData"

fun eventData :: "printed \<Rightarrow> EventData list" where
  "eventData (Event _ d) = [d]"
| "eventData (Text _) = []"

definition eventsIn :: "printed list \<Rightarrow> EventData list" where
  "eventsIn out = concat (map eventData out)"

definition typedEvent :: "EventData \<Rightarrow> printed" where
  "typedEvent d = Event (dataType d) d"

definition acted_on :: "EventData list \<Rightarrow> EventData list" where
  "acted_on ds = filter (\<lambda>d. dataType d \<in> {Result, Progress}) ds"

text \<open>Where what a client acts on is well typed, everything is: the other lines are events of their types.\<close>

lemma typed_output:
  assumes "filter is_protocol out = map typedEvent ds"
  shows "out = map typedEvent (eventsIn out)" "acted_on (eventsIn out) = ds"
proof -
  have "x \<in> range typedEvent" if "x \<in> set out" for x
  proof (cases "is_protocol x")
    case True
    with that have "x \<in> set (filter is_protocol out)" by simp
    then show ?thesis unfolding assms by auto
  next
    case False
    then show ?thesis by (cases x) (auto simp: typedEvent_def)
  qed
  then obtain es where out: "out = map typedEvent es" by (metis ex_map_conv rangeE)
  have es: "eventsIn out = es" unfolding out by (induction es) (simp_all add: eventsIn_def typedEvent_def)
  show "out = map typedEvent (eventsIn out)" using out es by simp
  have "filter is_protocol out = map typedEvent (acted_on es)"
    by (simp add: out filter_map o_def typedEvent_def acted_on_def)
  moreover have "inj typedEvent" by (auto simp: inj_on_def typedEvent_def)
  ultimately show "acted_on (eventsIn out) = ds" using assms es by (metis inj_map_eq_map)
qed

lemma readOutput_typed:
  assumes "out = map typedEvent (eventsIn out)" "json_ok J (\<lambda>d. enc (dataType d) d) (eventsIn out)"
    and "\<And>r r'. ResultData r \<in> set (eventsIn out) \<Longrightarrow> ResultData r' \<in> set (eventsIn out) \<Longrightarrow> covers r r'"
  shows "readOutput J enc out = map (\<lambda>d. (Some d, None)) (eventsIn out)"
proof -
  have "map (lineOf enc) out = map (\<lambda>d. enc (dataType d) d) (eventsIn out)"
    by (subst assms(1)) (simp add: typedEvent_def)
  then show ?thesis
    using readEvents_enc [OF assms(2) typed_store_init _ covers_empty assms(3)] by (simp add: readOutput_def)
qed


text \<open>
  An agent that makes one summary of PID 7 with the default values of the flags: from the command line to
  the one result its client reads.
\<close>

definition client_cli :: cliContext where
  "client_cli =
     \<lparr>cString = (\<lambda>k. if k = ''lang'' then ''ruby'' else if k = ''output-type'' then ''summary''
                    else if k = ''target-container-runtime'' then ''crio'' else if k = ''pid'' then ''7'' else []),
      cBool = (\<lambda>_. False), cInt = (\<lambda>_. 0)\<rparr>"

definition client_job :: ProfilingJob where
  "client_job = newJob\<lparr>jobDuration := 60 * second, jobInterval := 60 * second, jobContainerRuntime := Crio,
     jobContainerRuntimePath := getContainerRuntimeRootPath Crio, jobLanguage := Ruby, jobEvent := Itimer,
     jobCompressor := Gzip, jobTool := Rbspy, jobOutputType := Summary, jobPID := ''7''\<rparr>"

lemma client_blank:
  "is_blank sample_env []" "\<not> is_blank sample_env ''ruby''" "\<not> is_blank sample_env ''crio''"
  "\<not> is_blank sample_env ''summary''" "\<not> is_blank sample_env ''7''"
  by (simp_all add: sample_env_lib trim_space_clean is_space_rune_def)

lemma client_supported:
  "isSupportedContainerRuntime sample_env ''crio''" "isSupportedLanguage sample_env ''ruby''"
  "isSupportedEvent sample_env ''itimer''" "isSupportedCompressor sample_env ''gzip''" "isSupportedOutputType sample_env ''summary''"
  by (simp_all add: isSupportedContainerRuntime_def isSupportedLanguage_def isSupportedEvent_def
      isSupportedCompressor_def isSupportedOutputType_def sample_env_lib
      availableContainerRuntimes_def availableLanguages_def availableEvents_def availableCompressors_def availableOutputTypes_def)

lemma client_names:
  "lang_of ''ruby'' = Ruby" "output_of ''summary'' = Summary" "event_of ''itimer'' = Itimer" "compressor_of ''gzip'' = Gzip"
  "runtime_of ''crio'' = Crio" "getProfilingTool Ruby Summary = Inr Rbspy" "normalizeContainerID [] = []"
  "getOutputTypesByProfilingTool Rbspy = [FlameGraph, SpeedScope, Callgrind, Summary, SummaryByLine]"
  by code_simp+

lemma client_args:
  "strArg (toArgs client_cli) k = State_Monad.return
    (if k \<in> set string_flags
     then Inr (if k = ''lang'' then ''ruby'' else if k = ''output-type'' then ''summary''
               else if k = ''target-container-runtime'' then ''crio'' else if k = ''pid'' then ''7'' else [])
     else Inl assertion_failed)"
  "boolArg (toArgs client_cli) ''print-logs'' = State_Monad.return (Inr False)"
  "intArg (toArgs client_cli) ''node-heap-snapshot-signal'' = State_Monad.return (Inr 0)"
  by (auto simp: strArg_def boolArg_def intArg_def toArgs_def client_cli_def string_flags_def assertion_failed_def)

lemma client_container:
  "containerJob sample_env (toArgs client_cli) = State_Monad.return (Inr (newJob\<lparr>jobDuration := 60 * second, jobInterval := 60 * second, jobContainerRuntime := Crio,
     jobContainerRuntimePath := getContainerRuntimeRootPath Crio\<rparr>))"
  by (simp add: containerJob_def durationArg_def is_not_blank_def client_args string_flags_def client_blank newJob_def
       check_def client_supported attempt_return client_names defaultDuration_def)

lemma client_setters:
  "setPid sample_env (toArgs client_cli) j = State_Monad.return (Inr (j\<lparr>jobPID := ''7''\<rparr>))"
  "setPgrep sample_env (toArgs client_cli) j = State_Monad.return (Inr j)"
  "setNodeHeapSnapshotSignal (toArgs client_cli) j = State_Monad.return (Inr (j\<lparr>jobNodeHeapSnapshotSignal := 0\<rparr>))"
  by (simp_all add: setPid_def setPgrep_def setNodeHeapSnapshotSignal_def optionalArg_def client_args string_flags_def client_blank
    is_not_blank_def attempt_return, simp_all add: toArgs_def string_flags_def)

lemma files_infoLogLn [simp]: "files (after (infoLogLn E msg) w) = files w" "files (after (debugLogLn E msg) w) = files w"
  by (simp_all add: infoLogLn_def debugLogLn_def)

lemma client_getProfilingJob:
  "value_of (getProfilingJob sample_env (\<lambda>_. ''job'') (toArgs client_cli)) w = Inr client_job"
  "files (after (getProfilingJob sample_env (\<lambda>_. ''job'') (toArgs client_cli)) w) = files w"
  by (simp_all add: getProfilingJob_def client_container client_args string_flags_def check_def client_supported
      defaulted_def client_names attempt_return validateProfilingTool_def validateOutputType_def lift_sum_def
      client_blank client_setters setHeapDumpSplitChunkSize_def isValidOutputType_def client_job_def newJob_def)

lemma client_newAction:
  "value_of (newAction sample_env (\<lambda>_. ''job'') (toArgs client_cli)) w = Inr (RubyProfiler newRubyProfiler, client_job)"
  "files (after (newAction sample_env (\<lambda>_. ''job'') (toArgs client_cli)) w) = files w"
  using client_getProfilingJob [of "after (setPrintLogs False) w"]
  by (simp_all add: newAction_def client_args attempt_return, simp_all add: client_job_def setPrintLogs_def)

lemma client_summary: "one_summary client_job"
  using seconds_ratio_whole [of 60 60] by (simp add: one_summary_def client_job_def newJob_def iterationsOf_def)

definition client_out :: "printed list" where
  "client_out = stdout (after (runApp sample_env (\<lambda>_. ''job'') client_cli) ruby_world)"

lemma client_runApp:
  "\<exists>p n. value_of (runApp sample_env (\<lambda>_. ''job'') client_cli) ruby_world = (None, Some (p, client_job\<lparr>jobIteration := n\<rparr>)) \<and>
     targetCount p = 1"
proof -
  let ?w = "after (newAction sample_env (\<lambda>_. ''job'') (toArgs client_cli)) ruby_world"
  obtain err p j where r: "value_of (run sample_env (RubyProfiler newRubyProfiler) client_job) ?w = (err, p, j)"
    by (metis prod_cases3)
  obtain n where "j = client_job\<lparr>jobIteration := n\<rparr>"
    using run_job [of sample_env "RubyProfiler newRubyProfiler" client_job ?w] r by auto
  then show ?thesis
    using one_summary_run [OF client_summary client_newAction(2) [of ruby_world]] r
    by (intro exI [of _ p] exI [of _ n]) (simp add: runApp_def agentAction_def client_newAction(1) split_beta)
qed

text \<open>A library that knows the texts of the events of a list: the text of an event is as long as its position.\<close>

definition list_enc :: "EventData list \<Rightarrow> EventData \<Rightarrow> string" where
  "list_enc ds d = replicate (length (takeWhile (\<lambda>x. x \<noteq> d) ds)) (CHR ''x'')"

definition list_json :: "EventData list \<Rightarrow> jsonLib" where
  "list_json ds =
     \<lparr>decodeEvent = (\<lambda>l. Inr (dataType (ds ! length l), Some l)),
      unmarshalInto = (\<lambda>b old. (overlay (ds ! length b) old, None))\<rparr>"

lemma list_json_ok: "json_ok (list_json ds) (list_enc ds) ds"
proof -
  have "ds ! length (takeWhile (\<lambda>x. x \<noteq> d) ds) = d" if "d \<in> set ds" for d
    using that nth_length_takeWhile [of "\<lambda>x. x \<noteq> d" ds] by (metis (mono_tags, lifting) length_takeWhile_le
        le_neq_implies_less takeWhile_eq_all_conv takeWhile_eq_take take_all_iff order_refl)
  then show ?thesis by (simp add: json_ok_def list_json_def list_enc_def)
qed

lemma client_start: "stdout ruby_world = []" "protocol ruby_world = []" "jobLanguage client_job = Ruby"
  by (simp_all add: ruby_world_def empty_world_def protocol_def client_job_def newJob_def)

lemma client_one_result:
  assumes "ResultData r \<in> set (eventsIn client_out)" "ResultData r' \<in> set (eventsIn client_out)"
  shows "r = r'"
proof -
  have its: "iterationsOf sample_env (client_job\<lparr>jobIteration := n\<rparr>) = 1" for n
    using client_summary by (simp add: one_summary_def iterationsOf_def)
  obtain p n where run: "value_of (runApp sample_env (\<lambda>_. ''job'') client_cli) ruby_world =
      (None, Some (p, client_job\<lparr>jobIteration := n\<rparr>))" "targetCount p = 1"
    using client_runApp by blast
  obtain ds t0 t where ds: "protocol (after (runApp sample_env (\<lambda>_. ''job'') client_cli) ruby_world) =
      Event Progress (ProgressData t0 Started) # map resultEvent ds @ [Event Progress (ProgressData t Ended)]"
      "length ds \<le> 1"
    using runApp_stream [of sample_env "\<lambda>_. ''job''" client_cli ruby_world] run its [of n]
    by (auto simp: sample_env_lib(5) [unfolded lib_ok_def] sample_env_sel client_start)
  then have "filter is_protocol client_out =
      map typedEvent (ProgressData t0 Started # map ResultData ds @ [ProgressData t Ended])"
    by (simp add: client_out_def protocol_def typedEvent_def)
  note acted = typed_output(2) [OF this]
  have "x \<in> set ds" if "ResultData x \<in> set (eventsIn client_out)" for x
  proof -
    have "ResultData x \<in> set (acted_on (eventsIn client_out))" using that by (simp add: acted_on_def)
    then show ?thesis unfolding acted by auto
  qed
  with assms have "r \<in> set ds" "r' \<in> set ds" by blast+
  with ds(2) show ?thesis by (cases ds) auto
qed


end
