(* ===== verification/Download.thy ===== *)
theory Download
  imports CleanUp
begin

text \<open>
  From the publisher to the disk of the client: what \<open>Do\<close> and \<open>DoWithNativeGzipAndSplit\<close> of
  internal/agent/util/publish/publisher.go announce is enough to restore the profile with
  \<open>MergeFiles\<close> of pkg/util/file/file.go and the decoders of pkg/util/compressor. The client is another
  process with files of its own, into which it has copied the files named in the result.
\<close>

section \<open>The chunks in the temporary directory\<close>

lemma append_le_append: "p @ s \<le> p @ t \<longleftrightarrow> s \<le> (t :: string)"
  by (induction p) simp_all

lemma append_less_append: "p @ s < p @ t \<longleftrightarrow> s < (t :: string)"
  by (induction p) simp_all

lemma glob_match_prefix_iff:
  assumes "CHR ''*'' \<notin> set p" "CHR ''?'' \<notin> set p" "CHR ''/'' \<notin> set m"
  shows "glob_match (p @ ''*'') m \<longleftrightarrow> prefix p m"
proof
  show "glob_match (p @ ''*'') m \<Longrightarrow> prefix p m" by (rule glob_match_prefix [OF assms(1,2)])
next
  assume "prefix p m"
  then obtain s where m: "m = p @ s" by (rule prefixE)
  have "glob_match (CHR ''*'' # []) (s @ [])"
    using assms(3) unfolding m by (intro glob_match_star_append) auto
  then show "glob_match (p @ ''*'') m"
    unfolding m using assms(1,2) by (intro glob_match_literal) simp_all
qed

lemma names_in_sorted: "sorted (names_in fs d)" "distinct (names_in fs d)"
  by (auto simp: names_in_def Let_def split: option.split)

text \<open>
  A pattern of a literal name and a star gives the files whose names begin with the literal, in the order
  of what follows it.
\<close>

lemma glob_suffixes:
  assumes nl: "no_links fs" and n: "plain_name n" "CHR ''*'' \<notin> set n" "CHR ''?'' \<notin> set n"
    and sufs: "sorted_wrt (<) sufs" "\<And>s. s \<in> set sufs \<Longrightarrow> CHR ''/'' \<notin> set s"
    and there: "\<And>q. content fs q \<noteq> None \<and> prefix (''/tmp/'' @ n) q \<longleftrightarrow> q \<in> (\<lambda>s. ''/tmp/'' @ n @ s) ` set sufs"
  shows "glob fs (''/tmp/'' @ n @ ''*'') = map (\<lambda>s. ''/tmp/'' @ n @ s) sufs"
proof -
  let ?ms = "filter (glob_match (n @ ''*'')) (names_in fs ''/tmp'')"
  have slash: "CHR ''/'' \<notin> set n" using n(1) by (simp add: plain_name_def)
  have split: "path_split (''/tmp/'' @ n @ ''*'') = (''/tmp/'', n @ ''*'')"
    using slash by (intro path_split_tmp) simp
  have "m \<in> set ?ms \<longleftrightarrow> m \<in> (\<lambda>s. n @ s) ` set sufs" for m
  proof
    assume "m \<in> set ?ms"
    then have m: "m \<in> set (names_in fs ''/tmp'')" "prefix n m"
      using names_plain glob_match_prefix [OF n(2,3)] by auto
    then obtain r x where r: "(r, x) \<in> set fs" "strict_prefix ''/tmp/'' r" "m = first_component (drop 5 r)"
      unfolding names_in_tmp [OF nl] by blast
    obtain t where t: "r = ''/tmp/'' @ t" using r(2) by (auto elim: strict_prefixE')
    have pre: "prefix m t" unfolding r(3) t first_component_def by (simp add: takeWhile_is_prefix)
    have "prefix n t" using m(2) pre by (rule prefix_order.trans)
    then have "prefix (''/tmp/'' @ n) r" unfolding t by simp
    moreover have "content fs r \<noteq> None" using r(1) in_files_content [OF nl] by blast
    ultimately obtain s where s: "s \<in> set sufs" "r = ''/tmp/'' @ n @ s" using there by blast
    then have "CHR ''/'' \<notin> set (n @ s)" using sufs(2) slash by simp
    then have "m = n @ s" unfolding r(3) s(2) by (simp add: first_component_plain)
    then show "m \<in> (\<lambda>s. n @ s) ` set sufs" using s(1) by blast
  next
    assume "m \<in> (\<lambda>s. n @ s) ` set sufs"
    then obtain s where s: "s \<in> set sufs" "m = n @ s" by blast
    have plain: "CHR ''/'' \<notin> set m" "m \<noteq> []" using s sufs(2) slash n(1) by (auto simp: plain_name_def)
    have "content fs (''/tmp/'' @ m) \<noteq> None" using there [of "''/tmp/'' @ m"] s by auto
    then obtain x where "(''/tmp/'' @ m, x) \<in> set fs" using in_files_content [OF nl] by blast
    then have "m \<in> set (names_in fs ''/tmp'')"
      unfolding names_in_tmp [OF nl] using plain
      by (intro exI [of _ "''/tmp/'' @ m"] exI [of _ x]) (auto simp: first_component_plain strict_prefix_def)
    then show "m \<in> set ?ms" using glob_match_prefix_iff [OF n(2,3) plain(1)] s(2) by simp
  qed
  then have "set ?ms = set (map (\<lambda>s. n @ s) sufs)" by auto
  moreover have "sorted ?ms" "distinct ?ms"
    using sorted_wrt_filter [OF names_in_sorted(1)] distinct_filter [OF names_in_sorted(2)] by auto
  moreover have "sorted_wrt (<) (map (\<lambda>s. n @ s) sufs)" using sufs(1) by (simp add: sorted_wrt_map append_less_append)
  ultimately have ms: "?ms = map (\<lambda>s. n @ s) sufs"
    by (intro sorted_distinct_set_unique) (auto simp: strict_sorted_iff)
  have "plain_name (n @ s)" if "s \<in> set sufs" for s
  proof -
    have "n @ s \<noteq> ''.''" "n @ s \<noteq> ''..''" using n(1) by (auto simp: plain_name_def append_eq_Cons_conv)
    then show ?thesis using n(1) sufs(2) [OF that] by (simp add: plain_name_def)
  qed
  moreover have "clean_glob_path ''/tmp/'' = ''/tmp''" by (simp add: clean_glob_path_def)
  ultimately show ?thesis
    unfolding glob_def split using ms by (simp add: path_join_tmp o_def)
qed

section \<open>gzip and split\<close>

text \<open>
  What the publisher relies on from the two commands. \<open>gzip -3\<close> replaces a file by one with the extension,
  which is not empty and decodes to what the file held. \<open>split -b\<close> writes consecutive pieces of its input to
  files whose names are the given prefix and a suffix, in the order of the suffixes.
\<close>

definition gzip_cmd_ok :: "env \<Rightarrow> bool" where
  "gzip_cmd_ok E \<longleftrightarrow>
     (\<forall>f b w. no_links (files w) \<and> content (files w) f = Some b \<and>
          (\<forall>q. content (files w) q \<noteq> None \<longrightarrow> \<not> prefix (f @ ''.gz'') q) \<longrightarrow>
        (let r = runProc E [''gzip'', ''-3'', f] [] w
         in procErr r = None \<and> no_links (procFiles r) \<and>
            (\<exists>z. z \<noteq> [] \<and> decodeWith E ''gzip'' z = (b, None) \<and>
               content (procFiles r) = (content (files w))(f := None, f @ ''.gz'' \<mapsto> z))))"

definition split_cmd_ok :: "env \<Rightarrow> string \<Rightarrow> bool" where
  "split_cmd_ok E sz \<longleftrightarrow>
     (\<forall>g z w. no_links (files w) \<and> content (files w) g = Some z \<and>
          (\<forall>q. content (files w) q \<noteq> None \<longrightarrow> \<not> prefix (g @ ''.'') q) \<longrightarrow>
        (let r = runProc E [''split'', ''-b'', sz, g, g @ ''.''] [] w
         in procErr r = None \<and> no_links (procFiles r) \<and>
            (\<exists>sufs pieces. length sufs = length pieces \<and> sorted_wrt (<) sufs \<and>
               (\<forall>s \<in> set sufs. s \<noteq> [] \<and> CHR ''/'' \<notin> set s) \<and> concat pieces = z \<and>
               content (procFiles r) = content (files w) ++ map_of (zip (map (\<lambda>s. g @ ''.'' @ s) sufs) pieces))))"

text \<open>Nothing is in the way: no file is named like the ones the two commands write.\<close>

definition none_like :: "string \<Rightarrow> filesys \<Rightarrow> bool" where
  "none_like g fs \<longleftrightarrow> (\<forall>q. content fs q \<noteq> None \<longrightarrow> \<not> prefix g q)"

lemma files_runCmd:
  "value_of (runCmd E argv i) w = (let r = runProc E argv i w in (procErr r, procOut r, procErrOut r))"
  "files (after (runCmd E argv i) w) = procFiles (runProc E argv i w)"
  by (simp_all add: runCmd_def Let_def)

lemma files_exists_file [simp]: "files (after (exists_file E f) w) = files w"
  by (simp add: exists_file_def osStat_ok)

lemma map_map_of_zip: "distinct xs \<Longrightarrow> length xs = length ys \<Longrightarrow> map (map_of (zip xs ys)) xs = map Some ys"
  by (intro nth_equalityI) (auto simp: map_of_zip_nth)

text \<open>The world in which the chunks are described, and what is in it.\<close>

lemma split_chunk_files:
  assumes ok: "no_faults E" "no_links (files w)" "gzip_cmd_ok E" "split_cmd_ok E sz"
    and f: "f = ''/tmp/'' @ n" "plain_name n" "CHR ''*'' \<notin> set n" "CHR ''?'' \<notin> set n"
    and here: "content (files w) f = Some b" "none_like (f @ ''.gz'') (files w)"
    and w1: "w1 = after (runCmd E [''gzip'', ''-3'', f] []) w" "files w1' = files w1"
    and w2: "w2 = after (runCmd E [''split'', ''-b'', sz, f @ ''.gz'', f @ ''.gz.''] []) w1'"
    and w3: "no_links (files w2) \<Longrightarrow> files w3 = filter (\<lambda>(r, _). r \<noteq> f @ ''.gz'') (files w2)"
  obtains z sufs pieces where "fst (value_of (runCmd E [''gzip'', ''-3'', f] []) w) = None"
    "fst (value_of (runCmd E [''split'', ''-b'', sz, f @ ''.gz'', f @ ''.gz.''] []) w1') = None"
    "content (files w2) (f @ ''.gz'') = Some z" "z \<noteq> []" "decodeWith E ''gzip'' z = (b, None)" "concat pieces = z"
    "no_links (files w2)" "glob (files w3) (f @ ''.gz.*'') = map (\<lambda>s. f @ ''.gz.'' @ s) sufs" "length sufs = length pieces"
    "map (content (files w3)) (map (\<lambda>s. f @ ''.gz.'' @ s) sufs) = map Some pieces"
proof -
  let ?g = "f @ ''.gz''"
  have "let r = runProc E [''gzip'', ''-3'', f] [] w
      in procErr r = None \<and> no_links (procFiles r) \<and>
        (\<exists>z. z \<noteq> [] \<and> decodeWith E ''gzip'' z = (b, None) \<and>
           content (procFiles r) = (content (files w))(f := None, ?g \<mapsto> z))"
    using ok(2,3) here unfolding gzip_cmd_ok_def none_like_def by blast
  then obtain z where g: "fst (value_of (runCmd E [''gzip'', ''-3'', f] []) w) = None" "no_links (files w1')"
      "z \<noteq> []" "decodeWith E ''gzip'' z = (b, None)" "content (files w1') = (content (files w))(f := None, ?g \<mapsto> z)"
    unfolding w1(2) w1(1) files_runCmd Let_def by auto
  have cz: "content (files w1') ?g = Some z" using g(5) by simp
  have none: "q = ?g" if "content (files w1') q \<noteq> None" "prefix ?g q" for q
    using that here(2) unfolding g(5) none_like_def by (auto split: if_splits)
  have "\<not> prefix (?g @ ''.'') q" if "content (files w1') q \<noteq> None" for q
  proof
    assume p: "prefix (?g @ ''.'') q"
    then have "q = ?g" using none [OF that] append_prefixD by blast
    with p show False by (auto dest: prefix_length_le)
  qed
  then have "let r = runProc E [''split'', ''-b'', sz, ?g, ?g @ ''.''] [] w1'
      in procErr r = None \<and> no_links (procFiles r) \<and>
        (\<exists>sufs pieces. length sufs = length pieces \<and> sorted_wrt (<) sufs \<and>
           (\<forall>s \<in> set sufs. s \<noteq> [] \<and> CHR ''/'' \<notin> set s) \<and> concat pieces = z \<and>
           content (procFiles r) = content (files w1') ++ map_of (zip (map (\<lambda>s. ?g @ ''.'' @ s) sufs) pieces))"
    using ok(4) [unfolded split_cmd_ok_def, rule_format, of w1' ?g z] g(2) cz by blast
  then obtain sufs pieces where s: "fst (value_of (runCmd E [''split'', ''-b'', sz, ?g, f @ ''.gz.''] []) w1') = None"
      "no_links (files w2)" "length sufs = length pieces" "sorted_wrt (<) sufs"
      "\<And>s. s \<in> set sufs \<Longrightarrow> s \<noteq> [] \<and> CHR ''/'' \<notin> set s" "concat pieces = z"
      "content (files w2) = content (files w1') ++ map_of (zip (map (\<lambda>s. f @ ''.gz.'' @ s) sufs) pieces)"
    unfolding w2 files_runCmd Let_def by auto
  let ?ns = "map (\<lambda>s. f @ ''.gz.'' @ s) sufs"
  have absent: "map_of (zip ?ns pieces) q = None \<longleftrightarrow> q \<notin> set ?ns" for q
    using s(3) by (intro map_of_zip_is_None) simp
  have "?g \<notin> set ?ns" by auto
  then have cg: "content (files w2) ?g = Some z"
    using absent [of ?g] g(5) by (simp add: s(7) map_add_def)
  have c3: "content (files w3) q = (if q = ?g then None else content (files w2) q)" for q
    using content_filter [OF s(2), of "\<lambda>r. r \<noteq> ?g"] unfolding w3 [OF s(2)] by auto
  have "distinct ?ns" using s(4) by (auto simp: distinct_map inj_on_def strict_sorted_iff)
  then have "map (map_of (zip ?ns pieces)) ?ns = map Some pieces"
    using s(3) by (intro map_map_of_zip) simp_all
  moreover have "content (files w3) q = map_of (zip ?ns pieces) q" if "q \<in> set ?ns" for q
    using that \<open>?g \<notin> set ?ns\<close> absent [of q] unfolding c3 by (auto simp: s(7) map_add_def split: option.split)
  ultimately have pieces: "map (content (files w3)) ?ns = map Some pieces"
    by (metis (no_types, lifting) map_cong)
  have "content (files w3) q \<noteq> None \<and> prefix (''/tmp/'' @ n @ ''.gz.'') q \<longleftrightarrow>
      q \<in> (\<lambda>s. ''/tmp/'' @ (n @ ''.gz.'') @ s) ` set sufs" for q
  proof -
    have "q \<in> set ?ns" if "content (files w3) q \<noteq> None" "prefix (f @ ''.gz.'') q"
    proof (rule ccontr)
      assume "q \<notin> set ?ns"
      then have "q \<noteq> ?g" "content (files w1') q \<noteq> None"
        using that(1) absent [of q] unfolding c3 by (auto simp: s(7) map_add_def split: if_splits)
      moreover have "prefix ?g q" using that(2) by (auto simp: prefix_def)
      ultimately show False using none by blast
    qed
    moreover have "content (files w3) q \<noteq> None" if "q \<in> set ?ns"
      using pieces that by (metis (no_types, lifting) in_set_conv_nth length_map nth_map option.distinct(1) s(3))
    ultimately show ?thesis unfolding f(1) by auto
  qed
  then have "glob (files w3) (''/tmp/'' @ (n @ ''.gz.'') @ ''*'') = map (\<lambda>s. ''/tmp/'' @ (n @ ''.gz.'') @ s) sufs"
    using f(2-4) s(4,5) no_links_filter [OF s(2)] unfolding w3 [OF s(2)]
    by (intro glob_suffixes) (auto simp: plain_name_def)
  then show ?thesis
    by (intro that [OF g(1) s(1) cg g(3,4) s(6,2) _ s(3) pieces]) (simp add: f(1))
qed

section \<open>The client's copies\<close>

text \<open>
  The files a result announces, each with its size and checksum: the chunks, or the one file of a result
  without chunks. \<open>loc\<close> is where the client keeps its copy of a file.
\<close>

definition announced :: "ResultData \<Rightarrow> (string \<times> int \<times> string) list" where
  "announced r =
     (if chunks r = [] then [(resFile r, fileSizeInBytes r, checksum r)]
      else map (\<lambda>c. (chunkFile c, chunkSize c, chunkChecksum c)) (chunks r))"

definition downloaded :: "(string \<Rightarrow> string) \<Rightarrow> ResultData \<Rightarrow> filesys \<Rightarrow> filesys \<Rightarrow> bool" where
  "downloaded loc r fs client \<longleftrightarrow>
     no_links client \<and> (\<forall>(p, _, _) \<in> set (announced r). content client (loc p) = content fs p)"

text \<open>Every copy has the size and the checksum that were announced.\<close>

definition genuine :: "env \<Rightarrow> (string \<Rightarrow> string) \<Rightarrow> ResultData \<Rightarrow> filesys \<Rightarrow> bool" where
  "genuine E loc r client \<longleftrightarrow>
     (\<forall>(p, n, h) \<in> set (announced r). \<exists>d. content client (loc p) = Some d \<and>
        n = int (length d) \<and> h = hex_encode (md5Sum E d))"

text \<open>The decoder of the compressor the result names, and the restoration of a file in chunks.\<close>

definition clientDecode :: "env \<Rightarrow> ResultData \<Rightarrow> string \<Rightarrow> string \<Rightarrow> error option io" where
  "clientDecode E r dst src =
     (case compressorGet (compressor_of (compressorType r)) of
        Inl e \<Rightarrow> State_Monad.return (Some e) | Inr alg \<Rightarrow> compDecode alg E dst src)"

definition clientMerge :: "env \<Rightarrow> (string \<Rightarrow> string) \<Rightarrow> ResultData \<Rightarrow> string \<Rightarrow> string \<Rightarrow> error option io" where
  "clientMerge E loc r whole dst =
     do { merge_files E whole (map (\<lambda>c. loc (chunkFile c)) (chunks r)); clientDecode E r dst whole }"

lemma compressor_of_string: "compressorGet c = Inr alg \<Longrightarrow> compressor_of (compressor_string c) = c"
  by (cases c) (simp_all add: compressor_of_def)

lemma compressorGet_decode:
  assumes "compressorGet t = Inr c" "t \<noteq> NoneType" "codec_ok (compressor_string t) E" "no_faults E" "no_links (files w)"
    and "src \<noteq> dst" "content (files w) src = Some (fullEncoding (compressor_string t) E b)" "content (files w) dst = Some []"
  shows "value_of (compDecode c E dst src) w = None \<and> content (files (after (compDecode c E dst src) w)) dst = Some b"
  using assms by (cases t; use snappy.decode gzip.decode lzo.decode zstd.decode in force)

text \<open>
  \<open>restorable E c b r fs\<close>: whoever has a copy of the file of \<open>fs\<close> that \<open>r\<close> names finds its size and checksum as
  announced, and gets the bytes \<open>b\<close> by the decoder of the compressor that \<open>r\<close> names.
\<close>

definition restorable :: "env \<Rightarrow> CompressorType \<Rightarrow> string \<Rightarrow> ResultData \<Rightarrow> filesys \<Rightarrow> bool" where
  "restorable E c b r fs \<longleftrightarrow>
     (\<forall>v loc dst. downloaded loc r fs (files v) \<and> content (files v) dst = Some [] \<and> dst \<noteq> loc (resFile r) \<longrightarrow>
        genuine E loc r (files v) \<and>
        (if c = NoneType then content (files v) (loc (resFile r)) = Some b
         else value_of (clientDecode E r dst (loc (resFile r))) v = None \<and>
              content (files (after (clientDecode E r dst (loc (resFile r))) v)) dst = Some b))"

lemma describes_restorable:
  assumes "compressorGet c = Inr alg" "c \<noteq> NoneType \<longrightarrow> codec_ok (compressor_string c) E" "no_faults E"
    and "describes E c out p (resultBytes E c b) r" "content fs p = Some (resultBytes E c b)"
  shows "restorable E c b r fs"
  unfolding restorable_def
proof (intro allI impI)
  fix v :: world and loc dst
  assume v: "downloaded loc r fs (files v) \<and> content (files v) dst = Some [] \<and> dst \<noteq> loc (resFile r)"
  have r: "resFile r = p" "chunks r = []" using assms(4) by (simp_all add: describes_def)
  have dec: "clientDecode E r dst src = compDecode alg E dst src" for dst src
    using assms(4) by (simp add: clientDecode_def describes_def compressor_of_string [OF assms(1)] assms(1))
  have copy: "content (files v) (loc (resFile r)) = Some (resultBytes E c b)"
    using v assms(5) by (simp add: downloaded_def announced_def r)
  have "genuine E loc r (files v)" using copy assms(4) by (simp add: genuine_def announced_def describes_def)
  moreover have "if c = NoneType then content (files v) (loc (resFile r)) = Some b
      else value_of (clientDecode E r dst (loc (resFile r))) v = None \<and>
           content (files (after (clientDecode E r dst (loc (resFile r))) v)) dst = Some b"
    using copy compressorGet_decode [OF assms(1) _ _ assms(3), of v "loc (resFile r)" dst b] v assms(2)
    by (auto simp: dec resultBytes_def downloaded_def)
  ultimately show "genuine E loc r (files v) \<and>
      (if c = NoneType then content (files v) (loc (resFile r)) = Some b
       else value_of (clientDecode E r dst (loc (resFile r))) v = None \<and>
            content (files (after (clientDecode E r dst (loc (resFile r))) v)) dst = Some b)" ..
qed

text \<open>C9. A profile that \<open>Do\<close> has published reaches the client as it was: whoever has a copy of the file
  the result names finds its size and checksum as announced, and the decoder of the compressor the result
  names writes the bytes of the profile; without a compressor the copy is the profile itself.\<close>

theorem profile_restored:
  assumes "compressorGet c = Inr alg" "c \<noteq> NoneType \<longrightarrow> codec_ok (compressor_string c) E"
    and "no_faults E" "no_links (files w)" "content (files w) f = Some b"
    and "\<not> is_dir (files w) (resultFileOf c f)" "\<forall>d. marshal E d = None"
    and "after (publishDo E c f out) w = w'"
  shows "\<exists>r. protocol w' = protocol w @ [resultEvent r] \<and> resFile r = resultFileOf c f \<and> chunks r = [] \<and>
    (\<forall>v loc dst. downloaded loc r (files w') (files v) \<and> content (files v) dst = Some [] \<and> dst \<noteq> loc (resFile r) \<longrightarrow>
       genuine E loc r (files v) \<and>
       (if c = NoneType then content (files v) (loc (resFile r)) = Some b
        else value_of (clientDecode E r dst (loc (resFile r))) v = None \<and>
             content (files (after (clientDecode E r dst (loc (resFile r))) v)) dst = Some b))"
proof -
  note pub = publishDo_publishes [OF assms(1-7), of out, unfolded assms(8)]
  obtain t r where r: "protocol w' = protocol w @ [resultEvent r]"
      "result_for E c (resultFileOf c f) out (resultBytes E c b) t = ResultData r"
    using pub by (auto simp: result_for_def)
  have d: "describes E c out (resultFileOf c f) (resultBytes E c b) r"
    using r(2) by (auto simp: result_for_def describes_def)
  have "content (files w') (resultFileOf c f) = Some (resultBytes E c b)" using pub by simp
  from describes_restorable [OF assms(1-3) d this] show ?thesis
    using r(1) d unfolding restorable_def by (intro exI [of _ r]) (simp add: describes_def)
qed

text \<open>The chunk data of a file with a content.\<close>

definition chunkOf :: "env \<Rightarrow> string \<Rightarrow> string \<Rightarrow> ChunkData" where
  "chunkOf E p d = \<lparr>chunkFile = p, chunkSize = int (length d), chunkChecksum = hex_encode (md5Sum E d)\<rparr>"

lemma chunkOf_sel [simp]:
  "chunkFile (chunkOf E p d) = p" "chunkSize (chunkOf E p d) = int (length d)"
  "chunkChecksum (chunkOf E p d) = hex_encode (md5Sum E d)"
  by (simp_all add: chunkOf_def)

lemma chunkOf_size:
  "length names = length pieces \<Longrightarrow> sum_list (map chunkSize (map2 (chunkOf E) names pieces)) = int (length (concat pieces))"
  by (induction rule: list_induct2) simp_all

lemma chunkOf_files: "length names = length pieces \<Longrightarrow> map chunkFile (map2 (chunkOf E) names pieces) = names"
  by (induction rule: list_induct2) simp_all

lemma chunkData_pieces:
  assumes "no_faults E" "map (content (files w)) names = map Some pieces"
  shows "value_of (chunkData E names) w = map2 (chunkOf E) names pieces" "after (chunkData E names) w = w"
proof -
  have len: "length names = length pieces" using assms(2) by (metis length_map)
  from len assms(2) have "\<forall>p \<in> set names. content (files w) p \<noteq> None"
    by (induction rule: list_induct2) auto
  note ok = chunkData_ok [OF assms(1) this]
  from len assms(2) have "map (\<lambda>p. chunkOf E p (the (content (files w) p))) names = map2 (chunkOf E) names pieces"
    by (induction rule: list_induct2) auto
  with ok show "value_of (chunkData E names) w = map2 (chunkOf E) names pieces" "after (chunkData E names) w = w"
    by (simp_all add: chunkOf_def)
qed

lemma publishChunks_pieces:
  assumes "no_faults E" "\<forall>d. marshal E d = None" "no_links (files w)" "content (files w) (f @ ''.gz'') = Some z"
    and "glob (files (after (remove_file E (f @ ''.gz'')) w)) (f @ ''.gz.*'') = names"
    and "map (content (files (after (remove_file E (f @ ''.gz'')) w))) names = map Some pieces"
  shows "\<exists>r. value_of (publishChunks E f out) w = None \<and>
    protocol (after (publishChunks E f out) w) = protocol w @ [resultEvent r] \<and>
    files (after (publishChunks E f out) w) = files (after (remove_file E (f @ ''.gz'')) w) \<and>
    compressorType r = ''gzip'' \<and> fileSizeInBytes r = int (length z) \<and> chunks r = map2 (chunkOf E) names pieces"
proof -
  let ?w3 = "after (list_files (f @ ''.gz.*'')) (after (remove_file E (f @ ''.gz'')) w)"
  let ?r = "\<lparr>resTime = clock ?w3, resultType = out, resFile = f @ ''.gz'', fileSizeInBytes = int (length z),
    checksum = [], compressorType = compressor_string Gzip, chunks = map2 (chunkOf E) names pieces\<rparr>"
  have fs: "files ?w3 = files (after (remove_file E (f @ ''.gz'')) w)" by simp
  note cd = chunkData_pieces [OF assms(1), of ?w3 names pieces, unfolded fs, OF assms(6)]
  have "protocol ?w3 = protocol w"
    by (simp add: quietD [OF quiet_file_read(4)] quietD [OF quiet_file_read(2)])
  then show ?thesis
    using assms(1,2,4) by (intro exI [of _ ?r]) (simp add: publishChunks_def file_size_ok assms(5) cd now_def
        after_eventLn isPrintLogsAllowed_def)
qed

lemma streamDecode_from:
  assumes "decodeWith E alg z = (b, None)" "no_faults E" "no_links (files w)" "src \<noteq> dst"
    "content (files w) src = Some z" "content (files w) dst = Some []"
  shows "value_of (streamDecode alg E dst src) w = None \<and> content (files (after (streamDecode alg E dst src) w)) dst = Some b"
  using assms by (simp add: streamDecode_def osRead_ok writeTo_ok [where d = "[]"] content_store)

lemma clientMerge_chunks:
  assumes "no_faults E" "chunks r = map2 (chunkOf E) names pieces" "length names = length pieces"
    and "map (content fs) names = map Some pieces" "concat pieces \<noteq> []" "decodeWith E ''gzip'' (concat pieces) = (b, None)"
    and "compressorType r = ''gzip''" "downloaded loc r fs (files v)"
    and "content (files v) whole = None" "\<not> is_dir (files v) whole" "content (files v) dst = Some []"
  shows "genuine E loc r (files v) \<and> value_of (clientMerge E loc r whole dst) v = None \<and>
    content (files (after (clientMerge E loc r whole dst) v)) dst = Some b"
proof -
  let ?cs = "map (\<lambda>c. loc (chunkFile c)) (chunks r)"
  have ne: "pieces \<noteq> []" "names \<noteq> []" "chunks r \<noteq> []" using assms(3,5) by (auto simp: assms(2))
  have copies: "content (files v) (loc (chunkFile c)) = content fs (chunkFile c)" if "c \<in> set (chunks r)" for c
    using assms(8) ne(3) that by (auto simp: downloaded_def announced_def)
  have names: "map chunkFile (chunks r) = names" unfolding assms(2) by (rule chunkOf_files [OF assms(3)])
  have "map (content (files v)) ?cs = map (content fs) (map chunkFile (chunks r))"
    using copies by simp
  then have have_pieces: "map (content (files v)) ?cs = map Some pieces"
    unfolding names assms(4) .
  have "whole \<notin> set ?cs"
    using have_pieces assms(9) by (metis (no_types, lifting) image_iff image_set list.set_map option.distinct(1))
  note merged = merge_files_content [OF assms(1) _ assms(10) this _ have_pieces]
  let ?v = "after (merge_files E whole ?cs) v"
  have v: "content (files ?v) = (content (files v))(whole \<mapsto> concat pieces)" "no_links (files ?v)"
    using merged ne(3) assms(8,9) by (simp_all add: downloaded_def)
  have "clientDecode E r dst whole = streamDecode ''gzip'' E dst whole"
    by (simp add: clientDecode_def assms(7) compressor_of_def gzipDecode_def)
  moreover have "whole \<noteq> dst" using assms(9,11) by auto
  ultimately have "value_of (clientMerge E loc r whole dst) v = None \<and>
      content (files (after (clientMerge E loc r whole dst) v)) dst = Some b"
    using streamDecode_from [OF assms(6,1) v(2)] v(1) assms(11) by (simp add: clientMerge_def)
  moreover
  have "\<exists>d. content fs (chunkFile c) = Some d \<and> c = chunkOf E (chunkFile c) d" if "c \<in> set (chunks r)" for c
    using assms(3,4) that unfolding assms(2) by (induction rule: list_induct2) auto
  then have "genuine E loc r (files v)"
    using ne(3) copies unfolding genuine_def announced_def by (fastforce dest: arg_cong [where f = chunkSize] arg_cong [where f = chunkChecksum])
  ultimately show ?thesis by simp
qed

text \<open>C10. A heap dump that \<open>DoWithNativeGzipAndSplit\<close> has published reaches the client as it was, although
  the agent deletes the compressed file and keeps only its pieces: if \<open>gzip\<close> and \<open>split\<close> do what they
  document, the call succeeds and prints one result whose chunks add up to the size it names; the copies of
  the chunks have their announced sizes and checksums, and merging them in the order of the list and decoding
  the result gives the bytes of the dump.\<close>

theorem heap_dump_restored:
  assumes "no_faults E" "no_links (files w)" "gzip_cmd_ok E" "split_cmd_ok E sz" "\<not> is_blank E sz"
    and "\<forall>d. marshal E d = None"
    and "f = ''/tmp/'' @ n" "plain_name n" "CHR ''*'' \<notin> set n" "CHR ''?'' \<notin> set n"
    and "content (files w) f = Some b" "none_like (f @ ''.gz'') (files w)"
    and "m = publishDoWithNativeGzipAndSplit E f sz out"
  shows "value_of m w = None \<and>
    (\<exists>r. protocol (after m w) = protocol w @ [resultEvent r] \<and>
       fileSizeInBytes r = sum_list (map chunkSize (chunks r)) \<and>
       chunks r \<noteq> [] \<and> (\<forall>c \<in> set (chunks r). prefix (f @ ''.gz.'') (chunkFile c)) \<and>
       (\<forall>v loc whole dst. downloaded loc r (files (after m w)) (files v) \<and> content (files v) whole = None \<and>
            \<not> is_dir (files v) whole \<and> content (files v) dst = Some [] \<longrightarrow>
          genuine E loc r (files v) \<and> value_of (clientMerge E loc r whole dst) v = None \<and>
          content (files (after (clientMerge E loc r whole dst) v)) dst = Some b))"
proof -
  let ?g = "f @ ''.gz''"
  let ?w0 = "after (command E True ''gzip'' [''-3'', f]) (after (exists_file E f) w)"
  let ?w1' = "after (command E True ''split'' [''-b'', sz, ?g, f @ ''.gz.'']) (after (runCmd E [''gzip'', ''-3'', f] []) ?w0)"
  let ?w2 = "after (runCmd E [''split'', ''-b'', sz, ?g, f @ ''.gz.''] []) ?w1'"
  have hyp: "no_links (files ?w0)" "content (files ?w0) f = Some b" "none_like ?g (files ?w0)"
    using assms(2,11,12) by simp_all
  obtain z sufs pieces where s: "fst (value_of (runCmd E [''gzip'', ''-3'', f] []) ?w0) = None"
      "fst (value_of (runCmd E [''split'', ''-b'', sz, ?g, f @ ''.gz.''] []) ?w1') = None"
      "content (files ?w2) ?g = Some z" "z \<noteq> []" "decodeWith E ''gzip'' z = (b, None)" "concat pieces = z" "no_links (files ?w2)"
      "glob (files (after (remove_file E ?g) ?w2)) (f @ ''.gz.*'') = map (\<lambda>s. f @ ''.gz.'' @ s) sufs" "length sufs = length pieces"
      "map (content (files (after (remove_file E ?g) ?w2))) (map (\<lambda>s. f @ ''.gz.'' @ s) sufs) = map Some pieces"
    by (rule split_chunk_files [where w1' = ?w1', OF assms(1) hyp(1) assms(3,4,7-10) hyp(2,3) refl files_command(1) refl
        files_remove_file [OF assms(1)]])
  obtain r where r: "value_of (publishChunks E f out) ?w2 = None"
      "protocol (after (publishChunks E f out) ?w2) = protocol ?w2 @ [resultEvent r]"
      "files (after (publishChunks E f out) ?w2) = files (after (remove_file E ?g) ?w2)"
      "compressorType r = ''gzip''" "fileSizeInBytes r = int (length z)"
      "chunks r = map2 (chunkOf E) (map (\<lambda>s. f @ ''.gz.'' @ s) sufs) pieces"
    using publishChunks_pieces [OF assms(1,6) s(7,3,8,10)] by blast
  have m: "value_of m w = None" "after m w = after (publishChunks E f out) ?w2"
    using s(1,2) r(1) assms(1,5,11)
    by (simp_all add: assms(13) publishDoWithNativeGzipAndSplit_def exists_file_def osStat_ok split_beta)
  have "protocol ?w2 = protocol w"
    by (simp add: quietD [OF quiet_command] quietD [OF quiet_runCmd] quietD [OF quiet_file_read(1)])
  moreover have "fileSizeInBytes r = sum_list (map chunkSize (chunks r))"
    using chunkOf_size [of "map (\<lambda>s. f @ ''.gz.'' @ s) sufs" pieces E] s(6,9) by (simp add: r(5,6))
  moreover have "map chunkFile (chunks r) = map (\<lambda>s. f @ ''.gz.'' @ s) sufs"
    using chunkOf_files [of "map (\<lambda>s. f @ ''.gz.'' @ s) sufs" pieces E] s(9) by (simp add: r(6))
  then have "\<forall>p \<in> set (map chunkFile (chunks r)). prefix (f @ ''.gz.'') p" by auto
  moreover have "chunks r \<noteq> []" using s(4,6,9) by (auto simp: r(6))
  moreover have "genuine E loc r (files v) \<and> value_of (clientMerge E loc r whole dst) v = None \<and>
      content (files (after (clientMerge E loc r whole dst) v)) dst = Some b"
    if "downloaded loc r (files (after m w)) (files v)" "content (files v) whole = None"
      "\<not> is_dir (files v) whole" "content (files v) dst = Some []" for v loc whole dst
    using clientMerge_chunks [OF assms(1) r(6) _ s(10) _ _ r(4) that(1) [unfolded m(2) r(3)] that(2-4)] s(4,5,6,9) by simp
  ultimately show ?thesis using m r(2) by auto
qed

text \<open>
  A client with copies of some files, under their names, and an empty file; and an environment with a \<open>gzip\<close>
  that puts a letter before its input and a \<open>split\<close> that cuts after the first byte.
\<close>

definition clientFiles :: "filesys \<Rightarrow> string list \<Rightarrow> string \<Rightarrow> filesys" where
  "clientFiles fs ps dst =
     (dst, File []) # map (\<lambda>p. (p, File (the (content fs p)))) (filter (\<lambda>p. content fs p \<noteq> None) ps)"

lemma clientFiles_ok:
  "no_links (clientFiles fs ps dst)" "content (clientFiles fs ps dst) dst = Some []"
  "p \<noteq> dst \<Longrightarrow> content (clientFiles fs ps dst) p = (if p \<in> set ps then content fs p else None)"
  "is_dir (clientFiles fs ps dst) q \<Longrightarrow> \<exists>p \<in> insert dst (set ps). beneath q p"
proof -
  show nl: "no_links (clientFiles fs ps dst)" by (auto simp: clientFiles_def no_links_def list_all_iff)
  show "content (clientFiles fs ps dst) dst = Some []"
    using nl by (simp add: content_def resolve_no_links) (simp add: clientFiles_def)
  have m: "map_of (map (\<lambda>p. (p, File (the (content fs p)))) (filter (\<lambda>p. content fs p \<noteq> None) ps)) p =
      (if p \<in> set ps \<and> content fs p \<noteq> None then Some (File (the (content fs p))) else None)" for p
    by (induction ps) auto
  have "content (clientFiles fs ps dst) p =
      (case map_of (clientFiles fs ps dst) p of Some (File c) \<Rightarrow> Some c | _ \<Rightarrow> None)"
    using nl by (simp add: content_def resolve_no_links)
  moreover have "map_of (clientFiles fs ps dst) p =
      (if p \<in> set ps \<and> content fs p \<noteq> None then Some (File (the (content fs p))) else None)" if "p \<noteq> dst"
    unfolding m [symmetric] using that by (simp add: clientFiles_def)
  ultimately show "p \<noteq> dst \<Longrightarrow> content (clientFiles fs ps dst) p = (if p \<in> set ps then content fs p else None)"
    by auto
  show "is_dir (clientFiles fs ps dst) q \<Longrightarrow> \<exists>p \<in> insert dst (set ps). beneath q p"
    using nl by (auto simp: is_dir_def resolve_no_links clientFiles_def list_ex_iff split: if_splits)
qed

lemma downloaded_clientFiles:
  assumes "chunks r \<noteq> []" "dst \<notin> set (map chunkFile (chunks r))"
  shows "downloaded id r fs (clientFiles fs (map chunkFile (chunks r)) dst)"
proof -
  have "chunkFile c \<noteq> dst" if "c \<in> set (chunks r)" for c using assms(2) that by auto
  then show ?thesis
    using assms(1) clientFiles_ok(1) clientFiles_ok(3) by (simp add: downloaded_def announced_def)
qed

theorem profile_restored_witness:
  "let w = empty_world\<lparr>files := [(''/tmp/agent-raw-1-1.txt'', File ''main;f 3'')]\<rparr>;
       w' = after (publishDo sample_env Gzip ''/tmp/agent-raw-1-1.txt'' Raw) w;
       v = empty_world\<lparr>files := clientFiles (files w') [''/tmp/agent-raw-1-1.txt.gz''] ''/c/raw''\<rparr>
   in \<exists>r. protocol w' = protocol w @ [resultEvent r] \<and> genuine sample_env id r (files v) \<and>
        content (files (after (clientDecode sample_env r ''/c/raw'' ''/tmp/agent-raw-1-1.txt.gz'') v)) ''/c/raw'' = Some ''main;f 3''"
proof -
  let ?w = "empty_world\<lparr>files := [(''/tmp/agent-raw-1-1.txt'', File ''main;f 3'')]\<rparr>"
  let ?w' = "after (publishDo sample_env Gzip ''/tmp/agent-raw-1-1.txt'' Raw) ?w"
  let ?v = "empty_world\<lparr>files := clientFiles (files ?w') [''/tmp/agent-raw-1-1.txt.gz''] ''/c/raw''\<rparr>"
  have "\<exists>r. protocol ?w' = protocol ?w @ [resultEvent r] \<and> resFile r = resultFileOf Gzip ''/tmp/agent-raw-1-1.txt'' \<and>
      chunks r = [] \<and>
      (\<forall>v loc dst. downloaded loc r (files ?w') (files v) \<and> content (files v) dst = Some [] \<and> dst \<noteq> loc (resFile r) \<longrightarrow>
         genuine sample_env loc r (files v) \<and>
         (if Gzip = NoneType then content (files v) (loc (resFile r)) = Some ''main;f 3''
          else value_of (clientDecode sample_env r dst (loc (resFile r))) v = None \<and>
               content (files (after (clientDecode sample_env r dst (loc (resFile r))) v)) dst = Some ''main;f 3''))"
    by (rule profile_restored [where alg = GzipCompressor])
      (simp_all add: codec_ok_def fullEncoding_def sample_env_def no_faults_def no_links_def content_def
        resolve_no_links is_dir_def beneath_def resultFileOf_def)
  then obtain r where r: "protocol ?w' = protocol ?w @ [resultEvent r]" "resFile r = ''/tmp/agent-raw-1-1.txt.gz''" "chunks r = []"
      "\<And>v loc dst. downloaded loc r (files ?w') (files v) \<Longrightarrow> content (files v) dst = Some [] \<Longrightarrow> dst \<noteq> loc (resFile r) \<Longrightarrow>
         genuine sample_env loc r (files v) \<and>
         content (files (after (clientDecode sample_env r dst (loc (resFile r))) v)) dst = Some ''main;f 3''"
    by (auto simp: resultFileOf_def)
  have "downloaded id r (files ?w') (files ?v)"
    using clientFiles_ok(1,3) by (simp add: downloaded_def announced_def r(2,3))
  moreover have "content (files ?v) ''/c/raw'' = Some []" using clientFiles_ok(2) by simp
  ultimately show ?thesis
    using r(1) r(4) [of id ?v "''/c/raw''"] unfolding Let_def by (intro exI [of _ r]) (simp add: r(2))
qed

definition split_env :: env where
  "split_env = sample_env\<lparr>decodeWith := \<lambda>alg z. (tl z, None),
     runProc := \<lambda>argv input w.
       \<lparr>procErr = None, procOut = [], procErrOut = [],
        procFiles = (case argv of
            [_, _, f] \<Rightarrow> store (f @ ''.gz'') (CHR ''z'' # the (content (files w) f)) (AList.delete f (files w))
          | [_, _, _, g, p] \<Rightarrow> store (p @ ''ab'') (drop 1 (the (content (files w) g)))
              (store (p @ ''aa'') (take 1 (the (content (files w) g))) (files w))
          | _ \<Rightarrow> files w), procClock = clock w\<rparr>\<rparr>"

lemma split_env_sel:
  "no_faults split_env" "\<not> is_blank split_env ''1''" "marshal split_env d = None"
proof -
  have "trim_space ''1'' = ''1''" by (simp add: trim_space_clean is_space_rune_def)
  then show "no_faults split_env" "\<not> is_blank split_env ''1''" "marshal split_env d = None"
    by (simp_all add: split_env_def sample_env_def no_faults_def)
qed

lemma gzip_split_env: "gzip_cmd_ok split_env"
  unfolding gzip_cmd_ok_def Let_def
proof (intro allI impI)
  fix f b and w :: world
  assume "no_links (files w) \<and> content (files w) f = Some b \<and> (\<forall>q. content (files w) q \<noteq> None \<longrightarrow> \<not> prefix (f @ ''.gz'') q)"
  then have a: "no_links (files w)" "content (files w) f = Some b" by simp_all
  have nl: "no_links (AList.delete f (files w))"
    using a(1) by (simp add: AList.delete_eq no_links_filter)
  have "content (AList.delete f (files w)) = (content (files w))(f := None)"
    unfolding AList.delete_eq using content_filter [OF a(1), of "\<lambda>r. f \<noteq> r"] by (auto simp: fun_eq_iff)
  then show "procErr (runProc split_env [''gzip'', ''-3'', f] [] w) = None \<and>
      no_links (procFiles (runProc split_env [''gzip'', ''-3'', f] [] w)) \<and>
      (\<exists>z. z \<noteq> [] \<and> decodeWith split_env ''gzip'' z = (b, None) \<and>
         content (procFiles (runProc split_env [''gzip'', ''-3'', f] [] w)) = (content (files w))(f := None, f @ ''.gz'' \<mapsto> z))"
    using nl a(2) by (simp add: split_env_def content_store) (rule exI [of _ "CHR ''z'' # b"], simp)
qed

lemma split_split_env: "split_cmd_ok split_env ''1''"
  unfolding split_cmd_ok_def Let_def
proof (intro allI impI)
  fix g z and w :: world
  assume "no_links (files w) \<and> content (files w) g = Some z \<and> (\<forall>q. content (files w) q \<noteq> None \<longrightarrow> \<not> prefix (g @ ''.'') q)"
  then have a: "no_links (files w)" "content (files w) g = Some z" by simp_all
  show "procErr (runProc split_env [''split'', ''-b'', ''1'', g, g @ ''.''] [] w) = None \<and>
      no_links (procFiles (runProc split_env [''split'', ''-b'', ''1'', g, g @ ''.''] [] w)) \<and>
      (\<exists>sufs pieces. length sufs = length pieces \<and> sorted_wrt (<) sufs \<and>
         (\<forall>s\<in>set sufs. s \<noteq> [] \<and> CHR ''/'' \<notin> set s) \<and> concat pieces = z \<and>
         content (procFiles (runProc split_env [''split'', ''-b'', ''1'', g, g @ ''.''] [] w)) =
           content (files w) ++ map_of (zip (map (\<lambda>s. g @ ''.'' @ s) sufs) pieces))"
    using a
    by (intro conjI exI [of _ "[''aa'', ''ab'']"] exI [of _ "[take 1 z, drop 1 z]"])
      (simp_all add: split_env_def content_store fun_eq_iff)
qed

theorem heap_dump_restored_witness:
  "let w = empty_world\<lparr>files := [(''/tmp/agent-heapdump-7-1.hprof'', File ''0123'')]\<rparr>;
       m = publishDoWithNativeGzipAndSplit split_env ''/tmp/agent-heapdump-7-1.hprof'' ''1'' HeapDump
   in value_of m w = None \<and>
      (\<exists>r. protocol (after m w) = protocol w @ [resultEvent r] \<and>
         (let v = empty_world\<lparr>files := clientFiles (files (after m w)) (map chunkFile (chunks r)) ''/c/dump''\<rparr>
          in genuine split_env id r (files v) \<and> value_of (clientMerge split_env id r ''/c/whole'' ''/c/dump'') v = None \<and>
             content (files (after (clientMerge split_env id r ''/c/whole'' ''/c/dump'') v)) ''/c/dump'' = Some ''0123''))"
proof -
  let ?f = "''/tmp/agent-heapdump-7-1.hprof''"
  let ?w = "empty_world\<lparr>files := [(?f, File ''0123'')]\<rparr>"
  let ?m = "publishDoWithNativeGzipAndSplit split_env ?f ''1'' HeapDump"
  have nl: "no_links (files ?w)" by (simp add: no_links_def)
  have cont: "content (files ?w) ?f = Some ''0123''" using nl by (simp add: content_def resolve_no_links)
  have none: "none_like (?f @ ''.gz'') (files ?w)"
    using nl by (auto simp: none_like_def content_def resolve_no_links split: if_splits)
  have "value_of ?m ?w = None \<and>
    (\<exists>r. protocol (after ?m ?w) = protocol ?w @ [resultEvent r] \<and>
       fileSizeInBytes r = sum_list (map chunkSize (chunks r)) \<and>
       chunks r \<noteq> [] \<and> (\<forall>c \<in> set (chunks r). prefix (?f @ ''.gz.'') (chunkFile c)) \<and>
       (\<forall>v loc whole dst. downloaded loc r (files (after ?m ?w)) (files v) \<and> content (files v) whole = None \<and>
            \<not> is_dir (files v) whole \<and> content (files v) dst = Some [] \<longrightarrow>
          genuine split_env loc r (files v) \<and> value_of (clientMerge split_env loc r whole dst) v = None \<and>
          content (files (after (clientMerge split_env loc r whole dst) v)) dst = Some ''0123''))"
    by (rule heap_dump_restored [where n = "''agent-heapdump-7-1.hprof''", OF split_env_sel(1) nl gzip_split_env
        split_split_env split_env_sel(2) _ _ _ _ _ cont none refl]) (simp_all add: split_env_sel plain_name_def)
  then obtain r where r: "value_of ?m ?w = None" "protocol (after ?m ?w) = protocol ?w @ [resultEvent r]"
      "chunks r \<noteq> []" "\<forall>c \<in> set (chunks r). prefix (?f @ ''.gz.'') (chunkFile c)"
      "\<And>v whole dst. downloaded id r (files (after ?m ?w)) (files v) \<Longrightarrow> content (files v) whole = None \<Longrightarrow>
          \<not> is_dir (files v) whole \<Longrightarrow> content (files v) dst = Some [] \<Longrightarrow>
          genuine split_env id r (files v) \<and> value_of (clientMerge split_env id r whole dst) v = None \<and>
          content (files (after (clientMerge split_env id r whole dst) v)) dst = Some ''0123''"
    by blast
  let ?ps = "map chunkFile (chunks r)"
  let ?v = "empty_world\<lparr>files := clientFiles (files (after ?m ?w)) ?ps ''/c/dump''\<rparr>"
  have away: "\<not> prefix ''/c/'' p" if "p \<in> set ?ps" for p using r(4) that by (auto simp: prefix_def)
  have ps: "''/c/dump'' \<notin> set ?ps" "''/c/whole'' \<notin> set ?ps" using away [of "''/c/dump''"] away [of "''/c/whole''"] by auto
  have "downloaded id r (files (after ?m ?w)) (files ?v)"
    using downloaded_clientFiles [OF r(3) ps(1)] by simp
  moreover have "content (files ?v) ''/c/whole'' = None" using clientFiles_ok(3) ps(2) by simp
  moreover have "\<not> is_dir (files ?v) ''/c/whole''"
    using clientFiles_ok(4) [of "files (after ?m ?w)" ?ps "''/c/dump''" "''/c/whole''"] away
    by (auto simp: beneath_def prefix_def)
  moreover have "content (files ?v) ''/c/dump'' = Some []" using clientFiles_ok(2) by simp
  ultimately show ?thesis using r(1,2) r(5) [of ?v] unfolding Let_def by blast
qed

end
