(* ===== verification/Interleave.thy ===== *)
theory Interleave
  imports PidProfiler "HOL-Library.Multiset"
begin

text \<open>
  \<open>ProfilePIDs\<close> of internal/agent/profiler/common/pids.go once more, with the bodies cut into the calls they
  make: a body is a thread, a sequence of actions on the world, and between any two of them every other
  body and the main goroutine may move. A thread that is \<open>isolated\<close>
  keeps to files of its own, and what a run of such threads ends in does not depend on who moves when. The
  bodies of the profilers are cut in \<open>Concurrent\<close>.
\<close>

section \<open>Threads\<close>

datatype 'a thread = Done 'a | Act "world \<Rightarrow> 'a thread \<times> world"

text \<open>A call, after which the thread goes on with the value; and one that returns an error, if any, to
  the caller.\<close>

definition calling :: "'b io \<Rightarrow> ('b \<Rightarrow> 'a thread) \<Rightarrow> 'a thread" where
  "calling m k = Act (\<lambda>w. (k (value_of m w), after m w))"

definition trying :: "error option io \<Rightarrow> (error \<Rightarrow> error) \<Rightarrow> error option thread \<Rightarrow> error option thread" where
  "trying m wrap k = calling m (\<lambda>r. case r of Some e \<Rightarrow> Done (Some (wrap e)) | None \<Rightarrow> k)"

primrec alone :: "'a thread \<Rightarrow> world \<Rightarrow> 'a \<times> world" where
  "alone (Done r) = (\<lambda>w. (r, w))"
| "alone (Act f) = (\<lambda>w. case map_prod alone id (f w) of (g, w') \<Rightarrow> g w')"

fun move :: "'a thread \<Rightarrow> world \<Rightarrow> 'a thread \<times> world" where
  "move (Done r) w = (Done r, w)"
| "move (Act f) w = f w"

lemma alone_calling [simp]: "alone (calling m k) w = alone (k (value_of m w)) (after m w)"
  by (simp add: calling_def)

lemma alone_trying [simp]:
  "alone (trying m wrap k) w =
     (case value_of m w of Some e \<Rightarrow> (Some (wrap e), after m w) | None \<Rightarrow> alone k (after m w))"
  by (simp add: trying_def split: option.split)

section \<open>The publisher as a thread\<close>

definition publishThread :: "env \<Rightarrow> CompressorType \<Rightarrow> string \<Rightarrow> OutputType \<Rightarrow> error option thread" where
  "publishThread E c filePath eventType =
     trying (fromSum (osOpen E filePath)) id
       (trying
          (if c \<noteq> NoneType then fromSum (osCreate E (resultFileOf c filePath))
           else fromSum (osOpen E (resultFileOf c filePath)))
          (Wrap ((if c \<noteq> NoneType then ''could not create result file '' else ''could not open file '') @
             resultFileOf c filePath))
          (case compressorGet c of
             Inl e \<Rightarrow> Done (Some e)
           | Inr alg \<Rightarrow>
               trying
                 (if c \<noteq> NoneType then compEncode alg E (resultFileOf c filePath) filePath
                  else State_Monad.return None)
                 (Wrap (''could not compress file '' @ resultFileOf c filePath))
                 (calling now (\<lambda>t.
                  calling (file_size E (resultFileOf c filePath)) (\<lambda>size.
                  calling (checksum_file E (resultFileOf c filePath)) (\<lambda>md5.
                  calling (eventLn E Result (ResultData
                         \<lparr>resTime = t, resultType = eventType, resFile = resultFileOf c filePath,
                          fileSizeInBytes = size, checksum = md5, compressorType = compressor_string c,
                          chunks = []\<rparr>)) Done))))))"

lemma alone_publishThread: "alone (publishThread E c f out) w = run_state (publishDo E c f out) w"
proof -
  have "alone (publishThread E c f out) w = (value_of (publishDo E c f out) w, after (publishDo E c f out) w)"
    unfolding publishThread_def publishDo_def
    by (cases "c = NoneType") (simp_all split: option.split sum.split)
  then show ?thesis by (simp add: run_state_value_after)
qed

section \<open>The run\<close>

text \<open>Whose turn it is: the main goroutine starts the next thread, after the delay, or the thread of a number
  makes its next call, if it has been started and not ended.\<close>

datatype turn = Main | Body nat

type_synonym running = "nat \<times> error option thread list"

definition itStep :: "env \<Rightarrow> int \<Rightarrow> turn \<Rightarrow> running \<Rightarrow> running io" where
  "itStep E delay a st =
     (case a of
        Main \<Rightarrow>
          if fst st < length (snd st)
          then do { (if 0 < fst st then sleep E delay else State_Monad.return ());
                    State_Monad.return (Suc (fst st), snd st) }
          else State_Monad.return st
      | Body i \<Rightarrow>
          if i < fst st
          then State (\<lambda>w. case move (snd st ! i) w of (t, w') \<Rightarrow> ((fst st, (snd st)[i := t]), w'))
          else State_Monad.return st)"

fun itRun :: "env \<Rightarrow> int \<Rightarrow> turn list \<Rightarrow> running \<Rightarrow> running io" where
  "itRun E delay [] st = State_Monad.return st"
| "itRun E delay (a # as) st = do { st' \<leftarrow> itStep E delay a st; itRun E delay as st' }"

text \<open>\<open>wg.Wait\<close>, when nobody else moves any more.\<close>

fun itWait :: "error option thread list \<Rightarrow> error option list io" where
  "itWait [] = State_Monad.return []"
| "itWait (t # ts) = do { r \<leftarrow> State (alone t); rs \<leftarrow> itWait ts; State_Monad.return (r # rs) }"

text \<open>Any turns, and then the threads that have not been started are, and all are waited for: a run in which
  everything happens in \<open>turns\<close> already is one of these.\<close>

definition profileThreads ::
  "env \<Rightarrow> turn list \<Rightarrow> string list \<Rightarrow> int \<Rightarrow> (string \<Rightarrow> error option thread) \<Rightarrow> error option io" where
  "profileThreads E turns pids delay profile =
     (if length pids = 0 then State_Monad.return (Some (Errorf ''no PIDs to profile''))
      else do {
        st \<leftarrow> itRun E delay (turns @ replicate (length pids) Main) (0, map profile pids);
        errs \<leftarrow> itWait (snd st);
        pidsVerdict E pids errs })"

section \<open>Threads that keep to their files\<close>

text \<open>
  \<open>isolated R Q h ds t\<close>: the thread \<open>t\<close> relies on nothing but the content \<open>h\<close> of the files in \<open>R\<close>, writes no
  other file, and when it ends \<open>Q\<close> holds of its value, of the results it has printed, \<open>ds\<close> so far, and of
  the files in \<open>R\<close>.
\<close>

inductive isolated ::
  "(string \<Rightarrow> bool) \<Rightarrow> ('a \<Rightarrow> ResultData list \<Rightarrow> (string \<rightharpoonup> string) \<Rightarrow> bool) \<Rightarrow>
   (string \<rightharpoonup> string) \<Rightarrow> ResultData list \<Rightarrow> 'a thread \<Rightarrow> bool" for R Q where
  isolated_Done: "Q r ds h \<Longrightarrow> isolated R Q h ds (Done r)"
| isolated_Act: "(\<And>w. no_links (files w) \<Longrightarrow> (\<forall>q. R q \<longrightarrow> content (files w) q = h q) \<Longrightarrow>
      no_links (files (snd (f w))) \<and>
      (\<forall>q. \<not> R q \<longrightarrow> content (files (snd (f w))) q = content (files w) q) \<and>
      (\<exists>ds'. protocol (snd (f w)) = protocol w @ map resultEvent ds' \<and>
         isolated R Q (content (files (snd (f w)))) (ds @ ds') (fst (f w)))) \<Longrightarrow>
    isolated R Q h ds (Act f)"

inductive_cases isolated_DoneE: "isolated R Q h ds (Done r)"
inductive_cases isolated_ActE: "isolated R Q h ds (Act f)"

definition local_in :: "(string \<Rightarrow> bool) \<Rightarrow> ('a \<Rightarrow> ResultData list \<Rightarrow> (string \<rightharpoonup> string) \<Rightarrow> bool) \<Rightarrow> bool" where
  "local_in R Q \<longleftrightarrow> (\<forall>r ds h h'. (\<forall>q. R q \<longrightarrow> h q = h' q) \<longrightarrow> Q r ds h \<longrightarrow> Q r ds h')"

lemma local_inD: "local_in R Q \<Longrightarrow> Q r ds h \<Longrightarrow> \<forall>q. R q \<longrightarrow> h q = h' q \<Longrightarrow> Q r ds h'"
  unfolding local_in_def by blast

lemma isolated_cong:
  assumes "local_in R Q" "isolated R Q h ds t" "\<forall>q. R q \<longrightarrow> h q = h' q"
  shows "isolated R Q h' ds t"
  using assms(2)
proof cases
  case (isolated_Done r)
  then show ?thesis
    using local_inD [OF assms(1) _ assms(3)] by (auto intro: isolated.isolated_Done)
next
  case (isolated_Act f)
  show ?thesis
    unfolding isolated_Act(1)
    by (rule isolated.isolated_Act, rule isolated_Act(2)) (use assms(3) in auto)
qed

lemma isolated_move:
  assumes "isolated R Q (content (files w)) ds t" "no_links (files w)"
  shows "no_links (files (snd (move t w))) \<and>
    (\<forall>q. \<not> R q \<longrightarrow> content (files (snd (move t w))) q = content (files w) q) \<and>
    (\<exists>ds'. protocol (snd (move t w)) = protocol w @ map resultEvent ds' \<and>
       isolated R Q (content (files (snd (move t w)))) (ds @ ds') (fst (move t w)))"
  using assms(1)
proof cases
  case (isolated_Done r)
  then show ?thesis
    using assms(2) by (auto intro: exI [of _ "[]"] isolated.isolated_Done)
next
  case (isolated_Act f)
  then show ?thesis using assms(2) by simp
qed

lemma isolated_alone:
  "isolated R Q h ds t \<Longrightarrow> no_links (files w) \<Longrightarrow> \<forall>q. R q \<longrightarrow> content (files w) q = h q \<Longrightarrow> local_in R Q \<Longrightarrow>
    no_links (files (snd (alone t w))) \<and>
    (\<forall>q. \<not> R q \<longrightarrow> content (files (snd (alone t w))) q = content (files w) q) \<and>
    (\<exists>ds'. protocol (snd (alone t w)) = protocol w @ map resultEvent ds' \<and>
       Q (fst (alone t w)) (ds @ ds') (content (files (snd (alone t w)))))"
proof (induction arbitrary: w rule: isolated.induct)
  case (isolated_Done r ds h)
  then have "Q r ds (content (files w))" using local_inD [of R Q r ds h "content (files w)"] by simp
  then show ?case using isolated_Done.prems(1) by (auto intro!: exI [of _ "[]"])
next
  case (isolated_Act h f ds)
  obtain t w1 where f: "f w = (t, w1)" by fastforce
  from isolated_Act.IH [OF isolated_Act.prems(1,2)] obtain ds1 where
    one: "no_links (files w1)" "\<forall>q. \<not> R q \<longrightarrow> content (files w1) q = content (files w) q"
      "protocol w1 = protocol w @ map resultEvent ds1"
    and rest: "\<And>w'. no_links (files w') \<Longrightarrow> \<forall>q. R q \<longrightarrow> content (files w') q = content (files w1) q \<Longrightarrow>
      local_in R Q \<Longrightarrow> no_links (files (snd (alone t w'))) \<and>
        (\<forall>q. \<not> R q \<longrightarrow> content (files (snd (alone t w'))) q = content (files w') q) \<and>
        (\<exists>ds'. protocol (snd (alone t w')) = protocol w' @ map resultEvent ds' \<and>
           Q (fst (alone t w')) ((ds @ ds1) @ ds') (content (files (snd (alone t w')))))"
    unfolding f fst_conv snd_conv by blast
  obtain ds2 where two: "no_links (files (snd (alone t w1)))"
      "\<forall>q. \<not> R q \<longrightarrow> content (files (snd (alone t w1))) q = content (files w1) q"
      "protocol (snd (alone t w1)) = protocol w1 @ map resultEvent ds2"
      "Q (fst (alone t w1)) ((ds @ ds1) @ ds2) (content (files (snd (alone t w1))))"
    using rest [OF one(1) _ isolated_Act.prems(3)] by blast
  have "alone (Act f) w = alone t w1" by (simp add: f)
  then show ?case
    using one(2,3) two by (auto intro!: exI [of _ "ds1 @ ds2"])
qed

section \<open>What holds whoever moves\<close>

type_synonym part = "(string \<Rightarrow> bool) \<times> (error option \<Rightarrow> ResultData list \<Rightarrow> (string \<rightharpoonup> string) \<Rightarrow> bool)"

text \<open>The parts of the threads: local, disjoint, and nobody else writes to them while the main goroutine sleeps.\<close>

definition apart :: "env \<Rightarrow> part list \<Rightarrow> bool" where
  "apart E parts \<longleftrightarrow>
     (\<forall>(R, Q) \<in> set parts. local_in R Q) \<and>
     (\<forall>i < length parts. \<forall>j < length parts. i \<noteq> j \<longrightarrow> (\<forall>q. fst (parts ! i) q \<longrightarrow> \<not> fst (parts ! j) q)) \<and>
     (\<forall>d w. no_links (files w) \<longrightarrow> no_links (meanwhile E d w) \<and>
        (\<forall>(R, Q) \<in> set parts. \<forall>q. R q \<longrightarrow> content (meanwhile E d w) q = content (files w) q))"

definition itInv :: "part list \<Rightarrow> printed list \<Rightarrow> error option thread list \<Rightarrow> world \<Rightarrow> bool" where
  "itInv parts p0 ts w \<longleftrightarrow>
     no_links (files w) \<and> length ts = length parts \<and>
     (\<exists>dss ds. length dss = length parts \<and> protocol w = p0 @ map resultEvent ds \<and> mset ds = mset (concat dss) \<and>
        (\<forall>i < length parts. isolated (fst (parts ! i)) (snd (parts ! i)) (content (files w)) (dss ! i) (ts ! i)))"

lemma mset_concat_update:
  "i < length xss \<Longrightarrow> mset (concat (xss[i := xss ! i @ ys])) = mset (concat xss) + mset ys"
proof (induction xss arbitrary: i)
  case (Cons xs xss)
  then show ?case by (cases i) auto
qed simp

lemma apartD:
  assumes "apart E parts" "i < length parts"
  shows "local_in (fst (parts ! i)) (snd (parts ! i))"
    and "j < length parts \<Longrightarrow> i \<noteq> j \<Longrightarrow> fst (parts ! i) q \<Longrightarrow> \<not> fst (parts ! j) q"
    and "no_links (files w) \<Longrightarrow> fst (parts ! i) q \<Longrightarrow> content (meanwhile E d w) q = content (files w) q"
    and "no_links (files w) \<Longrightarrow> no_links (meanwhile E d w)"
  using assms nth_mem [OF assms(2)] unfolding apart_def by (fastforce simp: split_beta)+

text \<open>One thread advances, in its own files.\<close>

lemma itInv_advance:
  assumes inv: "itInv parts p0 ts w" and ap: "apart E parts" and i: "i < length parts"
    and adv: "\<And>ds. isolated (fst (parts ! i)) (snd (parts ! i)) (content (files w)) ds (ts ! i) \<Longrightarrow>
      no_links (files w') \<and>
      (\<forall>q. \<not> fst (parts ! i) q \<longrightarrow> content (files w') q = content (files w) q) \<and>
      (\<exists>ds'. protocol w' = protocol w @ map resultEvent ds' \<and>
         isolated (fst (parts ! i)) (snd (parts ! i)) (content (files w')) (ds @ ds') t')"
  shows "itInv parts p0 (ts[i := t']) w'"
proof -
  from inv obtain dss ds where d: "length ts = length parts" "length dss = length parts"
      "protocol w = p0 @ map resultEvent ds" "mset ds = mset (concat dss)"
    and iso: "\<And>j. j < length parts \<Longrightarrow>
      isolated (fst (parts ! j)) (snd (parts ! j)) (content (files w)) (dss ! j) (ts ! j)"
    unfolding itInv_def by blast
  from adv [OF iso [OF i]] obtain ds' where w': "no_links (files w')"
      "\<forall>q. \<not> fst (parts ! i) q \<longrightarrow> content (files w') q = content (files w) q"
      "protocol w' = protocol w @ map resultEvent ds'"
      "isolated (fst (parts ! i)) (snd (parts ! i)) (content (files w')) (dss ! i @ ds') t'"
    by blast
  have "isolated (fst (parts ! j)) (snd (parts ! j)) (content (files w'))
      (dss[i := dss ! i @ ds'] ! j) (ts[i := t'] ! j)" if j: "j < length parts" for j
  proof (cases "j = i")
    case True
    then show ?thesis using w'(4) i d by simp
  next
    case False
    have "isolated (fst (parts ! j)) (snd (parts ! j)) (content (files w')) (dss ! j) (ts ! j)"
      by (rule isolated_cong [OF apartD(1) [OF ap j] iso [OF j]])
        (use w'(2) apartD(2) [OF ap j i False] in simp)
    then show ?thesis using False by simp
  qed
  then show ?thesis
    using w'(1,3) d i unfolding itInv_def
    by (intro conjI exI [of _ "dss[i := dss ! i @ ds']"] exI [of _ "ds @ ds'"]) (simp_all add: mset_concat_update)
qed

lemma itInv_sleep:
  assumes "itInv parts p0 ts w" "apart E parts"
  shows "itInv parts p0 ts (after (sleep E d) w)"
proof -
  let ?w = "after (sleep E d) w"
  have nl: "no_links (files w)" using assms(1) by (simp add: itInv_def)
  from assms(1) obtain dss ds where d: "length ts = length parts" "length dss = length parts"
      "protocol w = p0 @ map resultEvent ds" "mset ds = mset (concat dss)"
    and iso: "\<And>j. j < length parts \<Longrightarrow>
      isolated (fst (parts ! j)) (snd (parts ! j)) (content (files w)) (dss ! j) (ts ! j)"
    unfolding itInv_def by blast
  have files: "files ?w = meanwhile E d w" by (simp add: sleep_def)
  have "no_links (meanwhile E d w)" using assms(2) nl by (simp add: apart_def)
  moreover have "isolated (fst (parts ! j)) (snd (parts ! j)) (content (files ?w)) (dss ! j) (ts ! j)"
    if "j < length parts" for j
    by (rule isolated_cong [OF apartD(1) [OF assms(2) that] iso [OF that]])
      (simp add: files apartD(3) [OF assms(2) that nl])
  ultimately show ?thesis
    using d quietD [OF quiet_sleep] files unfolding itInv_def by (intro conjI exI [of _ dss] exI [of _ ds]) simp_all
qed

lemma itStep_inv:
  assumes "apart E parts" "itInv parts p0 (snd st) w" "fst st \<le> length (snd st)"
  shows "itInv parts p0 (snd (value_of (itStep E d a st) w)) (after (itStep E d a st) w) \<and>
    fst (value_of (itStep E d a st) w) \<le> length (snd (value_of (itStep E d a st) w))"
proof (cases a)
  case Main
  then show ?thesis
    using assms(2,3) itInv_sleep [OF assms(2,1)] by (auto simp: itStep_def)
next
  case (Body i)
  show ?thesis
  proof (cases "i < fst st")
    case True
    then have i: "i < length parts" using assms(2,3) by (simp add: itInv_def)
    have nl: "no_links (files w)" using assms(2) by (simp add: itInv_def)
    have "itInv parts p0 ((snd st)[i := fst (move (snd st ! i) w)]) (snd (move (snd st ! i) w))"
      by (rule itInv_advance [OF assms(2,1) i]) (rule isolated_move [OF _ nl])
    with True Body assms(3) show ?thesis by (simp add: itStep_def split_beta)
  next
    case False
    with Body assms(2,3) show ?thesis by (simp add: itStep_def)
  qed
qed

lemma itRun_inv:
  "apart E parts \<Longrightarrow> itInv parts p0 (snd st) w \<Longrightarrow> fst st \<le> length (snd st) \<Longrightarrow>
    itInv parts p0 (snd (value_of (itRun E d as st) w)) (after (itRun E d as st) w)"
proof (induction as arbitrary: st w)
  case (Cons a as)
  show ?case
    using Cons.IH [OF Cons.prems(1), of "value_of (itStep E d a st) w" "after (itStep E d a st) w"]
      itStep_inv [OF Cons.prems, of d a] by simp
qed simp

text \<open>The threads that have ended, and those that are still waited for.\<close>

lemma itWait_inv:
  "apart E parts \<Longrightarrow> itInv parts p0 (map Done rs @ ts) w \<Longrightarrow>
    length (value_of (itWait ts) w) = length ts \<and>
    itInv parts p0 (map Done (rs @ value_of (itWait ts) w)) (after (itWait ts) w)"
proof (induction ts arbitrary: rs w)
  case (Cons t ts)
  let ?r = "fst (alone t w)" and ?w = "snd (alone t w)"
  have i: "length rs < length parts" and nl: "no_links (files w)" using Cons.prems(2) by (simp_all add: itInv_def)
  have "itInv parts p0 ((map Done rs @ t # ts)[length rs := Done ?r]) ?w"
  proof (rule itInv_advance [OF Cons.prems(2,1) i])
    fix ds
    assume "isolated (fst (parts ! length rs)) (snd (parts ! length rs)) (content (files w)) ds
      ((map Done rs @ t # ts) ! length rs)"
    then have "isolated (fst (parts ! length rs)) (snd (parts ! length rs)) (content (files w)) ds t"
      by (simp add: nth_append)
    from isolated_alone [OF this nl _ apartD(1) [OF Cons.prems(1) i]]
    show "no_links (files ?w) \<and>
      (\<forall>q. \<not> fst (parts ! length rs) q \<longrightarrow> content (files ?w) q = content (files w) q) \<and>
      (\<exists>ds'. protocol ?w = protocol w @ map resultEvent ds' \<and>
         isolated (fst (parts ! length rs)) (snd (parts ! length rs)) (content (files ?w)) (ds @ ds') (Done ?r))"
      by (auto intro: isolated.isolated_Done)
  qed
  then have "itInv parts p0 (map Done (rs @ [?r]) @ ts) ?w" by (simp add: list_update_append)
  from Cons.IH [OF Cons.prems(1) this] show ?case by simp
qed simp

lemma files_pidsVerdict [simp]: "files (after (pidsVerdict E pids errs) w) = files w"
  by (simp add: pidsVerdict_def Let_def)

text \<open>
  What a run of isolated threads ends in, whoever moves when: every thread has its own outcome, and what
  has been printed are the results of them all.
\<close>

lemma profileThreads_isolated:
  assumes "pids \<noteq> []" "length parts = length pids" "apart E parts" "no_links (files w)"
    and "\<And>i. i < length pids \<Longrightarrow>
      isolated (fst (parts ! i)) (snd (parts ! i)) (content (files w)) [] (profile (pids ! i))"
    and w': "w' = after (profileThreads E turns pids d profile) w"
  shows "\<exists>errs dss ds. length errs = length pids \<and> length dss = length pids \<and>
    protocol w' = protocol w @ map resultEvent ds \<and> mset ds = mset (concat dss) \<and>
    (\<forall>i < length pids. snd (parts ! i) (errs ! i) (dss ! i) (content (files w'))) \<and>
    value_of (profileThreads E turns pids d profile) w =
       (if panic_of errs \<noteq> None then panic_of errs
        else if None \<in> set errs then None else Some (PidErrors (zip pids (map the errs))))"
proof -
  let ?run = "itRun E d (turns @ replicate (length pids) Main) (0, map profile pids)"
  let ?st = "value_of ?run w" and ?w1 = "after ?run w"
  let ?errs = "value_of (itWait (snd ?st)) ?w1" and ?w2 = "after (itWait (snd ?st)) ?w1"
  have "itInv parts (protocol w) (map profile pids) w"
    unfolding itInv_def using assms(2,4,5)
    by (intro conjI exI [of _ "replicate (length pids) []"] exI [of _ "[]"]) simp_all
  then have "itInv parts (protocol w) (map Done [] @ snd ?st) ?w1"
    using itRun_inv [OF assms(3), of "protocol w" "(0, map profile pids)" w] by simp
  from itWait_inv [OF assms(3) this]
  have inv: "itInv parts (protocol w) (map Done ?errs) ?w2" by simp
  then obtain dss ds where d: "length ?errs = length pids" "length dss = length pids"
      "protocol ?w2 = protocol w @ map resultEvent ds" "mset ds = mset (concat dss)"
    and iso: "\<And>i. i < length pids \<Longrightarrow>
      isolated (fst (parts ! i)) (snd (parts ! i)) (content (files ?w2)) (dss ! i) (map Done ?errs ! i)"
    unfolding itInv_def assms(2) by auto
  have "snd (parts ! i) (?errs ! i) (dss ! i) (content (files ?w2))" if "i < length pids" for i
    using iso [OF that] that d(1) by (auto elim: isolated_DoneE)
  moreover have "w' = after (pidsVerdict E pids ?errs) ?w2"
    using assms(1) by (simp add: w' profileThreads_def)
  ultimately show ?thesis
    using d assms(1) pidsVerdict_value [OF d(1) [symmetric] assms(1)] quietD [OF quiet_pidsVerdict]
    by (intro exI [of _ ?errs] exI [of _ dss] exI [of _ ds]) (simp add: profileThreads_def)
qed

section \<open>The calls of a thread\<close>

lemma isolated_calling:
  assumes "\<And>w. no_links (files w) \<Longrightarrow> \<forall>q. R q \<longrightarrow> content (files w) q = h q \<Longrightarrow>
      no_links (files (after m w)) \<and>
      (\<forall>q. \<not> R q \<longrightarrow> content (files (after m w)) q = content (files w) q) \<and>
      (\<exists>ds' h'. protocol (after m w) = protocol w @ map resultEvent ds' \<and>
         (\<forall>q. R q \<longrightarrow> content (files (after m w)) q = h' q) \<and> isolated R Q h' (ds @ ds') (k (value_of m w)))"
    and "local_in R Q"
  shows "isolated R Q h ds (calling m k)"
  unfolding calling_def
proof (rule isolated_Act)
  fix w :: world
  assume w: "no_links (files w)" "\<forall>q. R q \<longrightarrow> content (files w) q = h q"
  from assms(1) [OF this] obtain ds' h' where m: "no_links (files (after m w))"
      "\<forall>q. \<not> R q \<longrightarrow> content (files (after m w)) q = content (files w) q"
      "protocol (after m w) = protocol w @ map resultEvent ds'"
      "\<forall>q. R q \<longrightarrow> content (files (after m w)) q = h' q" "isolated R Q h' (ds @ ds') (k (value_of m w))"
    by blast
  have "isolated R Q (content (files (after m w))) (ds @ ds') (k (value_of m w))"
    by (rule isolated_cong [OF assms(2) m(5)]) (use m(4) in simp)
  then show "no_links (files (snd (k (value_of m w), after m w))) \<and>
      (\<forall>q. \<not> R q \<longrightarrow> content (files (snd (k (value_of m w), after m w))) q = content (files w) q) \<and>
      (\<exists>ds'. protocol (snd (k (value_of m w), after m w)) = protocol w @ map resultEvent ds' \<and>
         isolated R Q (content (files (snd (k (value_of m w), after m w)))) (ds @ ds') (fst (k (value_of m w), after m w)))"
    using m(1-3) by auto
qed

text \<open>A call that only looks, and one that writes.\<close>

lemma isolated_reading:
  assumes "local_in R Q" "quiet m" "\<And>w. files (after m w) = files w"
    and "\<And>w. no_links (files w) \<Longrightarrow> \<forall>q. R q \<longrightarrow> content (files w) q = h q \<Longrightarrow>
      isolated R Q h ds (k (value_of m w))"
  shows "isolated R Q h ds (calling m k)"
  by (rule isolated_calling [OF _ assms(1)])
    (use assms(4) in \<open>auto simp: assms(3) quietD [OF assms(2)] intro!: exI [of _ "[]"] exI [of _ h]\<close>)

lemma isolated_writing:
  assumes "local_in R Q" "quiet m"
    and "\<And>w. no_links (files w) \<Longrightarrow> \<forall>q. R q \<longrightarrow> content (files w) q = h q \<Longrightarrow>
      no_links (files (after m w)) \<and> content (files (after m w)) = (content (files w))(p := x w) \<and>
      isolated R Q (h(p := x w)) ds (k (value_of m w))"
    and "R p"
  shows "isolated R Q h ds (calling m k)"
proof (rule isolated_calling [OF _ assms(1)])
  fix w :: world
  assume w: "no_links (files w)" "\<forall>q. R q \<longrightarrow> content (files w) q = h q"
  from assms(3) [OF this] w(2) assms(4)
  show "no_links (files (after m w)) \<and>
      (\<forall>q. \<not> R q \<longrightarrow> content (files (after m w)) q = content (files w) q) \<and>
      (\<exists>ds' h'. protocol (after m w) = protocol w @ map resultEvent ds' \<and>
         (\<forall>q. R q \<longrightarrow> content (files (after m w)) q = h' q) \<and> isolated R Q h' (ds @ ds') (k (value_of m w)))"
    by (auto simp: quietD [OF assms(2)] intro!: exI [of _ "[]"] exI [of _ "h(p := x w)"])
qed

lemma isolated_opening:
  assumes "local_in R Q" "no_faults E" "R p" "h p = Some c" "isolated R Q h ds k"
  shows "isolated R Q h ds (trying (fromSum (osOpen E p)) wrap k)"
  unfolding trying_def
proof (rule isolated_reading [OF assms(1)])
  fix w :: world
  assume w: "\<forall>q. R q \<longrightarrow> content (files w) q = h q"
  then have "content (files w) p = Some c" using assms(3,4) by simp
  then show "isolated R Q h ds
      (case value_of (fromSum (osOpen E p)) w of Some e \<Rightarrow> Done (Some (wrap e)) | None \<Rightarrow> k)"
    using assms(5) by (simp add: osOpen_ok(2) [OF assms(2)])
qed (simp_all add: quiet_fromSum quiet_os osOpen_ok)

lemma isolated_returning:
  assumes "local_in R Q" "isolated R Q h ds k"
  shows "isolated R Q h ds (trying (State_Monad.return None) wrap k)"
  unfolding trying_def
  by (rule isolated_reading [OF assms(1) quiet_return]) (simp_all add: assms(2))

text \<open>The last calls of the publisher: what the result says is what is in the file.\<close>

lemma isolated_describing:
  assumes "local_in R Q" "no_faults E" "\<forall>d. marshal E d = None" "R p" "h p = Some c"
    and "\<And>t. Q None (ds @ [\<lparr>resTime = t, resultType = out, resFile = p, fileSizeInBytes = int (length c),
        checksum = hex_encode (md5Sum E c), compressorType = z, chunks = []\<rparr>]) h"
  shows "isolated R Q h ds
    (calling now (\<lambda>t. calling (file_size E p) (\<lambda>size. calling (checksum_file E p) (\<lambda>md5.
     calling (eventLn E Result (ResultData \<lparr>resTime = t, resultType = out, resFile = p, fileSizeInBytes = size,
       checksum = md5, compressorType = z, chunks = []\<rparr>)) Done))))"
proof (rule isolated_reading [OF assms(1)], unfold files_read, (rule quiet_rules refl)+)
  fix w :: world
  let ?t = "value_of now w"
  let ?r = "\<lparr>resTime = ?t, resultType = out, resFile = p, fileSizeInBytes = int (length c),
        checksum = hex_encode (md5Sum E c), compressorType = z, chunks = []\<rparr>"
  have print: "isolated R Q h ds (calling (eventLn E Result (ResultData ?r)) Done)"
    using assms(3,6)
    by (intro isolated_calling [OF _ assms(1)])
      (auto simp: after_eventLn isPrintLogsAllowed_def intro!: exI [of _ "[?r]"] exI [of _ h] isolated_Done)
  have there: "content (files v) p = Some c" if "\<forall>q. R q \<longrightarrow> content (files v) q = h q" for v
    using that assms(4,5) by simp
  show "isolated R Q h ds
    (calling (file_size E p) (\<lambda>size. calling (checksum_file E p) (\<lambda>md5.
     calling (eventLn E Result (ResultData \<lparr>resTime = ?t, resultType = out, resFile = p, fileSizeInBytes = size,
       checksum = md5, compressorType = z, chunks = []\<rparr>)) Done)))"
  proof (rule isolated_reading [OF assms(1)], unfold files_read, (rule quiet_rules refl)+)
    fix v :: world
    assume v: "\<forall>q. R q \<longrightarrow> content (files v) q = h q"
    show "isolated R Q h ds (calling (checksum_file E p) (\<lambda>md5.
       calling (eventLn E Result (ResultData \<lparr>resTime = ?t, resultType = out, resFile = p,
         fileSizeInBytes = value_of (file_size E p) v, checksum = md5, compressorType = z, chunks = []\<rparr>)) Done))"
      unfolding file_size_ok(1) [OF assms(2) there [OF v]]
      by (rule isolated_reading [OF assms(1)])
        (simp_all add: quiet_rules checksum_file_ok(1) [OF assms(2) there] print)
  qed
qed

lemma isolated_creating:
  assumes "local_in R Q" "no_faults E" "\<And>q. beneath p q \<Longrightarrow> R q \<and> h q = None" "R p"
    and "isolated R Q (h(p \<mapsto> [])) ds k"
  shows "isolated R Q h ds (trying (fromSum (osCreate E p)) wrap k)"
  unfolding trying_def
proof (rule isolated_writing [OF assms(1) _ _ assms(4)], (rule quiet_rules)+)
  fix w :: world
  assume w: "no_links (files w)" "\<forall>q. R q \<longrightarrow> content (files w) q = h q"
  then have "\<not> is_dir (files w) p" using assms(3) by (auto simp: is_dir_content)
  with w(1) show "no_links (files (after (fromSum (osCreate E p)) w)) \<and>
      content (files (after (fromSum (osCreate E p)) w)) = (content (files w))(p \<mapsto> []) \<and>
      isolated R Q (h(p \<mapsto> [])) ds
        (case value_of (fromSum (osCreate E p)) w of Some e \<Rightarrow> Done (Some (wrap e)) | None \<Rightarrow> k)"
    using assms(2,5) by (simp add: osCreate_ok content_store)
qed

lemma isolated_encoding:
  assumes "local_in R Q" "no_faults E" "compressorGet c = Inr alg" "c \<noteq> NoneType" "codec_ok (compressor_string c) E"
    and "R f" "h f = Some b" "R p" "h p = Some []" "f \<noteq> p"
    and "isolated R Q (h(p \<mapsto> fullEncoding (compressor_string c) E b)) ds k"
  shows "isolated R Q h ds (trying (compEncode alg E p f) wrap k)"
  unfolding trying_def
proof (rule isolated_writing [OF assms(1) quiet_encode _ assms(8)])
  fix w :: world
  assume w: "no_links (files w)" "\<forall>q. R q \<longrightarrow> content (files w) q = h q"
  have there: "content (files w) f = Some b" "content (files w) p = Some []"
    using w(2) assms(6-9) by simp_all
  show "no_links (files (after (compEncode alg E p f) w)) \<and>
      content (files (after (compEncode alg E p f) w)) = (content (files w))(p \<mapsto> fullEncoding (compressor_string c) E b) \<and>
      isolated R Q (h(p \<mapsto> fullEncoding (compressor_string c) E b)) ds
        (case value_of (compEncode alg E p f) w of Some e \<Rightarrow> Done (Some (wrap e)) | None \<Rightarrow> k)"
    using compressorGet_encode [OF assms(3,4,5,2) w(1) assms(10) there] assms(11) by simp
qed

lemma isolated_publishThread:
  assumes "local_in R Q" "no_faults E" "\<forall>d. marshal E d = None" "compressorGet c = Inr alg"
    and codec: "c \<noteq> NoneType \<longrightarrow> codec_ok (compressor_string c) E"
    and f: "R f" "h f = Some b" and r: "R (resultFileOf c f)" "\<And>q. beneath (resultFileOf c f) q \<Longrightarrow> R q \<and> h q = None"
    and Q: "\<And>d. describes E c out (resultFileOf c f) (resultBytes E c b) d \<Longrightarrow>
      Q None (ds @ [d]) (h(resultFileOf c f \<mapsto> resultBytes E c b))"
  shows "isolated R Q h ds (publishThread E c f out)"
proof (cases "c = NoneType")
  case True
  then have same: "resultFileOf c f = f" "resultBytes E c b = b" by (simp_all add: resultFileOf_def resultBytes_def)
  have "h(f \<mapsto> b) = h" using f(2) by (simp add: fun_upd_idem)
  note q = Q [unfolded same this]
  show ?thesis
    unfolding publishThread_def same assms(4) sum.case
    by (rule isolated_opening [where R = R and Q = Q and p = f and h = h, OF assms(1,2) f],
        simp only: True not_True_eq_False simp_thms if_False,
        rule isolated_opening [where R = R and Q = Q and p = f and h = h, OF assms(1,2) f],
        rule isolated_returning [OF assms(1)],
        rule isolated_describing [where R = R and Q = Q and p = f and h = h, OF assms(1-3) f])
      (rule q, simp add: describes_def True)
next
  case False
  let ?r = "resultFileOf c f" and ?b = "resultBytes E c b"
  have b: "?b = fullEncoding (compressor_string c) E b" using False by (simp add: resultBytes_def)
  have neq: "f \<noteq> ?r" using extension_not_Nil [OF assms(4) False] by (simp add: resultFileOf_def)
  have "isolated R Q (h(?r \<mapsto> ?b)) ds
    (calling now (\<lambda>t. calling (file_size E ?r) (\<lambda>size. calling (checksum_file E ?r) (\<lambda>md5.
     calling (eventLn E Result (ResultData \<lparr>resTime = t, resultType = out, resFile = ?r, fileSizeInBytes = size,
       checksum = md5, compressorType = compressor_string c, chunks = []\<rparr>)) Done))))"
    by (rule isolated_describing [where R = R and Q = Q and p = ?r and c = ?b and h = "h(?r \<mapsto> ?b)", OF assms(1-3) r(1)])
      (simp, rule Q, simp add: describes_def)
  then have "isolated R Q (h(?r \<mapsto> [])) ds
    (trying (compEncode alg E ?r f) wrap
    (calling now (\<lambda>t. calling (file_size E ?r) (\<lambda>size. calling (checksum_file E ?r) (\<lambda>md5.
     calling (eventLn E Result (ResultData \<lparr>resTime = t, resultType = out, resFile = ?r, fileSizeInBytes = size,
       checksum = md5, compressorType = compressor_string c, chunks = []\<rparr>)) Done)))))" for wrap
    using f neq r(1) codec False
    by (intro isolated_encoding [where R = R and Q = Q and p = ?r and f = f and b = b and h = "h(?r \<mapsto> [])", OF assms(1,2,4) False]) (simp_all add: b)
  then have "isolated R Q h ds (trying (fromSum (osCreate E ?r)) wrap' (trying (compEncode alg E ?r f) wrap
    (calling now (\<lambda>t. calling (file_size E ?r) (\<lambda>size. calling (checksum_file E ?r) (\<lambda>md5.
     calling (eventLn E Result (ResultData \<lparr>resTime = t, resultType = out, resFile = ?r, fileSizeInBytes = size,
       checksum = md5, compressorType = compressor_string c, chunks = []\<rparr>)) Done))))))" for wrap wrap'
    using r by (intro isolated_creating [where R = R and Q = Q and p = ?r and h = h, OF assms(1,2)]) simp_all
  then show ?thesis
    unfolding publishThread_def assms(4) sum.case using False
    by (intro isolated_opening [where R = R and Q = Q and p = f and h = h, OF assms(1,2) f]) simp
qed

end
