(* ===== verification/Concurrent.thy ===== *)
theory Concurrent
  imports Interleave PythonRuby Download
begin

text \<open>
  The bodies of bpf, py-spy and rbspy (internal/agent/profiler/bpf.go, python.go and ruby.go) as threads of
  \<open>Interleave\<close>. Run without interruption a thread does what the body does; run among others it keeps to the
  files of its PID. So when several processes of a container are profiled at once, no profile is mixed up
  with another one, and each reaches the client.
\<close>

section \<open>The bodies as threads\<close>

definition scriptThread ::
  "env \<Rightarrow> FlameGrapherScript \<Rightarrow> string \<Rightarrow> string \<Rightarrow> (error \<Rightarrow> error) \<Rightarrow> error option thread \<Rightarrow> error option thread" where
  "scriptThread E g inputFileName outputFileName wrap k =
     trying (fromSum (osOpen E inputFileName)) wrap
       (trying (fromSum (osCreate E outputFileName)) wrap
         (calling (command E True (path g) (scriptToArguments E g)) (\<lambda>cmd.
          calling (fileInput inputFileName) (\<lambda>stdin.
          calling (runCmd E cmd stdin) (\<lambda>(err, out, errOut).
          calling (writeThrough outputFileName out) (\<lambda>_.
          calling (if err \<noteq> None then errorLogLn E errOut else State_Monad.return ()) (\<lambda>_.
            case err of Some e \<Rightarrow> Done (Some (wrap e)) | None \<Rightarrow> k)))))))"

fun grapherThread ::
  "env \<Rightarrow> FrameGrapher \<Rightarrow> string \<Rightarrow> string \<Rightarrow> (error \<Rightarrow> error) \<Rightarrow> error option thread \<Rightarrow> error option thread" where
  "grapherThread E (Script g) i out wrap k = scriptThread E g i out wrap k"
| "grapherThread E FlameGrapherFake i out wrap k = k"
| "grapherThread E FlameGrapherFakeWithError i out wrap k =
     Done (Some (wrap (Errorf ''StackSamplesToFlameGraph with error'')))"

text \<open>\<open>handleFlamegraph\<close>, with the test of the raw file that the profiler makes and the publisher to go on with.\<close>

definition flamegraphThread ::
  "env \<Rightarrow> ProfilingJob \<Rightarrow> bool io \<Rightarrow> FrameGrapher \<Rightarrow> string \<Rightarrow> string \<Rightarrow> error option thread" where
  "flamegraphThread E job noSamples g rawFileName flameFileName =
     (let publish = publishThread E (jobCompressor job) flameFileName (jobOutputType job);
          wrap = Wrap ''could not generate flamegraph''
      in if jobOutputType job = FlameGraph
         then calling noSamples (\<lambda>none.
           if none then Done (Some (wrap noStacks))
           else grapherThread E g rawFileName flameFileName
                  (wrap \<circ> Wrap ''could not convert raw format to flamegraph'') publish)
         else publish)"

definition failedThread :: "env \<Rightarrow> error \<Rightarrow> string \<Rightarrow> string \<Rightarrow> error option thread" where
  "failedThread E e out errOut =
     calling (errorLogLn E out) (\<lambda>_. Done (Some (Wrap (''could not launch profiler: '' @ errOut) e)))"

definition tooSmall :: "env \<Rightarrow> string \<Rightarrow> bool io" where
  "tooSmall E f = do { n \<leftarrow> file_size E f; State_Monad.return (n < minimumRawSize) }"

definition bpfThread :: "env \<Rightarrow> ProfilingJob \<Rightarrow> string \<Rightarrow> error option thread" where
  "bpfThread E job p =
     calling (bccProfilerCommand E job p) (\<lambda>cmd.
     calling (runCmd E cmd []) (\<lambda>(err, out, errOut).
       case err of
         Some e \<Rightarrow> failedThread E e out errOut
       | None \<Rightarrow>
           (let resultFileName = resultFileFor E job (jobOutputType job) p; fileName = resultFileFor E job Raw p
            in calling (write_file E fileName (addProcessPIDLegend E out p)) (\<lambda>_.
               calling (flamegraphGet E job) (\<lambda>g.
                 flamegraphThread E job (tooSmall E fileName) g fileName resultFileName)))))"

definition pythonThread :: "env \<Rightarrow> ProfilingJob \<Rightarrow> string \<Rightarrow> error option thread" where
  "pythonThread E job p =
     (let fileName = resultFileFor E job (if jobOutputType job = FlameGraph then Raw else jobOutputType job) p
      in calling (pythonCommand E job p fileName) (\<lambda>cmd.
         calling (runCmd E cmd []) (\<lambda>(err, out, errOut).
           case err of
             Some e \<Rightarrow> failedThread E e out errOut
           | None \<Rightarrow>
               (let resultFileName = resultFileFor E job (jobOutputType job) p in
                if jobOutputType job = ThreadDump
                then calling (write_file E resultFileName out)
                       (\<lambda>_. publishThread E (jobCompressor job) resultFileName (jobOutputType job))
                else calling (flamegraphGet E job) (\<lambda>g.
                       flamegraphThread E job (is_empty_file E fileName) g fileName resultFileName)))))"

definition rubyThread :: "env \<Rightarrow> ProfilingJob \<Rightarrow> string \<Rightarrow> error option thread" where
  "rubyThread E job p =
     (let fileName = resultFileFor E job (jobOutputType job) p
      in calling (rubyCommand E job p fileName) (\<lambda>cmd.
         calling (runCmd E cmd []) (\<lambda>(err, out, errOut).
           case err of
             Some e \<Rightarrow> failedThread E e out errOut
           | None \<Rightarrow> publishThread E (jobCompressor job) fileName (jobOutputType job))))"

section \<open>A thread nobody interrupts\<close>

text \<open>\<open>runs t m\<close>: alone, the thread does what the program does.\<close>

definition runs :: "'a thread \<Rightarrow> 'a io \<Rightarrow> bool" where
  "runs t m \<longleftrightarrow> (\<forall>w. alone t w = (value_of m w, after m w))"

lemma runs_publish: "runs (publishThread E c f out) (publishDo E c f out)"
  by (simp add: runs_def alone_publishThread run_state_value_after)

lemma runs_grapher:
  "runs k m \<Longrightarrow> runs (grapherThread E g i out wrap k) (guarded (stackSamplesToFlameGraph E g i out) wrap m)"
  by (cases g)
    (auto simp: runs_def scriptThread_def scriptStackSamplesToFlameGraph_def split_beta split: option.split sum.split)

lemma runs_flamegraph:
  "runs (flamegraphThread E job (tooSmall E raw) g raw flame)
     (guarded (handleFlamegraph E job g raw flame) (Wrap ''could not generate flamegraph'')
       (publishDo E (jobCompressor job) flame (jobOutputType job)))"
  "runs (flamegraphThread E job (is_empty_file E raw) g raw flame)
     (guarded (handleFlamegraphNonEmpty E job g raw flame) (Wrap ''could not generate flamegraph'')
       (publishDo E (jobCompressor job) flame (jobOutputType job)))"
  using runs_grapher [OF runs_publish, of E g raw flame]
  by (auto simp: flamegraphThread_def handleFlamegraph_def handleFlamegraphNonEmpty_def tooSmall_def runs_def
      alone_publishThread run_state_value_after Let_def split: option.split)

lemma runs_bpf: "runs (bpfThread E job p) (bpfBody E job p)"
  using runs_flamegraph(1)
  by (auto simp: runs_def bpfThread_def bpfBody_def failedThread_def Let_def split_beta split: option.split)

lemma runs_python: "runs (pythonThread E job p) (pythonBody E job p)"
  using runs_flamegraph(2) runs_publish
  by (auto simp: runs_def pythonThread_def pythonBody_def failedThread_def Let_def split_beta split: option.split)

lemma runs_ruby: "runs (rubyThread E job p) (rubyBody E job p)"
  using runs_publish
  by (auto simp: runs_def rubyThread_def rubyBody_def failedThread_def Let_def split_beta split: option.split)

section \<open>The files of a PID\<close>

definition known_output :: "ProfilingJob \<Rightarrow> bool" where
  "known_output job \<longleftrightarrow> (\<forall>s. jobOutputType job \<noteq> OtherOutput s)"

text \<open>The names of the files of a PID begin with this, the raw ones and the results; the names of another PID do not.\<close>

definition ownFiles :: "env \<Rightarrow> ProfilingJob \<Rightarrow> string \<Rightarrow> string \<Rightarrow> bool" where
  "ownFiles E job p q \<longleftrightarrow>
     (\<exists>out \<in> {Raw, jobOutputType job}.
        prefix (path_join [tmpDir E, profilingPrefix] @ output_string out @ ''-'' @ p @ ''-'') q)"

lemma raw_or_other: "output_string out @ ''-'' @ s = output_string Raw @ ''-'' @ t \<Longrightarrow> \<forall>s. out \<noteq> OtherOutput s \<Longrightarrow> out = Raw"
  by (cases out) simp_all

lemma ownFiles_apart:
  assumes "known_output job" "ownFiles E job p q" "ownFiles E job p' q" "CHR ''-'' \<notin> set p" "CHR ''-'' \<notin> set p'"
  shows "p = p'"
proof -
  obtain out s where 1: "out \<in> {Raw, jobOutputType job}"
      "q = path_join [tmpDir E, profilingPrefix] @ output_string out @ ''-'' @ p @ CHR ''-'' # s"
    using assms(2) unfolding ownFiles_def by (elim bexE prefixE) simp
  obtain out' s' where 2: "out' \<in> {Raw, jobOutputType job}"
      "q = path_join [tmpDir E, profilingPrefix] @ output_string out' @ ''-'' @ p' @ CHR ''-'' # s'"
    using assms(3) unfolding ownFiles_def by (elim bexE prefixE) simp
  note o = 1(1) 2(1)
  have eq: "output_string out @ ''-'' @ p @ CHR ''-'' # s = output_string out' @ ''-'' @ p' @ CHR ''-'' # s'"
    using 1(2) 2(2) by simp
  have "out = out'"
    using o eq raw_or_other [of out "p @ CHR ''-'' # s" "p' @ CHR ''-'' # s'"]
      raw_or_other [of out' "p' @ CHR ''-'' # s'" "p @ CHR ''-'' # s"] assms(1)
    by (auto simp: known_output_def)
  with eq have "p @ CHR ''-'' # s = p' @ CHR ''-'' # s'" by simp
  from butlast_takeWhile_split [OF assms(4,5) this] show ?thesis by simp
qed

text \<open>The raw file, the profile, and the file the profile is compressed to.\<close>

definition rawFile :: "env \<Rightarrow> ProfilingJob \<Rightarrow> string \<Rightarrow> string" where
  "rawFile E job p = resultFileFor E job Raw p"

definition profileFile :: "env \<Rightarrow> ProfilingJob \<Rightarrow> string \<Rightarrow> string" where
  "profileFile E job p = resultFileFor E job (jobOutputType job) p"

definition publishedFile :: "env \<Rightarrow> ProfilingJob \<Rightarrow> string \<Rightarrow> string" where
  "publishedFile E job p = resultFileOf (jobCompressor job) (profileFile E job p)"

lemma own:
  "ownFiles E job p (rawFile E job p)" "ownFiles E job p (profileFile E job p)"
  "ownFiles E job p (publishedFile E job p)" "ownFiles E job p q \<Longrightarrow> beneath q r \<Longrightarrow> ownFiles E job p r"
  by (auto simp: ownFiles_def rawFile_def profileFile_def publishedFile_def resultFileOf_def resultFileFor_def
      getResultFile_def beneath_def prefix_def)

text \<open>None of them is a directory.\<close>

definition no_dirs :: "env \<Rightarrow> ProfilingJob \<Rightarrow> string \<Rightarrow> (string \<rightharpoonup> string) \<Rightarrow> bool" where
  "no_dirs E job p h \<longleftrightarrow>
     (\<forall>f \<in> {rawFile E job p, profileFile E job p, publishedFile E job p}. \<forall>q. beneath f q \<longrightarrow> h q = None)"

lemma not_beneath_own:
  assumes "known_output job"
    and "f \<in> {rawFile E job p, profileFile E job p, publishedFile E job p}"
    and "g \<in> {rawFile E job p, profileFile E job p, publishedFile E job p}"
  shows "\<not> beneath f g"
proof
  assume b: "beneath f g"
  let ?ext = "getExtensionFileByCompressor (jobCompressor job)"
  have parts: "\<exists>out \<in> {Raw, jobOutputType job}. \<exists>s \<in> {[], ?ext}. n = resultFileFor E job out p @ s"
    if "n \<in> {rawFile E job p, profileFile E job p, publishedFile E job p}" for n
    using that by (auto simp: rawFile_def profileFile_def publishedFile_def resultFileOf_def)
  obtain out s where f: "out \<in> {Raw, jobOutputType job}" "s \<in> {[], ?ext}" "f = resultFileFor E job out p @ s"
    using parts [OF assms(2)] by blast
  obtain out' t where g: "out' \<in> {Raw, jobOutputType job}" "t \<in> {[], ?ext}" "g = resultFileFor E job out' p @ t"
    using parts [OF assms(3)] by blast
  obtain u where u: "g = f @ CHR ''/'' # u" using b by (auto simp: beneath_def prefix_def)
  then have "output_string out' @ ''-'' @ p @ ''-'' @ itoa (jobIteration job) @ getFileExtension (jobTool job) out' @ t =
      output_string out @ ''-'' @ p @ ''-'' @ itoa (jobIteration job) @ getFileExtension (jobTool job) out @ s @ CHR ''/'' # u"
    unfolding f(3) g(3) resultFileFor_def getResultFile_def by simp
  then have "out = out'"
    using f(1) g(1) raw_or_other assms(1) unfolding known_output_def by (metis insertE singletonD)
  then have "t = s @ CHR ''/'' # u" using u f(3) g(3) by simp
  then show False using f(2) g(2) by (cases "jobCompressor job") auto
qed

lemma no_dirs_update:
  assumes "known_output job" "no_dirs E job p h" "f \<in> {rawFile E job p, profileFile E job p, publishedFile E job p}"
  shows "no_dirs E job p (h(f := x))"
  unfolding no_dirs_def
proof (intro ballI allI impI)
  fix g q
  assume g: "g \<in> {rawFile E job p, profileFile E job p, publishedFile E job p}" "beneath g q"
  then have "q \<noteq> f" using not_beneath_own [OF assms(1) g(1) assms(3)] by blast
  moreover have "h q = None" using assms(2) g unfolding no_dirs_def by blast
  ultimately show "(h(f := x)) q = None" by simp
qed

section \<open>The outcome of one PID\<close>

text \<open>
  An error and nothing published, or one result, which describes a file that is there and holds the profile.
  Where the tool is \<open>sure\<close> to succeed there is no error.
\<close>

definition pidOutcome ::
  "env \<Rightarrow> ProfilingJob \<Rightarrow> string \<Rightarrow> bool \<Rightarrow> error option \<Rightarrow> ResultData list \<Rightarrow> (string \<rightharpoonup> string) \<Rightarrow> bool" where
  "pidOutcome E job p sure err ds h \<longleftrightarrow>
     (case err of
        Some e \<Rightarrow> ds = [] \<and> \<not> is_panic e \<and> \<not> sure
      | None \<Rightarrow> \<exists>d b. ds = [d] \<and> h (profileFile E job p) = Some b \<and>
          h (publishedFile E job p) = Some (resultBytes E (jobCompressor job) b) \<and>
          describes E (jobCompressor job) (jobOutputType job) (publishedFile E job p)
            (resultBytes E (jobCompressor job) b) d)"

abbreviation isolatedPid ::
  "env \<Rightarrow> ProfilingJob \<Rightarrow> string \<Rightarrow> bool \<Rightarrow> (string \<rightharpoonup> string) \<Rightarrow> error option thread \<Rightarrow> bool" where
  "isolatedPid E job p sure h t \<equiv> isolated (ownFiles E job p) (pidOutcome E job p sure) h [] t"

lemma pidOutcome_local: "local_in (ownFiles E job p) (pidOutcome E job p sure)"
  unfolding local_in_def
proof (intro allI impI)
  fix err ds and h h' :: "string \<rightharpoonup> string"
  assume "\<forall>q. ownFiles E job p q \<longrightarrow> h q = h' q" and h: "pidOutcome E job p sure err ds h"
  then have "h (profileFile E job p) = h' (profileFile E job p)" "h (publishedFile E job p) = h' (publishedFile E job p)"
    using own(2,3) by simp_all
  with h show "pidOutcome E job p sure err ds h'"
    unfolding pidOutcome_def by (cases err) simp_all
qed

lemma isolated_error: "\<not> is_panic e \<Longrightarrow> \<not> sure \<Longrightarrow> isolatedPid E job p sure h (Done (Some e))"
  by (rule isolated_Done) (simp add: pidOutcome_def)

lemma isolated_failed: "\<not> sure \<Longrightarrow> isolatedPid E job p sure h (failedThread E e out errOut)"
  unfolding failedThread_def
  by (rule isolated_reading [OF pidOutcome_local]) (simp_all add: quiet_rules isolated_error)

text \<open>What is relied on for publishing.\<close>

definition publishable :: "env \<Rightarrow> ProfilingJob \<Rightarrow> bool" where
  "publishable E job \<longleftrightarrow>
     no_faults E \<and> (\<forall>d. marshal E d = None) \<and> known_output job \<and> (\<exists>alg. compressorGet (jobCompressor job) = Inr alg) \<and>
     (jobCompressor job \<noteq> NoneType \<longrightarrow> codec_ok (compressor_string (jobCompressor job)) E)"

lemma isolated_publish:
  assumes "publishable E job" "no_dirs E job p h" "h (profileFile E job p) = Some b"
  shows "isolatedPid E job p sure h (publishThread E (jobCompressor job) (profileFile E job p) (jobOutputType job))"
proof -
  let ?f = "profileFile E job p" and ?r = "publishedFile E job p"
  obtain alg where alg: "compressorGet (jobCompressor job) = Inr alg" using assms(1) by (auto simp: publishable_def)
  have r: "?r = resultFileOf (jobCompressor job) ?f" by (simp add: publishedFile_def)
  show ?thesis
  proof (rule isolated_publishThread [where f = ?f and b = b and h = h, OF pidOutcome_local _ _ alg _ own(2) assms(3)])
    show "ownFiles E job p (resultFileOf (jobCompressor job) ?f)" unfolding r [symmetric] by (rule own(3))
    show "ownFiles E job p q \<and> h q = None" if "beneath (resultFileOf (jobCompressor job) ?f) q" for q
      using that own(3,4) assms(2) unfolding r [symmetric] no_dirs_def by blast
    fix d
    assume d: "describes E (jobCompressor job) (jobOutputType job) (resultFileOf (jobCompressor job) ?f)
        (resultBytes E (jobCompressor job) b) d"
    show "pidOutcome E job p sure None ([] @ [d])
        (h(resultFileOf (jobCompressor job) ?f \<mapsto> resultBytes E (jobCompressor job) b))"
    proof (cases "?r = ?f")
      case True
      then have "jobCompressor job = NoneType"
        using extension_not_Nil [OF alg] by (auto simp: r resultFileOf_def)
      then show ?thesis using d True by (simp add: pidOutcome_def r resultBytes_def)
    next
      case False
      then show ?thesis using d assms(3) by (simp add: pidOutcome_def r)
    qed
  qed (use assms(1) in \<open>simp_all add: publishable_def\<close>)
qed

section \<open>Drawing the flame graph\<close>

text \<open>A command that only prints, and one that writes the file it is told to and no other, which is there when
  the command reports success.\<close>

definition prints_only :: "env \<Rightarrow> string list \<Rightarrow> bool" where
  "prints_only E argv \<longleftrightarrow>
     (\<forall>i w. no_links (files w) \<longrightarrow> no_links (procFiles (runProc E argv i w)) \<and>
        content (procFiles (runProc E argv i w)) = content (files w))"

definition succeeds :: "env \<Rightarrow> string list \<Rightarrow> bool" where
  "succeeds E argv \<longleftrightarrow> (\<forall>i w. procErr (runProc E argv i w) = None)"

definition writes_only :: "env \<Rightarrow> string list \<Rightarrow> string \<Rightarrow> bool" where
  "writes_only E argv f \<longleftrightarrow>
     (\<forall>i w. no_links (files w) \<longrightarrow> no_links (procFiles (runProc E argv i w)) \<and>
        (\<exists>x. content (procFiles (runProc E argv i w)) = (content (files w))(f := x) \<and>
           (procErr (runProc E argv i w) = None \<longrightarrow> x \<noteq> None)))"

text \<open>What flamegraph.pl is relied on for: it prints the graph.\<close>

definition flamegraph_pl_ok :: "env \<Rightarrow> bool" where
  "flamegraph_pl_ok E \<longleftrightarrow> (\<forall>args. prints_only E (path defaultScript # args))"

lemma isolated_printing:
  assumes "prints_only E argv" "sure \<longrightarrow> succeeds E argv"
    and "\<And>err out errOut. (sure \<longrightarrow> err = None) \<Longrightarrow> isolatedPid E job p sure h (k (err, out, errOut))"
  shows "isolatedPid E job p sure h (calling (runCmd E argv i) k)"
proof (rule isolated_writing [OF pidOutcome_local quiet_runCmd _ own(1), where x = "\<lambda>w. h (rawFile E job p)"])
  fix w :: world
  assume w: "no_links (files w)" "\<forall>q. ownFiles E job p q \<longrightarrow> content (files w) q = h q"
  then have "content (files w) (rawFile E job p) = h (rawFile E job p)" using own(1) by blast
  then show "no_links (files (after (runCmd E argv i) w)) \<and>
      content (files (after (runCmd E argv i) w)) = (content (files w))(rawFile E job p := h (rawFile E job p)) \<and>
      isolatedPid E job p sure (h(rawFile E job p := h (rawFile E job p))) (k (value_of (runCmd E argv i) w))"
    using assms w(1) by (auto simp: prints_only_def succeeds_def files_runCmd Let_def fun_upd_idem)
qed

lemma isolated_storing:
  assumes "ownFiles E job p f" "isolatedPid E job p sure (h(f \<mapsto> c)) (k ())"
  shows "isolatedPid E job p sure h (calling (writeThrough f c) k)"
  by (rule isolated_writing [OF pidOutcome_local quiet_writeThrough(1) _ assms(1), where x = "\<lambda>_. Some c"])
    (simp_all add: writeThrough_def content_store assms(2))

lemma isolated_script:
  assumes ok: "publishable E job" "no_dirs E job p h" "flamegraph_pl_ok E" "path g = path defaultScript"
    and raw: "h (rawFile E job p) \<noteq> None" and flame: "jobOutputType job = FlameGraph"
    and k: "\<And>c. isolatedPid E job p sure (h(profileFile E job p \<mapsto> c)) k" and wrap: "\<And>e. \<not> is_panic (wrap e)" "\<not> sure"
  shows "isolatedPid E job p sure h (scriptThread E g (rawFile E job p) (profileFile E job p) wrap k)"
proof -
  let ?i = "rawFile E job p" and ?o = "profileFile E job p"
  note loc = pidOutcome_local [of E job p sure]
  have nf: "no_faults E" using ok(1) by (simp add: publishable_def)
  have dir: "ownFiles E job p q \<and> h q = None" if "beneath ?o q" for q
    using own(4) [OF own(2) that] ok(2) that by (auto simp: no_dirs_def)
  have argv: "prints_only E (path g # scriptToArguments E g)" using ok(3,4) by (simp add: flamegraph_pl_ok_def)
  have last: "isolatedPid E job p sure (h(?o \<mapsto> c))
      (calling (if err \<noteq> None then errorLogLn E errOut else State_Monad.return ()) (\<lambda>_.
         case err of Some e \<Rightarrow> Done (Some (wrap e)) | None \<Rightarrow> k))" for c err errOut
    by (rule isolated_reading [OF loc])
      (use k wrap in \<open>auto simp: quiet_rules intro: isolated_error split: option.split\<close>)
  have run: "isolatedPid E job p sure (h(?o \<mapsto> []))
      (calling (runCmd E (path g # scriptToArguments E g) stdin) (\<lambda>(err, out, errOut).
       calling (writeThrough ?o out) (\<lambda>_.
       calling (if err \<noteq> None then errorLogLn E errOut else State_Monad.return ()) (\<lambda>_.
         case err of Some e \<Rightarrow> Done (Some (wrap e)) | None \<Rightarrow> k))))" for stdin
    by (rule isolated_printing [OF argv], simp add: wrap(2), unfold case_prod_conv, rule isolated_storing [OF own(2)], unfold fun_upd_upd, rule last)
  have "isolatedPid E job p sure (h(?o \<mapsto> []))
      (calling (command E True (path g) (scriptToArguments E g)) (\<lambda>cmd. calling (fileInput ?i) (\<lambda>stdin.
       calling (runCmd E cmd stdin) (\<lambda>(err, out, errOut). calling (writeThrough ?o out) (\<lambda>_.
       calling (if err \<noteq> None then errorLogLn E errOut else State_Monad.return ()) (\<lambda>_.
         case err of Some e \<Rightarrow> Done (Some (wrap e)) | None \<Rightarrow> k))))))"
    by (rule isolated_reading [OF loc quiet_command files_command(1)], unfold value_command,
        rule isolated_reading [OF loc], rule quiet_writeThrough(2), simp add: fileInput_def, rule run)
  then have "isolatedPid E job p sure h
      (trying (fromSum (osCreate E ?o)) wrap
        (calling (command E True (path g) (scriptToArguments E g)) (\<lambda>cmd. calling (fileInput ?i) (\<lambda>stdin.
         calling (runCmd E cmd stdin) (\<lambda>(err, out, errOut). calling (writeThrough ?o out) (\<lambda>_.
         calling (if err \<noteq> None then errorLogLn E errOut else State_Monad.return ()) (\<lambda>_.
           case err of Some e \<Rightarrow> Done (Some (wrap e)) | None \<Rightarrow> k)))))))"
    by (intro isolated_creating [OF loc nf dir own(2)])
  then show ?thesis
    unfolding scriptThread_def using raw
    by (auto intro: isolated_opening [where h = h and p = ?i, OF loc nf own(1)])
qed

lemma flamegraphGet_path: "value_of (flamegraphGet E job) w = Script g \<Longrightarrow> path g = path defaultScript"
  by (auto simp: flamegraphGet_def Let_def newFlameGrapherScript_def withTitle_def withWidth_def withColors_def
      split: if_splits)

lemma files_flamegraphGet [simp]: "files (after (flamegraphGet E job) w) = files w"
  by (simp add: flamegraphGet_def Let_def width_value)

lemma flamegraphGet_real: "jobLanguage job \<noteq> FakeLang \<Longrightarrow> value_of (flamegraphGet E job) w \<noteq> FlameGrapherFake"
  by (simp add: flamegraphGet_def Let_def)

text \<open>Where the profile is no flame graph, it is there already.\<close>

lemma isolated_flamegraph:
  assumes "publishable E job" "no_dirs E job p h" "flamegraph_pl_ok E" "g = value_of (flamegraphGet E job) v" "jobLanguage job \<noteq> FakeLang"
    and "jobOutputType job = FlameGraph \<Longrightarrow> h (rawFile E job p) \<noteq> None"
    and "jobOutputType job \<noteq> FlameGraph \<Longrightarrow> h (profileFile E job p) \<noteq> None"
    and "quiet noSamples" "\<And>w. files (after noSamples w) = files w" "sure \<longrightarrow> jobOutputType job \<noteq> FlameGraph"
  shows "isolatedPid E job p sure h (flamegraphThread E job noSamples g (rawFile E job p) (profileFile E job p))"
proof (cases "jobOutputType job = FlameGraph")
  case True
  let ?publish = "publishThread E (jobCompressor job) (profileFile E job p) (jobOutputType job)"
  have publish: "isolatedPid E job p sure (h(profileFile E job p \<mapsto> c)) ?publish" for c
    using assms(1,2) by (intro isolated_publish no_dirs_update) (simp_all add: publishable_def)
  have unsure: "\<not> sure" using assms(10) True by blast
  have graph: "isolatedPid E job p sure h (grapherThread E g (rawFile E job p) (profileFile E job p)
      (Wrap s \<circ> Wrap t) ?publish)" for s t
  proof (cases g)
    case (Script sc)
    then show ?thesis
      using assms(4) flamegraphGet_path [of E job v sc] isolated_script [OF assms(1-3) _ assms(6) [OF True] True publish _ unsure]
      by simp
  qed (use assms(4,5) unsure flamegraphGet_real in \<open>auto intro: isolated_error\<close>)
  show ?thesis
    unfolding flamegraphThread_def Let_def if_P [OF True]
    by (rule isolated_reading [OF pidOutcome_local assms(8,9)]) (use graph True unsure in \<open>auto intro: isolated_error\<close>)
next
  case False
  then show ?thesis
    using isolated_publish [OF assms(1,2)] assms(7) by (auto simp: flamegraphThread_def Let_def)
qed

section \<open>The three bodies\<close>

lemma write_file_ok:
  assumes "no_faults E" "no_links (files w)" "\<not> is_dir (files w) f"
  shows "no_links (files (after (write_file E f cs) w)) \<and>
    content (files (after (write_file E f cs) w)) = (content (files w))(f \<mapsto> cs)"
  using assms by (simp add: write_file_def osWriteFile_def osCreate_ok osAppend_ok [where d = "[]"] content_store)

lemma isolated_write_file:
  assumes "publishable E job" "no_dirs E job p h" "f \<in> {rawFile E job p, profileFile E job p}"
    and "isolatedPid E job p sure (h(f \<mapsto> cs)) (k ())"
  shows "isolatedPid E job p sure h (calling (write_file E f cs) k)"
proof (rule isolated_writing [OF pidOutcome_local, where p = f and x = "\<lambda>_. Some cs"])
  show f: "ownFiles E job p f" using assms(3) own by auto
  fix w :: world
  assume w: "no_links (files w)" "\<forall>q. ownFiles E job p q \<longrightarrow> content (files w) q = h q"
  have "content (files w) q = None" if "beneath f q" for q
    using that own(4) [OF f that] assms(2,3) w(2) by (auto simp: no_dirs_def)
  then have "\<not> is_dir (files w) f" using w(1) by (auto simp: is_dir_content)
  with w(1) show "no_links (files (after (write_file E f cs) w)) \<and>
      content (files (after (write_file E f cs) w)) = (content (files w))(f \<mapsto> cs) \<and>
      isolatedPid E job p sure (h(f \<mapsto> cs)) (k (value_of (write_file E f cs) w))"
    using assms(1,4) write_file_ok [of E w f cs] by (simp add: publishable_def)
qed (simp add: quiet_file_write)

text \<open>What is relied on of the tools, for one PID: bcc prints its samples; py-spy and rbspy write the file they
  are told to, but for the thread dump, which py-spy prints.\<close>

definition bpf_ok :: "env \<Rightarrow> ProfilingJob \<Rightarrow> string \<Rightarrow> bool" where
  "bpf_ok E job p \<longleftrightarrow>
     jobOutputType job \<in> {FlameGraph, Raw} \<and> jobLanguage job \<noteq> FakeLang \<and> flamegraph_pl_ok E \<and>
     prints_only E [bpfProfilerLocation, ''-df'', ''-U'', ''-F'', ''99'', ''-p'', p, intervalSeconds E job]"

definition bpf_sure :: "env \<Rightarrow> ProfilingJob \<Rightarrow> string \<Rightarrow> bool" where
  "bpf_sure E job p \<longleftrightarrow>
     jobOutputType job \<noteq> FlameGraph \<and>
     succeeds E [bpfProfilerLocation, ''-df'', ''-U'', ''-F'', ''99'', ''-p'', p, intervalSeconds E job]"

definition pyspy_ok :: "env \<Rightarrow> ProfilingJob \<Rightarrow> string \<Rightarrow> bool" where
  "pyspy_ok E job p \<longleftrightarrow>
     jobOutputType job \<in> {FlameGraph, SpeedScope, Raw, ThreadDump} \<and> jobLanguage job \<noteq> FakeLang \<and> flamegraph_pl_ok E \<and>
     (let out = (if jobOutputType job = FlameGraph then Raw else jobOutputType job); f = resultFileFor E job out p
      in writes_only E [pySpyLocation, ''record'', ''-p'', p, ''-o'', f, ''-d'', intervalSeconds E job, ''-s'', ''-t'',
           ''-f'', output_string out] f) \<and>
     prints_only E [pySpyLocation, ''dump'', ''-p'', p]"

definition pyspy_sure :: "env \<Rightarrow> ProfilingJob \<Rightarrow> string \<Rightarrow> bool" where
  "pyspy_sure E job p \<longleftrightarrow>
     jobOutputType job \<noteq> FlameGraph \<and> succeeds E [pySpyLocation, ''dump'', ''-p'', p] \<and>
     succeeds E [pySpyLocation, ''record'', ''-p'', p, ''-o'', profileFile E job p, ''-d'', intervalSeconds E job, ''-s'', ''-t'',
       ''-f'', output_string (jobOutputType job)]"

definition rbspy_ok :: "env \<Rightarrow> ProfilingJob \<Rightarrow> string \<Rightarrow> bool" where
  "rbspy_ok E job p \<longleftrightarrow>
     writes_only E [rbSpyLocation, ''record'', ''--pid'', p, ''--file'', profileFile E job p, ''--duration'',
       intervalSeconds E job, ''--format'', output_string (jobOutputType job)] (profileFile E job p)"

definition rbspy_sure :: "env \<Rightarrow> ProfilingJob \<Rightarrow> string \<Rightarrow> bool" where
  "rbspy_sure E job p \<longleftrightarrow>
     succeeds E [rbSpyLocation, ''record'', ''--pid'', p, ''--file'', profileFile E job p, ''--duration'',
       intervalSeconds E job, ''--format'', output_string (jobOutputType job)]"

lemma isolated_recording:
  assumes "writes_only E argv f" "sure \<longrightarrow> succeeds E argv" "ownFiles E job p f"
    and "\<And>x err out errOut. (err = None \<longrightarrow> x \<noteq> None) \<Longrightarrow> (sure \<longrightarrow> err = None) \<Longrightarrow> isolatedPid E job p sure (h(f := x)) (k (err, out, errOut))"
  shows "isolatedPid E job p sure h (calling (runCmd E argv i) k)"
proof (rule isolated_writing [OF pidOutcome_local quiet_runCmd _ assms(3),
      where x = "\<lambda>w. content (procFiles (runProc E argv i w)) f"])
  fix w :: world
  assume "no_links (files w)"
  then obtain x where x: "no_links (procFiles (runProc E argv i w))"
      "content (procFiles (runProc E argv i w)) = (content (files w))(f := x)"
      "procErr (runProc E argv i w) = None \<longrightarrow> x \<noteq> None"
    using assms(1) unfolding writes_only_def by blast
  then show "no_links (files (after (runCmd E argv i) w)) \<and>
      content (files (after (runCmd E argv i) w)) =
        (content (files w))(f := content (procFiles (runProc E argv i w)) f) \<and>
      isolatedPid E job p sure (h(f := content (procFiles (runProc E argv i w)) f)) (k (value_of (runCmd E argv i) w))"
    using assms(2) assms(4) [OF x(3)] by (simp add: files_runCmd Let_def succeeds_def)
qed

lemma isolated_bpf:
  assumes "publishable E job" "bpf_ok E job p" "no_dirs E job p h"
  shows "isolatedPid E job p (bpf_sure E job p) h (bpfThread E job p)"
proof -
  let ?raw = "rawFile E job p" and ?f = "profileFile E job p"
  have ok: "flamegraph_pl_ok E" "jobLanguage job \<noteq> FakeLang" "jobOutputType job \<in> {FlameGraph, Raw}"
    and tool: "prints_only E [bpfProfilerLocation, ''-df'', ''-U'', ''-F'', ''99'', ''-p'', p, intervalSeconds E job]"
    using assms(2) by (simp_all add: bpf_ok_def)
  have sure: "bpf_sure E job p \<longrightarrow> succeeds E [bpfProfilerLocation, ''-df'', ''-U'', ''-F'', ''99'', ''-p'', p, intervalSeconds E job]"
    "bpf_sure E job p \<longrightarrow> jobOutputType job \<noteq> FlameGraph"
    by (simp_all add: bpf_sure_def)
  have drawn: "isolatedPid E job p (bpf_sure E job p) (h(?raw \<mapsto> cs)) (calling (flamegraphGet E job) (\<lambda>g.
      flamegraphThread E job (tooSmall E ?raw) g ?raw ?f))" for cs
  proof (rule isolated_reading [OF pidOutcome_local quiet_flamegraphGet files_flamegraphGet])
    fix v :: world
    have "no_dirs E job p (h(?raw \<mapsto> cs))"
      using assms(1,3) by (intro no_dirs_update) (simp_all add: publishable_def)
    moreover have "?f = ?raw" if "jobOutputType job \<noteq> FlameGraph"
      using ok(3) that by (simp add: rawFile_def profileFile_def)
    ultimately show "isolatedPid E job p (bpf_sure E job p) (h(?raw \<mapsto> cs))
        (flamegraphThread E job (tooSmall E ?raw) (value_of (flamegraphGet E job) v) ?raw ?f)"
      by (intro isolated_flamegraph [OF assms(1) _ ok(1) refl ok(2) _ _ _ _ sure(2)])
        (auto simp: tooSmall_def intro!: quiet_rules)
  qed
  have "isolatedPid E job p (bpf_sure E job p) h (calling (write_file E ?raw cs) (\<lambda>_. calling (flamegraphGet E job) (\<lambda>g.
      flamegraphThread E job (tooSmall E ?raw) g ?raw ?f)))" for cs
    by (rule isolated_write_file [OF assms(1,3) _ drawn]) simp
  then have "isolatedPid E job p (bpf_sure E job p) h
      (calling (runCmd E [bpfProfilerLocation, ''-df'', ''-U'', ''-F'', ''99'', ''-p'', p, intervalSeconds E job] [])
        (\<lambda>(err, out, errOut). case err of
           Some e \<Rightarrow> failedThread E e out errOut
         | None \<Rightarrow> calling (write_file E ?raw (addProcessPIDLegend E out p)) (\<lambda>_. calling (flamegraphGet E job) (\<lambda>g.
             flamegraphThread E job (tooSmall E ?raw) g ?raw ?f))))"
    by (intro isolated_printing [OF tool sure(1)]) (auto simp: isolated_failed split: option.split)
  then show ?thesis
    unfolding bpfThread_def Let_def rawFile_def [symmetric] profileFile_def [symmetric] bccProfilerCommand_def
    by - (rule isolated_reading [OF pidOutcome_local quiet_command files_command(1)], unfold value_command)
qed

lemma isolated_ruby:
  assumes "publishable E job" "rbspy_ok E job p" "no_dirs E job p h"
  shows "isolatedPid E job p (rbspy_sure E job p) h (rubyThread E job p)"
proof -
  let ?f = "profileFile E job p"
  let ?argv = "[rbSpyLocation, ''record'', ''--pid'', p, ''--file'', ?f, ''--duration'',
       intervalSeconds E job, ''--format'', output_string (jobOutputType job)]"
  have tool: "writes_only E ?argv ?f" and sure: "rbspy_sure E job p \<longrightarrow> succeeds E ?argv"
    using assms(2) by (simp_all add: rbspy_ok_def rbspy_sure_def)
  have "isolatedPid E job p (rbspy_sure E job p) (h(?f := x)) (publishThread E (jobCompressor job) ?f (jobOutputType job))" if "x \<noteq> None" for x
    using that assms(1,3) by (auto intro!: isolated_publish no_dirs_update simp: publishable_def)
  then have "isolatedPid E job p (rbspy_sure E job p) h
      (calling (runCmd E [rbSpyLocation, ''record'', ''--pid'', p, ''--file'', ?f, ''--duration'',
         intervalSeconds E job, ''--format'', output_string (jobOutputType job)] [])
        (\<lambda>(err, out, errOut). case err of
           Some e \<Rightarrow> failedThread E e out errOut
         | None \<Rightarrow> publishThread E (jobCompressor job) ?f (jobOutputType job)))"
    by (intro isolated_recording [OF tool sure own(2)]) (auto simp: isolated_failed split: option.split)
  then show ?thesis
    unfolding rubyThread_def Let_def profileFile_def [symmetric] rubyCommand_def
    by - (rule isolated_reading [OF pidOutcome_local quiet_command files_command(1)], unfold value_command)
qed

lemma value_pythonCommand:
  "value_of (pythonCommand E job p f) w =
     (let out = (if jobOutputType job = FlameGraph then Raw else jobOutputType job) in
      if out \<in> {FlameGraph, SpeedScope, Raw}
      then [pySpyLocation, ''record'', ''-p'', p, ''-o'', f, ''-d'', intervalSeconds E job, ''-s'', ''-t'', ''-f'', output_string out]
      else [pySpyLocation, ''dump'', ''-p'', p])"
  "files (after (pythonCommand E job p f) w) = files w"
  by (simp_all add: pythonCommand_def Let_def)

text \<open>A thread dump, and the profiles py-spy records.\<close>

lemma isolated_dump:
  assumes "publishable E job" "pyspy_ok E job p" "no_dirs E job p h" "jobOutputType job = ThreadDump"
  shows "isolatedPid E job p (pyspy_sure E job p) h (pythonThread E job p)"
proof -
  let ?f = "profileFile E job p"
  have tool: "prints_only E [pySpyLocation, ''dump'', ''-p'', p]" using assms(2) by (simp add: pyspy_ok_def)
  have sure: "pyspy_sure E job p \<longrightarrow> succeeds E [pySpyLocation, ''dump'', ''-p'', p]" by (simp add: pyspy_sure_def)
  have "isolatedPid E job p (pyspy_sure E job p) (h(?f \<mapsto> cs)) (publishThread E (jobCompressor job) ?f (jobOutputType job))" for cs
    using assms(1,3) by (auto intro!: isolated_publish no_dirs_update simp: publishable_def)
  then have "isolatedPid E job p (pyspy_sure E job p) h (calling (write_file E ?f cs)
      (\<lambda>_. publishThread E (jobCompressor job) ?f (jobOutputType job)))" for cs
    by (intro isolated_write_file [OF assms(1,3)]) simp_all
  then have "isolatedPid E job p (pyspy_sure E job p) h (calling (runCmd E [pySpyLocation, ''dump'', ''-p'', p] [])
      (\<lambda>(err, out, errOut). case err of
         Some e \<Rightarrow> failedThread E e out errOut
       | None \<Rightarrow> calling (write_file E ?f out) (\<lambda>_. publishThread E (jobCompressor job) ?f (jobOutputType job))))"
    by (intro isolated_printing [OF tool sure]) (auto simp: isolated_failed split: option.split)
  then show ?thesis
    unfolding pythonThread_def Let_def profileFile_def [symmetric] if_P [OF assms(4)]
    by - (rule isolated_reading [OF pidOutcome_local quiet_pythonCommand(1) value_pythonCommand(2)],
        simp add: value_pythonCommand Let_def assms(4))
qed

lemma isolated_record:
  assumes "publishable E job" "pyspy_ok E job p" "no_dirs E job p h" "jobOutputType job \<noteq> ThreadDump"
  shows "isolatedPid E job p (pyspy_sure E job p) h (pythonThread E job p)"
proof -
  let ?out = "if jobOutputType job = FlameGraph then Raw else jobOutputType job"
  let ?rec = "resultFileFor E job ?out p"
  let ?argv = "[pySpyLocation, ''record'', ''-p'', p, ''-o'', ?rec, ''-d'', intervalSeconds E job, ''-s'', ''-t'',
      ''-f'', output_string ?out]"
  let ?raw = "rawFile E job p" and ?f = "profileFile E job p"
  have ok: "flamegraph_pl_ok E" "jobLanguage job \<noteq> FakeLang" and tool: "writes_only E ?argv ?rec"
    using assms(2) unfolding pyspy_ok_def Let_def by blast+
  have sure: "pyspy_sure E job p \<longrightarrow> succeeds E ?argv" "pyspy_sure E job p \<longrightarrow> jobOutputType job \<noteq> FlameGraph"
    by (simp_all add: pyspy_sure_def profileFile_def)
  have out: "?out \<in> {FlameGraph, SpeedScope, Raw}" using assms(2,4) by (auto simp: pyspy_ok_def)
  have name: "?rec = (if jobOutputType job = FlameGraph then ?raw else ?f)"
    by (simp add: rawFile_def profileFile_def)
  have drawn: "isolatedPid E job p (pyspy_sure E job p) (h(?rec := x)) (calling (flamegraphGet E job) (\<lambda>g.
      flamegraphThread E job (is_empty_file E ?rec) g ?rec ?f))" if "x \<noteq> None" for x
  proof (rule isolated_reading [OF pidOutcome_local quiet_flamegraphGet files_flamegraphGet])
    fix v :: world
    have dirs: "no_dirs E job p (h(?rec := x))"
      using assms(1,3) name by (intro no_dirs_update) (auto simp: publishable_def)
    have empty: "quiet (is_empty_file E f)" "\<And>w. files (after (is_empty_file E f) w) = files w" for f
      by (rule quiet_file_write(3)) (simp add: is_empty_file_def)
    have raw: "flamegraphThread E job m g ?rec ?f = flamegraphThread E job m g ?raw ?f" for m g
      using name by (simp add: flamegraphThread_def Let_def)
    show "isolatedPid E job p (pyspy_sure E job p) (h(?rec := x))
        (flamegraphThread E job (is_empty_file E ?rec) (value_of (flamegraphGet E job) v) ?rec ?f)"
      unfolding raw
      by (rule isolated_flamegraph [OF assms(1) dirs ok(1) refl ok(2) _ _ empty sure(2)]) (use that name in simp_all)
  qed
  have "isolatedPid E job p (pyspy_sure E job p) h (calling (runCmd E ?argv [])
      (\<lambda>(err, out, errOut). case err of
         Some e \<Rightarrow> failedThread E e out errOut
       | None \<Rightarrow> calling (flamegraphGet E job) (\<lambda>g. flamegraphThread E job (is_empty_file E ?rec) g ?rec ?f)))"
  proof (rule isolated_recording [OF tool sure(1)])
    show "ownFiles E job p ?rec" unfolding name using own(1,2) by simp
  qed (use drawn in \<open>auto simp: isolated_failed split: option.split\<close>)
  then show ?thesis
    unfolding pythonThread_def Let_def profileFile_def [symmetric] if_not_P [OF assms(4)]
    by - (rule isolated_reading [OF pidOutcome_local quiet_pythonCommand(1) value_pythonCommand(2)],
        use out in \<open>simp add: value_pythonCommand Let_def\<close>)
qed

lemma isolated_python:
  "publishable E job \<Longrightarrow> pyspy_ok E job p \<Longrightarrow> no_dirs E job p h \<Longrightarrow> isolatedPid E job p (pyspy_sure E job p) h (pythonThread E job p)"
  using isolated_dump isolated_record by blast

section \<open>The contract, and what it gives\<close>

text \<open>
  A thread that does what the body of a profiler does and keeps to the files of its PID, if the tool does.
\<close>

locale isolated_body =
  fixes body :: "env \<Rightarrow> ProfilingJob \<Rightarrow> string \<Rightarrow> error option io"
    and thread :: "env \<Rightarrow> ProfilingJob \<Rightarrow> string \<Rightarrow> error option thread"
    and tool_ok sure :: "env \<Rightarrow> ProfilingJob \<Rightarrow> string \<Rightarrow> bool"
  assumes thread_runs: "runs (thread E job p) (body E job p)"
    and thread_isolated: "publishable E job \<Longrightarrow> tool_ok E job p \<Longrightarrow> no_dirs E job p h \<Longrightarrow>
      isolatedPid E job p (sure E job p) h (thread E job p)"

lemma distinct_resFile:
  "length pids = length dss \<Longrightarrow> distinct pids \<Longrightarrow> inj_on g (set pids) \<Longrightarrow>
    \<forall>i < length pids. length (dss ! i) \<le> 1 \<and> (\<forall>d \<in> set (dss ! i). resFile d = g (pids ! i)) \<Longrightarrow>
    distinct (map resFile (concat dss)) \<and> set (map resFile (concat dss)) \<subseteq> g ` set pids"
proof (induction pids dss rule: list_induct2)
  case (Cons p pids ds dss)
  have head: "length ds \<le> 1" "\<forall>d \<in> set ds. resFile d = g p" using Cons.prems(3) by (auto dest: spec [of _ 0])
  have "\<forall>i < length pids. length (dss ! i) \<le> 1 \<and> (\<forall>d \<in> set (dss ! i). resFile d = g (pids ! i))"
  proof (intro allI impI)
    fix i
    assume "i < length pids"
    then show "length (dss ! i) \<le> 1 \<and> (\<forall>d \<in> set (dss ! i). resFile d = g (pids ! i))"
      using Cons.prems(3) [rule_format, of "Suc i"] by simp
  qed
  with Cons.IH Cons.prems have IH: "distinct (map resFile (concat dss))" "set (map resFile (concat dss)) \<subseteq> g ` set pids"
    by auto
  have "g p \<notin> g ` set pids" using Cons.prems(1,2) by (auto simp: inj_on_def)
  with IH have "g p \<notin> set (map resFile (concat dss))" by blast
  moreover have "ds = [] \<or> (\<exists>d. ds = [d] \<and> resFile d = g p)" using head by (cases ds) auto
  ultimately show ?case using IH by auto
qed simp

text \<open>PIDs that can be told apart by their files, and an environment that leaves these alone.\<close>

definition own_pids :: "string list \<Rightarrow> bool" where
  "own_pids pids \<longleftrightarrow> pids \<noteq> [] \<and> distinct pids \<and> (\<forall>p \<in> set pids. CHR ''-'' \<notin> set p)"

definition undisturbed :: "env \<Rightarrow> ProfilingJob \<Rightarrow> string list \<Rightarrow> bool" where
  "undisturbed E job pids \<longleftrightarrow>
     (\<forall>d w. no_links (files w) \<longrightarrow> no_links (meanwhile E d w) \<and>
        (\<forall>p \<in> set pids. \<forall>q. ownFiles E job p q \<longrightarrow> content (meanwhile E d w) q = content (files w) q))"

text \<open>What a result says and what the client makes of it: it is the profile of one of the PIDs.\<close>

definition profileOf :: "env \<Rightarrow> ProfilingJob \<Rightarrow> filesys \<Rightarrow> ResultData \<Rightarrow> string \<Rightarrow> bool" where
  "profileOf E job fs r p \<longleftrightarrow>
     resFile r = publishedFile E job p \<and> resultType r = jobOutputType job \<and>
     (\<exists>b. content fs (profileFile E job p) = Some b \<and> restorable E (jobCompressor job) b r fs)"

text \<open>The outcomes of all PIDs together.\<close>

lemma outcomes_summary:
  assumes ok: "publishable E job" "own_pids pids"
    and len: "length errs = length pids" "length dss = length pids" and ds: "mset ds = mset (concat dss)"
    and out: "\<And>i. i < length pids \<Longrightarrow> pidOutcome E job (pids ! i) (sure (pids ! i)) (errs ! i) (dss ! i) (content fs)"
  shows "panic_of errs = None" "None \<in> set errs \<longleftrightarrow> ds \<noteq> []" "distinct (map resFile ds)"
    and "r \<in> set ds \<Longrightarrow> \<exists>p \<in> set pids. profileOf E job fs r p"
    and "p \<in> set pids \<Longrightarrow> sure p \<Longrightarrow> \<exists>r \<in> set ds. profileOf E job fs r p"
proof -
  have "\<not> is_panic e" if "Some e \<in> set errs" for e
    using out that len(1) by (fastforce simp: in_set_conv_nth pidOutcome_def)
  then show "panic_of errs = None" by (auto simp: panic_of_def find_None_iff map_filter_def)
  have "errs ! i = None \<longleftrightarrow> dss ! i \<noteq> []" if "i < length pids" for i
    using out [OF that] by (auto simp: pidOutcome_def split: option.splits)
  then have "None \<in> set errs \<longleftrightarrow> concat dss \<noteq> []"
    using len by (auto simp: in_set_conv_nth) (metis nth_mem)+
  then show "None \<in> set errs \<longleftrightarrow> ds \<noteq> []" using ds by (metis mset_zero_iff)
  have "inj_on (publishedFile E job) (set pids)"
  proof (rule inj_onI)
    fix p p'
    assume p: "p \<in> set pids" "p' \<in> set pids" "publishedFile E job p = publishedFile E job p'"
    have "ownFiles E job p (publishedFile E job p)" "ownFiles E job p' (publishedFile E job p')" by (rule own(3))+
    with p ok show "p = p'" using ownFiles_apart unfolding publishable_def own_pids_def by metis
  qed
  moreover have "\<forall>i < length pids. length (dss ! i) \<le> 1 \<and> (\<forall>d \<in> set (dss ! i). resFile d = publishedFile E job (pids ! i))"
    using out by (fastforce simp: pidOutcome_def describes_def split: option.splits)
  ultimately have "distinct (map resFile (concat dss))"
    using distinct_resFile [OF len(2) [symmetric], of "publishedFile E job"] ok(2) by (simp add: own_pids_def)
  moreover have "mset (map resFile ds) = mset (map resFile (concat dss))" using ds by simp
  ultimately show "distinct (map resFile ds)" using mset_eq_imp_distinct_iff by blast
  have profile: "profileOf E job fs r (pids ! i)" if i: "i < length pids" "r \<in> set (dss ! i)" for i r
  proof -
    from out [OF i(1)] i(2) obtain b where b: "content fs (profileFile E job (pids ! i)) = Some b"
        "content fs (publishedFile E job (pids ! i)) = Some (resultBytes E (jobCompressor job) b)"
        "describes E (jobCompressor job) (jobOutputType job) (publishedFile E job (pids ! i))
          (resultBytes E (jobCompressor job) b) r"
      by (auto simp: pidOutcome_def split: option.splits)
    have "restorable E (jobCompressor job) b r fs"
      using ok(1) describes_restorable [OF _ _ _ b(3,2)] by (auto simp: publishable_def)
    then show ?thesis using b(1,3) by (auto simp: profileOf_def describes_def)
  qed
  have results: "r \<in> set ds \<longleftrightarrow> (\<exists>i < length pids. r \<in> set (dss ! i))" for r
    using arg_cong [OF ds, of set_mset] by (auto simp: set_conv_nth [of dss] len(2))
  show "\<exists>p \<in> set pids. profileOf E job fs r p" if "r \<in> set ds"
    using that profile unfolding results by (metis nth_mem)
  show "\<exists>r \<in> set ds. profileOf E job fs r p" if p: "p \<in> set pids" "sure p"
  proof -
    obtain i where i: "i < length pids" "pids ! i = p" using p(1) by (metis in_set_conv_nth)
    with out [OF i(1)] p(2) obtain r where "r \<in> set (dss ! i)" by (auto simp: pidOutcome_def split: option.splits)
    with i show ?thesis using profile results by blast
  qed
qed

lemma pids_apart:
  assumes "publishable E job" "own_pids pids" "undisturbed E job pids"
  shows "apart E (map (\<lambda>p. (ownFiles E job p, pidOutcome E job p (sure p))) pids)"
proof -
  have "\<not> ownFiles E job (pids ! j) q" if "ownFiles E job (pids ! i) q" "i < length pids" "j < length pids" "i \<noteq> j" for i j q
  proof
    assume "ownFiles E job (pids ! j) q"
    moreover have "pids ! i \<in> set pids" "pids ! j \<in> set pids" using that by simp_all
    ultimately have "pids ! i = pids ! j"
      using ownFiles_apart [OF _ that(1)] assms(1,2) unfolding publishable_def own_pids_def by blast
    then show False using that(2-4) assms(2) by (simp add: own_pids_def nth_eq_iff_index_eq)
  qed
  then show ?thesis using assms(3) by (auto simp: apart_def pidOutcome_local undisturbed_def)
qed

context isolated_body
begin

lemma profiles_intact:
  assumes ok: "publishable E job" "own_pids pids" "undisturbed E job pids" "\<And>p. p \<in> set pids \<Longrightarrow> tool_ok E job p"
    and w: "no_links (files w)" "\<And>p. p \<in> set pids \<Longrightarrow> no_dirs E job p (content (files w))"
    and w': "after (profileThreads E turns pids d (thread E job)) w = w'"
  shows "\<exists>ds. protocol w' = protocol w @ map resultEvent ds \<and> distinct (map resFile ds) \<and>
    (value_of (profileThreads E turns pids d (thread E job)) w = None \<longleftrightarrow> ds \<noteq> []) \<and>
    (\<forall>r \<in> set ds. \<exists>p \<in> set pids. profileOf E job (files w') r p) \<and>
    (\<forall>p \<in> set pids. sure E job p \<longrightarrow> (\<exists>r \<in> set ds. profileOf E job (files w') r p))"
proof -
  let ?parts = "map (\<lambda>p. (ownFiles E job p, pidOutcome E job p (sure E job p))) pids"
  have iso: "isolated (fst (?parts ! i)) (snd (?parts ! i)) (content (files w)) [] (thread E job (pids ! i))"
    if "i < length pids" for i
    using that thread_isolated [OF ok(1) ok(4) w(2)] by simp
  have "pids \<noteq> []" using ok(2) by (simp add: own_pids_def)
  then have "\<exists>errs dss ds. length errs = length pids \<and> length dss = length pids \<and>
      protocol w' = protocol w @ map resultEvent ds \<and> mset ds = mset (concat dss) \<and>
      (\<forall>i < length pids. snd (?parts ! i) (errs ! i) (dss ! i) (content (files w'))) \<and>
      value_of (profileThreads E turns pids d (thread E job)) w =
       (if panic_of errs \<noteq> None then panic_of errs
        else if None \<in> set errs then None else Some (PidErrors (zip pids (map the errs))))"
    by (intro profileThreads_isolated [OF _ _ pids_apart [OF ok(1-3)] w(1) iso w' [symmetric]]) simp_all
  then obtain errs dss ds where run: "length errs = length pids" "length dss = length pids" "mset ds = mset (concat dss)"
    and prot: "protocol w' = protocol w @ map resultEvent ds"
    and out: "\<forall>i < length pids. snd (?parts ! i) (errs ! i) (dss ! i) (content (files w'))"
    and val: "value_of (profileThreads E turns pids d (thread E job)) w =
       (if panic_of errs \<noteq> None then panic_of errs
        else if None \<in> set errs then None else Some (PidErrors (zip pids (map the errs))))"
    by blast
  have "pidOutcome E job (pids ! i) (sure E job (pids ! i)) (errs ! i) (dss ! i) (content (files w'))" if "i < length pids" for i
    using out that by simp
  note sum = outcomes_summary [OF ok(1,2) run this]
  have "value_of (profileThreads E turns pids d (thread E job)) w = None \<longleftrightarrow> ds \<noteq> []"
    unfolding val using sum(1,2) by simp
  then show ?thesis using prot sum(3,4,5) by auto
qed

end

interpretation bpf_thread: isolated_body bpfBody bpfThread bpf_ok bpf_sure
  by unfold_locales (rule runs_bpf, rule isolated_bpf)

interpretation python_thread: isolated_body pythonBody pythonThread pyspy_ok pyspy_sure
  by unfold_locales (rule runs_python, rule isolated_python)

interpretation ruby_thread: isolated_body rubyBody rubyThread rbspy_ok rbspy_sure
  by unfold_locales (rule runs_ruby, rule isolated_ruby)

section \<open>The run with bodies in one step\<close>

text \<open>
  \<open>profilePIDs\<close>, where a body is one step, is the run of threads that make one call each: the schedule of the
  one is the turns of the other.
\<close>

definition turnOf :: "sched \<Rightarrow> turn" where
  "turnOf a = (case a of Spawn \<Rightarrow> Main | Finish i \<Rightarrow> Body i)"

definition threadsOf :: "string list \<Rightarrow> (string \<Rightarrow> error option io) \<Rightarrow> ppState \<Rightarrow> nat \<Rightarrow> error option thread" where
  "threadsOf pids profile st i =
     (if ppDone st ! i then Done (ppErrs st ! i) else calling (profile (pids ! i)) Done)"

definition runningOf :: "string list \<Rightarrow> (string \<Rightarrow> error option io) \<Rightarrow> ppState \<Rightarrow> running" where
  "runningOf pids profile st = (ppNext st, map (threadsOf pids profile st) [0..<length pids])"

lemma itStep_atomic:
  assumes "ppWf pids st"
  shows "value_of (itStep E d (turnOf a) (runningOf pids profile st)) w =
      runningOf pids profile (value_of (ppStep E pids d profile a st) w) \<and>
    after (itStep E d (turnOf a) (runningOf pids profile st)) w = after (ppStep E pids d profile a st) w"
proof (cases a)
  case Spawn
  then show ?thesis by (auto simp: turnOf_def itStep_def runningOf_def ppStep_def threadsOf_def)
next
  case (Finish i)
  show ?thesis
  proof (cases "i < ppNext st")
    case True
    with assms have i: "i < length pids" "i < length (ppErrs st)" "i < length (ppDone st)" by (simp_all add: ppWf_def)
    let ?st = "st\<lparr>ppErrs := (ppErrs st)[i := value_of (profile (pids ! i)) w], ppDone := (ppDone st)[i := True]\<rparr>"
    have upd: "(map (threadsOf pids profile st) [0..<length pids])[i := Done (value_of (profile (pids ! i)) w)] =
        map (threadsOf pids profile ?st) [0..<length pids]"
      using i by (intro nth_equalityI) (auto simp: nth_list_update threadsOf_def)
    have same: "(map (threadsOf pids profile st) [0..<length pids])[i := threadsOf pids profile st i] =
        map (threadsOf pids profile st) [0..<length pids]"
      using i by (metis diff_zero length_upt list_update_id nth_map nth_upt plus_nat.add_0)
    show ?thesis
      using True Finish i upd same
      by (auto simp: turnOf_def itStep_def runningOf_def ppStep_def threadsOf_def calling_def)
  next
    case False
    with Finish show ?thesis by (simp add: turnOf_def itStep_def runningOf_def ppStep_def)
  qed
qed

lemma itRun_atomic:
  "ppWf pids st \<Longrightarrow>
    value_of (itRun E d (map turnOf as) (runningOf pids profile st)) w =
      runningOf pids profile (value_of (ppRun E pids d profile as st) w) \<and>
    after (itRun E d (map turnOf as) (runningOf pids profile st)) w = after (ppRun E pids d profile as st) w"
proof (induction as arbitrary: st w)
  case (Cons a as)
  from itStep_atomic [OF Cons.prems, of E d a profile w] Cons.IH [OF ppStep_wf [OF Cons.prems]]
  show ?case by simp
qed simp

lemma ppRun_others:
  "i \<notin> set is \<Longrightarrow> ppErrs (value_of (ppRun E pids d profile (map Finish is) st) w) ! i = ppErrs st ! i"
  by (induction "is" arbitrary: st w) (auto simp: ppStep_def)

lemma itWait_atomic:
  "ppWf pids st \<Longrightarrow> ppNext st = length pids \<Longrightarrow> distinct is \<Longrightarrow> set is \<subseteq> {..<length pids} \<Longrightarrow>
    value_of (itWait (map (threadsOf pids profile st) is)) w =
      map ((!) (ppErrs (value_of (ppRun E pids d profile (map Finish is) st) w))) is \<and>
    after (itWait (map (threadsOf pids profile st) is)) w = after (ppRun E pids d profile (map Finish is) st) w"
proof (induction "is" arbitrary: st w)
  case (Cons i js)
  let ?step = "ppStep E pids d profile (Finish i) st"
  let ?st = "value_of ?step w"
  have i: "i < length pids" "i < length (ppErrs st)" "i < length (ppDone st)" "i \<notin> set js"
    using Cons.prems by (simp_all add: ppWf_def)
  have st: "ppWf pids ?st" by (rule ppStep_wf [OF Cons.prems(1)])
  have next': "ppNext ?st = length pids" using Cons.prems(2) by (simp add: ppStep_def)
  have same: "map (threadsOf pids profile st) js = map (threadsOf pids profile ?st) js"
    using i by (auto simp: ppStep_def threadsOf_def nth_list_update)
  have one: "alone (threadsOf pids profile st i) w = (ppErrs ?st ! i, after ?step w)"
    using i Cons.prems(2) by (auto simp: ppStep_def threadsOf_def)
  from Cons.IH [OF st next', of "after ?step w"] Cons.prems(3,4) show ?case
    using ppRun_others [OF i(4), of E pids d profile ?st "after ?step w"] by (simp add: one same)
qed simp

lemma profilePIDs_atomic:
  "value_of (profilePIDs E pids d profile) w =
      value_of (profileThreads E (map turnOf (schedule E pids)) pids d (\<lambda>p. calling (profile p) Done)) w \<and>
   after (profilePIDs E pids d profile) w =
      after (profileThreads E (map turnOf (schedule E pids)) pids d (\<lambda>p. calling (profile p) Done)) w"
proof (cases "pids = []")
  case True
  then show ?thesis by (simp add: profilePIDs_def profileThreads_def)
next
  case False
  let ?n = "length pids" and ?as = "schedule E pids @ replicate (length pids) Spawn"
  let ?st = "value_of (ppRun E pids d profile ?as (ppInit pids)) w"
  let ?w = "after (ppRun E pids d profile ?as (ppInit pids)) w"
  have turns: "map turnOf (schedule E pids) @ replicate ?n Main = map turnOf ?as" by (simp add: turnOf_def)
  have start: "(0, map (\<lambda>p. calling (profile p) Done) pids) = runningOf pids profile (ppInit pids)"
    by (auto simp: runningOf_def ppInit_def threadsOf_def intro!: nth_equalityI)
  have st: "ppWf pids ?st" using ppRun_mono [OF ppWf_init] by blast
  have next': "ppNext ?st = ?n"
    using ppRun_spawns [OF conjunct1 [OF ppRun_mono [OF ppWf_init]], of E pids d profile "?n"]
    by (simp add: ppRun_append)
  let ?finish = "ppRun E pids d profile (map Finish [0..<?n]) ?st"
  have len: "length (ppErrs (value_of ?finish ?w)) = ?n" using ppRun_mono [OF st] by (auto simp: ppWf_def)
  have wait: "value_of (itWait (map (threadsOf pids profile ?st) [0..<?n])) ?w = map ((!) (ppErrs (value_of ?finish ?w))) [0..<?n] \<and>
      after (itWait (map (threadsOf pids profile ?st) [0..<?n])) ?w = after ?finish ?w"
    by (rule itWait_atomic [OF st next']) auto
  have errs: "map ((!) (ppErrs (value_of ?finish ?w))) [0..<?n] = ppErrs (value_of ?finish ?w)"
    using map_nth [of "ppErrs (value_of ?finish ?w)"] unfolding len .
  have "ppSchedule E pids = ?as @ map Finish [0..<?n]" by (simp add: ppSchedule_def)
  then have split: "ppRun E pids d profile (ppSchedule E pids) (ppInit pids) =
      State_Monad.bind (ppRun E pids d profile ?as (ppInit pids)) (ppRun E pids d profile (map Finish [0..<?n]))"
    by (simp only: ppRun_append)
  have "value_of (profilePIDs E pids d profile) w = value_of (pidsVerdict E pids (ppErrs (value_of ?finish ?w))) (after ?finish ?w) \<and>
      after (profilePIDs E pids d profile) w = after (pidsVerdict E pids (ppErrs (value_of ?finish ?w))) (after ?finish ?w)"
    using False by (simp add: profilePIDs_def split)
  then show ?thesis
    using False wait itRun_atomic [where as = ?as and E = E and d = d and profile = profile and w = w, OF ppWf_init [of pids]]
    unfolding profileThreads_def turns start errs by (simp add: runningOf_def)
qed

section \<open>Several processes at once\<close>

text \<open>C6. Profiles are not mixed up when the processes of a container are profiled at once by bpf, py-spy or
  rbspy, in whatever order the calls of the bodies happen. The results printed name different files, each
  the one of a PID, and a client that has copied that file gets the profile of that PID. The run succeeds
  exactly when there is a result, and every PID for which the tool cannot fail has one (for bpf and py-spy
  this is said of the profiles that are no flame graphs).\<close>

theorem concurrent_profiles_intact:
  assumes "(thread, tool_ok, sure) \<in>
        {(bpfThread, bpf_ok, bpf_sure), (pythonThread, pyspy_ok, pyspy_sure), (rubyThread, rbspy_ok, rbspy_sure)}"
    and "publishable E job" "own_pids pids" "undisturbed E job pids" "\<And>p. p \<in> set pids \<Longrightarrow> tool_ok E job p"
    and "no_links (files w)" "\<And>p. p \<in> set pids \<Longrightarrow> no_dirs E job p (content (files w))"
    and "after (profileThreads E turns pids d (thread E job)) w = w'"
  shows "\<exists>ds. protocol w' = protocol w @ map resultEvent ds \<and> distinct (map resFile ds) \<and>
    (value_of (profileThreads E turns pids d (thread E job)) w = None \<longleftrightarrow> ds \<noteq> []) \<and>
    (\<forall>r \<in> set ds. \<exists>p \<in> set pids. profileOf E job (files w') r p) \<and>
    (\<forall>p \<in> set pids. sure E job p \<longrightarrow> (\<exists>r \<in> set ds. profileOf E job (files w') r p))"
proof -
  consider "thread = bpfThread" "tool_ok = bpf_ok" "sure = bpf_sure" | "thread = pythonThread" "tool_ok = pyspy_ok" "sure = pyspy_sure"
    | "thread = rubyThread" "tool_ok = rbspy_ok" "sure = rbspy_sure" using assms(1) by auto
  then show ?thesis
  proof cases
    case 1
    show ?thesis
      unfolding 1(1,3) by (rule bpf_thread.profiles_intact [OF assms(2-5) [unfolded 1(2)] assms(6-8) [unfolded 1(1)]])
  next
    case 2
    show ?thesis
      unfolding 2(1,3) by (rule python_thread.profiles_intact [OF assms(2-5) [unfolded 2(2)] assms(6-8) [unfolded 2(1)]])
  next
    case 3
    show ?thesis
      unfolding 3(1,3) by (rule ruby_thread.profiles_intact [OF assms(2-5) [unfolded 3(2)] assms(6-8) [unfolded 3(1)]])
  qed
qed

text \<open>rbspy on two processes, the second of which is no Ruby process; the first body is in the middle of
  publishing when the second one starts.\<close>

definition two_job :: ProfilingJob where
  "two_job = sample_job\<lparr>jobLanguage := Ruby, jobTool := Rbspy, jobOutputType := Summary, jobCompressor := Gzip\<rparr>"

definition two_env :: env where
  "two_env = sample_env\<lparr>runProc := (\<lambda>argv i w.
     if argv ! 3 = ''7''
     then \<lparr>procErr = None, procOut = [], procErrOut = [], procFiles = store (argv ! 5) ''main 3'' (files w),
           procClock = clock w + 1\<rparr>
     else \<lparr>procErr = Some (ExitError 1), procOut = [], procErrOut = ''no ruby version'', procFiles = files w,
           procClock = clock w\<rparr>)\<rparr>"

lemma two_env_sel:
  "no_faults two_env" "marshal two_env e = None" "codec_ok alg two_env" "meanwhile two_env d w = files w"
  "tmpDir two_env = ''/tmp''"
  by (simp_all add: two_env_def sample_env_def no_faults_def codec_ok_def fullEncoding_def)

lemma two_rbspy:
  "rbspy_ok two_env two_job p"
  unfolding rbspy_ok_def writes_only_def
proof (intro allI impI)
  fix i and w :: world
  let ?f = "profileFile two_env two_job p"
  let ?r = "runProc two_env [rbSpyLocation, ''record'', ''--pid'', p, ''--file'', ?f, ''--duration'',
       intervalSeconds two_env two_job, ''--format'', output_string (jobOutputType two_job)] i w"
  assume "no_links (files w)"
  show "no_links (procFiles ?r) \<and>
      (\<exists>x. content (procFiles ?r) = (content (files w))(?f := x) \<and> (procErr ?r = None \<longrightarrow> x \<noteq> None))"
  proof (cases "p = ''7''")
    case True
    with \<open>no_links (files w)\<close> show ?thesis
      by (auto simp: two_env_def content_store intro!: exI [of _ "Some ''main 3''"])
  next
    case False
    with \<open>no_links (files w)\<close> show ?thesis
      by (auto simp: two_env_def intro!: exI [of _ "content (files w) ?f"])
  qed
qed

lemma two_sure: "rbspy_sure two_env two_job ''7''"
  by (simp add: rbspy_sure_def succeeds_def two_env_def)

theorem concurrent_profiles_intact_witness:
  "let turns = [Main, Body 0, Body 0, Body 0, Main, Body 1, Body 0, Body 1];
       run = profileThreads two_env turns [''7'', ''8''] second (rubyThread two_env two_job);
       w' = after run empty_world
   in \<exists>ds. protocol w' = protocol empty_world @ map resultEvent ds \<and> distinct (map resFile ds) \<and>
     value_of run empty_world = None \<and>
     (\<forall>r \<in> set ds. \<exists>p \<in> set [''7'', ''8'']. profileOf two_env two_job (files w') r p) \<and>
     (\<exists>r \<in> set ds. profileOf two_env two_job (files w') r ''7'')"
proof -
  let ?turns = "[Main, Body 0, Body 0, Body 0, Main, Body 1, Body 0, Body 1]"
  let ?run = "profileThreads two_env ?turns [''7'', ''8''] second (rubyThread two_env two_job)"
  have "\<exists>ds. protocol (after ?run empty_world) = protocol empty_world @ map resultEvent ds \<and>
    distinct (map resFile ds) \<and> (value_of ?run empty_world = None \<longleftrightarrow> ds \<noteq> []) \<and>
    (\<forall>r \<in> set ds. \<exists>p \<in> set [''7'', ''8'']. profileOf two_env two_job (files (after ?run empty_world)) r p) \<and>
    (\<forall>p \<in> set [''7'', ''8'']. rbspy_sure two_env two_job p \<longrightarrow>
       (\<exists>r \<in> set ds. profileOf two_env two_job (files (after ?run empty_world)) r p))"
  proof (rule concurrent_profiles_intact [where tool_ok = rbspy_ok and sure = rbspy_sure])
    show "publishable two_env two_job"
      by (simp add: publishable_def two_env_sel two_job_def sample_job_def known_output_def)
    show "own_pids [''7'', ''8'']" by (simp add: own_pids_def)
    show "undisturbed two_env two_job [''7'', ''8'']" by (simp add: undisturbed_def two_env_sel)
    show "rbspy_ok two_env two_job p" for p by (rule two_rbspy)
    show "no_dirs two_env two_job p (content (files empty_world))" for p
      by (simp add: no_dirs_def empty_world_def content_def resolve_no_links no_links_def)
  qed (simp_all add: empty_world_def no_links_def)
  then obtain ds where ds: "protocol (after ?run empty_world) = protocol empty_world @ map resultEvent ds"
      "distinct (map resFile ds)" "value_of ?run empty_world = None \<longleftrightarrow> ds \<noteq> []"
      "\<forall>r \<in> set ds. \<exists>p \<in> set [''7'', ''8'']. profileOf two_env two_job (files (after ?run empty_world)) r p"
      "\<exists>r \<in> set ds. profileOf two_env two_job (files (after ?run empty_world)) r ''7''"
    using two_sure by auto
  from ds(5) have "ds \<noteq> []" by auto
  with ds show ?thesis unfolding Let_def by blast
qed

end
