(* ===== verification/ProcessTree.thy ===== *)
theory ProcessTree
  imports Container
begin

text \<open>
  The specification of the PID search of internal/agent/util/container.go: a process tree, its leaves,
  and the lemma that \<open>fillWithChildrenPIDs\<close> computes them, whatever the other processes do to the
  files and the clock meanwhile, as long as \<open>pgrep -P\<close> prints the children of every process of the
  tree one per line (and exits with status 1 when there are none, as its manual says).
\<close>

section \<open>Trimming a list of PIDs\<close>

lemma digit_char_facts: "is_digit c \<Longrightarrow> byte c < 128 \<and> \<not> space_char c \<and> c \<noteq> CHR 10"
  by (auto simp: is_digit_def is_space_rune_def)

definition pid_ok :: "string \<Rightarrow> bool" where
  "pid_ok p \<longleftrightarrow> p \<noteq> [] \<and> list_all is_digit p"

lemma pid_ok_no_lf: "pid_ok p \<Longrightarrow> CHR 10 \<notin> set p"
  by (auto simp: pid_ok_def list_all_iff dest: digit_char_facts)

lemma join_pids:
  assumes "ps \<noteq> []" "list_all pid_ok ps"
  shows "join_with [CHR 10] ps \<noteq> []"
    and "list_all (\<lambda>c. byte c < 128) (join_with [CHR 10] ps)"
    and "\<not> space_char (hd (join_with [CHR 10] ps))"
    and "\<not> space_char (last (join_with [CHR 10] ps))"
  using assms
  by (induction ps rule: induct_list012)
    (auto simp: pid_ok_def list_all_iff hd_append last_append digit_char_facts)

lemma pids_as_lines:
  "ps \<noteq> [] \<Longrightarrow> concat (map (\<lambda>p. p @ [CHR 10]) ps) = join_with [CHR 10] ps @ [CHR 10]"
  by (induction ps rule: induct_list012) auto

lemma trim_lines:
  assumes "ps \<noteq> []" "list_all pid_ok ps"
  shows "trim_space (concat (map (\<lambda>p. p @ [CHR 10]) ps)) = join_with [CHR 10] ps"
proof -
  let ?s = "join_with [CHR 10] ps"
  have "dropWhile space_char (?s @ [CHR 10]) = ?s @ [CHR 10]"
    using join_pids [OF assms] by (cases ?s) auto
  moreover have "dropWhile space_char (rev ?s) = rev ?s"
    using join_pids [OF assms] by (intro dropWhile_rev_id) auto
  ultimately show ?thesis
    using join_pids [OF assms] by (simp add: pids_as_lines [OF assms(1)] trim_space_ascii is_space_rune_def)
qed

lemma trim_join:
  "ps \<noteq> [] \<Longrightarrow> list_all pid_ok ps \<Longrightarrow> trim_space (join_with [CHR 10] ps) = join_with [CHR 10] ps"
  by (intro trim_space_clean join_pids)

section \<open>Process trees\<close>

datatype ptree = PNode (root: string) (children: "ptree list")

primrec leaves :: "ptree \<Rightarrow> string list" where
  "leaves (PNode p cs) = (if cs = [] then [p] else concat (map leaves cs))"

primrec height :: "ptree \<Rightarrow> nat" where
  "height (PNode p cs) = Suc (foldr max (map height cs) 0)"

text \<open>What \<open>pgrep -P\<close> prints for the processes of the tree, at any time.\<close>

primrec pgrep_shows :: "env \<Rightarrow> ptree \<Rightarrow> bool" where
  "pgrep_shows E (PNode p cs) \<longleftrightarrow>
     pid_ok p \<and> list_all pid_ok (map root cs) \<and>
     (\<forall>w. procOut (runProc E [''pgrep'', ''-P'', p] [] w) = concat (map (\<lambda>c. root c @ [CHR 10]) cs) \<and>
          procErr (runProc E [''pgrep'', ''-P'', p] [] w) = (if cs = [] then Some (ExitError 1) else None)) \<and>
     list_all (pgrep_shows E) cs"

lemma value_childPID:
  assumes "is_blank_ok E" "pgrep_shows E (PNode p cs)"
  shows "value_of (childPID E p) w = join_with [CHR 10] (map root cs)"
proof (cases "cs = []")
  case True
  with assms(2) show ?thesis by (simp add: childPID_def runCmd_def Let_def split: prod.split)
next
  case False
  with assms(2) have "trim_space (concat (map (\<lambda>c. root c @ [CHR 10]) cs)) = join_with [CHR 10] (map root cs)"
    using trim_lines [of "map root cs"] by (simp add: comp_def)
  moreover have "join_with [CHR 10] (map root cs) \<noteq> []"
    using join_pids(1) [of "map root cs"] assms(2) False by simp
  ultimately show ?thesis
    using assms False trim_join [of "map root cs"]
    by (simp add: childPID_def runCmd_def Let_def is_not_blank_def is_blankD split: prod.split)
qed

lemma height_child: "c \<in> set cs \<Longrightarrow> height (PNode p cs) \<le> Suc n \<Longrightarrow> height c \<le> n"
  by (induction cs) auto

lemma value_each:
  assumes "\<And>c acc w. c \<in> set cs \<Longrightarrow> value_of (f (root c) acc) w = Inr (acc @ leaves c)"
  shows "value_of (each f (map root cs) acc) w = Inr (acc @ concat (map leaves cs))"
  using assms by (induction cs arbitrary: acc w) simp_all

lemma fill_leaves:
  "is_blank_ok E \<Longrightarrow> pgrep_shows E t \<Longrightarrow> height t \<le> n \<Longrightarrow>
     value_of (fillWithChildrenPIDs n E (root t) acc) w = Inr (acc @ leaves t)"
proof (induction n arbitrary: t acc w)
  case 0
  then show ?case by (cases t) simp
next
  case (Suc n)
  obtain p cs where t: "t = PNode p cs" by (cases t)
  note child = value_childPID [OF Suc.prems(1) Suc.prems(2) [unfolded t]]
  have IH: "c \<in> set cs \<Longrightarrow> value_of (fillWithChildrenPIDs n E (root c) acc) w = Inr (acc @ leaves c)"
    for c acc w
    using Suc.IH [OF Suc.prems(1)] Suc.prems(2,3) height_child by (simp add: t list_all_iff)
  show ?case
  proof (cases "cs = []")
    case True
    with Suc.prems(1) show ?thesis by (simp add: t child is_not_blank_def is_blankD)
  next
    case False
    have ok: "list_all pid_ok (map root cs)" using Suc.prems(2) by (simp add: t)
    have "is_not_blank E (join_with [CHR 10] (map root cs))"
      using trim_join [OF _ ok] join_pids(1) [OF _ ok] False Suc.prems(1)
      by (simp add: is_not_blank_def is_blankD)
    moreover have "split_on (CHR 10) (join_with [CHR 10] (map root cs)) = map root cs"
      using ok False by (intro split_on_join) (auto simp: list_all_iff pid_ok_no_lf)
    moreover have "\<exists>c. cs = [c]" if "length cs \<le> 1"
      using that False by (cases cs) auto
    ultimately show ?thesis
      using False by (auto simp: t child value_each [OF IH] IH Let_def)
  qed
qed

lemma leaves_not_Nil: "leaves t \<noteq> []"
proof (induction t)
  case (PNode p cs)
  then show ?case by (cases cs) auto
qed

section \<open>The PIDs of a container\<close>

text \<open>C7. When the container's root process is found and the process tree below it is not higher than
  the stack allows, \<open>GetCandidatePIDs\<close> without a pattern returns the leaves of that tree, all of them
  and in the order \<open>pgrep\<close> lists them, so at least one PID; it changes no result and needs no particular
  state of the files or the clock.\<close>

theorem getCandidatePIDs_leaves:
  assumes "is_blank_ok E" "pgrep_shows E t" "height t \<le> stackDepth E"
    and "jobContainerID job \<noteq> ''''" "runtime (jobContainerRuntime job) = Inr c"
    and "value_of (containerPID c E (jobContainerID job) (jobContainerRuntimePath job)) w = Inr (root t)"
    and "is_blank E (jobPgrep job)"
  shows "value_of (getCandidatePIDs E job) w = Inr (leaves t) \<and> leaves t \<noteq> [] \<and>
    protocol (after (getCandidatePIDs E job) w) = protocol w"
proof -
  have "runtime_string (jobContainerRuntime job) \<noteq> ''''"
    using assms(5) by (auto simp: runtime_def)
  then have "value_of (getCandidatePIDs E job) w = Inr (leaves t)"
    using assms fill_leaves [OF assms(1-3), of "[]"] leaves_not_Nil [of t]
    by (simp add: getCandidatePIDs_def filterPIDsToProfile_def)
  then show ?thesis using leaves_not_Nil quietD [OF quiet_getCandidatePIDs] by simp
qed

text \<open>A container with the shell 10, its child 11 and the two workers 12 and 13 of that child.\<close>

definition sample_tree :: ptree where
  "sample_tree = PNode ''10'' [PNode ''11'' [PNode ''12'' [], PNode ''13'' []]]"

definition tree_env :: env where
  "tree_env = sample_env\<lparr>runProc := (\<lambda>argv input w.
     if argv = [''pgrep'', ''-P'', ''10'']
     then \<lparr>procErr = None, procOut = ''11'' @ [CHR 10], procErrOut = [], procFiles = files w, procClock = clock w\<rparr>
     else if argv = [''pgrep'', ''-P'', ''11'']
     then \<lparr>procErr = None, procOut = ''12'' @ [CHR 10] @ ''13'' @ [CHR 10], procErrOut = [],
           procFiles = files w, procClock = clock w\<rparr>
     else \<lparr>procErr = Some (ExitError 1), procOut = [], procErrOut = [], procFiles = files w, procClock = clock w\<rparr>)\<rparr>"

definition tree_world :: world where
  "tree_world = empty_world\<lparr>files :=
     [(''/run/containerd/io.containerd.runtime.v2.task/k8s.io/abc/init.pid'', File ''10'')]\<rparr>"

lemma tree_env_simps:
  "is_blank tree_env s = (trim_space s = [])" "is_blank_ok tree_env" "no_faults tree_env"
  "stackDepth tree_env = 64"
  by (simp_all add: tree_env_def sample_env_def is_blank_ok_def no_faults_def)

lemma tree_procs:
  "procOut (runProc tree_env [''pgrep'', ''-P'', p] [] w) =
     (if p = ''10'' then ''11'' @ [CHR 10] else if p = ''11'' then ''12'' @ [CHR 10] @ ''13'' @ [CHR 10] else [])"
  "procErr (runProc tree_env [''pgrep'', ''-P'', p] [] w) =
     (if p = ''10'' \<or> p = ''11'' then None else Some (ExitError 1))"
  by (simp_all add: tree_env_def del: append.simps)

lemma tree_root: "value_of (containerPID ContainerdRuntime tree_env ''abc'' ''/run/containerd'') tree_world = Inr ''10''"
proof -
  let ?f = "''/run/containerd/io.containerd.runtime.v2.task/k8s.io/abc/init.pid''"
  have c: "content (files tree_world) ?f = Some ''10''"
    by (simp add: tree_world_def content_def resolve_no_links no_links_def)
  have "trim_space ''abc'' = ''abc''" "trim_space ''/run/containerd'' = ''/run/containerd''"
    by (simp_all add: trim_space_clean is_space_rune_def)
  then show ?thesis
    using c osStat_ok(2) [OF tree_env_simps(3) c] osOpen_ok(2) [OF tree_env_simps(3) c]
      osRead_ok(2) [OF tree_env_simps(3) c]
    by (simp add: containerdPID_def with_container_def tree_env_simps pidFile_def taskDir_def missing_def
        readJson_def osReadFile_def osOpen_ok osRead_ok osStat_ok)
qed

theorem getCandidatePIDs_leaves_witness:
  "value_of (getCandidatePIDs tree_env sample_job) tree_world = Inr [''12'', ''13''] \<and>
   [''12'', ''13''] \<noteq> [] \<and>
   protocol (after (getCandidatePIDs tree_env sample_job) tree_world) = protocol tree_world"
proof -
  have "pgrep_shows tree_env sample_tree"
    by (simp add: sample_tree_def tree_procs pid_ok_def is_digit_def)
  moreover have "leaves sample_tree = [''12'', ''13'']" "root sample_tree = ''10''" "height sample_tree = 3"
    by (simp_all add: sample_tree_def)
  ultimately show ?thesis
    using getCandidatePIDs_leaves [of tree_env sample_tree sample_job ContainerdRuntime tree_world] tree_root
    by (simp add: sample_job_def tree_env_simps runtime_def)
qed

end
