(* ===== verification/Pacing.thy ===== *)
theory Pacing
  imports JobSpec
begin

text \<open>
  How long the iterations of action/profile/profile.go take: \<open>Run\<close> sleeps for what an iteration leaves of
  the interval, in whole milliseconds, and compares floating-point seconds to see whether there is any.
\<close>

section \<open>Floating-point seconds\<close>

lemma seconds_split:
  assumes "0 \<le> d" "d < 2 ^ 63"
  shows "seconds d = fl (of_int (d div second) + fl (of_int (d mod second) / of_int second))"
proof -
  have "0 \<le> d div second" "d div second < 2 ^ 53" "0 \<le> d mod second" "d mod second < 2 ^ 53"
    using assms pos_mod_bound [of second d] by (simp_all add: second_def)
  then have "fl (of_int (d div second)) = of_int (d div second)" "fl (of_int (d mod second)) = of_int (d mod second)"
    by (simp_all add: fl_of_int)
  moreover have "quot d second = d div second" "go_rem d second = d mod second"
    using assms(1) by (simp_all add: quot_nonneg go_rem_nonneg second_def)
  ultimately show ?thesis unfolding seconds_def by simp
qed

text \<open>The fraction of a second, and its rounding.\<close>

lemma fraction_near:
  assumes "0 \<le> r" "r < second"
  shows "0 \<le> fl (of_int r / of_int second)"
    "fl (of_int r / of_int second) \<le> of_int r / of_int second + 1 / 2 ^ 53"
    "of_int r / of_int second - 1 / 2 ^ 53 \<le> fl (of_int r / of_int second)"
    "of_int r / of_int second \<le> (1 :: rat)"
    "0 < r \<Longrightarrow> 0 < fl (of_int r / of_int second)"
proof -
  define x :: rat where "x = of_int r / of_int second"
  have x: "0 \<le> x" "x \<le> 1" using assms by (simp_all add: x_def second_def)
  have "\<bar>fl x - x\<bar> \<le> 1 / 2 ^ 53"
  proof (cases "x = 0")
    case False
    with x fl_error [of x] show ?thesis by simp
  qed simp
  then show "fl (of_int r / of_int second) \<le> of_int r / of_int second + 1 / 2 ^ 53"
    "of_int r / of_int second - 1 / 2 ^ 53 \<le> fl (of_int r / of_int second)"
    unfolding x_def [symmetric] by linarith+
  show "0 \<le> fl (of_int r / of_int second)" "of_int r / of_int second \<le> (1 :: rat)"
    unfolding x_def [symmetric] using x fl_nonneg by auto
  show "0 < r \<Longrightarrow> 0 < fl (of_int r / of_int second)"
    by (intro fl_positive) (simp add: second_def)
qed

lemma seconds_positive:
  assumes "0 < d" "d < 2 ^ 63"
  shows "0 < seconds d"
proof -
  have m: "0 \<le> d mod second" "d mod second < second" by (simp_all add: second_def)
  have "0 < of_int (d div second) + fl (of_int (d mod second) / of_int second)"
  proof (cases "d mod second = 0")
    case True
    have "d = d div second * second + d mod second" by simp
    with True assms(1) have "0 < d div second * second" by simp
    then have "0 < d div second" by (simp add: zero_less_mult_iff second_def)
    then show ?thesis using fraction_near(1) [OF m] by (intro add_pos_nonneg) simp_all
  next
    case False
    then have "0 < d mod second" using m(1) by simp
    moreover have "0 \<le> d div second" using assms(1) by (simp add: second_def)
    ultimately show ?thesis using fraction_near(5) [OF m] by (intro add_nonneg_pos) simp_all
  qed
  then show ?thesis using assms by (simp add: seconds_split fl_positive)
qed

lemma seconds_error:
  assumes "0 \<le> d" "d \<le> 10 ^ 17"
  shows "seconds d \<le> of_int d / 10 ^ 9 + 1 / 10 ^ 6" "of_int d / 10 ^ 9 - 1 / 10 ^ 6 \<le> seconds d"
proof -
  define q where "q = (of_int (d div second) :: rat)"
  define x where "x = (of_int (d mod second) / of_int second :: rat)"
  define s where "s = q + fl x"
  have m: "0 \<le> d mod second" "d mod second < second" by (simp_all add: second_def)
  note f = fraction_near [OF m, folded x_def]
  have "d div second \<le> 10 ^ 8" "0 \<le> d div second" using assms by (simp_all add: second_def)
  then have q: "q \<le> 10 ^ 8" "0 \<le> q"
    unfolding q_def by (metis of_int_le_iff of_int_numeral of_int_power, simp)
  have "of_int d = of_int (d div second * second + d mod second :: int)" by simp
  then have "of_int d = q * of_int second + (of_int (d mod second) :: rat)"
    unfolding q_def of_int_add of_int_mult .
  then have d: "of_int d / 10 ^ 9 = q + x" by (simp add: x_def second_def add_divide_distrib)
  have s: "seconds d = fl s"
    unfolding s_def q_def x_def using assms by (intro seconds_split) simp_all
  have s0: "0 \<le> s" "s \<le> 10 ^ 8 + 2" using q f unfolding s_def by simp_all
  have "\<bar>fl s - s\<bar> \<le> (10 ^ 8 + 2) / 2 ^ 53"
  proof (cases "s = 0")
    case False
    then have "\<bar>fl s - s\<bar> \<le> s / 2 ^ 53" using s0 by (intro fl_error) simp
    with s0(2) show ?thesis by simp
  qed simp
  then show "seconds d \<le> of_int d / 10 ^ 9 + 1 / 10 ^ 6" "of_int d / 10 ^ 9 - 1 / 10 ^ 6 \<le> seconds d"
    using f(2,3) unfolding s d s_def abs_le_iff by (simp_all add: field_simps)
qed

lemma seconds_nonpos: "d \<le> 0 \<Longrightarrow> seconds d \<le> 0"
proof -
  have neg: "x \<le> 0 \<Longrightarrow> fl x \<le> 0" for x :: rat
    using fl_nonneg [of "- x"] by (cases "x = 0") (auto simp: fl_def)
  assume "d \<le> 0"
  then have "quot d second \<le> 0" "go_rem d second \<le> 0"
    by (auto simp: quot_def go_rem_def second_def sgn_if zdiv_mono1)
  then show ?thesis
    unfolding seconds_def
    by (intro neg add_nonpos_nonpos divide_nonpos_pos) (auto simp: second_def)
qed

text \<open>Two durations that the comparison takes for ordered are ordered up to a millisecond.\<close>

lemma seconds_le_imp:
  assumes "seconds b \<le> seconds a" "0 < b" "b \<le> 10 ^ 17"
  shows "b - 10 ^ 6 \<le> a"
proof (rule ccontr)
  assume "\<not> b - 10 ^ 6 \<le> a"
  then have less: "a < b - 10 ^ 6" by simp
  show False
  proof (cases "0 \<le> a")
    case True
    have "a \<le> 10 ^ 17" "0 \<le> b" using less assms(2,3) by simp_all
    note seconds_error(1) [OF True this(1)] seconds_error(2) [OF this(2) assms(3)]
    moreover have "of_int a + 10 ^ 6 < (of_int b :: rat)"
      using less by (metis add.commute less_diff_eq of_int_add of_int_less_iff of_int_numeral of_int_power)
    ultimately show False using assms(1) by simp
  next
    case False
    then have "seconds b \<le> 0" using seconds_nonpos [of a] assms(1) by simp
    with seconds_positive [of b] assms show False by simp
  qed
qed

section \<open>The clock\<close>

text \<open>A call of \<open>Invoke\<close> takes at least the time it reports.\<close>

lemma clock_timed:
  "value_of (timed m) w = (err, d) \<Longrightarrow> clock (after (timed m) w) = clock w + d"
  by (auto simp: timed_def now_def)

lemma clock_getFirstCandidatePID: "clock w \<le> clock (after (getFirstCandidatePID E rootPID) w)"
proof -
  have "clock (after (command E b c argv) w') = clock w'" for b c argv w'
    by (simp add: command_def debugLogLn_def printLogLn_def after_eventLn now_def)
  then show ?thesis
    by (simp add: getFirstCandidatePID_def childPID_def Let_def split_beta runCmd_def)
qed

lemma clock_nodeInvoke:
  assumes "value_of (nodeInvoke E n job) w = (err, d)"
  shows "clock w + d \<le> clock (after (nodeInvoke E n job) w)"
proof (cases "value_of (getRootPID E job) w")
  case (Inl e)
  then show ?thesis using assms by (auto simp: nodeInvoke_def now_def getRootPID_def split: sum.splits if_splits)
next
  case (Inr rootPID)
  have "after (getRootPID E job) w = w" by (simp add: getRootPID_def split: sum.split)
  then show ?thesis
    using assms Inr clock_getFirstCandidatePID [of w E rootPID] clock_timed
    by (fastforce simp: nodeInvoke_def now_def)
qed

lemma clock_profilerInvoke:
  assumes "\<not> is_Mock p" "value_of (profilerInvoke E p job) w = ((err, d), p')"
  shows "clock w + d \<le> clock (after (profilerInvoke E p job) w)"
proof -
  have pid: "clock w + d \<le> clock (after (pidInvoke E body b) w)"
    if "value_of (pidInvoke E body b) w = (err, d)" for body b
    using clock_timed that unfolding pidInvoke_def by fastforce
  show ?thesis
    using assms pid clock_nodeInvoke
    by (cases p) (auto simp: invoke_defs unchanged_def)
qed

section \<open>Iterations\<close>

lemma milliseconds_near: "d - 10 ^ 6 < milliseconds d * 10 ^ 6" "milliseconds d * 10 ^ 6 < d + 10 ^ 6"
proof -
  have pos: "x - 10 ^ 6 < x div 10 ^ 6 * 10 ^ 6" "x div 10 ^ 6 * 10 ^ 6 \<le> x" for x :: int
    using minus_mod_eq_div_mult [of x "10 ^ 6"] pos_mod_bound [of "10 ^ 6" x] pos_mod_sign [of "10 ^ 6" x] by simp_all
  show "d - 10 ^ 6 < milliseconds d * 10 ^ 6" "milliseconds d * 10 ^ 6 < d + 10 ^ 6"
    using pos [of d] pos [of "- d"] by (auto simp: milliseconds_def quot_def sgn_if)
qed

lemma clock_iteration:
  assumes "\<not> is_Mock p" "value_of (profilerInvoke E p job) w = ((err, d), p')" "1 < its"
    and "0 < jobInterval job" "jobInterval job \<le> 10 ^ 17"
  shows "clock w + (jobInterval job - 2 * 10 ^ 6) \<le>
    clock (after (pauseAfter E its d job) (after (profilerInvoke E p job) w))"
proof -
  have invoke: "clock w + d \<le> clock (after (profilerInvoke E p job) w)"
    by (rule clock_profilerInvoke [OF assms(1,2)])
  show ?thesis
  proof (cases "seconds d < seconds (jobInterval job)")
    case True
    have "jobInterval job - d - 2 * 10 ^ 6 \<le> (milliseconds (jobInterval job) - milliseconds d) * 10 ^ 6"
      using milliseconds_near(1) [of "jobInterval job"] milliseconds_near(2) [of d]
      unfolding left_diff_distrib by linarith
    with invoke True assms(3) show ?thesis by (simp add: pauseAfter_def)
  next
    case False
    then have "jobInterval job - 10 ^ 6 \<le> d"
      using assms(4,5) by (intro seconds_le_imp) simp_all
    with invoke False show ?thesis by (simp add: pauseAfter_def)
  qed
qed

lemma runLoop_paced:
  assumes "\<not> is_Mock p" "1 < its" "0 < jobInterval job" "jobInterval job \<le> 10 ^ 17"
    and "value_of (runLoop n E its i p job) w = (None, p', job')"
  shows "clock w + int n * (jobInterval job - 2 * 10 ^ 6) \<le> clock (after (runLoop n E its i p job) w)"
  using assms
proof (induction n arbitrary: i job w)
  case (Suc n)
  let ?job = "job\<lparr>jobIteration := i + 1\<rparr>"
  obtain err d q where v: "value_of (profilerInvoke E p ?job) w = ((err, d), q)" by (metis prod_cases3 surj_pair)
  have q: "q = p" using profilerInvoke_same [OF Suc.prems(1), of E ?job w] v by simp
  let ?w = "after (pauseAfter E its d ?job) (after (profilerInvoke E p ?job) w)"
  have err: "err = None" using Suc.prems(5) v by (cases err) (simp_all add: Let_def)
  then have run: "value_of (runLoop n E its (i + 1) p ?job) ?w = (None, p', job')"
    "after (runLoop (Suc n) E its i p job) w = after (runLoop n E its (i + 1) p ?job) ?w"
    using Suc.prems(5) v q err by (simp_all add: Let_def)
  have "clock w + (jobInterval job - 2 * 10 ^ 6) \<le> clock ?w"
    using clock_iteration [OF Suc.prems(1) v Suc.prems(2)] Suc.prems(3,4) by simp
  moreover have "clock ?w + int n * (jobInterval job - 2 * 10 ^ 6) \<le> clock (after (runLoop n E its (i + 1) p ?job) ?w)"
    using Suc.IH [OF Suc.prems(1,2) _ _ run(1)] Suc.prems(3,4) by simp
  ultimately show ?case unfolding run(2) by (simp add: algebra_simps)
qed simp

text \<open>C19. The events that open and close a run that succeeds are paced by the interval: with \<open>n\<close> iterations,
  of several, the time stamp of the last is at least \<open>n\<close> intervals after that of the first, up to two
  milliseconds each, however fast the profiler is; so the last iteration is followed by a pause too. (For
  one iteration there is no pause: discrete mode.)\<close>

theorem run_paced:
  assumes "\<not> is_Mock p" "\<And>t s. marshal E (ProgressData t s) = None"
    and "1 < iterationsOf E job" "0 < jobInterval job" "jobInterval job \<le> 10 ^ 17"
    and "value_of (run E p job) w = (None, p', job')"
  shows "\<exists>t0 t ds. protocol (after (run E p job) w) =
      protocol w @ Event Progress (ProgressData t0 Started) # map resultEvent ds @ [Event Progress (ProgressData t Ended)] \<and>
      t0 + iterationsOf E job * (jobInterval job - 2 * 10 ^ 6) \<le> t"
proof -
  let ?w1 = "after (eventLn E Progress (ProgressData (value_of now w) Started)) (after now w)"
  let ?p1 = "snd (value_of (profilerSetUp E p job) ?w1)"
  let ?w2 = "after (profilerSetUp E p job) ?w1"
  let ?loop = "runLoop (nat (iterationsOf E job)) E (iterationsOf E job) 0 ?p1 job"
  have started: "fst (value_of (profilerSetUp E p job) ?w1) = None" and loop: "fst (value_of ?loop ?w2) = None"
    and run: "clock (after (run E p job) w) = clock (after ?loop ?w2)"
    using assms(6) by (auto simp: run_def split_beta now_def after_eventLn split: if_splits)
  have "clock w = clock ?w1" by (simp add: now_def after_eventLn)
  also have "clock ?w1 \<le> clock ?w2" by (rule quiet_clock [OF profilerSetUp_quiet [OF assms(1)]])
  also have "clock ?w2 + int (nat (iterationsOf E job)) * (jobInterval job - 2 * 10 ^ 6) \<le> clock (after ?loop ?w2)"
    using loop assms(1,3-5) by (intro runLoop_paced prod_eqI) (auto simp: is_Mock_SetUp)
  finally have "clock w + iterationsOf E job * (jobInterval job - 2 * 10 ^ 6) \<le> clock (after (run E p job) w)"
    using assms(3) run by simp
  then show ?thesis using run_stream [OF assms(1,2,6)] by auto
qed

text \<open>Two iterations of rbspy on one PID; the tool has written both profiles, which are not compressed.\<close>

definition paced_job :: ProfilingJob where
  "paced_job = ruby_job\<lparr>jobDuration := 2 * second, jobCompressor := NoneType\<rparr>"

definition paced_world :: world where
  "paced_world = empty_world\<lparr>files :=
     [(''/tmp/agent-summary-7-1.txt'', File ''main 3''), (''/tmp/agent-summary-7-2.txt'', File ''main 4'')]\<rparr>"

lemma publishDo_none_files: "files (after (publishDo sample_env NoneType f out) w) = files w"
  by (simp add: publishDo_def resultFileOf_def osOpen_def faulty_def file_size_def osStat_def checksum_file_def
      osReadFile_def osRead_def sample_env_sel now_def after_eventLn split: option.split sum.split)

lemma paced_body:
  assumes "files w = files paced_world" "it = 1 \<or> it = 2"
  shows "value_of (rubyBody sample_env (paced_job\<lparr>jobIteration := it\<rparr>) ''7'') w = None"
    "files (after (rubyBody sample_env (paced_job\<lparr>jobIteration := it\<rparr>) ''7'') w) = files paced_world"
proof -
  let ?job = "paced_job\<lparr>jobIteration := it\<rparr>"
  let ?f = "resultFileFor sample_env ?job Summary ''7''"
  have "path_join [''/tmp'', ''agent-''] = ''/tmp/agent-''" by code_simp
  moreover have "itoa 1 = ''1''" "itoa 2 = ''2''" by code_simp+
  ultimately have f: "?f = (if it = 1 then ''/tmp/agent-summary-7-1.txt'' else ''/tmp/agent-summary-7-2.txt'')"
    using assms(2)
    by (auto simp: resultFileFor_def getResultFile_def sample_env_sel paced_job_def ruby_job_def sample_job_def profilingPrefix_def)
  let ?w = "after (runCmd sample_env (value_of (rubyCommand sample_env ?job ''7'' ?f) w) [])
      (after (rubyCommand sample_env ?job ''7'' ?f) w)"
  have fs: "files ?w = files paced_world"
    using assms by (simp add: rubyCommand_def runCmd_def Let_def sample_env_sel)
  have "content (files ?w) ?f = Some (if it = 1 then ''main 3'' else ''main 4'')"
    unfolding fs unfolding f by (auto simp: paced_world_def content_def resolve_no_links no_links_def)
  moreover have "\<not> is_dir (files ?w) (resultFileOf NoneType ?f)" "no_links (files ?w)"
    unfolding fs unfolding f by (auto simp: paced_world_def is_dir_def resolve_no_links no_links_def beneath_def resultFileOf_def)
  ultimately have "value_of (publishDo sample_env NoneType ?f Summary) ?w = None"
    by (intro publishDo_publishes [THEN conjunct1]) (simp_all add: sample_env_sel no_faults_def)
  moreover have "fst (value_of (runCmd sample_env argv []) w') = None" for argv w'
    by (simp add: runCmd_def Let_def sample_env_sel)
  moreover have "jobCompressor ?job = NoneType" "jobOutputType ?job = Summary"
    by (simp_all add: paced_job_def ruby_job_def)
  ultimately show "value_of (rubyBody sample_env ?job ''7'') w = None"
    "files (after (rubyBody sample_env ?job ''7'') w) = files paced_world"
    by (simp_all add: rubyBody_def Let_def split_beta fs publishDo_none_files)
qed

lemma files_profilePIDs_single:
  "files (after (profilePIDs sample_env [p] d body) w) = files (after (body p) w)"
  by (simp add: profilePIDs_def pidsVerdict_def ppSchedule_def ppInit_def ppStep_def Let_def panic_of_def failedPIDs_def
      map_filter_def sample_env_sel split: option.split)

lemma paced_run: "fst (value_of (run sample_env (RubyProfiler newRubyProfiler) paced_job) paced_world) = None"
  and paced_iterations: "iterationsOf sample_env paced_job = 2"
proof -
  show its: "iterationsOf sample_env paced_job = 2"
    using seconds_ratio_whole [of 2 1] by (simp add: iterationsOf_def paced_job_def ruby_job_def)
  have blank: "is_not_blank sample_env ''7''"
    by (simp add: is_not_blank_def sample_env_lib trim_space_clean is_space_rune_def)
  have upd: "value_of (rubySetUp sample_env newRubyProfiler paced_job) w =
      (None, newRubyProfiler\<lparr>targetPIDs := [''7'']\<rparr>)"
    "after (rubySetUp sample_env newRubyProfiler paced_job) w = w" for w
    using blank by (simp_all add: rubySetUp_def pidSetUp_def targetsOf_def paced_job_def ruby_job_def)
  let ?p = "newRubyProfiler\<lparr>targetPIDs := [''7'']\<rparr>"
  have invoke: "fst (value_of (rubyInvoke sample_env ?p (paced_job\<lparr>jobIteration := it\<rparr>)) w) = None"
    "files (after (rubyInvoke sample_env ?p (paced_job\<lparr>jobIteration := it\<rparr>)) w) = files paced_world"
    if "files w = files paced_world" "it = 1 \<or> it = 2" for w it
    using paced_body that
    by (simp_all add: rubyInvoke_def pidInvoke_def profilePIDs_single files_profilePIDs_single sample_env_sel newRubyProfiler_def newPidProfiler_def timed_def now_def)
  have pause: "files (after (pauseAfter sample_env i d j) w) = files w" for i d j w
    by (simp add: pauseAfter_def sleep_def sample_env_sel)
  have "fst (value_of (runLoop 2 sample_env 2 0 (RubyProfiler ?p) paced_job) w) = None"
    if "files w = files paced_world" for w
    using that by (simp add: numeral_2_eq_2 Let_def split_beta invoke pause)
  then show "fst (value_of (run sample_env (RubyProfiler newRubyProfiler) paced_job) paced_world) = None"
    by (simp add: run_def split_beta upd its)
qed

theorem run_paced_witness:
  "\<exists>t0 t ds. protocol (after (run sample_env (RubyProfiler newRubyProfiler) paced_job) paced_world) =
      protocol paced_world @ Event Progress (ProgressData t0 Started) # map resultEvent ds @ [Event Progress (ProgressData t Ended)] \<and>
      t0 + iterationsOf sample_env paced_job * (jobInterval paced_job - 2 * 10 ^ 6) \<le> t"
proof (rule run_paced)
  show "value_of (run sample_env (RubyProfiler newRubyProfiler) paced_job) paced_world =
      (None, fst (snd (value_of (run sample_env (RubyProfiler newRubyProfiler) paced_job) paced_world)),
        snd (snd (value_of (run sample_env (RubyProfiler newRubyProfiler) paced_job) paced_world)))"
    using paced_run by (metis prod.collapse)
qed (simp_all add: sample_env_sel paced_iterations, simp_all add: paced_job_def ruby_job_def second_def)

end
