(* ===== verification/ClientUtils.thy ===== *)
theory ClientUtils
  imports World
begin

text \<open>
  Helpers the agent itself does not call: pkg/util/lists/lists.go and pkg/util/pod (exec.go, exec\_fake.go),
  by which a client runs a command in a pod. The remote command of kubectl is the argument \<open>run\<close>: it gets
  the options and the standard input and gives the two output streams and an error. The Kubernetes client
  is opaque: its type is a parameter.
\<close>

section \<open>pkg/util/lists\<close>

text \<open>\<open>TrimSpace\<close> overwrites the elements of the list it is given and returns that list.\<close>

function trimSpaceFrom :: "nat \<Rightarrow> string list \<Rightarrow> string list" where
  "trimSpaceFrom i xs = (if i < length xs then trimSpaceFrom (Suc i) (xs[i := trim_space (xs ! i)]) else xs)"
  by pat_completeness auto

termination
  by (relation "measure (\<lambda>(i, xs). length xs - i)") auto

declare trimSpaceFrom.simps [simp del]

definition listsTrimSpace :: "string list \<Rightarrow> string list" where
  "listsTrimSpace xs = trimSpaceFrom 0 xs"

lemma trimSpaceFrom_map: "i \<le> length xs \<Longrightarrow> trimSpaceFrom i xs = take i xs @ map trim_space (drop i xs)"
proof (induction i xs rule: trimSpaceFrom.induct)
  case (1 i xs)
  show ?case
  proof (cases "i < length xs")
    case True
    with "1.IH" have "trimSpaceFrom i xs =
        take (Suc i) (xs[i := trim_space (xs ! i)]) @ map trim_space (drop (Suc i) xs)"
      by (subst trimSpaceFrom.simps) simp
    with True show ?thesis
      by (simp add: take_Suc_conv_app_nth Cons_nth_drop_Suc [symmetric, of i xs])
  next
    case False
    with "1.prems" show ?thesis by (subst trimSpaceFrom.simps) simp
  qed
qed

lemma listsTrimSpace_map: "listsTrimSpace xs = map trim_space xs"
  by (simp add: listsTrimSpace_def trimSpaceFrom_map)

section \<open>pkg/util/pod\<close>

text \<open>The fields of \<open>rest.Config\<close> that \<open>NewExec\<close> sets; all the others are \<open>restRest\<close>.\<close>

record restConfig =
  apiPath :: string
  groupVersion :: "(string \<times> string) option"
  negotiatedSerializer :: string
  restRest :: string

record 'c Exec =
  restConfigOf :: restConfig
  clientSet :: 'c

text \<open>\<open>InterruptParent\<close> is nil and \<open>Executor\<close> always the default one; the streams are the arguments and results of \<open>run\<close>.\<close>

record 'c ExecOptions =
  optNamespace :: string
  optPodName :: string
  optStdin :: bool
  optTTY :: bool
  optQuiet :: bool
  optContainerName :: string
  optCommand :: "string list"
  optPodClient :: 'c
  optGetPodTimeout :: int
  optConfig :: restConfig

text \<open>\<open>NewExec\<close> sets the fields in the configuration of its caller, which it keeps.\<close>

definition newExec :: "restConfig \<Rightarrow> 'c \<Rightarrow> 'c Exec" where
  "newExec config client =
     \<lparr>restConfigOf = config\<lparr>apiPath := ''/api'', groupVersion := Some ([], ''v1''),
        negotiatedSerializer := ''scheme.Codecs''\<rparr>,
      clientSet = client\<rparr>"

text \<open>The results: standard input, output and error output, and the error.\<close>

definition podExecute ::
  "('c ExecOptions \<Rightarrow> string \<Rightarrow> string \<times> string \<times> error option) \<Rightarrow>
   'c Exec \<Rightarrow> string \<Rightarrow> string \<Rightarrow> string \<Rightarrow> string list \<Rightarrow> string \<times> string \<times> string \<times> error option" where
  "podExecute run p namespace podName containerName cmd =
     (let options = \<lparr>optNamespace = namespace, optPodName = podName, optStdin = True, optTTY = False,
            optQuiet = False, optContainerName = containerName, optCommand = cmd,
            optPodClient = clientSet p, optGetPodTimeout = 0, optConfig = restConfigOf p\<rparr>;
          (out, errOut, err) = run options []
      in case err of
           Some e \<Rightarrow> ([], out, errOut, Some (Wrap ''could not run exec operation'' e))
         | None \<Rightarrow> ([], out, errOut, None))"

record ExecFake =
  outFake :: string
  errOutFake :: string
  fakeError :: "error option"

definition newExecFake :: "string \<Rightarrow> string \<Rightarrow> error option \<Rightarrow> ExecFake" where
  "newExecFake out errOut e = \<lparr>outFake = out, errOutFake = errOut, fakeError = e\<rparr>"

text \<open>Of the fake the standard input is nil.\<close>

definition podExecuteFake ::
  "ExecFake \<Rightarrow> string \<Rightarrow> string \<Rightarrow> string \<Rightarrow> string list \<Rightarrow> string option \<times> string \<times> string \<times> error option" where
  "podExecuteFake e namespace podName containerName cmd = (None, outFake e, errOutFake e, fakeError e)"

text \<open>Whatever the command printed before it failed is handed on with the error.\<close>

lemma podExecute_output:
  "podExecute run p ns pod c cmd = ([], out, errOut, err) \<Longrightarrow>
   \<exists>options err'. run options [] = (out, errOut, err') \<and> optCommand options = cmd \<and> optPodName options = pod \<and>
     optNamespace options = ns \<and> optContainerName options = c \<and> (err = None \<longleftrightarrow> err' = None)"
  by (force simp: podExecute_def Let_def split: prod.splits option.splits)

end
