(* ===== verification/TestDoubles.thy ===== *)
theory TestDoubles
  imports Prelude
begin

text \<open>
  The doubles the unit tests use in place of the commander, the publisher and the managers of the
  profilers: internal/agent/util/exec/exec\_fake.go, internal/agent/util/publish/publisher\_fake.go and the
  files \<open>*_fake.go\<close> of internal/agent/profiler. All keep a table of methods with scripted return values and
  two counters, and all their methods have one of five shapes. Scripted values have a dynamic type; a
  wrong one is a panic of the type assertion, and so is a method that has no entry in the table. The mutex
  some doubles have makes each call of \<open>invoke\<close> one step, which it is here.
\<close>

section \<open>The table of methods\<close>

datatype fakeValue =
    NilValue
  | ErrorValue error
  | DurationValue int
  | IntValue int
  | StringValue string
  | BytesValue string
  | CmdValue "string list"

record fakeMethod =
  fakeReturnValues :: "fakeValue list list"
  invokes :: nat
  indexExecution :: nat

type_synonym fakeMethods = "string \<rightharpoonup> fakeMethod"

type_synonym 'a fake = "(fakeMethods, error + 'a) state"

definition newFake :: fakeMethods where
  "newFake = (\<lambda>_. None)"

text \<open>A new entry has no return values; an absent and an empty list of them are not distinguished by any method.\<close>

definition fakeOn :: "string \<Rightarrow> fakeMethods \<Rightarrow> fakeMethods" where
  "fakeOn m f = (case f m of
     None \<Rightarrow> f(m \<mapsto> \<lparr>fakeReturnValues = [], invokes = 0, indexExecution = 0\<rparr>) | Some _ \<Rightarrow> f)"

text \<open>\<open>On(m).Return(vs...)\<close> adds the values of one more call.\<close>

definition fakeReturn :: "fakeValue list \<Rightarrow> fakeMethod \<Rightarrow> fakeMethod" where
  "fakeReturn vs method = method\<lparr>fakeReturnValues := fakeReturnValues method @ [vs]\<rparr>"

definition fakeInvokedTimes :: "fakeMethod \<Rightarrow> nat" where
  "fakeInvokedTimes method = invokes method"

section \<open>Shapes of methods\<close>

definition outOfRange :: error where
  "outOfRange = Panic ''runtime error: index out of range''"

definition conversionPanic :: error where
  "conversionPanic = Panic ''interface conversion''"

text \<open>The counters go up, whatever follows; the result is whether there is a script.\<close>

definition fakeInvoked :: "string \<Rightarrow> bool fake" where
  "fakeInvoked m =
     State (\<lambda>f. case f m of
       None \<Rightarrow> (Inl nil_dereference, f)
     | Some k \<Rightarrow>
         if fakeReturnValues k = [] then (Inr False, f(m \<mapsto> k\<lparr>invokes := Suc (invokes k)\<rparr>))
         else (Inr True, f(m \<mapsto> k\<lparr>invokes := Suc (invokes k), indexExecution := Suc (indexExecution k)\<rparr>)))"

text \<open>\<open>fakeReturnValues[indexExecution-1].([]interface\{\})[i]\<close>\<close>

definition fakeArg :: "string \<Rightarrow> nat \<Rightarrow> fakeValue fake" where
  "fakeArg m i =
     State (\<lambda>f. (case f m of
         None \<Rightarrow> Inl nil_dereference
       | Some k \<Rightarrow>
           let n = indexExecution k - 1
           in if n < length (fakeReturnValues k)
              then (let vs = fakeReturnValues k ! n in if i < length vs then Inr (vs ! i) else Inl outOfRange)
              else Inl outOfRange, f))"

fun asError :: "fakeValue \<Rightarrow> error + error option" where
  "asError NilValue = Inr None"
| "asError (ErrorValue e) = Inr (Some e)"
| "asError _ = Inl conversionPanic"

text \<open>The other assertions; a nil leaves the zero value of the type.\<close>

fun asDuration :: "fakeValue \<Rightarrow> error + int" where
  "asDuration NilValue = Inr 0"
| "asDuration (DurationValue d) = Inr d"
| "asDuration _ = Inl conversionPanic"

fun asInt :: "fakeValue \<Rightarrow> error + int" where
  "asInt NilValue = Inr 0"
| "asInt (IntValue i) = Inr i"
| "asInt _ = Inl conversionPanic"

fun asString :: "fakeValue \<Rightarrow> error + string" where
  "asString NilValue = Inr []"
| "asString (StringValue s) = Inr s"
| "asString _ = Inl conversionPanic"

fun asBytes :: "fakeValue \<Rightarrow> error + string" where
  "asBytes NilValue = Inr []"
| "asBytes (BytesValue b) = Inr b"
| "asBytes _ = Inl conversionPanic"

fun asCmd :: "fakeValue \<Rightarrow> error + string list option" where
  "asCmd NilValue = Inr None"
| "asCmd (CmdValue c) = Inr (Some c)"
| "asCmd _ = Inl conversionPanic"

text \<open>A method with no result, with an error, and with an error and a duration or a string.\<close>

definition scriptedVoid :: "string \<Rightarrow> unit fake" where
  "scriptedVoid m = attempt (fakeInvoked m) (\<lambda>_. State_Monad.return (Inr ()))"

definition scriptedError :: "string \<Rightarrow> error option fake" where
  "scriptedError m =
     attempt (fakeInvoked m) (\<lambda>scripted.
       if scripted then attempt (fakeArg m 0) (\<lambda>v. State_Monad.return (asError v))
       else State_Monad.return (Inr None))"

text \<open>Here both values are read before either is converted.\<close>

definition scriptedInvoke :: "string \<Rightarrow> (error option \<times> int) fake" where
  "scriptedInvoke m =
     attempt (fakeInvoked m) (\<lambda>scripted.
       if scripted
       then attempt (fakeArg m 0) (\<lambda>arg0. attempt (fakeArg m 1) (\<lambda>arg1.
              attempt (State_Monad.return (asError arg0)) (\<lambda>err.
              attempt (State_Monad.return (asDuration arg1)) (\<lambda>d.
                State_Monad.return (Inr (err, d))))))
       else State_Monad.return (Inr (None, 0)))"

definition scriptedText :: "string \<Rightarrow> (error option \<times> string) fake" where
  "scriptedText m =
     attempt (fakeInvoked m) (\<lambda>scripted.
       if scripted
       then attempt (fakeArg m 0) (\<lambda>arg0. attempt (fakeArg m 1) (\<lambda>arg1.
              attempt (State_Monad.return (asError arg0)) (\<lambda>err.
              attempt (State_Monad.return (asString arg1)) (\<lambda>result.
                State_Monad.return (Inr (err, result))))))
       else State_Monad.return (Inr (None, [])))"

section \<open>Commander\<close>

definition fakeCommand :: "string \<Rightarrow> string list \<Rightarrow> string list option fake" where
  "fakeCommand name args =
     attempt (fakeInvoked ''Command'') (\<lambda>scripted.
       if scripted then attempt (fakeArg ''Command'' 0) (\<lambda>v. State_Monad.return (asCmd v))
       else State_Monad.return (Inr None))"

definition fakeExecute :: "string list option \<Rightarrow> (int \<times> string \<times> error option) fake" where
  "fakeExecute cmd =
     attempt (fakeInvoked ''Execute'') (\<lambda>scripted.
       if scripted
       then attempt (fakeArg ''Execute'' 0) (\<lambda>arg0. attempt (State_Monad.return (asInt arg0)) (\<lambda>exitCode.
            attempt (fakeArg ''Execute'' 1) (\<lambda>arg1. attempt (State_Monad.return (asBytes arg1)) (\<lambda>output.
            attempt (fakeArg ''Execute'' 2) (\<lambda>arg2. attempt (State_Monad.return (asError arg2)) (\<lambda>err.
              State_Monad.return (Inr (exitCode, output, err))))))))
       else State_Monad.return (Inr (0, [], None)))"

section \<open>Publisher and managers\<close>

text \<open>
  None of these methods looks at its arguments, which are left out. The lock of \<open>invoke\<close> makes each call one
  step on the table.
\<close>

text \<open>internal/agent/util/publish/publisher\_fake.go\<close>

type_synonym publisherFakeMethod = fakeMethod

type_synonym publisherFake = "string \<rightharpoonup> publisherFakeMethod"

definition newPublisherFake :: publisherFake where
  "newPublisherFake = newFake"

definition publisherFakeOn :: "string \<Rightarrow> publisherFake \<Rightarrow> publisherFake" where
  "publisherFakeOn = fakeOn"

definition publisherFakeReturn :: "fakeValue list \<Rightarrow> publisherFakeMethod \<Rightarrow> publisherFakeMethod" where
  "publisherFakeReturn = fakeReturn"

definition publisherFakeInvokedTimes :: "publisherFakeMethod \<Rightarrow> nat" where
  "publisherFakeInvokedTimes = fakeInvokedTimes"

definition fakeDo :: "error option fake" where
  "fakeDo = scriptedError ''Do''"

definition fakeDoWithNativeGzipAndSplit :: "error option fake" where
  "fakeDoWithNativeGzipAndSplit = scriptedError ''DoWithNativeGzipAndSplit''"

text \<open>internal/agent/profiler/bpf\_fake.go\<close>

type_synonym fakeBpfManagerMethod = fakeMethod

type_synonym fakeBpfManager = "string \<rightharpoonup> fakeBpfManagerMethod"

definition newBpfFake :: fakeBpfManager where
  "newBpfFake = newFake"

definition bpfFakeOn :: "string \<Rightarrow> fakeBpfManager \<Rightarrow> fakeBpfManager" where
  "bpfFakeOn = fakeOn"

definition bpfFakeReturn :: "fakeValue list \<Rightarrow> fakeBpfManagerMethod \<Rightarrow> fakeBpfManagerMethod" where
  "bpfFakeReturn = fakeReturn"

definition bpfFakeInvokedTimes :: "fakeBpfManagerMethod \<Rightarrow> nat" where
  "bpfFakeInvokedTimes = fakeInvokedTimes"

definition bpfFakeInvoke :: "(error option \<times> int) fake" where
  "bpfFakeInvoke = scriptedInvoke ''invoke''"

definition bpfFakeHandleFlamegraph :: "error option fake" where
  "bpfFakeHandleFlamegraph = scriptedError ''handleFlamegraph''"

text \<open>internal/agent/profiler/perf\_fake.go\<close>

type_synonym fakePerfManagerMethod = fakeMethod

type_synonym fakePerfManager = "string \<rightharpoonup> fakePerfManagerMethod"

definition newPerfFake :: fakePerfManager where
  "newPerfFake = newFake"

definition perfFakeOn :: "string \<Rightarrow> fakePerfManager \<Rightarrow> fakePerfManager" where
  "perfFakeOn = fakeOn"

definition perfFakeReturn :: "fakeValue list \<Rightarrow> fakePerfManagerMethod \<Rightarrow> fakePerfManagerMethod" where
  "perfFakeReturn = fakeReturn"

definition perfFakeInvokedTimes :: "fakePerfManagerMethod \<Rightarrow> nat" where
  "perfFakeInvokedTimes = fakeInvokedTimes"

definition perfFakeInvoke :: "(error option \<times> int) fake" where
  "perfFakeInvoke = scriptedInvoke ''invoke''"

definition perfFakeRunPerfRecord :: "error option fake" where
  "perfFakeRunPerfRecord = scriptedError ''runPerfRecord''"

definition perfFakeRunPerfScript :: "error option fake" where
  "perfFakeRunPerfScript = scriptedError ''runPerfScript''"

definition perfFakeFoldPerfOutput :: "(error option \<times> string) fake" where
  "perfFakeFoldPerfOutput = scriptedText ''foldPerfOutput''"

definition perfFakeHandleFlamegraph :: "error option fake" where
  "perfFakeHandleFlamegraph = scriptedError ''handleFlamegraph''"

text \<open>internal/agent/profiler/python\_fake.go\<close>

type_synonym fakePythonManagerMethod = fakeMethod

type_synonym fakePythonManager = "string \<rightharpoonup> fakePythonManagerMethod"

definition newPythonFake :: fakePythonManager where
  "newPythonFake = newFake"

definition pythonFakeOn :: "string \<Rightarrow> fakePythonManager \<Rightarrow> fakePythonManager" where
  "pythonFakeOn = fakeOn"

definition pythonFakeReturn :: "fakeValue list \<Rightarrow> fakePythonManagerMethod \<Rightarrow> fakePythonManagerMethod" where
  "pythonFakeReturn = fakeReturn"

definition pythonFakeInvokedTimes :: "fakePythonManagerMethod \<Rightarrow> nat" where
  "pythonFakeInvokedTimes = fakeInvokedTimes"

definition pythonFakeInvoke :: "(error option \<times> int) fake" where
  "pythonFakeInvoke = scriptedInvoke ''invoke''"

definition pythonFakeHandleFlamegraph :: "error option fake" where
  "pythonFakeHandleFlamegraph = scriptedError ''handleFlamegraph''"

text \<open>internal/agent/profiler/ruby\_fake.go\<close>

type_synonym fakeRubyManagerMethod = fakeMethod

type_synonym fakeRubyManager = "string \<rightharpoonup> fakeRubyManagerMethod"

definition newRubyFake :: fakeRubyManager where
  "newRubyFake = newFake"

definition rubyFakeOn :: "string \<Rightarrow> fakeRubyManager \<Rightarrow> fakeRubyManager" where
  "rubyFakeOn = fakeOn"

definition rubyFakeReturn :: "fakeValue list \<Rightarrow> fakeRubyManagerMethod \<Rightarrow> fakeRubyManagerMethod" where
  "rubyFakeReturn = fakeReturn"

definition rubyFakeInvokedTimes :: "fakeRubyManagerMethod \<Rightarrow> nat" where
  "rubyFakeInvokedTimes = fakeInvokedTimes"

definition rubyFakeInvoke :: "(error option \<times> int) fake" where
  "rubyFakeInvoke = scriptedInvoke ''invoke''"

definition rubyFakeHandleFlamegraph :: "error option fake" where
  "rubyFakeHandleFlamegraph = scriptedError ''handleFlamegraph''"

text \<open>internal/agent/profiler/node\_dummy\_fake.go\<close>

type_synonym fakeNodeDummyManagerMethod = fakeMethod

type_synonym fakeNodeDummyManager = "string \<rightharpoonup> fakeNodeDummyManagerMethod"

definition newNodeFake :: fakeNodeDummyManager where
  "newNodeFake = newFake"

definition nodeFakeOn :: "string \<Rightarrow> fakeNodeDummyManager \<Rightarrow> fakeNodeDummyManager" where
  "nodeFakeOn = fakeOn"

definition nodeFakeReturn :: "fakeValue list \<Rightarrow> fakeNodeDummyManagerMethod \<Rightarrow> fakeNodeDummyManagerMethod" where
  "nodeFakeReturn = fakeReturn"

definition nodeFakeInvokedTimes :: "fakeNodeDummyManagerMethod \<Rightarrow> nat" where
  "nodeFakeInvokedTimes = fakeInvokedTimes"

definition nodeFakeInvoke :: "(error option \<times> int) fake" where
  "nodeFakeInvoke = scriptedInvoke ''invoke''"

text \<open>internal/agent/profiler/jvm/async\_profiler\_fake.go\<close>

type_synonym fakeAsyncProfilerManagerMethod = fakeMethod

type_synonym fakeAsyncProfilerManager = "string \<rightharpoonup> fakeAsyncProfilerManagerMethod"

definition newAsyncFake :: fakeAsyncProfilerManager where
  "newAsyncFake = newFake"

definition asyncFakeOn :: "string \<Rightarrow> fakeAsyncProfilerManager \<Rightarrow> fakeAsyncProfilerManager" where
  "asyncFakeOn = fakeOn"

definition asyncFakeReturn :: "fakeValue list \<Rightarrow> fakeAsyncProfilerManagerMethod \<Rightarrow> fakeAsyncProfilerManagerMethod" where
  "asyncFakeReturn = fakeReturn"

definition asyncFakeInvokedTimes :: "fakeAsyncProfilerManagerMethod \<Rightarrow> nat" where
  "asyncFakeInvokedTimes = fakeInvokedTimes"

definition asyncFakeInvoke :: "(error option \<times> int) fake" where
  "asyncFakeInvoke = scriptedInvoke ''invoke''"

definition asyncFakeRemoveTmpDir :: "error option fake" where
  "asyncFakeRemoveTmpDir = scriptedError ''removeTmpDir''"

definition asyncFakeLinkTmpDirToTargetTmpDir :: "error option fake" where
  "asyncFakeLinkTmpDirToTargetTmpDir = scriptedError ''linkTmpDirToTargetTmpDir''"

definition asyncFakeCopyProfilerToTmpDir :: "error option fake" where
  "asyncFakeCopyProfilerToTmpDir = scriptedError ''copyProfilerToTmpDir''"

definition asyncFakeSelectProfilerLibrary :: "error option fake" where
  "asyncFakeSelectProfilerLibrary = scriptedError ''selectProfilerLibrary''"

definition asyncFakeCleanUp :: "unit fake" where
  "asyncFakeCleanUp = scriptedVoid ''cleanUp''"

text \<open>internal/agent/profiler/jvm/jcmd\_fake.go\<close>

type_synonym fakeJcmdManagerMethod = fakeMethod

type_synonym fakeJcmdManager = "string \<rightharpoonup> fakeJcmdManagerMethod"

definition newJcmdFake :: fakeJcmdManager where
  "newJcmdFake = newFake"

definition jcmdFakeOn :: "string \<Rightarrow> fakeJcmdManager \<Rightarrow> fakeJcmdManager" where
  "jcmdFakeOn = fakeOn"

definition jcmdFakeReturn :: "fakeValue list \<Rightarrow> fakeJcmdManagerMethod \<Rightarrow> fakeJcmdManagerMethod" where
  "jcmdFakeReturn = fakeReturn"

definition jcmdFakeInvokedTimes :: "fakeJcmdManagerMethod \<Rightarrow> nat" where
  "jcmdFakeInvokedTimes = fakeInvokedTimes"

definition jcmdFakeInvoke :: "(error option \<times> int) fake" where
  "jcmdFakeInvoke = scriptedInvoke ''invoke''"

definition jcmdFakeRemoveTmpDir :: "error option fake" where
  "jcmdFakeRemoveTmpDir = scriptedError ''removeTmpDir''"

definition jcmdFakeLinkTmpDirToTargetTmpDir :: "error option fake" where
  "jcmdFakeLinkTmpDirToTargetTmpDir = scriptedError ''linkTmpDirToTargetTmpDir''"

definition jcmdFakeCleanUp :: "unit fake" where
  "jcmdFakeCleanUp = scriptedVoid ''cleanUp''"

definition jcmdFakeCopyJfrSettingsToTmpDir :: "error option fake" where
  "jcmdFakeCopyJfrSettingsToTmpDir = scriptedError ''copyJfrSettingsToTmpDir''"

definition jcmdFakeHandleProfilingResult :: "error option fake" where
  "jcmdFakeHandleProfilingResult = scriptedError ''handleProfilingResult''"

definition jcmdFakeHandleJcmdRecording :: "unit fake" where
  "jcmdFakeHandleJcmdRecording = scriptedVoid ''handleJcmdRecording''"

definition jcmdFakePublishResult :: "error option fake" where
  "jcmdFakePublishResult = scriptedError ''publishResult''"

section \<open>Scripts\<close>

text \<open>The results of \<open>n\<close> calls in a row, and the table after them.\<close>

primrec callTimes :: "nat \<Rightarrow> 'a fake \<Rightarrow> fakeMethods \<Rightarrow> (error + 'a) list \<times> fakeMethods" where
  "callTimes 0 m f = ([], f)"
| "callTimes (Suc n) m f =
     (let (r, f') = run_state m f; (rs, f'') = callTimes n m f' in (r # rs, f''))"

text \<open>The value that scripts an error, or its absence.\<close>

definition scripted :: "error option \<Rightarrow> fakeValue" where
  "scripted e = (case e of None \<Rightarrow> NilValue | Some x \<Rightarrow> ErrorValue x)"

definition errorScript :: "string \<Rightarrow> error option list \<Rightarrow> fakeMethods" where
  "errorScript m es =
     [m \<mapsto> \<lparr>fakeReturnValues = map (\<lambda>e. [scripted e]) es, invokes = 0, indexExecution = 0\<rparr>]"

text \<open>The table that \<open>d.On(m).Return(e1).Return(e2)...\<close> makes of a new double \<open>d\<close>.\<close>

definition scriptOf ::
  "fakeMethods \<Rightarrow> (string \<Rightarrow> fakeMethods \<Rightarrow> fakeMethods) \<Rightarrow> (fakeValue list \<Rightarrow> fakeMethod \<Rightarrow> fakeMethod) \<Rightarrow>
    string \<Rightarrow> error option list \<Rightarrow> fakeMethods" where
  "scriptOf new on ret m es =
     foldl (\<lambda>f e. let g = on m f in g(m := map_option (ret [scripted e]) (g m))) (on m new) es"

definition scriptAt :: "string \<Rightarrow> error option list \<Rightarrow> nat \<Rightarrow> fakeMethods" where
  "scriptAt m es i =
     [m \<mapsto> \<lparr>fakeReturnValues = map (\<lambda>e. [scripted e]) es,
            invokes = i, indexExecution = if es = [] then 0 else i\<rparr>]"

lemma scriptAt_0 [simp]: "scriptAt m es 0 = errorScript m es"
  by (simp add: scriptAt_def errorScript_def)

lemma asError_scripted [simp]: "asError (scripted e) = Inr e"
  by (cases e) (simp_all add: scripted_def)

lemma fakeInvoked_scriptAt [simp]:
  "run_state (fakeInvoked m) (scriptAt m es i) = (Inr (es \<noteq> []), scriptAt m es (Suc i))"
  by (simp add: fakeInvoked_def scriptAt_def)

lemma fakeArg_scriptAt [simp]:
  "es \<noteq> [] \<Longrightarrow> run_state (fakeArg m 0) (scriptAt m es (Suc i)) =
     (if i < length es then Inr (scripted (es ! i)) else Inl outOfRange,
      scriptAt m es (Suc i))"
  by (simp add: fakeArg_def scriptAt_def Let_def)

lemma scriptedError_step:
  "run_state (scriptedError m) (scriptAt m es i) =
     (if es = [] then Inr None else if i < length es then Inr (es ! i) else Inl outOfRange, scriptAt m es (Suc i))"
  by (simp add: scriptedError_def)

lemma callTimes_scriptAt:
  "callTimes n (scriptedError m) (scriptAt m es i) =
     (map (\<lambda>j. if es = [] then Inr None else if j < length es then Inr (es ! j) else Inl outOfRange) [i..<i + n],
      scriptAt m es (i + n))"
proof (induction n arbitrary: i)
  case 0
  show ?case by simp
next
  case (Suc n)
  have "[i..<i + Suc n] = i # [Suc i..<Suc i + n]" by (simp add: upt_conv_Cons)
  then show ?case
    by (simp only: callTimes.simps scriptedError_step Let_def prod.case Suc.IH) (simp del: upt_Suc)
qed

lemma scripted_calls:
  "fst (callTimes n (scriptedError m) (errorScript m es)) =
     (if es = [] then replicate n (Inr None)
      else map Inr (take n es) @ replicate (n - length es) (Inl outOfRange))"
  and scripted_count:
  "map_option fakeInvokedTimes (snd (callTimes n (scriptedError m) (errorScript m es)) m) = Some n"
proof -
  have run: "callTimes n (scriptedError m) (errorScript m es) =
     (map (\<lambda>j. if es = [] then Inr None else if j < length es then Inr (es ! j) else Inl outOfRange) [0..<n],
      scriptAt m es n)"
    using callTimes_scriptAt [of n m es 0] by simp
  show "fst (callTimes n (scriptedError m) (errorScript m es)) =
     (if es = [] then replicate n (Inr None)
      else map Inr (take n es) @ replicate (n - length es) (Inl outOfRange))"
    unfolding run fst_conv by (intro nth_equalityI) (auto simp: nth_append)
  show "map_option fakeInvokedTimes (snd (callTimes n (scriptedError m) (errorScript m es)) m) = Some n"
    unfolding run by (simp add: scriptAt_def fakeInvokedTimes_def)
qed

section \<open>What the tests rely on\<close>

text \<open>
  The table operations of a double as the tests use them. Every double of the repository has its own copy
  of them; the locale states once what they must do, and is interpreted on each copy.
\<close>

locale test_double =
  fixes new :: fakeMethods
    and on :: "string \<Rightarrow> fakeMethods \<Rightarrow> fakeMethods"
    and ret :: "fakeValue list \<Rightarrow> fakeMethod \<Rightarrow> fakeMethod"
    and times :: "fakeMethod \<Rightarrow> nat"
  assumes new_empty: "new m = None"
    and on_absent: "f m = None \<Longrightarrow> on m f = f(m \<mapsto> \<lparr>fakeReturnValues = [], invokes = 0, indexExecution = 0\<rparr>)"
    and on_present: "f m \<noteq> None \<Longrightarrow> on m f = f"
    and ret_appends: "ret vs k = k\<lparr>fakeReturnValues := fakeReturnValues k @ [vs]\<rparr>"
    and times_invokes: "times k = invokes k"
begin

lemma script: "scriptOf new on ret m es = errorScript m es"
proof (induction es rule: rev_induct)
  case Nil
  have "new = (\<lambda>_. None)" using new_empty by auto
  then show ?case by (simp add: scriptOf_def on_absent errorScript_def)
next
  case (snoc e es)
  have step: "scriptOf new on ret m (es @ [e]) =
      (let g = on m (scriptOf new on ret m es) in g(m := map_option (ret [scripted e]) (g m)))"
    by (simp add: scriptOf_def)
  show ?case
    unfolding step snoc by (simp add: on_present ret_appends errorScript_def fun_eq_iff)
qed

text \<open>
  A method with a script of errors gives them in order, one per call, and panics from the first call
  after the last; without a script every call succeeds. \<open>InvokedTimes\<close> is the number of calls.
\<close>

lemma scripted_results:
  "fst (callTimes n (scriptedError m) (scriptOf new on ret m es)) =
     (if es = [] then replicate n (Inr None)
      else map Inr (take n es) @ replicate (n - length es) (Inl outOfRange))"
  unfolding script by (rule scripted_calls)

lemma scripted_times:
  "map_option times (snd (callTimes n (scriptedError m) (scriptOf new on ret m es)) m) = Some n"
  unfolding script using scripted_count [of n m es] by (simp add: times_invokes [abs_def] fakeInvokedTimes_def [abs_def])

end

lemmas double_defs = newFake_def fakeOn_def fakeReturn_def fakeInvokedTimes_def

interpretation commander_double: test_double newFake fakeOn fakeReturn fakeInvokedTimes
  by unfold_locales (auto simp: double_defs)

interpretation publisher_double: test_double newPublisherFake publisherFakeOn publisherFakeReturn publisherFakeInvokedTimes
  unfolding newPublisherFake_def publisherFakeOn_def publisherFakeReturn_def publisherFakeInvokedTimes_def
  by (rule commander_double.test_double_axioms)

interpretation bpf_double: test_double newBpfFake bpfFakeOn bpfFakeReturn bpfFakeInvokedTimes
  unfolding newBpfFake_def bpfFakeOn_def bpfFakeReturn_def bpfFakeInvokedTimes_def
  by (rule commander_double.test_double_axioms)

interpretation perf_double: test_double newPerfFake perfFakeOn perfFakeReturn perfFakeInvokedTimes
  unfolding newPerfFake_def perfFakeOn_def perfFakeReturn_def perfFakeInvokedTimes_def
  by (rule commander_double.test_double_axioms)

interpretation python_double: test_double newPythonFake pythonFakeOn pythonFakeReturn pythonFakeInvokedTimes
  unfolding newPythonFake_def pythonFakeOn_def pythonFakeReturn_def pythonFakeInvokedTimes_def
  by (rule commander_double.test_double_axioms)

interpretation ruby_double: test_double newRubyFake rubyFakeOn rubyFakeReturn rubyFakeInvokedTimes
  unfolding newRubyFake_def rubyFakeOn_def rubyFakeReturn_def rubyFakeInvokedTimes_def
  by (rule commander_double.test_double_axioms)

interpretation node_double: test_double newNodeFake nodeFakeOn nodeFakeReturn nodeFakeInvokedTimes
  unfolding newNodeFake_def nodeFakeOn_def nodeFakeReturn_def nodeFakeInvokedTimes_def
  by (rule commander_double.test_double_axioms)

interpretation async_double: test_double newAsyncFake asyncFakeOn asyncFakeReturn asyncFakeInvokedTimes
  unfolding newAsyncFake_def asyncFakeOn_def asyncFakeReturn_def asyncFakeInvokedTimes_def
  by (rule commander_double.test_double_axioms)

interpretation jcmd_double: test_double newJcmdFake jcmdFakeOn jcmdFakeReturn jcmdFakeInvokedTimes
  unfolding newJcmdFake_def jcmdFakeOn_def jcmdFakeReturn_def jcmdFakeInvokedTimes_def
  by (rule commander_double.test_double_axioms)

text \<open>The publisher of a test whose \<open>Do\<close> fails in a given pattern, for one.\<close>

lemmas publisher_script = publisher_double.scripted_results [of _ "''Do''", folded fakeDo_def]

end
