(* ===== verification/Spec2Isabelle.thy ===== *)
theory Spec2Isabelle
  imports Client Download Concurrent ProcessTree Pacing ClientUtils TestDoubles
begin

text \<open>
  A verification development for the agent of the application profiler (Go). The agent runs in a
  privileged pod beside the process to be profiled. Its command line describes a job; it finds the
  process, runs a profiling tool on it for a number of iterations, compresses each result file and
  announces it on standard output as a JSON event, which the client reads.

  \<^bold>\<open>How the program is modelled.\<close> Every operation is a definition in the state monad of HOL-Library over
  the record \<open>world\<close> (theory \<open>World\<close>): the files the agent can see, its clock, what it has printed, and its
  package variables. Fallible Go code of type \<open>(T, error)\<close> has the result type \<open>error + T\<close>, code of type
  \<open>error\<close> has \<open>error option\<close>; a panic is the error \<open>Panic\<close>, which no caller of the model catches where the
  code does not recover. Everything the repository calls and does not contain is a field of the records
  \<open>lib\<close> and \<open>env\<close>, an argument of the definitions: third-party predicates, JSON, MD5, the compression
  codecs, external processes, failures of system calls, other processes that change files, the
  scheduler. Go's machine integers appear as \<open>int\<close> with the wrap-around or saturation written out where
  it can be reached (durations in \<open>GoTime\<close>, the conversion of a float to an integer in \<open>GoTime\<close>).
  Floating-point seconds are rational numbers rounded to 53 bits by \<open>fl\<close>. Strings are byte strings.

  \<^bold>\<open>Theories and sources\<close> (paths below src/; the agent's own packages are below internal/agent/).
    \<^item> \<open>Prelude\<close>, \<open>GoStrings\<close>, \<open>GoTime\<close>, \<open>Libs\<close>, \<open>World\<close>: errors, the monad and its case rules; the parts of Go's
      strings, strconv, path, time and os packages the agent uses; the parameters; the named collections
      \<open>quiet_rules\<close>, \<open>publish_rules\<close> and \<open>spec_rules\<close> by which facts about whole operations are derived from their parts.
    \<^item> \<open>Api\<close>, \<open>Events\<close>: api/ (enumerations, tables of tools and output types, events and \<open>ParseEvent\<close>).
    \<^item> \<open>Logger\<close>: pkg/util/log/log.go, util/exec/exec.go, pkg/util/file/file.go.
    \<^item> \<open>Compressor\<close>: pkg/util/compressor/. The locale \<open>codec\<close> states the round trip once; it is interpreted
      on the four codecs.
    \<^item> \<open>Job\<close>, \<open>Common\<close>, \<open>Publisher\<close>, \<open>Flamegraph\<close>: job/profiling\_job.go, profiler/common/common.go and
      profiler/utils.go, util/publish/publisher.go, util/flamegraph/.
    \<^item> \<open>Runtime\<close>, \<open>Container\<close>, \<open>ProcessTree\<close>: util/runtime/ and util/container.go; the process tree is the
      abstract specification of the search for the PIDs. The locales \<open>container_interface\<close> and
      \<open>node_interface\<close> are the Go interface of a runtime, interpreted on containerd, CRI-O and the fake one.
    \<^item> \<open>ProfilePids\<close>, \<open>PidProfiler\<close>: profiler/common/pids.go, executed under an arbitrary schedule and refined
      to an inductive step relation; the locale \<open>pid_body\<close> is what \<open>ProfilePIDs\<close> needs of the body of a
      profiler, and each profiler interprets it in its own theory.
    \<^item> \<open>Interleave\<close>, \<open>Concurrent\<close>: the same run with the bodies cut into their calls, which those of the others may
      come between; the locale \<open>isolated_body\<close> is the contract of a body that keeps to the files of its PID,
      interpreted on bpf, py-spy and rbspy. The run of \<open>ProfilePids\<close> is the one of threads of one call (\<open>profilePIDs_atomic\<close>).
    \<^item> \<open>BpfPerf\<close>, \<open>PythonRuby\<close>, \<open>Austin\<close>, \<open>GoPprof\<close>, \<open>Jvm\<close>, \<open>Jcmd\<close>, \<open>NodeDummy\<close>: the profilers of profiler/ and
      profiler/jvm/, with \<open>SetUp\<close>, \<open>Invoke\<close> and \<open>CleanUp\<close> each.
    \<^item> \<open>Factory\<close>: profiler/factory.go and profiler\_fake.go; the Go interface \<open>Profiler\<close> is a tagged union.
    \<^item> \<open>CleanUp\<close>: what the \<open>CleanUp\<close>s leave on disk.
    \<^item> \<open>Profile\<close>, \<open>JobSpec\<close>, \<open>Pacing\<close>: action/profile/profile.go, the definitions, their specification, and how
      long the iterations take.
    \<^item> \<open>AgentMain\<close>, \<open>AgentEnd\<close>: cmd/agent/main.go: the action, the main goroutine from the action to the clean-up
      after the grace period, and the end of the process as a step relation over its goroutines.
    \<^item> \<open>Client\<close>, \<open>Download\<close>: the agent composed with its client: what \<open>ParseEvent\<close> has read when the action is
      over, and how the files a result names are restored with pkg/util/file and pkg/util/compressor.
    \<^item> \<open>ClientUtils\<close>, \<open>TestDoubles\<close>: what the agent does not run: pkg/util/pod, pkg/util/lists, and the scripted
      doubles of the unit tests, whose common table operations the locale \<open>test_double\<close> states.

  \<^bold>\<open>What is shown.\<close> Of the whole agent: the stream of events a client sees (\<open>agent_stream\<close> below,
  \<open>run_protocol\<close>, \<open>invoke_result_iff_success\<close>) and that it can read all of it (\<open>client_reads_agent\<close>), that a published profile or heap dump reaches the
  client as it was (\<open>profile_restored\<close>, \<open>heap_dump_restored\<close>), also when several processes are profiled at once (\<open>concurrent_profiles_intact\<close>), the well-formedness of the job (\<open>getProfilingJob_ok\<close>,
  \<open>newAction_ok\<close>), the ways the process ends (\<open>agent_exit\<close>) and what it leaves then (\<open>agent_ends\<close>). Of the components: refinement and absence of
  deadlock of the concurrent run, the tree search against its specification, round trips of the codecs
  and of a split file, the files left after \<open>CleanUp\<close>, the wait for a snapshot and its bound, the pacing of the
  iterations, the lines and ports the parsers accept, and that a client parses what the agent prints
  (\<open>parseEvent_roundtrip\<close>). Several theorems state behaviour that is not what the code means to do; the
  manifest lists them as findings (an iteration lost to
  a rounded quotient, a stop request thrown away, a profiler never cleaned up, and others).

  \<^bold>\<open>Bounds.\<close> \<open>stackDepth\<close> is the depth of the Go stack and running out of it is the fatal error of the
  run-time, an outcome of the model: a tree no higher than it is searched completely
  (\<open>getCandidatePIDs_leaves\<close>). Symbolic links are followed 40 times, the limit of Linux, and then fail as
  there. The wait for a snapshot recurses on the retries the code counts. The polling of a jcmd recording
  has no bound in the code: it is a \<open>partial_function\<close> whose value \<open>None\<close> is not ending;
  \<open>jcmd_recording_ends\<close> shows when it ends, with the time left and the length of the channel as its measure. The loop over the iterations recurses on their number.

  \<^bold>\<open>Hypotheses.\<close> Theorems assume of the parameters only what their documentation promises:
  \<open>lo_contains_ok\<close> (membership), \<open>is_blank_ok\<close> (only white space), \<open>codec_ok\<close> (the codec decodes what it has
  encoded), \<open>marshal\<close> of a progress event without error, \<open>no_faults\<close> where the success of system calls
  is the subject, \<open>gzip_cmd_ok\<close> and \<open>split_cmd_ok\<close> for the two commands that make the chunks of a heap dump, and
  \<open>bpf_ok\<close>, \<open>pyspy_ok\<close> and \<open>rbspy_ok\<close> for the files the tools write.
  \<open>sample_env\<close> in \<open>World\<close> is one environment that satisfies them, and the witnesses are
  evaluated there.

  \<^bold>\<open>Not modelled.\<close> The command line is parsed by urfave/cli: the model starts from the values it returns.
  In \<open>ProfilePids\<close>, and so in what \<open>Invoke\<close> and the whole run rest on, a body is one step of the schedule; its calls are
  interleaved in \<open>Concurrent\<close>, for bpf, py-spy and rbspy, where a call of the publisher or of pkg/util is still one
  step. The bodies of perf, austin, pprof, async-profiler and jcmd are not cut. Two goroutines that use the map of
  additional arguments at the same moment are a data race in Go, which the model has no step for. The text of a job in a debug line is the argument \<open>jobText\<close>. Errors of a \<open>Close\<close> after a successful write, file modes and owners,
  and character classes in glob patterns, which the agent never uses, are left out. So are the paths of
  the test data, the sample applications, the images and the scripts, which are no part of the agent.
\<close>

section \<open>The agent from the command line to the client\<close>

text \<open>C2. What a client sees of the agent, whatever the command line and the environment are. A command line
  that is refused gives an error and neither a result nor a progress event. Otherwise there is a
  well-formed job; and unless it is for the fake language the client sees the started event, then results
  only, at most one per iteration and target, then the ended event exactly when the action has no error.
  An action without error has published at
  least one result per iteration, and so at least one at all if the interval is positive.\<close>

theorem agent_stream:
  assumes "lo_contains_ok E" "is_blank_ok E" "\<And>t s. marshal E (ProgressData t s) = None"
  shows "case value_of (runApp E jobText c) w of
      (err, None) \<Rightarrow> err \<noteq> None \<and> protocol (after (runApp E jobText c) w) = protocol w
    | (err, Some (p, j)) \<Rightarrow>
        job_ok E j \<and>
        (jobLanguage j \<noteq> FakeLang \<longrightarrow>
          (\<exists>ds t0 t. protocol (after (runApp E jobText c) w) =
             protocol w @ Event Progress (ProgressData t0 Started) # map resultEvent ds @
               (if err = None then [Event Progress (ProgressData t Ended)] else []) \<and>
             length ds \<le> nat (iterationsOf E j) * targetCount p \<and>
             (err = None \<longrightarrow> nat (iterationsOf E j) \<le> length ds \<and>
               (0 < jobInterval j \<and> jobDuration j \<le> 10 ^ 17 \<longrightarrow> ds \<noteq> []))))"
  by (rule runApp_stream [OF assms])

theorem agent_stream_witness:
  "case value_of (runApp sample_env (\<lambda>_. ''job'') sample_cli) empty_world of
      (err, None) \<Rightarrow> err \<noteq> None \<and> protocol (after (runApp sample_env (\<lambda>_. ''job'') sample_cli) empty_world) = protocol empty_world
    | (err, Some (p, j)) \<Rightarrow>
        job_ok sample_env j \<and>
        (jobLanguage j \<noteq> FakeLang \<longrightarrow>
          (\<exists>ds t0 t. protocol (after (runApp sample_env (\<lambda>_. ''job'') sample_cli) empty_world) =
             protocol empty_world @ Event Progress (ProgressData t0 Started) # map resultEvent ds @
               (if err = None then [Event Progress (ProgressData t Ended)] else []) \<and>
             length ds \<le> nat (iterationsOf sample_env j) * targetCount p \<and>
             (err = None \<longrightarrow> nat (iterationsOf sample_env j) \<le> length ds \<and>
               (0 < jobInterval j \<and> jobDuration j \<le> 10 ^ 17 \<longrightarrow> ds \<noteq> []))))"
  using sample_env_lib(5) by (intro agent_stream) (simp_all add: lib_ok_def sample_env_sel)

end
